(* ===== verification/Prelude.thy ===== *)
theory Prelude
  imports Main "HOL-Library.Monad_Syntax" "HOL-Library.Sublist" "HOL-Library.AList"
begin

text \<open>
  Shared vocabulary of the development.

  \<^item> Go strings are byte lists (type \<^typ>\<open>string\<close>); the functions of the
    standard package \<^verbatim>\<open>strings\<close> that the controllers use are defined here.
  \<^item> Go's \<^verbatim>\<open>int32\<close> and \<^verbatim>\<open>int64\<close> values are integers with the
    two's-complement wrap-around written out (\<open>wrap32\<close>, \<open>wrap64\<close>).
  \<^item> A Go map is an association list whose order stands for the unspecified iteration
    order of the runtime; statements quantify over every such list.
  \<^item> A Go panic (nil dereference, write to a nil map, index out of range) is the value
    \<^term>\<open>None\<close> of the option monad in which every operation that can panic runs.
  \<^item> A Go error is a value of type \<open>go_error\<close>, which records how it was built.
\<close>

named_theorems go_defs \<open>definitions of the Go helper functions\<close>
named_theorems go_splits \<open>case splits for results of Go functions\<close>

section \<open>Results, panics and errors\<close>

type_synonym 'a panics = "'a option"

datatype go_error =
    ErrMsg string              \<comment> \<open>\<^verbatim>\<open>errors.New\<close>, \<^verbatim>\<open>errors.Errorf\<close>, \<^verbatim>\<open>fmt.Errorf\<close>\<close>
  | ErrWrapf string go_error   \<comment> \<open>\<^verbatim>\<open>errors.Wrapf\<close>: message and cause\<close>
  | ErrApiNotFound string      \<comment> \<open>an API status error for which \<^verbatim>\<open>apierrors.IsNotFound\<close> holds\<close>
  | ErrNodeNotFound            \<comment> \<open>the sentinel of the machine controller\<close>

abbreviation (input) go_panic :: "'a panics" where
  "go_panic \<equiv> None"

fun IsApiNotFound :: "go_error \<Rightarrow> bool" where
  "IsApiNotFound (ErrApiNotFound _) = True"
| "IsApiNotFound _ = False"

definition nth_go :: "'a list \<Rightarrow> nat \<Rightarrow> 'a panics" where
  "nth_go xs i = (if i < length xs then Some (xs ! i) else go_panic)"

text \<open>Loops whose body can panic: the first panic stops the loop.\<close>

fun mapP :: "('a \<Rightarrow> 'b panics) \<Rightarrow> 'a list \<Rightarrow> 'b list panics" where
  "mapP f [] = Some []"
| "mapP f (x # xs) = do { y \<leftarrow> f x; ys \<leftarrow> mapP f xs; Some (y # ys) }"

fun filterP :: "('a \<Rightarrow> bool panics) \<Rightarrow> 'a list \<Rightarrow> 'a list panics" where
  "filterP f [] = Some []"
| "filterP f (x # xs) =
     do { b \<leftarrow> f x; ys \<leftarrow> filterP f xs; Some (if b then x # ys else ys) }"

fun foldP :: "('a \<Rightarrow> 'b \<Rightarrow> 'b panics) \<Rightarrow> 'a list \<Rightarrow> 'b \<Rightarrow> 'b panics" where
  "foldP f [] s = Some s"
| "foldP f (x # xs) s = do { s' \<leftarrow> f x s; foldP f xs s' }"

section \<open>Strings\<close>

fun strContains :: "string \<Rightarrow> string \<Rightarrow> bool" where
  "strContains [] sub = (sub = [])"
| "strContains (c # s) sub = (prefix sub (c # s) \<or> strContains s sub)"

definition strHasPrefix :: "string \<Rightarrow> string \<Rightarrow> bool" where
  "strHasPrefix s p = prefix p s"

fun strIndex :: "string \<Rightarrow> string \<Rightarrow> nat option" where
  "strIndex [] sub = (if sub = [] then Some 0 else None)"
| "strIndex (c # s) sub =
     (if prefix sub (c # s) then Some 0 else map_option Suc (strIndex s sub))"

fun strLastIndex :: "string \<Rightarrow> string \<Rightarrow> nat option" where
  "strLastIndex [] sub = (if sub = [] then Some 0 else None)"
| "strLastIndex (c # s) sub =
     (case strLastIndex s sub of
        Some i \<Rightarrow> Some (Suc i)
      | None \<Rightarrow> (if prefix sub (c # s) then Some 0 else None))"

definition strTrimRight :: "string \<Rightarrow> char \<Rightarrow> string" where
  "strTrimRight s c = rev (dropWhile (\<lambda>x. x = c) (rev s))"

definition isSpace :: "char \<Rightarrow> bool" where
  "isSpace c = (c \<in> {CHR '' '', CHR 0x09, CHR 0x0A, CHR 0x0B, CHR 0x0C, CHR 0x0D})"

definition strTrimSpace :: "string \<Rightarrow> string" where
  "strTrimSpace s = rev (dropWhile isSpace (rev (dropWhile isSpace s)))"

fun strJoin :: "string list \<Rightarrow> string \<Rightarrow> string" where
  "strJoin [] sep = []"
| "strJoin [s] sep = s"
| "strJoin (s # t # ss) sep = s @ sep @ strJoin (t # ss) sep"

text \<open>\<^verbatim>\<open>strings.ReplaceAll\<close> with a non-empty pattern, leftmost first.\<close>

function strReplaceAll :: "string \<Rightarrow> string \<Rightarrow> string \<Rightarrow> string" where
  "strReplaceAll s old new =
     (if old = [] \<or> s = [] then s
      else if prefix old s then new @ strReplaceAll (drop (length old) s) old new
      else hd s # strReplaceAll (tl s) old new)"
  by pat_completeness auto
termination
  by (relation "measure (\<lambda>(s, old, new). length s)") auto

declare strReplaceAll.simps [simp del]

definition chToLower :: "char \<Rightarrow> char" where
  "chToLower c = (let n = (of_char c :: nat) in if 65 \<le> n \<and> n \<le> 90 then char_of (n + 32) else c)"

definition strToLower :: "string \<Rightarrow> string" where
  "strToLower = map chToLower"

text \<open>The decimal format verb \<^verbatim>\<open>%d\<close>.\<close>

fun digits_of :: "nat \<Rightarrow> string" where
  "digits_of n =
     (if n < 10 then [char_of (48 + n)] else digits_of (n div 10) @ [char_of (48 + n mod 10)])"

declare digits_of.simps [simp del]

definition fmt_d :: "int \<Rightarrow> string" where
  "fmt_d i = (if i < 0 then CHR ''-'' # digits_of (nat (- i)) else digits_of (nat i))"

text \<open>\<^verbatim>\<open>Duration.String\<close> on nanoseconds: \<^verbatim>\<open>1h0m10s\<close>, \<^verbatim>\<open>1.5s\<close>, \<^verbatim>\<open>20ms\<close>.\<close>

fun padDigits :: "nat \<Rightarrow> nat \<Rightarrow> string" where
  "padDigits 0 v = []"
| "padDigits (Suc n) v = padDigits n (v div 10) @ [char_of (48 + v mod 10)]"

definition fracDigits :: "nat \<Rightarrow> nat \<Rightarrow> string" where
  "fracDigits prec v =
     (let f = rev (dropWhile (\<lambda>c. c = CHR ''0'') (rev (padDigits prec v)))
      in if f = [] then [] else CHR ''.'' # f)"

definition durationString :: "int \<Rightarrow> string" where
  "durationString d =
     (let u = nat \<bar>d\<bar>; sign = (if d < 0 then ''-'' else []) in
      if u = 0 then ''0s''
      else if u < 1000 then sign @ digits_of u @ ''ns''
      else if u < 1000000 then sign @ digits_of (u div 1000) @ fracDigits 3 (u mod 1000) @ [CHR 0xC2, CHR 0xB5] @ ''s''
      else if u < 1000000000 then sign @ digits_of (u div 1000000) @ fracDigits 6 (u mod 1000000) @ ''ms''
      else
        (let sec = u div 1000000000; frac = fracDigits 9 (u mod 1000000000);
             m = sec div 60; h = m div 60;
             ss = digits_of (sec mod 60) @ frac @ ''s''
         in if m = 0 then sign @ ss
            else if h = 0 then sign @ digits_of (m mod 60) @ ''m'' @ ss
            else sign @ digits_of h @ ''h'' @ digits_of (m mod 60) @ ''m'' @ ss))"

section \<open>Fixed-width integers\<close>

definition wrap32 :: "int \<Rightarrow> int" where
  "wrap32 x = (x + 2 ^ 31) mod 2 ^ 32 - 2 ^ 31"

definition wrap64 :: "int \<Rightarrow> int" where
  "wrap64 x = (x + 2 ^ 63) mod 2 ^ 64 - 2 ^ 63"

definition is_int32 :: "int \<Rightarrow> bool" where
  "is_int32 x \<longleftrightarrow> - (2 ^ 31) \<le> x \<and> x < 2 ^ 31"

definition is_int64 :: "int \<Rightarrow> bool" where
  "is_int64 x \<longleftrightarrow> - (2 ^ 63) \<le> x \<and> x < 2 ^ 63"

text \<open>Go's integer division truncates towards zero; the divisor is checked by the caller.\<close>

definition go_div :: "int \<Rightarrow> int \<Rightarrow> int" where
  "go_div a b = sgn a * sgn b * (\<bar>a\<bar> div \<bar>b\<bar>)"

definition go_div_panic :: "int \<Rightarrow> int \<Rightarrow> int panics" where
  "go_div_panic a b = (if b = 0 then go_panic else Some (go_div a b))"

section \<open>Go maps as association lists\<close>

type_synonym 'v gomap = "(string \<times> 'v) list"

definition gm_wf :: "'v gomap \<Rightarrow> bool" where
  "gm_wf m \<longleftrightarrow> distinct (map fst m)"

abbreviation gm_get :: "'v gomap \<Rightarrow> string \<Rightarrow> 'v option" where
  "gm_get m k \<equiv> map_of m k"

abbreviation gm_put :: "string \<Rightarrow> 'v \<Rightarrow> 'v gomap \<Rightarrow> 'v gomap" where
  "gm_put k v m \<equiv> AList.update k v m"

abbreviation gm_del :: "string \<Rightarrow> 'v gomap \<Rightarrow> 'v gomap" where
  "gm_del k m \<equiv> AList.delete k m"

section \<open>Lemmas\<close>

lemma strContains_iff_sublist: "strContains s sub \<longleftrightarrow> sublist sub s"
  by (induction s) (auto simp: sublist_Cons_right)

lemma strContains_append1: "strContains s sub \<Longrightarrow> strContains (p @ s) sub"
  by (auto simp: strContains_iff_sublist intro: sublist_order.order.trans)

lemma strContains_append2: "strContains s sub \<Longrightarrow> strContains (s @ p) sub"
  by (auto simp: strContains_iff_sublist intro: sublist_order.order.trans)

lemma strContains_trans:
  "strContains s t \<Longrightarrow> strContains t u \<Longrightarrow> strContains s u"
  by (metis strContains_iff_sublist sublist_order.order.trans)

lemma strContains_refl [simp]: "strContains s s"
  by (simp add: strContains_iff_sublist)

lemma strContains_Nil [simp]: "strContains s []"
  by (simp add: strContains_iff_sublist)

lemma strIndex_Some_iff: "(\<exists>i. strIndex s sub = Some i) \<longleftrightarrow> strContains s sub"
  by (induction s) auto

lemma strLastIndex_None_iff: "strLastIndex s sub = None \<longleftrightarrow> \<not> strContains s sub"
  by (induction s) (auto split: option.splits)

lemma strLastIndex_drop:
  "strLastIndex s sub = Some i \<Longrightarrow> i \<le> length s \<and> prefix sub (drop i s)"
proof (induction s arbitrary: i)
  case Nil
  then show ?case by (auto split: if_splits)
next
  case (Cons c s)
  then show ?case by (auto split: option.splits if_splits)
qed

text \<open>The last occurrence: no occurrence starts later.\<close>

lemma strLastIndex_last:
  "strLastIndex s sub = Some i \<Longrightarrow> i < j \<Longrightarrow> j \<le> length s \<Longrightarrow> \<not> prefix sub (drop j s)"
proof (induction s arbitrary: i j)
  case Nil
  then show ?case by auto
next
  case (Cons c s)
  then obtain j' where j: "j = Suc j'" by (cases j) auto
  show ?case
  proof (cases "strLastIndex s sub")
    case None
    then have "\<not> strContains s sub" by (simp add: strLastIndex_None_iff)
    then have "\<not> sublist sub s" by (simp add: strContains_iff_sublist)
    then show ?thesis
      using j by (auto dest: prefix_imp_sublist intro: sublist_order.order.trans sublist_drop)
  next
    case (Some i')
    with Cons.prems have "i = Suc i'" by simp
    with Cons.prems Cons.IH [of i' j'] Some j show ?thesis by simp
  qed
qed

lemma wrap32_id [simp]: "is_int32 x \<Longrightarrow> wrap32 x = x"
  by (simp add: wrap32_def is_int32_def)

lemma wrap64_id [simp]: "is_int64 x \<Longrightarrow> wrap64 x = x"
  by (simp add: wrap64_def is_int64_def)

lemma is_int32_wrap32 [simp]: "is_int32 (wrap32 x)"
  using pos_mod_bound [of "2 ^ 32" "x + 2 ^ 31"] pos_mod_sign [of "2 ^ 32" "x + 2 ^ 31"]
  by (simp add: wrap32_def is_int32_def)

lemma is_int64_wrap64 [simp]: "is_int64 (wrap64 x)"
  using pos_mod_bound [of "2 ^ 64" "x + 2 ^ 63"] pos_mod_sign [of "2 ^ 64" "x + 2 ^ 63"]
  by (simp add: wrap64_def is_int64_def)

lemma go_div_nonneg: "0 \<le> a \<Longrightarrow> 0 < b \<Longrightarrow> go_div a b = a div b"
  by (cases "a = 0") (auto simp: go_div_def)

lemma gm_wf_put [simp]: "gm_wf m \<Longrightarrow> gm_wf (gm_put k v m)"
  by (simp add: gm_wf_def distinct_update)

lemma gm_wf_del [simp]: "gm_wf m \<Longrightarrow> gm_wf (gm_del k m)"
  by (simp add: gm_wf_def distinct_delete)

lemma gm_wf_filter [simp]: "gm_wf m \<Longrightarrow> gm_wf (filter P m)"
  by (simp add: gm_wf_def distinct_map_filter)

lemma gm_wf_Nil [simp]: "gm_wf []"
  by (simp add: gm_wf_def)

lemma gm_get_filter:
  "gm_wf m \<Longrightarrow> gm_get (filter P m) k =
     (case gm_get m k of Some v \<Rightarrow> if P (k, v) then Some v else None | None \<Rightarrow> None)"
  by (induction m) (auto simp: gm_wf_def map_of_eq_None_iff split: option.splits)

lemma gm_get_put: "gm_get (gm_put k v m) k' = (if k' = k then Some v else gm_get m k')"
  by (simp add: update_conv')

lemma gm_get_del: "gm_get (gm_del k m) k' = (if k' = k then None else gm_get m k')"
  by (simp add: delete_conv')

lemma nth_go_Some: "nth_go xs i = Some x \<longleftrightarrow> i < length xs \<and> x = xs ! i"
  by (auto simp: nth_go_def)

lemma filterP_Some:
  "filterP f xs = Some ys \<longleftrightarrow>
     (\<forall>x \<in> set xs. f x \<noteq> None) \<and> ys = filter (\<lambda>x. f x = Some True) xs"
proof (induction xs arbitrary: ys)
  case Nil
  then show ?case by auto
next
  case (Cons x xs)
  show ?case
  proof (cases "f x")
    case None
    then show ?thesis by simp
  next
    case (Some b)
    then show ?thesis
      by (cases b) (auto simp: bind_eq_Some_conv Cons.IH)
  qed
qed

lemma mapP_None: "mapP f xs = None \<longleftrightarrow> (\<exists>x \<in> set xs. f x = None)"
  by (induction xs) (auto split: Option.bind_splits)

lemma mapP_Some:
  "mapP f xs = Some ys \<longleftrightarrow> length ys = length xs \<and> (\<forall>i < length xs. f (xs ! i) = Some (ys ! i))"
proof (induction xs arbitrary: ys)
  case Nil
  then show ?case by auto
next
  case (Cons x xs)
  show ?case
    by (cases ys) (auto simp: bind_eq_Some_conv Cons.IH All_less_Suc2)
qed

section \<open>Postconditions of operations that may panic\<close>

text \<open>\<open>post m Q\<close>: if \<open>m\<close> returns, its result satisfies \<open>Q\<close>.\<close>

definition post :: "'a panics \<Rightarrow> ('a \<Rightarrow> bool) \<Rightarrow> bool" where
  "post m Q = (case m of None \<Rightarrow> True | Some x \<Rightarrow> Q x)"

named_theorems post_simps \<open>weakest postconditions of the control structures\<close>
named_theorems post_intros \<open>postconditions of operations\<close>

lemma post_Some [post_simps]: "post (Some x) Q = Q x"
  by (simp add: post_def)

lemma post_None [post_simps]: "post None Q = True"
  by (simp add: post_def)

lemma post_bind [post_simps]: "post (Option.bind m f) Q = post m (\<lambda>x. post (f x) Q)"
  by (cases m) (simp_all add: post_def)

lemma post_if [post_simps]: "post (if b then m else n) Q = (if b then post m Q else post n Q)"
  by simp

lemma post_case_sum [post_simps]:
  "post (case r of Inl e \<Rightarrow> f e | Inr x \<Rightarrow> g x) Q = (case r of Inl e \<Rightarrow> post (f e) Q | Inr x \<Rightarrow> post (g x) Q)"
  by (simp split: sum.splits)

lemma post_case_option [post_simps]:
  "post (case r of None \<Rightarrow> m | Some x \<Rightarrow> g x) Q = (case r of None \<Rightarrow> post m Q | Some x \<Rightarrow> post (g x) Q)"
  by (simp split: option.splits)

lemma post_case_prod [post_simps]:
  "post (case p of (a, b) \<Rightarrow> f a b) Q = (case p of (a, b) \<Rightarrow> post (f a b) Q)"
  by (simp split: prod.splits)

lemma post_Let [post_simps]: "post (Let x f) Q = Let x (\<lambda>x. post (f x) Q)"
  by simp

lemma postD: "post m Q \<Longrightarrow> m = Some x \<Longrightarrow> Q x"
  by (simp add: post_def)

lemma postI: "(\<And>x. m = Some x \<Longrightarrow> Q x) \<Longrightarrow> post m Q"
  by (auto simp: post_def split: option.splits)

lemma post_mono: "post m P \<Longrightarrow> (\<And>x. m = Some x \<Longrightarrow> P x \<Longrightarrow> Q x) \<Longrightarrow> post m Q"
  by (auto simp: post_def split: option.splits)

lemma post_and: "post m P \<Longrightarrow> post m Q \<Longrightarrow> post m (\<lambda>x. P x \<and> Q x)"
  by (simp add: post_def split: option.splits)

text \<open>A specification \<open>P\<close> of \<open>m\<close>, as a rewrite rule for every postcondition.\<close>

lemma post_spec: "post m P \<Longrightarrow> post m Q = (\<forall>x. m = Some x \<longrightarrow> P x \<longrightarrow> Q x)"
  by (auto simp: post_def split: option.splits)

text \<open>\<open>runs m\<close>: the operation does not panic.\<close>

definition runs :: "'a panics \<Rightarrow> bool" where
  "runs m = (m \<noteq> None)"

named_theorems runs_simps \<open>absence of panics in the control structures\<close>

lemma runs_Some [runs_simps]: "runs (Some x)"
  by (simp add: runs_def)

lemma runs_None [runs_simps]: "\<not> runs None"
  by (simp add: runs_def)

lemma runs_bind [runs_simps]: "runs (Option.bind m f) = (runs m \<and> post m (\<lambda>x. runs (f x)))"
  by (cases m) (simp_all add: runs_def post_def)

lemma runs_if [runs_simps]: "runs (if b then m else n) = (if b then runs m else runs n)"
  by simp

lemma runs_case_sum [runs_simps]:
  "runs (case r of Inl e \<Rightarrow> f e | Inr x \<Rightarrow> g x) = (case r of Inl e \<Rightarrow> runs (f e) | Inr x \<Rightarrow> runs (g x))"
  by (simp split: sum.splits)

lemma runs_case_option [runs_simps]:
  "runs (case r of None \<Rightarrow> m | Some x \<Rightarrow> g x) = (case r of None \<Rightarrow> runs m | Some x \<Rightarrow> runs (g x))"
  by (simp split: option.splits)

lemma runs_case_prod [runs_simps]:
  "runs (case p of (a, b) \<Rightarrow> f a b) = (case p of (a, b) \<Rightarrow> runs (f a b))"
  by (simp split: prod.splits)

lemma runs_post: "runs m \<Longrightarrow> post m Q \<Longrightarrow> \<exists>x. m = Some x \<and> Q x"
  by (auto simp: runs_def post_def)

end
