(* ===== verification/Libs.thy ===== *)
theory Libs
  imports Prelude
begin

text \<open>
  The third-party libraries the provider calls, as parameters of the model.

  Every operation that calls one of these libraries takes the record \<open>lib\<close> (pure
  libraries) or \<open>'c gocache\<close> (the in-memory cache) as its first argument. What the
  code relies on is stated by the locales \<open>capi_lib\<close> and \<open>go_cache\<close>: the
  documented behaviour of \<^verbatim>\<open>cluster-api/util/conditions\<close>,
  \<^verbatim>\<open>controllerutil\<close> finalizers, \<^verbatim>\<open>pkg/errors\<close>, RFC 3339 time
  formatting, and \<^verbatim>\<open>patrickmn/go-cache\<close>. The last sections give one concrete
  instance of each, which interprets the locale and on which witnesses are evaluated.
\<close>

section \<open>Conditions, finalizers, errors, time\<close>

datatype cond_status = CondTrue | CondFalse | CondUnknown

datatype cond_severity = SevError | SevWarning | SevInfo | SevNone

record condition =
  c_type :: string
  c_status :: cond_status
  c_severity :: cond_severity
  c_reason :: string
  c_message :: string
  c_lastTransitionTime :: int

type_synonym conditions = "condition list"

record lib =
  errText :: "go_error \<Rightarrow> string"
  timeFormat :: "int \<Rightarrow> string"
  timeParse :: "string \<Rightarrow> int option"
  condMarkTrue :: "int \<Rightarrow> conditions \<Rightarrow> string \<Rightarrow> conditions"
  condMarkFalse ::
    "int \<Rightarrow> conditions \<Rightarrow> string \<Rightarrow> string \<Rightarrow> cond_severity \<Rightarrow> string \<Rightarrow> conditions"
  condGet :: "conditions \<Rightarrow> string \<Rightarrow> condition option"
  finContains :: "string list \<Rightarrow> string \<Rightarrow> bool"
  finAdd :: "string list \<Rightarrow> string \<Rightarrow> string list"
  finRemove :: "string list \<Rightarrow> string \<Rightarrow> string list"
  parseGroupVersion :: "string \<Rightarrow> go_error + string"  \<comment> \<open>the group of an API version\<close>

text \<open>The nil-safe getters of the conditions package, over its \<^verbatim>\<open>Get\<close>.\<close>

definition condHas :: "lib \<Rightarrow> conditions \<Rightarrow> string \<Rightarrow> bool" where
  "condHas L cs t = (condGet L cs t \<noteq> None)"

definition condIsTrue :: "lib \<Rightarrow> conditions \<Rightarrow> string \<Rightarrow> bool" where
  "condIsTrue L cs t = (case condGet L cs t of None \<Rightarrow> False | Some c \<Rightarrow> c_status c = CondTrue)"

definition condIsFalse :: "lib \<Rightarrow> conditions \<Rightarrow> string \<Rightarrow> bool" where
  "condIsFalse L cs t = (case condGet L cs t of None \<Rightarrow> False | Some c \<Rightarrow> c_status c = CondFalse)"

definition condIsUnknown :: "lib \<Rightarrow> conditions \<Rightarrow> string \<Rightarrow> bool" where
  "condIsUnknown L cs t =
     (case condGet L cs t of None \<Rightarrow> True | Some c \<Rightarrow> c_status c = CondUnknown)"

definition condGetReason :: "lib \<Rightarrow> conditions \<Rightarrow> string \<Rightarrow> string" where
  "condGetReason L cs t = (case condGet L cs t of None \<Rightarrow> [] | Some c \<Rightarrow> c_reason c)"

definition condGetMessage :: "lib \<Rightarrow> conditions \<Rightarrow> string \<Rightarrow> string" where
  "condGetMessage L cs t = (case condGet L cs t of None \<Rightarrow> [] | Some c \<Rightarrow> c_message c)"

lemmas cond_getter_defs =
  condHas_def condIsTrue_def condIsFalse_def condIsUnknown_def condGetReason_def condGetMessage_def

locale capi_lib =
  fixes L :: lib
  assumes errText_msg: "errText L (ErrMsg m) = m"
    and errText_wrapf: "errText L (ErrWrapf m e) = m @ '': '' @ errText L e"
    and timeParse_format: "timeParse L (timeFormat L tm) = Some ((tm div 10 ^ 9) * 10 ^ 9)"
    and condGet_markTrue:
      "\<exists>lt. condGet L (condMarkTrue L now cs t) t' =
         (if t' = t then Some \<lparr>c_type = t, c_status = CondTrue, c_severity = SevNone,
                              c_reason = [], c_message = [], c_lastTransitionTime = lt\<rparr>
          else condGet L cs t')"
    and condGet_markFalse:
      "\<exists>lt. condGet L (condMarkFalse L now cs t rs sev msg) t' =
         (if t' = t then Some \<lparr>c_type = t, c_status = CondFalse, c_severity = sev,
                              c_reason = rs, c_message = msg, c_lastTransitionTime = lt\<rparr>
          else condGet L cs t')"
    and finContains_add: "finContains L (finAdd L fs f) f' = (f' = f \<or> finContains L fs f')"
    and finContains_remove: "finContains L (finRemove L fs f) f' = (f' \<noteq> f \<and> finContains L fs f')"
begin

lemma markFalse_views:
  "condGetReason L (condMarkFalse L now cs t rs sev msg) t = rs"
  "condGetMessage L (condMarkFalse L now cs t rs sev msg) t = msg"
  "condIsFalse L (condMarkFalse L now cs t rs sev msg) t"
  "condHas L (condMarkFalse L now cs t rs sev msg) t"
  using condGet_markFalse [of now cs t rs sev msg t] by (auto simp: cond_getter_defs)

lemma markTrue_views:
  "condIsTrue L (condMarkTrue L now cs t) t"
  "\<not> condIsFalse L (condMarkTrue L now cs t) t"
  "condGetReason L (condMarkTrue L now cs t) t = []"
  "condGetMessage L (condMarkTrue L now cs t) t = []"
  using condGet_markTrue [of now cs t t] by (auto simp: cond_getter_defs)

lemma markFalse_other:
  "t' \<noteq> t \<Longrightarrow> condGet L (condMarkFalse L now cs t rs sev msg) t' = condGet L cs t'"
  using condGet_markFalse [of now cs t rs sev msg t'] by auto

lemma markTrue_other: "t' \<noteq> t \<Longrightarrow> condGet L (condMarkTrue L now cs t) t' = condGet L cs t'"
  using condGet_markTrue [of now cs t t'] by auto

lemma errText_wrapf_contains:
  "strContains (errText L e) sub \<Longrightarrow> strContains (errText L (ErrWrapf m e)) sub"
  by (simp add: errText_wrapf strContains_append1)

end

section \<open>The in-memory cache\<close>

text \<open>
  \<^verbatim>\<open>Get\<close>, \<^verbatim>\<open>Set\<close>, \<^verbatim>\<open>Delete\<close> and \<^verbatim>\<open>ItemCount\<close> of a
  cache of values \<open>'v\<close>. Times are nanoseconds; a duration of \<^term>\<open>None\<close> is
  \<^verbatim>\<open>NoExpiration\<close>. \<^verbatim>\<open>ItemCount\<close> may count expired items that have
  not been cleaned up, so it only bounds the number of live keys from above.
\<close>

record ('c, 'v) gocache =
  cGet :: "'c \<Rightarrow> int \<Rightarrow> string \<Rightarrow> 'v option"
  cSet :: "'c \<Rightarrow> int \<Rightarrow> string \<Rightarrow> 'v \<Rightarrow> int option \<Rightarrow> 'c"
  cDelete :: "'c \<Rightarrow> string \<Rightarrow> 'c"
  cItemCount :: "'c \<Rightarrow> nat"

definition live_keys :: "('c, 'v) gocache \<Rightarrow> 'c \<Rightarrow> int \<Rightarrow> string set" where
  "live_keys C c t = {k. cGet C c t k \<noteq> None}"

definition not_expired :: "int \<Rightarrow> int \<Rightarrow> int option \<Rightarrow> bool" where
  "not_expired t now d = (case d of None \<Rightarrow> True | Some n \<Rightarrow> t \<le> now + n)"

locale go_cache =
  fixes C :: "('c, 'v) gocache"
  assumes cGet_set:
      "now \<le> t \<Longrightarrow> (case d of None \<Rightarrow> True | Some n \<Rightarrow> 0 < n) \<Longrightarrow>
         cGet C (cSet C c now k v d) t k' =
           (if k' = k then (if not_expired t now d then Some v else None) else cGet C c t k')"
    and cGet_delete: "cGet C (cDelete C c k) t k' = (if k' = k then None else cGet C c t k')"
    and cGet_antimono: "t \<le> t' \<Longrightarrow> cGet C c t' k = Some v \<Longrightarrow> cGet C c t k = Some v"
    and live_finite: "finite (live_keys C c t)"
    and live_itemcount: "card (live_keys C c t) \<le> cItemCount C c"
begin

lemma cGet_set_now:
  "(case d of None \<Rightarrow> True | Some n \<Rightarrow> 0 < n) \<Longrightarrow>
     cGet C (cSet C c now k v d) now k' = (if k' = k then Some v else cGet C c now k')"
  by (auto simp: cGet_set not_expired_def split: option.splits)

lemma live_keys_set:
  "(case d of None \<Rightarrow> True | Some n \<Rightarrow> 0 < n) \<Longrightarrow>
     live_keys C (cSet C c now k v d) now = insert k (live_keys C c now)"
  by (auto simp: live_keys_def cGet_set_now split: if_splits)

lemma live_keys_delete: "live_keys C (cDelete C c k) t = live_keys C c t - {k}"
  by (auto simp: live_keys_def cGet_delete)

lemma live_keys_antimono: "t \<le> t' \<Longrightarrow> live_keys C c t' \<subseteq> live_keys C c t"
  by (auto simp: live_keys_def dest: cGet_antimono)

end

section \<open>A concrete cache\<close>

text \<open>A cache as a Go map from keys to a value and its optional expiration time.\<close>

type_synonym 'v ttl = "('v \<times> int option) gomap"

definition ttl_live :: "int \<Rightarrow> 'v \<times> int option \<Rightarrow> bool" where
  "ttl_live t e = (case snd e of None \<Rightarrow> True | Some x \<Rightarrow> t \<le> x)"

definition ttl_get :: "'v ttl \<Rightarrow> int \<Rightarrow> string \<Rightarrow> 'v option" where
  "ttl_get c t k =
     (case gm_get c k of None \<Rightarrow> None | Some e \<Rightarrow> if ttl_live t e then Some (fst e) else None)"

definition ttl_set :: "'v ttl \<Rightarrow> int \<Rightarrow> string \<Rightarrow> 'v \<Rightarrow> int option \<Rightarrow> 'v ttl" where
  "ttl_set c now k v d = gm_put k (v, map_option (\<lambda>n. now + n) d) c"

definition ttl_cache :: "('v ttl, 'v) gocache" where
  "ttl_cache = \<lparr>cGet = ttl_get, cSet = ttl_set, cDelete = (\<lambda>c k. gm_del k c),
                cItemCount = length\<rparr>"

lemma ttl_live_keys_subset: "live_keys ttl_cache c t \<subseteq> fst ` set c"
proof
  fix k
  assume "k \<in> live_keys ttl_cache c t"
  then obtain e where "gm_get c k = Some e"
    by (auto simp: live_keys_def ttl_cache_def ttl_get_def split: option.splits)
  then show "k \<in> fst ` set c" by (force dest: map_of_SomeD)
qed

interpretation ttl: go_cache ttl_cache
proof (standard, goal_cases)
  case (1 now t d c k v k')
  then show ?case
    by (auto simp: ttl_cache_def ttl_get_def ttl_set_def ttl_live_def not_expired_def
        gm_get_put split: option.splits)
next
  case (2 c k t k')
  then show ?case
    by (simp add: ttl_cache_def ttl_get_def gm_get_del)
next
  case (3 t t' c k v)
  then show ?case
    by (auto simp: ttl_cache_def ttl_get_def ttl_live_def split: option.splits if_splits)
next
  case (4 c t)
  show ?case by (rule finite_subset [OF ttl_live_keys_subset]) simp
next
  case (5 c t)
  have "card (live_keys ttl_cache c t) \<le> card (fst ` set c)"
    by (rule card_mono [OF _ ttl_live_keys_subset]) simp
  also have "\<dots> \<le> length c"
    by (metis card_length length_map list.set_map)
  finally show ?case by (simp add: ttl_cache_def)
qed

section \<open>A concrete library record\<close>

fun ref_errText :: "go_error \<Rightarrow> string" where
  "ref_errText (ErrMsg m) = m"
| "ref_errText (ErrWrapf m e) = m @ '': '' @ ref_errText e"
| "ref_errText (ErrApiNotFound m) = m @ '' not found''"
| "ref_errText ErrNodeNotFound = ''cannot find node with matching ProviderID''"

text \<open>
  The instance writes a time as its second count in unary with a sign, which has the one
  property the code needs: parsing returns the time rounded down to the second.
\<close>

definition ref_timeFormat :: "int \<Rightarrow> string" where
  "ref_timeFormat t =
     (let s = t div 10 ^ 9
      in if s < 0 then CHR ''-'' # replicate (nat (- s)) (CHR ''1'')
         else replicate (nat s) (CHR ''1''))"

definition ref_timeParse :: "string \<Rightarrow> int option" where
  "ref_timeParse s =
     (case s of
        [] \<Rightarrow> Some 0
      | c # r \<Rightarrow> if c = CHR ''-'' then Some (- int (length r) * 10 ^ 9)
                 else Some (int (length s) * 10 ^ 9))"

definition ref_condSet :: "conditions \<Rightarrow> condition \<Rightarrow> conditions" where
  "ref_condSet cs c = c # filter (\<lambda>d. c_type d \<noteq> c_type c) cs"

definition ref_lib :: lib where
  "ref_lib = \<lparr>
     errText = ref_errText, timeFormat = ref_timeFormat, timeParse = ref_timeParse,
     condMarkTrue = (\<lambda>now cs t. ref_condSet cs
        \<lparr>c_type = t, c_status = CondTrue, c_severity = SevNone, c_reason = [], c_message = [],
         c_lastTransitionTime = now\<rparr>),
     condMarkFalse = (\<lambda>now cs t rs sev msg. ref_condSet cs
        \<lparr>c_type = t, c_status = CondFalse, c_severity = sev, c_reason = rs, c_message = msg,
         c_lastTransitionTime = now\<rparr>),
     condGet = (\<lambda>cs t. find (\<lambda>c. c_type c = t) cs),
     finContains = (\<lambda>fs f. List.member fs f),
     finAdd = (\<lambda>fs f. if List.member fs f then fs else fs @ [f]),
     finRemove = (\<lambda>fs f. filter (\<lambda>x. x \<noteq> f) fs),
     parseGroupVersion = (\<lambda>v. Inr (takeWhile (\<lambda>c. c \<noteq> CHR ''/'') v))\<rparr>"

lemma find_filter_other:
  "(\<And>x. P x \<Longrightarrow> Q x) \<Longrightarrow> find P (filter Q xs) = find P xs"
  by (induction xs) auto

lemma ref_condGet_set:
  "find (\<lambda>d. c_type d = t) (ref_condSet cs c) =
     (if t = c_type c then Some c else find (\<lambda>d. c_type d = t) cs)"
  by (auto simp: ref_condSet_def intro: find_filter_other)

lemma ref_time_roundtrip: "ref_timeParse (ref_timeFormat t) = Some ((t div 10 ^ 9) * 10 ^ 9)"
proof (cases "t div 10 ^ 9 < 0")
  case True
  then show ?thesis by (simp add: ref_timeFormat_def ref_timeParse_def Let_def)
next
  case False
  then obtain n where n: "t div 10 ^ 9 = int n"
    by (metis linorder_not_less nonneg_int_cases)
  show ?thesis
    unfolding ref_timeFormat_def ref_timeParse_def Let_def n
    unfolding nat_int by (cases n) simp_all
qed

interpretation reflib: capi_lib ref_lib
proof (standard, goal_cases)
  case (3 tm)
  show ?case by (simp add: ref_lib_def ref_time_roundtrip)
next
  case (4 now cs t t')
  show ?case by (auto simp: ref_lib_def ref_condGet_set)
next
  case (5 now cs t rs sev msg t')
  show ?case by (auto simp: ref_lib_def ref_condGet_set)
qed (auto simp: ref_lib_def)

end
