(* ===== verification/Api_Types.thy ===== *)
theory Api_Types
  imports Libs
begin

text \<open>
  The API objects: \<^verbatim>\<open>api/v1beta1\<close> (ElfMachine, ElfCluster and their specs and
  statuses, with their methods) and the parts of the Cluster API and Kubernetes objects that
  the provider reads. A pointer field is an option, a nil map is \<^term>\<open>None\<close>.
\<close>

named_theorems const_defs \<open>string constants of the source\<close>

section \<open>Kubernetes and Cluster API objects\<close>

record objectMeta =
  om_Name :: string
  om_Namespace :: string
  om_UID :: string
  om_Labels :: "string gomap option"
  om_Annotations :: "string gomap option"
  om_Finalizers :: "string list"
  om_DeletionTimestamp :: "int option"
  om_CreationTimestamp :: int
  om_OwnerReferences :: "(string \<times> string \<times> string) list"  \<comment> \<open>API version, kind, name\<close>

record machine =
  m_meta :: objectMeta
  m_failureDomain :: "string option"
  m_bootstrapDataSecretName :: "string option"
  m_nodeRef :: "string option"
  m_failureReason :: "string option"
  m_failureMessage :: "string option"
  m_conditions :: conditions
  m_Version :: "string option"

record cluster =
  cl_meta :: objectMeta
  cl_paused :: bool
  cl_infrastructureRefName :: "string option"
  cl_infrastructureReady :: bool
  cl_controlPlaneReady :: bool
  cl_conditions :: conditions

record kcp =
  kcp_meta :: objectMeta
  kcp_specReplicas :: "int option"
  kcp_replicas :: int
  kcp_readyReplicas :: int
  kcp_updatedReplicas :: int
  kcp_unavailableReplicas :: int
  kcp_conditions :: conditions
  kcp_infrastructureRefName :: string

record machineDeployment =
  md_meta :: objectMeta
  md_specReplicas :: "int option"

section \<open>Network and device specifications\<close>

definition FullClone :: string where [const_defs]: "FullClone = ''FullClone''"
definition FastClone :: string where [const_defs]: "FastClone = ''FastClone''"
definition NetworkTypeNone :: string where [const_defs]: "NetworkTypeNone = ''NONE''"
definition NetworkTypeIPV4 :: string where [const_defs]: "NetworkTypeIPV4 = ''IPV4''"
definition NetworkTypeIPV4DHCP :: string where [const_defs]: "NetworkTypeIPV4DHCP = ''IPV4_DHCP''"
definition ElfClusterTypeStretched :: string where [const_defs]: "ElfClusterTypeStretched = ''Stretched''"
definition ElfClusterTypeStandard :: string where [const_defs]: "ElfClusterTypeStandard = ''Standard''"
definition ElfClusterZoneTypePreferred :: string where
  [const_defs]: "ElfClusterZoneTypePreferred = ''Preferred''"
definition ElfClusterZoneTypeSecondary :: string where
  [const_defs]: "ElfClusterZoneTypeSecondary = ''Secondary''"

record networkDeviceRouteSpec =
  nr_Gateway :: string
  nr_Netmask :: string
  nr_Network :: string

record typedLocalObjectReference =
  tr_APIGroup :: "string option"
  tr_Kind :: string
  tr_Name :: string

record networkDeviceSpec =
  nd_NetworkType :: string
  nd_Vlan :: string
  nd_IPAddrs :: "string list"
  nd_Netmask :: string
  nd_MACAddr :: string
  nd_Routes :: "networkDeviceRouteSpec list"
  nd_AddressesFromPools :: "typedLocalObjectReference list"
  nd_DefaultRoute :: bool
  nd_Nameservers :: "string list"

record networkSpec =
  ns_Devices :: "networkDeviceSpec list"
  ns_Nameservers :: "string list"
  ns_PreferredAPIServerCIDR :: string

record gpuPassthroughDeviceSpec =
  gs_Model :: string
  gs_Count :: int

record vgpuDeviceSpec =
  vs_Type :: string
  vs_Count :: int

record gpuStatus =
  gst_GPUID :: string
  gst_Name :: string

record networkStatus =
  nst_Connected :: bool
  nst_IPAddrs :: "string list"
  nst_MACAddr :: string
  nst_Gateway :: string
  nst_SubnetMask :: string
  nst_NetworkName :: string

text \<open>\<^verbatim>\<open>resource.Quantity\<close> is represented by its \<^verbatim>\<open>Value()\<close>.\<close>

record resourcesStatus =
  rs_Disk :: int
  rs_CPUCores :: int
  rs_Memory :: int

record zoneStatus =
  zs_ZoneID :: string
  zs_Type :: string

record idNameStatus =
  in_ID :: string
  in_Name :: string

record cloudFailureDomain =
  fd_ComputeCluster :: string
  fd_Network :: networkSpec
  fd_HostNamePrefix :: string

section \<open>ElfMachine and ElfCluster\<close>

record elfMachineSpec =
  ProviderID :: "string option"
  FailureDomains :: "cloudFailureDomain list"
  HostNamePrefix :: string
  Template :: string
  OSType :: string
  Network :: networkSpec
  NumCPUs :: int
  NumCoresPerSocket :: int
  MemoryMiB :: int
  DiskGiB :: int
  GPUDevices :: "gpuPassthroughDeviceSpec list"
  VGPUDevices :: "vgpuDeviceSpec list"
  HA :: bool
  HAPriority :: string
  CloneMode :: string
  Host :: string

record elfMachineStatus =
  Ready :: bool
  Conditions :: conditions
  Addresses :: "string list"
  NetworkStatuses :: "networkStatus list"
  GPUStatuses :: "gpuStatus list"
  Resources :: resourcesStatus
  FailureReason :: "string option"
  FailureMessage :: "string option"
  VMRef :: string
  TaskRef :: string
  HostServerRef :: string
  HostServerName :: string
  PlacementGroupRef :: string
  Zone :: zoneStatus
  ComputeCluster :: idNameStatus
  StorageClusterSt :: idNameStatus
  DataStore :: idNameStatus

record elfMachine =
  em_meta :: objectMeta
  Spec :: elfMachineSpec
  Status :: elfMachineStatus

text \<open>The fields of the inlined \<^verbatim>\<open>TowerClientConfig\<close> and the reference to a Secret.\<close>

record tower =
  t_Server :: string
  t_Username :: string
  t_Password :: string
  t_AuthMode :: string
  t_SkipTLSVerify :: bool
  t_SecretRef :: "(string \<times> string) option"  \<comment> \<open>namespace and name\<close>

record elfMachineTemplate =
  emt_meta :: objectMeta
  emt_Spec :: elfMachineSpec

record elfCluster =
  ec_meta :: objectMeta
  ec_Tower :: tower
  ec_Cluster :: string
  ec_DatastoreID :: string
  ec_StorageClusterID :: string
  ec_ClusterType :: string
  ec_EndpointHost :: string
  ec_EndpointPort :: int
  ec_VMGracefulShutdown :: bool
  ec_Ready :: bool
  ec_FailureDomains :: "bool gomap"  \<comment> \<open>whether control plane machines may use the domain\<close>
  ec_Conditions :: conditions

definition ClusterFinalizer :: string where
  [const_defs]: "ClusterFinalizer = ''elfcluster.infrastructure.cluster.x-k8s.io''"
definition MachineFinalizer :: string where
  [const_defs]: "MachineFinalizer = ''elfmachine.infrastructure.cluster.x-k8s.io''"
definition MachineStaticIPFinalizer :: string where
  [const_defs]: "MachineStaticIPFinalizer = ''elfmachinestaticip.infrastructure.cluster.x-k8s.io''"
definition VMDisconnectionTimestampAnnotation :: string where
  [const_defs]: "VMDisconnectionTimestampAnnotation =
     ''cape.infrastructure.cluster.x-k8s.io/vm-disconnection-timestamp''"
definition VMFirstBootTimestampAnnotation :: string where
  [const_defs]: "VMFirstBootTimestampAnnotation =
     ''cape.infrastructure.cluster.x-k8s.io/vm-first-boot-timestamp''"
definition ElfClusterForceDeleteAnnotation :: string where
  [const_defs]: "ElfClusterForceDeleteAnnotation =
     ''cape.infrastructure.cluster.x-k8s.io/force-delete-cluster''"
definition ResourcesHotUpdatedCondition :: string where
  [const_defs]: "ResourcesHotUpdatedCondition = ''ResourceHotUpdated''"
definition VMProvisionedCondition :: string where
  [const_defs]: "VMProvisionedCondition = ''VMProvisioned''"
definition TowerAvailableCondition :: string where
  [const_defs]: "TowerAvailableCondition = ''TowerAvailable''"

subsection \<open>Condition types and reasons\<close>

definition WaitingForClusterInfrastructureReason :: string where
  [const_defs]: "WaitingForClusterInfrastructureReason = ''WaitingForClusterInfrastructure''"
definition WaitingForBootstrapDataReason :: string where
  [const_defs]: "WaitingForBootstrapDataReason = ''WaitingForBootstrapData''"
definition WaitingForStaticIPAllocationReason :: string where
  [const_defs]: "WaitingForStaticIPAllocationReason = ''WaitingForStaticIPAllocation''"
definition CloningReason :: string where
  [const_defs]: "CloningReason = ''Cloning''"
definition UpdatingReason :: string where
  [const_defs]: "UpdatingReason = ''Updating''"
definition PoweringOnReason :: string where
  [const_defs]: "PoweringOnReason = ''PoweringOn''"
definition PowerOffReason :: string where
  [const_defs]: "PowerOffReason = ''PoweringOff''"
definition ShuttingDownReason :: string where
  [const_defs]: "ShuttingDownReason = ''ShuttingDown''"
definition PoweringOnFailedReason :: string where
  [const_defs]: "PoweringOnFailedReason = ''PoweringOnFailed''"
definition PoweringOffFailedReason :: string where
  [const_defs]: "PoweringOffFailedReason = ''PoweringOffFailed''"
definition ShuttingDownFailedReason :: string where
  [const_defs]: "ShuttingDownFailedReason = ''ShuttingDownFailed''"
definition CloningFailedReason :: string where
  [const_defs]: "CloningFailedReason = ''CloningFailed''"
definition UpdatingFailedReason :: string where
  [const_defs]: "UpdatingFailedReason = ''UpdatingFailed''"
definition DetachingGPUFailedReason :: string where
  [const_defs]: "DetachingGPUFailedReason = ''DetachingGPUFailed''"
definition AttachingGPUFailedReason :: string where
  [const_defs]: "AttachingGPUFailedReason = ''AttachingGPUFailed''"
definition TaskFailureReason :: string where
  [const_defs]: "TaskFailureReason = ''TaskFailure''"
definition WaitingForNetworkAddressesReason :: string where
  [const_defs]: "WaitingForNetworkAddressesReason = ''WaitingForNetworkAddresses''"
definition WaitingForNetworkMacAddressReason :: string where
  [const_defs]: "WaitingForNetworkMacAddressReason = ''WaitingForNetworkMacAddress''"
definition JoiningPlacementGroupReason :: string where
  [const_defs]: "JoiningPlacementGroupReason = ''JoiningPlacementGroup''"
definition JoiningPlacementGroupFailedReason :: string where
  [const_defs]: "JoiningPlacementGroupFailedReason = ''JoiningPlacementGroupFailed''"
definition WaitingForPlacementGroupPolicySatisfiedReason :: string where
  [const_defs]: "WaitingForPlacementGroupPolicySatisfiedReason = ''WaitingForPlacementGroupPolicySatisfied''"
definition WaitingForELFClusterWithSufficientMemoryReason :: string where
  [const_defs]: "WaitingForELFClusterWithSufficientMemoryReason = ''WaitingForELFClusterWithSufficientMemory''"
definition WaitingForELFClusterWithSufficientStorageReason :: string where
  [const_defs]: "WaitingForELFClusterWithSufficientStorageReason = ''WaitingForELFClusterWithSufficientStorage''"
definition WaitingForAvailableHostRequiredByPlacementGroupReason :: string where
  [const_defs]: "WaitingForAvailableHostRequiredByPlacementGroupReason = ''WaitingForAvailableHostRequiredByPlacementGroup''"
definition SelectingGPUFailedReason :: string where
  [const_defs]: "SelectingGPUFailedReason = ''SelectingGPUFailed''"
definition WaitingForAvailableHostWithEnoughGPUsReason :: string where
  [const_defs]: "WaitingForAvailableHostWithEnoughGPUsReason = ''WaitingForAvailableHostWithEnoughGPUs''"
definition ExpandingVMDiskReason :: string where
  [const_defs]: "ExpandingVMDiskReason = ''ExpandingVMDisk''"
definition ExpandingVMDiskFailedReason :: string where
  [const_defs]: "ExpandingVMDiskFailedReason = ''ExpandingVMDiskFailed''"
definition ExpandingRootPartitionReason :: string where
  [const_defs]: "ExpandingRootPartitionReason = ''ExpandingRootPartition''"
definition ExpandingRootPartitionFailedReason :: string where
  [const_defs]: "ExpandingRootPartitionFailedReason = ''ExpandingRootPartitionFailed''"
definition ExpandingVMComputeResourcesReason :: string where
  [const_defs]: "ExpandingVMComputeResourcesReason = ''ExpandingVMComputeResources''"
definition ExpandingVMComputeResourcesFailedReason :: string where
  [const_defs]: "ExpandingVMComputeResourcesFailedReason = ''ExpandingVMComputeResourcesFailed''"
definition RestartingKubeletReason :: string where
  [const_defs]: "RestartingKubeletReason = ''RestartingKubelet''"
definition RestartingKubeletFailedReason :: string where
  [const_defs]: "RestartingKubeletFailedReason = ''RestartingKubeletFailed''"
definition AddingVMNetworkDeviceReason :: string where
  [const_defs]: "AddingVMNetworkDeviceReason = ''AddingVMNetworkDevice''"
definition AddingVMNetworkDeviceFailedReason :: string where
  [const_defs]: "AddingVMNetworkDeviceFailedReason = ''AddingVMNetworkDeviceFailed''"
definition SettingVMNetworkDeviceConfigReason :: string where
  [const_defs]: "SettingVMNetworkDeviceConfigReason = ''SettingVMNetworkDeviceConfig''"
definition SettingVMNetworkDeviceConfigFailedReason :: string where
  [const_defs]: "SettingVMNetworkDeviceConfigFailedReason = ''SettingVMNetworkDeviceConfigFailed''"
definition TowerUnreachableReason :: string where
  [const_defs]: "TowerUnreachableReason = ''TowerUnreachable''"
definition ControlPlaneEndpointReadyCondition :: string where
  [const_defs]: "ControlPlaneEndpointReadyCondition = ''ControlPlaneEndpointReady''"
definition WaitingForVIPReason :: string where
  [const_defs]: "WaitingForVIPReason = ''WaitingForVIP''"
definition CloudInitConfigError :: string where
  [const_defs]: "CloudInitConfigError = ''CloudInitConfigError''"
definition RemovedFromInfrastructureError :: string where
  [const_defs]: "RemovedFromInfrastructureError = ''RemovedFromInfrastructure''"
definition MovedToRecycleBinError :: string where
  [const_defs]: "MovedToRecycleBinError = ''MovedToRecycleBin''"
definition HostServerIDLabel :: string where
  [const_defs]: "HostServerIDLabel = ''cape.infrastructure.cluster.x-k8s.io/host-server-id''"
definition HostServerNameLabel :: string where
  [const_defs]: "HostServerNameLabel = ''cape.infrastructure.cluster.x-k8s.io/host-server-name''"
definition ComputeClusterIDLabel :: string where
  [const_defs]: "ComputeClusterIDLabel = ''cape.infrastructure.cluster.x-k8s.io/compute-cluster-id''"
definition ComputeClusterNameLabel :: string where
  [const_defs]: "ComputeClusterNameLabel = ''cape.infrastructure.cluster.x-k8s.io/compute-cluster-name''"
definition StorageClusterIDLabel :: string where
  [const_defs]: "StorageClusterIDLabel = ''cape.infrastructure.cluster.x-k8s.io/storage-cluster-id''"
definition StorageClusterNameLabel :: string where
  [const_defs]: "StorageClusterNameLabel = ''cape.infrastructure.cluster.x-k8s.io/storage-cluster-name''"
definition DataStoreIDLabel :: string where
  [const_defs]: "DataStoreIDLabel = ''cape.infrastructure.cluster.x-k8s.io/datastore-id''"
definition DataStoreNameLabel :: string where
  [const_defs]: "DataStoreNameLabel = ''cape.infrastructure.cluster.x-k8s.io/datastore-name''"
definition ZoneIDLabel :: string where
  [const_defs]: "ZoneIDLabel = ''cape.infrastructure.cluster.x-k8s.io/zone-id''"
definition ZoneTypeLabel :: string where
  [const_defs]: "ZoneTypeLabel = ''cape.infrastructure.cluster.x-k8s.io/zone-type''"
definition TowerVMIDLabel :: string where
  [const_defs]: "TowerVMIDLabel = ''cape.infrastructure.cluster.x-k8s.io/tower-vm-id''"
definition NodeGroupLabel :: string where
  [const_defs]: "NodeGroupLabel = ''cape.infrastructure.cluster.x-k8s.io/node-group''"

subsection \<open>Durations\<close>

text \<open>Durations are in nanoseconds.\<close>

definition time_Second :: int where "time_Second = 10 ^ 9"
definition time_Minute :: int where "time_Minute = 60 * 10 ^ 9"
definition time_Hour :: int where "time_Hour = 3600 * 10 ^ 9"

definition VMDisconnectionTimeout :: int where "VMDisconnectionTimeout = 1 * time_Minute"

lemmas time_defs = time_Second_def time_Minute_def time_Hour_def VMDisconnectionTimeout_def

subsection \<open>Methods of ElfMachine\<close>

definition SetVM :: "string \<Rightarrow> elfMachine \<Rightarrow> elfMachine" where
  "SetVM uuid m = m\<lparr>Status := (Status m)\<lparr>TaskRef := [], VMRef := uuid\<rparr>\<rparr>"

definition HasVM :: "elfMachine \<Rightarrow> bool" where
  "HasVM m = (VMRef (Status m) \<noteq> [])"

definition HasTask :: "elfMachine \<Rightarrow> bool" where
  "HasTask m = (TaskRef (Status m) \<noteq> [])"

definition SetTask :: "string \<Rightarrow> elfMachine \<Rightarrow> elfMachine" where
  "SetTask taskID m = m\<lparr>Status := (Status m)\<lparr>TaskRef := taskID\<rparr>\<rparr>"

definition IsFailed :: "elfMachine \<Rightarrow> bool" where
  "IsFailed m = (FailureReason (Status m) \<noteq> None \<or> FailureMessage (Status m) \<noteq> None)"

definition SetFailure :: "string \<Rightarrow> string \<Rightarrow> elfMachine \<Rightarrow> elfMachine" where
  "SetFailure reason msg m =
     m\<lparr>Status := (Status m)\<lparr>FailureReason := Some reason, FailureMessage := Some msg\<rparr>\<rparr>"

definition IsHotUpdating :: "lib \<Rightarrow> elfMachine \<Rightarrow> bool" where
  "IsHotUpdating L m =
     (condHas L (Conditions (Status m)) ResourcesHotUpdatedCondition \<and>
      condIsFalse L (Conditions (Status m)) ResourcesHotUpdatedCondition)"

definition IsResourcesUpToDate :: "elfMachine \<Rightarrow> bool" where
  "IsResourcesUpToDate m =
     (let specMemory = wrap64 (MemoryMiB (Spec m) * 1024 * 1024)
      in DiskGiB (Spec m) = rs_Disk (Resources (Status m)) \<and>
         NumCPUs (Spec m) = rs_CPUCores (Resources (Status m)) \<and>
         specMemory = rs_Memory (Resources (Status m)))"

definition SetVMDisconnectionTimestamp :: "lib \<Rightarrow> int option \<Rightarrow> elfMachine \<Rightarrow> elfMachine" where
  "SetVMDisconnectionTimestamp L timestamp m =
     (let as = (case om_Annotations (em_meta m) of None \<Rightarrow> [] | Some as \<Rightarrow> as);
          as' = (case timestamp of
                   None \<Rightarrow> gm_del VMDisconnectionTimestampAnnotation as
                 | Some t \<Rightarrow> gm_put VMDisconnectionTimestampAnnotation (timeFormat L t) as)
      in m\<lparr>em_meta := (em_meta m)\<lparr>om_Annotations := Some as'\<rparr>\<rparr>)"

definition GetVMDisconnectionTimestamp :: "lib \<Rightarrow> elfMachine \<Rightarrow> int option" where
  "GetVMDisconnectionTimestamp L m =
     (case om_Annotations (em_meta m) of
        None \<Rightarrow> None
      | Some as \<Rightarrow>
          (case gm_get as VMDisconnectionTimestampAnnotation of
             None \<Rightarrow> None
           | Some s \<Rightarrow> timeParse L s))"

text \<open>
  The setter stores into \<^verbatim>\<open>m.Annotations\<close> itself; the map it allocates for the
  nil case is a local one, so a nil annotation map makes the store panic.
\<close>

definition SetVMFirstBootTimestamp :: "lib \<Rightarrow> int \<Rightarrow> elfMachine \<Rightarrow> elfMachine panics" where
  "SetVMFirstBootTimestamp L timestamp m =
     (case om_Annotations (em_meta m) of
        None \<Rightarrow> go_panic
      | Some as \<Rightarrow>
          Some (m\<lparr>em_meta := (em_meta m)
                   \<lparr>om_Annotations := Some (gm_put VMFirstBootTimestampAnnotation (timeFormat L timestamp) as)\<rparr>\<rparr>))"

definition GetVMFirstBootTimestamp :: "lib \<Rightarrow> elfMachine \<Rightarrow> int option" where
  "GetVMFirstBootTimestamp L m =
     (case om_Annotations (em_meta m) of
        None \<Rightarrow> None
      | Some as \<Rightarrow>
          (case gm_get as VMFirstBootTimestampAnnotation of
             None \<Rightarrow> None
           | Some s \<Rightarrow> timeParse L s))"

definition RequiresPassThroughGPUDevices :: "elfMachine \<Rightarrow> bool" where
  "RequiresPassThroughGPUDevices m = (GPUDevices (Spec m) \<noteq> [])"

definition RequiresVGPUDevices :: "elfMachine \<Rightarrow> bool" where
  "RequiresVGPUDevices m = (VGPUDevices (Spec m) \<noteq> [])"

definition RequiresGPUDevices :: "elfMachine \<Rightarrow> bool" where
  "RequiresGPUDevices m = (RequiresPassThroughGPUDevices m \<or> RequiresVGPUDevices m)"

definition GetNetworkDevicesRequiringIP :: "elfMachine \<Rightarrow> networkDeviceSpec list" where
  "GetNetworkDevicesRequiringIP m =
     filter (\<lambda>d. nd_NetworkType d \<noteq> NetworkTypeNone) (ns_Devices (Network (Spec m)))"

definition GetNetworkDevicesRequiringDHCP :: "elfMachine \<Rightarrow> networkDeviceSpec list" where
  "GetNetworkDevicesRequiringDHCP m =
     filter (\<lambda>d. nd_NetworkType d = NetworkTypeIPV4DHCP) (ns_Devices (Network (Spec m)))"

definition IsMachineStaticIP :: "string \<Rightarrow> elfMachine \<Rightarrow> bool" where
  "IsMachineStaticIP ip m =
     list_ex (\<lambda>d. nd_NetworkType d = NetworkTypeIPV4 \<and> List.member (nd_IPAddrs d) ip)
       (ns_Devices (Network (Spec m)))"

subsection \<open>Methods of the network specification\<close>

definition RequiresStaticIPs :: "networkSpec \<Rightarrow> bool" where
  "RequiresStaticIPs n =
     list_ex (\<lambda>d. nd_NetworkType d = NetworkTypeIPV4 \<and> nd_IPAddrs d = []) (ns_Devices n)"

fun defaultRouteIndexFrom :: "nat \<Rightarrow> networkDeviceSpec list \<Rightarrow> nat" where
  "defaultRouteIndexFrom i [] = 0"
| "defaultRouteIndexFrom i (d # ds) = (if nd_DefaultRoute d then i else defaultRouteIndexFrom (Suc i) ds)"

definition GetDefaultRouteDeviceIndex :: "networkSpec \<Rightarrow> nat" where
  "GetDefaultRouteDeviceIndex n = defaultRouteIndexFrom 0 (ns_Devices n)"

definition HasNetworkType :: "networkDeviceSpec \<Rightarrow> bool" where
  "HasNetworkType d = (\<not> (nd_NetworkType d = [] \<or> nd_NetworkType d = NetworkTypeNone))"

text \<open>The deduplicating loop: a name is kept when the set does not hold it yet.\<close>

fun dedupNameservers :: "string list \<Rightarrow> string list \<Rightarrow> string list" where
  "dedupNameservers seen [] = []"
| "dedupNameservers seen (n # ns) =
     (if List.member seen n then dedupNameservers seen ns
      else n # dedupNameservers (n # seen) ns)"

definition nameserversInOrder :: "elfMachine \<Rightarrow> string list" where
  "nameserversInOrder m =
     (let devices = ns_Devices (Network (Spec m));
          di = GetDefaultRouteDeviceIndex (Network (Spec m))
      in ns_Nameservers (Network (Spec m)) @
         (if di < length devices then nd_Nameservers (devices ! di) else []) @
         concat (map (\<lambda>i. if i \<noteq> di then nd_Nameservers (devices ! i) else []) [0..<length devices]))"

definition GetLimitedNameservers :: "int \<Rightarrow> elfMachine \<Rightarrow> string list panics" where
  "GetLimitedNameservers limit m =
     (let limited = dedupNameservers [] (nameserversInOrder m);
          count = (if limit > int (length limited) then int (length limited) else limit)
      in if count < 0 then go_panic else Some (take (nat count) limited))"

subsection \<open>Methods of the status values and of ElfCluster\<close>

text \<open>The accessors that make the two objects conditional for the library.\<close>

definition elfMachine_GetConditions :: "elfMachine \<Rightarrow> conditions" where
  [simp]: "elfMachine_GetConditions m = Conditions (Status m)"

definition elfMachine_SetConditions :: "conditions \<Rightarrow> elfMachine \<Rightarrow> elfMachine" where
  [simp]: "elfMachine_SetConditions cs m = m\<lparr>Status := (Status m)\<lparr>Conditions := cs\<rparr>\<rparr>"

definition elfCluster_GetConditions :: "elfCluster \<Rightarrow> conditions" where
  [simp]: "elfCluster_GetConditions e = ec_Conditions e"

definition elfCluster_SetConditions :: "conditions \<Rightarrow> elfCluster \<Rightarrow> elfCluster" where
  [simp]: "elfCluster_SetConditions cs e = e\<lparr>ec_Conditions := cs\<rparr>"

definition GetTower :: "elfCluster \<Rightarrow> tower" where
  "GetTower e = ec_Tower e"

definition zoneStatus_Equal :: "zoneStatus \<Rightarrow> zoneStatus \<Rightarrow> bool" where
  "zoneStatus_Equal z other = (zs_ZoneID z = zs_ZoneID other \<and> zs_Type z = zs_Type other)"

definition zoneStatus_IsZero :: "zoneStatus \<Rightarrow> bool" where
  "zoneStatus_IsZero z = (zs_ZoneID z = [] \<and> zs_Type z = [])"

definition idNameStatus_Equal :: "idNameStatus \<Rightarrow> idNameStatus \<Rightarrow> bool" where
  "idNameStatus_Equal s other = (in_ID s = in_ID other \<and> in_Name s = in_Name other)"

definition zoneStatus_String :: "zoneStatus \<Rightarrow> string" where
  "zoneStatus_String z = zs_ZoneID z @ '':'' @ zs_Type z"

definition idNameStatus_String :: "idNameStatus \<Rightarrow> string" where
  "idNameStatus_String s = in_ID s @ '':'' @ in_Name s"

definition clusterType_ToLower :: "string \<Rightarrow> string" where
  "clusterType_ToLower t = strToLower t"

definition zoneType_ToLower :: "string \<Rightarrow> string" where
  "zoneType_ToLower z = strToLower z"

definition Tower_String :: "tower \<Rightarrow> string" where
  "Tower_String t = (case t_SecretRef t of Some (ns, n) \<Rightarrow> ns @ ''/'' @ n | None \<Rightarrow> t_Server t)"

definition IsStretched :: "elfCluster \<Rightarrow> bool" where
  "IsStretched c = (ec_ClusterType c = ElfClusterTypeStretched)"

definition HasForceDeleteCluster :: "elfCluster \<Rightarrow> bool" where
  "HasForceDeleteCluster c =
     (case om_Annotations (ec_meta c) of
        None \<Rightarrow> False
      | Some as \<Rightarrow> gm_get as ElfClusterForceDeleteAnnotation \<noteq> None)"

section \<open>Lemmas\<close>

lemma elfMachine_status_simps [simp]:
  "VMRef (Status (SetVM u m)) = u" "TaskRef (Status (SetVM u m)) = []"
  "TaskRef (Status (SetTask t m)) = t" "VMRef (Status (SetTask t m)) = VMRef (Status m)"
  "Spec (SetVM u m) = Spec m" "Spec (SetTask t m) = Spec m"
  "em_meta (SetVM u m) = em_meta m" "em_meta (SetTask t m) = em_meta m"
  "Spec (SetFailure r f m) = Spec m" "em_meta (SetFailure r f m) = em_meta m"
  "VMRef (Status (SetFailure r f m)) = VMRef (Status m)"
  "TaskRef (Status (SetFailure r f m)) = TaskRef (Status m)"
  "Conditions (Status (SetVM u m)) = Conditions (Status m)"
  "Conditions (Status (SetTask t m)) = Conditions (Status m)"
  "Conditions (Status (SetFailure r f m)) = Conditions (Status m)"
  by (simp_all add: SetVM_def SetTask_def SetFailure_def)

lemma IsFailed_simps [simp]:
  "IsFailed (SetVM u m) = IsFailed m" "IsFailed (SetTask t m) = IsFailed m"
  "IsFailed (SetFailure r f m)"
  by (simp_all add: IsFailed_def SetVM_def SetTask_def SetFailure_def)

lemma HasTask_simps [simp]:
  "HasTask (SetTask t m) = (t \<noteq> [])" "\<not> HasTask (SetVM u m)" "HasVM (SetTask t m) = HasVM m"
  "HasVM (SetVM u m) = (u \<noteq> [])"
  by (simp_all add: HasTask_def HasVM_def)

lemma set_dedupNameservers: "set (dedupNameservers seen ns) = set ns - set seen"
  by (induction seen ns rule: dedupNameservers.induct) auto

lemma distinct_dedupNameservers: "distinct (dedupNameservers seen ns)"
  by (induction seen ns rule: dedupNameservers.induct) (auto simp: set_dedupNameservers)

lemma defaultRouteIndexFrom_bounds:
  "defaultRouteIndexFrom i ds = 0 \<or>
     i \<le> defaultRouteIndexFrom i ds \<and> defaultRouteIndexFrom i ds < i + length ds"
  by (induction i ds rule: defaultRouteIndexFrom.induct) auto

lemma GetDefaultRouteDeviceIndex_less:
  "ns_Devices n \<noteq> [] \<Longrightarrow> GetDefaultRouteDeviceIndex n < length (ns_Devices n)"
  using defaultRouteIndexFrom_bounds [of 0 "ns_Devices n"]
  by (auto simp: GetDefaultRouteDeviceIndex_def)

lemma set_nameserversInOrder:
  "set (nameserversInOrder m) =
     set (ns_Nameservers (Network (Spec m))) \<union>
     (\<Union>d \<in> set (ns_Devices (Network (Spec m))). set (nd_Nameservers d))"
proof -
  define ds where "ds = ns_Devices (Network (Spec m))"
  define di where "di = GetDefaultRouteDeviceIndex (Network (Spec m))"
  have eq: "set (nameserversInOrder m) =
      set (ns_Nameservers (Network (Spec m))) \<union>
      (if di < length ds then set (nd_Nameservers (ds ! di)) else {}) \<union>
      (\<Union>i \<in> {0..<length ds}. if i \<noteq> di then set (nd_Nameservers (ds ! i)) else {})"
    unfolding nameserversInOrder_def Let_def ds_def di_def
    by (simp only: set_append set_concat set_map set_upt if_distrib [of set] list.set(1)
        image_image Un_assoc)
  have "(if di < length ds then set (nd_Nameservers (ds ! di)) else {}) \<union>
      (\<Union>i \<in> {0..<length ds}. if i \<noteq> di then set (nd_Nameservers (ds ! i)) else {})
      = (\<Union>i \<in> {0..<length ds}. set (nd_Nameservers (ds ! i)))"
    by (auto split: if_splits)
  also have "\<dots> = (\<Union>d \<in> set ds. set (nd_Nameservers d))"
    by (force simp: in_set_conv_nth)
  finally show ?thesis unfolding eq ds_def by (simp add: Un_assoc)
qed

end
