(* ===== verification/Tower_Util.thy ===== *)
theory Tower_Util
  imports Api_Types
begin

text \<open>
  The Tower data model as the provider sees it and the pure helpers of
  \<^verbatim>\<open>pkg/service\<close> (error classification, unit conversions, task classification,
  host and GPU collections), \<^verbatim>\<open>pkg/util/types\<close> (UUIDs) and
  \<^verbatim>\<open>pkg/util/tower.go\<close>. Pointers of the SDK models are options, so that the
  dereferences of the source are visible; the elements of a slice are non-nil unless the
  source tests them.
\<close>

section \<open>Tower objects\<close>

definition VMStatusRUNNING :: string where [const_defs]: "VMStatusRUNNING = ''RUNNING''"
definition VMStatusSTOPPED :: string where [const_defs]: "VMStatusSTOPPED = ''STOPPED''"
definition VMStatusSUSPENDED :: string where [const_defs]: "VMStatusSUSPENDED = ''SUSPENDED''"
definition TaskStatusFAILED :: string where [const_defs]: "TaskStatusFAILED = ''FAILED''"
definition TaskStatusSUCCESSED :: string where [const_defs]: "TaskStatusSUCCESSED = ''SUCCESSED''"
definition HostStatusCONNECTEDERROR :: string where
  [const_defs]: "HostStatusCONNECTEDERROR = ''CONNECTED_ERROR''"
definition HostStatusSESSIONEXPIRED :: string where
  [const_defs]: "HostStatusSESSIONEXPIRED = ''SESSION_EXPIRED''"
definition HostStatusINITIALIZING :: string where
  [const_defs]: "HostStatusINITIALIZING = ''INITIALIZING''"
definition MaintenanceModeEnumMAINTENANCEMODE :: string where
  [const_defs]: "MaintenanceModeEnumMAINTENANCEMODE = ''MAINTENANCE_MODE''"
definition MaintenanceModeEnumENTERINGMAINTENANCEMODE :: string where
  [const_defs]: "MaintenanceModeEnumENTERINGMAINTENANCEMODE = ''ENTERING_MAINTENANCE_MODE''"
definition GpuDeviceUsagePASSTHROUGH :: string where
  [const_defs]: "GpuDeviceUsagePASSTHROUGH = ''PASS_THROUGH''"
definition GpuDeviceUsageVGPU :: string where [const_defs]: "GpuDeviceUsageVGPU = ''VGPU''"

record nestedRef =
  ref_ID :: "string option"
  ref_Name :: "string option"

record vmCPU =
  cpu_Cores :: "int option"
  cpu_Sockets :: "int option"

record vmLabel =
  lb_ID :: "string option"
  lb_Key :: "string option"
  lb_Value :: "string option"

record vm =
  vm_ID :: "string option"
  vm_LocalID :: "string option"
  vm_Name :: "string option"
  vm_Status :: "string option"
  vm_EntityAsyncStatus :: "string option"
  vm_InRecycleBin :: "bool option"
  vm_Host :: "nestedRef option"
  vm_Cluster :: "nestedRef option"
  vm_Vcpu :: "int option"
  vm_Memory :: "int option"
  vm_CPU :: "vmCPU option"
  vm_VMDisks :: "nestedRef option list"
  vm_GpuDevices :: "nestedRef list"
  vm_Labels :: "vmLabel list"

record task =
  task_ID :: "string option"
  task_Status :: "string option"
  task_ErrorMessage :: "string option"
  task_ErrorCode :: "string option"
  task_Description :: "string option"

text \<open>
  A host enters a \<^verbatim>\<open>Hosts\<close> map only through \<^verbatim>\<open>Insert\<close>, which
  dereferences its ID; the ID is therefore a plain string. The host state is a pointer to a
  struct whose \<^verbatim>\<open>State\<close> is a pointer.
\<close>

record host =
  h_ID :: string
  h_Name :: "string option"
  h_Status :: "string option"
  h_HostState :: "string option option"
  h_AllocatableMemoryBytes :: "int option"

record gpuVMDetail =
  gv_Name :: "string option"
  gv_InRecycleBin :: "bool option"
  gv_Status :: "string option"

record gpuVMInfo =
  g_ID :: string
  g_Host :: "nestedRef option"
  g_Model :: "string option"
  g_UserVgpuTypeName :: "string option"
  g_UserUsage :: "string option"
  g_AvailableVgpusNum :: "int option"
  g_Vms :: "gpuVMDetail list"

record pgPolicy =
  pp_Enabled :: "bool option"
  pp_Description :: "string option"
  pp_VMHostMustEnabled :: "bool option"
  pp_VMHostMustPolicy :: "bool option"
  pp_VMHostPreferEnabled :: "bool option"
  pp_VMHostPreferPolicy :: "bool option"
  pp_VMVMPolicyEnabled :: "bool option"
  pp_VMVMPolicy :: "string option"

record vmPlacementGroup =
  pg_ID :: "string option"
  pg_LocalID :: "string option"
  pg_Name :: "string option"
  pg_EntityAsyncStatus :: "string option"
  pg_Vms :: "nestedRef list"
  pg_Policy :: pgPolicy  \<comment> \<open>the fields that an update of the members repeats\<close>

record zone =
  z_ID :: "string option"
  z_IsPreferred :: "bool option"
  z_Hosts :: "nestedRef list"

record storageClusterConfig =
  sc_StorageCluster :: "nestedRef option"
  sc_Datastore :: "nestedRef option"

record vmVolume =
  vol_ID :: "string option"
  vol_Name :: "string option"
  vol_Size :: "int option"
  vol_EntityAsyncStatus :: "string option"
  vol_StorageClusterConfig :: "storageClusterConfig option"

record vmDisk =
  vd_ID :: "string option"
  vd_Boot :: "int option"
  vd_VMVolume :: "nestedRef option"

record vmNic =
  nic_ID :: "string option"
  nic_IPAddress :: "string option"
  nic_MacAddress :: "string option"
  nic_Gateway :: "string option"
  nic_SubnetMask :: "string option"

record gpuDeviceInfo =
  gdi_ID :: string
  gdi_HostID :: string
  gdi_AllocatedCount :: int
  gdi_AvailableCount :: int

record storageConfig =
  stc_DatastoreID :: "string option"
  stc_StorageClusterID :: "string option"

record cloneVMInfo =
  cvi_Cluster :: string
  cvi_StorageConfig :: "storageConfig option"
  cvi_Host :: string
  cvi_CloudInit :: string
  cvi_GPUDevices :: "gpuDeviceInfo list"
  cvi_HostName :: string

text \<open>The values the \<^verbatim>\<open>config\<close> package reads from the environment.\<close>

record config =
  cfg_DefaultRequeueTimeout :: int
  cfg_WaitTaskInterval :: int
  cfg_WaitTaskTimeoutForPlacementGroupOperation :: int
  cfg_VMPowerStatusCheckingDuration :: int
  cfg_VMNumCPUs :: int
  cfg_VMMemoryMiB :: int
  cfg_NameserverLimit :: int
  cfg_MaxConcurrentVMCreations :: nat

section \<open>Error codes and their classification\<close>

definition VMNotFound :: string where [const_defs]: "VMNotFound = ''VM_NOT_FOUND''"
definition VMVolumeNotFound :: string where [const_defs]: "VMVolumeNotFound = ''VM_VOLUME_NOT_FOUND''"
definition VMDuplicate :: string where [const_defs]: "VMDuplicate = ''VM_DUPLICATE''"
definition TaskNotFound :: string where [const_defs]: "TaskNotFound = ''TASK_NOT_FOUND''"
definition VMPlacementGroupNotFound :: string where
  [const_defs]: "VMPlacementGroupNotFound = ''VM_PLACEMENT_GROUP_NOT_FOUND''"
definition VMPlacementGroupDuplicate :: string where
  [const_defs]: "VMPlacementGroupDuplicate = ''PLACEMENT_GROUP_DUPLICATE_NAME''"
definition CloudInitError :: string where [const_defs]: "CloudInitError = ''VM_CLOUD_INIT_CONFIG_ERROR''"
definition MemoryInsufficientError :: string where
  [const_defs]: "MemoryInsufficientError = ''HostAvailableMemoryFilter''"
definition StorageInsufficientError :: string where
  [const_defs]: "StorageInsufficientError = ''EAllocSpace''"
definition PlacementGroupError :: string where
  [const_defs]: "PlacementGroupError = ''PlacementGroupFilter''"
definition PlacementGroupMustError :: string where
  [const_defs]: "PlacementGroupMustError = ''PlacementGroupMustFilter''"
definition PlacementGroupPriorError :: string where
  [const_defs]: "PlacementGroupPriorError = ''PlacementGroupPriorFilter''"
definition VMDuplicateError :: string where [const_defs]: "VMDuplicateError = ''VM_DUPLICATED_NAME''"
definition GPUAssignFailed :: string where [const_defs]: "GPUAssignFailed = ''GPU_ASSIGN_FAILED''"
definition VGPUInsufficientError :: string where
  [const_defs]: "VGPUInsufficientError = ''PRECHECK_REQUEST_VGPU_COUNT_MORE_THAN_AVAILABLE''"

definition IsVMNotFound :: "lib \<Rightarrow> go_error \<Rightarrow> bool" where
  "IsVMNotFound L err = strContains (errText L err) VMNotFound"

definition IsVMDuplicate :: "lib \<Rightarrow> go_error \<Rightarrow> bool" where
  "IsVMDuplicate L err = strContains (errText L err) VMDuplicate"

definition IsVMDuplicateError :: "string \<Rightarrow> bool" where
  "IsVMDuplicateError message = strContains message VMDuplicateError"

definition IsShutDownTimeout :: "string \<Rightarrow> bool" where
  "IsShutDownTimeout message = strContains message ''JOB_VM_SHUTDOWN_TIMEOUT''"

definition IsVMVolumeNotFound :: "lib \<Rightarrow> go_error \<Rightarrow> bool" where
  "IsVMVolumeNotFound L err = strContains (errText L err) VMVolumeNotFound"

definition IsGPUAssignFailed :: "string \<Rightarrow> bool" where
  "IsGPUAssignFailed message = strContains message GPUAssignFailed"

definition IsVGPUInsufficientError :: "string \<Rightarrow> bool" where
  "IsVGPUInsufficientError message = strContains message VGPUInsufficientError"

definition IsTaskNotFound :: "lib \<Rightarrow> go_error \<Rightarrow> bool" where
  "IsTaskNotFound L err = strContains (errText L err) TaskNotFound"

definition IsVMPlacementGroupNotFound :: "lib \<Rightarrow> go_error \<Rightarrow> bool" where
  "IsVMPlacementGroupNotFound L err = strContains (errText L err) VMPlacementGroupNotFound"

definition IsVMPlacementGroupDuplicate :: "string \<Rightarrow> bool" where
  "IsVMPlacementGroupDuplicate message = strContains message VMPlacementGroupDuplicate"

definition IsCloudInitConfigError :: "string \<Rightarrow> bool" where
  "IsCloudInitConfigError message = strContains message CloudInitError"

definition FormatCloudInitError :: "string \<Rightarrow> string" where
  "FormatCloudInitError message =
     (case strLastIndex message (''['' @ CloudInitError @ '']'') of
        None \<Rightarrow> message
      | Some firstIndex \<Rightarrow>
          (let msg = drop (firstIndex + length CloudInitError + 2) message;
               msg = strTrimRight msg (CHR ''}'');
               msg = strTrimRight msg (CHR 0x22);
               msg = strTrimRight msg (CHR 0x5C)
           in strTrimSpace msg))"

definition ParseGPUAssignFailed :: "string \<Rightarrow> string" where
  "ParseGPUAssignFailed message =
     (case strLastIndex message GPUAssignFailed of
        None \<Rightarrow> message
      | Some index \<Rightarrow> drop index message)"

definition IsStorageInsufficientError :: "string \<Rightarrow> bool" where
  "IsStorageInsufficientError message = strContains message StorageInsufficientError"

definition IsMemoryInsufficientError :: "string \<Rightarrow> bool" where
  "IsMemoryInsufficientError message = strContains message MemoryInsufficientError"

definition IsPlacementGroupMustError :: "string \<Rightarrow> bool" where
  "IsPlacementGroupMustError message = strContains message PlacementGroupMustError"

definition IsPlacementGroupPriorError :: "string \<Rightarrow> bool" where
  "IsPlacementGroupPriorError message = strContains message PlacementGroupPriorError"

definition IsPlacementGroupError :: "string \<Rightarrow> bool" where
  "IsPlacementGroupError message =
     (strContains message PlacementGroupError \<or>
      IsPlacementGroupMustError message \<or>
      IsPlacementGroupPriorError message)"

section \<open>Units and optional values\<close>

definition KiB :: int where "KiB = 1024"
definition MiB :: int where "MiB = KiB * 1024"
definition GiB :: int where "GiB = MiB * 1024"

lemmas unit_defs = KiB_def MiB_def GiB_def

definition TowerMemory :: "config \<Rightarrow> int \<Rightarrow> int" where
  "TowerMemory cfg memoryMiB =
     (let memory = (if memoryMiB \<le> 0 then cfg_VMMemoryMiB cfg else memoryMiB)
      in wrap64 (memory * MiB))"

definition TowerDisk :: "int \<Rightarrow> int" where
  "TowerDisk diskGiB = wrap64 (diskGiB * GiB)"

definition TowerVCPU :: "config \<Rightarrow> int \<Rightarrow> int" where
  "TowerVCPU cfg vCPU = (if vCPU \<le> 0 then cfg_VMNumCPUs cfg else vCPU)"

definition TowerCPUSocketCores :: "int \<Rightarrow> int \<Rightarrow> int" where
  "TowerCPUSocketCores cpuSocketCores vCPU = (if cpuSocketCores \<le> 0 then vCPU else cpuSocketCores)"

definition TowerCPUSockets :: "int \<Rightarrow> int \<Rightarrow> int panics" where
  "TowerCPUSockets vCPU cpuSocketCores =
     (if cpuSocketCores = 0 then go_panic else Some (wrap32 (go_div vCPU cpuSocketCores)))"

definition ByteToGiB :: "int \<Rightarrow> int" where
  "ByteToGiB bytes = wrap32 (go_div bytes GiB)"

definition ByteToMiB :: "int \<Rightarrow> int" where
  "ByteToMiB bytes = go_div bytes MiB"

definition GetTowerString :: "string option \<Rightarrow> string" where
  "GetTowerString p = (case p of None \<Rightarrow> [] | Some s \<Rightarrow> s)"

definition GetTowerInt32 :: "int option \<Rightarrow> int" where
  "GetTowerInt32 p = (case p of None \<Rightarrow> 0 | Some i \<Rightarrow> i)"

definition GetTowerInt64 :: "int option \<Rightarrow> int" where
  "GetTowerInt64 p = (case p of None \<Rightarrow> 0 | Some i \<Rightarrow> i)"

text \<open>\<^verbatim>\<open>int\<close> is 64 bits wide, so the conversion keeps the low half.\<close>

definition TowerInt32 :: "int \<Rightarrow> int" where
  "TowerInt32 v = wrap32 v"

definition GetTowerTaskStatus :: "string option \<Rightarrow> string" where
  "GetTowerTaskStatus p = (case p of None \<Rightarrow> [] | Some s \<Rightarrow> s)"

definition GetUpdatedVMRestrictedFields :: "config \<Rightarrow> vm \<Rightarrow> elfMachine \<Rightarrow> string gomap panics" where
  "GetUpdatedVMRestrictedFields cfg v m = do {
     let vCPU = TowerVCPU cfg (NumCPUs (Spec m));
     let cpuSocketCores = TowerCPUSocketCores (NumCoresPerSocket (Spec m)) vCPU;
     cpuSockets \<leftarrow> TowerCPUSockets vCPU cpuSocketCores;
     avcpu \<leftarrow> vm_Vcpu v;
     cpu \<leftarrow> vm_CPU v;
     acores \<leftarrow> cpu_Cores cpu;
     asockets \<leftarrow> cpu_Sockets cpu;
     let entry = (\<lambda>a e. ''actual: '' @ fmt_d a @ '', expected: '' @ fmt_d e);
     let fm = (if avcpu > vCPU then gm_put ''vcpu'' (entry avcpu vCPU) [] else []);
     let fm = (if acores > cpuSocketCores then gm_put ''cpuCores'' (entry acores cpuSocketCores) fm else fm);
     let fm = (if asockets > cpuSockets then gm_put ''cpuSockets'' (entry asockets cpuSockets) fm else fm);
     Some fm }"

section \<open>Virtual machines and tasks\<close>

definition IsVMInRecycleBin :: "vm \<Rightarrow> bool" where
  "IsVMInRecycleBin v = (vm_InRecycleBin v = Some True)"

definition IsCloneVMTask :: "task \<Rightarrow> bool" where
  "IsCloneVMTask t = strContains (GetTowerString (task_Description t)) ''Create a VM''"

definition IsPowerOnVMTask :: "task \<Rightarrow> bool" where
  "IsPowerOnVMTask t = strContains (GetTowerString (task_Description t)) ''Start VM''"

definition IsUpdateVMTask :: "task \<Rightarrow> bool" where
  "IsUpdateVMTask t = strContains (GetTowerString (task_Description t)) ''Edit VM''"

definition IsUpdateVMDiskTask :: "task \<Rightarrow> string \<Rightarrow> bool" where
  "IsUpdateVMDiskTask t vmName =
     (GetTowerString (task_Description t) = ''Edit VM '' @ vmName @ '' disk'' \<or>
      strContains (GetTowerString (task_Description t)) ''Update virtual volume'')"

definition IsVMColdMigrationTask :: "task \<Rightarrow> bool" where
  "IsVMColdMigrationTask t =
     strContains (GetTowerString (task_Description t)) ''performing a cold migration''"

definition IsVMMigrationTask :: "task \<Rightarrow> bool" where
  "IsVMMigrationTask t =
     strContains (GetTowerString (task_Description t)) ''performing a live migration''"

definition IsPlacementGroupTask :: "task \<Rightarrow> bool" where
  "IsPlacementGroupTask t = strContains (GetTowerString (task_Description t)) ''VM placement group''"

definition IsTowerResourcePerformingAnOperation :: "string option \<Rightarrow> bool" where
  "IsTowerResourcePerformingAnOperation entityAsyncStatus = (entityAsyncStatus \<noteq> None)"

text \<open>The pattern \<^verbatim>\<open>(?i)^[a-f\d]{8}-[a-f\d]{4}-[a-f\d]{4}-[a-f\d]{4}-[a-f\d]{12}$\<close>.\<close>

definition isHexDigit :: "char \<Rightarrow> bool" where
  "isHexDigit c = (let n = (of_char c :: nat)
     in 48 \<le> n \<and> n \<le> 57 \<or> 97 \<le> n \<and> n \<le> 102 \<or> 65 \<le> n \<and> n \<le> 70)"

fun matchUUID :: "nat list \<Rightarrow> string \<Rightarrow> bool" where
  "matchUUID [] s = False"
| "matchUUID [n] s = (length s = n \<and> list_all isHexDigit s)"
| "matchUUID (n # m # ns) s =
     (n < length s \<and> list_all isHexDigit (take n s) \<and> s ! n = CHR ''-'' \<and>
      matchUUID (m # ns) (drop (Suc n) s))"

definition IsUUID :: "string \<Rightarrow> bool" where
  "IsUUID uuid = (if uuid = [] then False else matchUUID [8, 4, 4, 4, 12] uuid)"

definition GetVMRef :: "vm option \<Rightarrow> string panics" where
  "GetVMRef vo =
     (case vo of
        None \<Rightarrow> Some []
      | Some v \<Rightarrow>
          (let vmLocalID = GetTowerString (vm_LocalID v)
           in if IsUUID vmLocalID then Some vmLocalID else vm_ID v))"

text \<open>The loop keeps the first disk with the smallest boot value.\<close>

fun systemDiskFrom :: "vmDisk \<Rightarrow> vmDisk list \<Rightarrow> vmDisk panics" where
  "systemDiskFrom best [] = Some best"
| "systemDiskFrom best (d # ds) = do {
     b \<leftarrow> vd_Boot d;
     bb \<leftarrow> vd_Boot best;
     systemDiskFrom (if b < bb then d else best) ds }"

definition GetVMSystemDisk :: "vmDisk list \<Rightarrow> vmDisk option panics" where
  "GetVMSystemDisk disks =
     (case disks of [] \<Rightarrow> Some None | d # ds \<Rightarrow> map_option Some (systemDiskFrom d disks))"

fun zoneHasHost :: "nestedRef list \<Rightarrow> string \<Rightarrow> bool panics" where
  "zoneHasHost [] hostID = Some False"
| "zoneHasHost (h # hs) hostID =
     do { i \<leftarrow> ref_ID h; if i = hostID then Some True else zoneHasHost hs hostID }"

fun GetHostZone :: "zone list \<Rightarrow> string \<Rightarrow> zone option panics" where
  "GetHostZone [] hostID = Some None"
| "GetHostZone (z # zs) hostID =
     do { b \<leftarrow> zoneHasHost (z_Hosts z) hostID; if b then Some (Some z) else GetHostZone zs hostID }"

definition parseOwnerFromCreatedByAnnotation :: "string \<Rightarrow> string" where
  "parseOwnerFromCreatedByAnnotation createdBy =
     (case strLastIndex createdBy ''@'' of
        None \<Rightarrow> createdBy
      | Some lastIndex \<Rightarrow>
          if length createdBy \<le> 1 \<or> lastIndex = 0 \<or> lastIndex = length createdBy then createdBy
          else
            (let username = take lastIndex createdBy;
                 authConfigID = drop (lastIndex + 1) createdBy
             in if \<not> IsUUID authConfigID then createdBy
                else username @ ''_'' @ authConfigID))"

section \<open>Host collections\<close>

definition IsAvailableHost :: "host option \<Rightarrow> int \<Rightarrow> (bool \<times> string) panics" where
  "IsAvailableHost ho memory =
     (case ho of
        None \<Rightarrow> Some (False, [])
      | Some h \<Rightarrow>
          (case h_Status h of
             None \<Rightarrow> Some (False, [])
           | Some st \<Rightarrow>
               if st = HostStatusCONNECTEDERROR \<or> st = HostStatusSESSIONEXPIRED \<or>
                  st = HostStatusINITIALIZING
               then Some (False, ''host is in '' @ st @ '' status'')
               else do {
                 maint \<leftarrow> (case h_HostState h of
                   None \<Rightarrow> Some None
                 | Some sp \<Rightarrow> do {
                     state \<leftarrow> sp;
                     Some (if state = MaintenanceModeEnumMAINTENANCEMODE \<or>
                              state = MaintenanceModeEnumENTERINGMAINTENANCEMODE
                           then Some state else None) });
                 case maint of
                   Some state \<Rightarrow> Some (False, ''host is in '' @ state @ '' state'')
                 | None \<Rightarrow>
                     if memory > 0 then do {
                       mem \<leftarrow> h_AllocatableMemoryBytes h;
                       if memory > mem
                       then Some (False, ''host has insufficient memory, excepted: '' @ fmt_d memory @
                                         '', actual: '' @ fmt_d mem)
                       else Some (True, []) }
                     else Some (True, []) }))"

type_synonym hosts = "host gomap"

definition Hosts_Insert :: "hosts \<Rightarrow> host \<Rightarrow> hosts" where
  "Hosts_Insert s h = gm_put (h_ID h) h s"

definition NewHostsFromList :: "host list \<Rightarrow> hosts" where
  "NewHostsFromList hs = fold (\<lambda>h s. Hosts_Insert s h) hs []"

text \<open>A nil host is skipped.\<close>

definition NewHosts :: "host option list \<Rightarrow> hosts" where
  "NewHosts hs = fold (\<lambda>ho s. case ho of None \<Rightarrow> s | Some h \<Rightarrow> Hosts_Insert s h) hs []"

definition hostText :: "host \<Rightarrow> string panics" where
  "hostText h = do {
     state \<leftarrow> (case h_HostState h of None \<Rightarrow> Some [] | Some st \<Rightarrow> st);
     status \<leftarrow> h_Status h;
     Some (''{id: '' @ h_ID h @ '',name: '' @ GetTowerString (h_Name h) @ '',memory: '' @
           fmt_d (GetTowerInt64 (h_AllocatableMemoryBytes h)) @ '',status: '' @ status @ '',state: '' @ state @ ''},'') }"

definition Hosts_String :: "hosts \<Rightarrow> string panics" where
  "Hosts_String s = do {
     items \<leftarrow> mapP hostText (map snd s);
     Some (''['' @ concat items @ '']'') }"

definition Hosts_Contains :: "hosts \<Rightarrow> string \<Rightarrow> bool" where
  "Hosts_Contains s hostID = (gm_get s hostID \<noteq> None)"

definition Hosts_Len :: "hosts \<Rightarrow> nat" where
  "Hosts_Len s = length s"

definition Hosts_IsEmpty :: "hosts \<Rightarrow> bool" where
  "Hosts_IsEmpty s = (length s = 0)"

definition Hosts_Get :: "hosts \<Rightarrow> string \<Rightarrow> host option" where
  "Hosts_Get s hostID = gm_get s hostID"

definition Hosts_UnsortedList :: "hosts \<Rightarrow> host list" where
  "Hosts_UnsortedList s = map snd s"

definition Hosts_IDs :: "hosts \<Rightarrow> string list" where
  "Hosts_IDs s = map (\<lambda>e. h_ID (snd e)) s"

definition newFilteredHostCollection :: "(host \<Rightarrow> bool panics) \<Rightarrow> host list \<Rightarrow> hosts panics" where
  "newFilteredHostCollection flt hs = map_option NewHostsFromList (filterP flt hs)"

definition Hosts_Filter :: "hosts \<Rightarrow> (host \<Rightarrow> bool panics) \<Rightarrow> hosts panics" where
  "Hosts_Filter s flt = newFilteredHostCollection flt (Hosts_UnsortedList s)"

definition FilterAvailableHostsWithEnoughMemory :: "hosts \<Rightarrow> int \<Rightarrow> hosts panics" where
  "FilterAvailableHostsWithEnoughMemory s memory =
     Hosts_Filter s (\<lambda>h. map_option fst (IsAvailableHost (Some h) memory))"

definition FilterUnavailableHostsOrWithoutEnoughMemory :: "hosts \<Rightarrow> int \<Rightarrow> hosts panics" where
  "FilterUnavailableHostsOrWithoutEnoughMemory s memory =
     Hosts_Filter s (\<lambda>h. map_option (\<lambda>r. \<not> fst r) (IsAvailableHost (Some h) memory))"

definition Hosts_Find :: "hosts \<Rightarrow> string list \<Rightarrow> hosts panics" where
  "Hosts_Find s targetHosts = Hosts_Filter s (\<lambda>h. Some (List.member targetHosts (h_ID h)))"

definition Hosts_Difference :: "hosts \<Rightarrow> hosts \<Rightarrow> hosts panics" where
  "Hosts_Difference s other = Hosts_Filter s (\<lambda>h. Some (gm_get other (h_ID h) = None))"

text \<open>\<^verbatim>\<open>GetVMsInPlacementGroup\<close>: the set of IDs, without repetitions.\<close>

definition GetVMsInPlacementGroup :: "vmPlacementGroup \<Rightarrow> string list panics" where
  "GetVMsInPlacementGroup pg = map_option remdups (mapP ref_ID (pg_Vms pg))"

section \<open>GPU collections\<close>

type_synonym gpuVMInfos = "gpuVMInfo gomap"

definition GPUVMInfos_Insert :: "gpuVMInfos \<Rightarrow> gpuVMInfo \<Rightarrow> gpuVMInfos" where
  "GPUVMInfos_Insert s g = gm_put (g_ID g) g s"

definition NewGPUVMInfos :: "gpuVMInfo list \<Rightarrow> gpuVMInfos" where
  "NewGPUVMInfos gs = fold (\<lambda>g s. GPUVMInfos_Insert s g) gs []"

definition GPUVMInfos_UnsortedList :: "gpuVMInfos \<Rightarrow> gpuVMInfo list" where
  "GPUVMInfos_UnsortedList s = map snd s"

definition GPUVMInfos_Get :: "gpuVMInfos \<Rightarrow> string \<Rightarrow> gpuVMInfo option" where
  "GPUVMInfos_Get s gpuID = gm_get s gpuID"

definition GPUVMInfos_Contains :: "gpuVMInfos \<Rightarrow> string \<Rightarrow> bool" where
  "GPUVMInfos_Contains s gpuID = (gm_get s gpuID \<noteq> None)"

definition GPUVMInfos_Len :: "gpuVMInfos \<Rightarrow> nat" where
  "GPUVMInfos_Len s = length s"

definition GPUVMInfos_Filter :: "gpuVMInfos \<Rightarrow> (gpuVMInfo \<Rightarrow> bool panics) \<Rightarrow> gpuVMInfos panics" where
  "GPUVMInfos_Filter s flt = map_option NewGPUVMInfos (filterP flt (GPUVMInfos_UnsortedList s))"

definition NewGPUVMInfosFromList :: "gpuVMInfo list \<Rightarrow> gpuVMInfos" where
  "NewGPUVMInfosFromList gs = fold (\<lambda>g s. GPUVMInfos_Insert s g) gs []"

definition GPUVMInfos_Iterate :: "gpuVMInfos \<Rightarrow> (gpuVMInfo \<Rightarrow> 's \<Rightarrow> 's) \<Rightarrow> 's \<Rightarrow> 's" where
  "GPUVMInfos_Iterate s fn st = fold (\<lambda>(_, g). fn g) s st"

text \<open>All filters in order; the first that says no ends the test.\<close>

fun GPUVMInfoFilterAnd :: "(gpuVMInfo \<Rightarrow> bool panics) list \<Rightarrow> gpuVMInfo \<Rightarrow> bool panics" where
  "GPUVMInfoFilterAnd [] g = Some True"
| "GPUVMInfoFilterAnd (f # fs) g = do { b \<leftarrow> f g; if b then GPUVMInfoFilterAnd fs g else Some False }"

fun hostFilterAnd :: "(host \<Rightarrow> bool panics) list \<Rightarrow> host \<Rightarrow> bool panics" where
  "hostFilterAnd [] h = Some True"
| "hostFilterAnd (f # fs) h = do { b \<leftarrow> f h; if b then hostFilterAnd fs h else Some False }"

definition newFilteredGPUVMInfoCollection :: "(gpuVMInfo \<Rightarrow> bool panics) \<Rightarrow> gpuVMInfo list \<Rightarrow> gpuVMInfos panics" where
  "newFilteredGPUVMInfoCollection flt gs = map_option NewGPUVMInfosFromList (filterP flt gs)"

definition GPUDeviceInfo_String :: "gpuDeviceInfo \<Rightarrow> string" where
  "GPUDeviceInfo_String g = ''{id:'' @ gdi_ID g @ '', hostId:'' @ gdi_HostID g @ '', allocatedCount:'' @
     fmt_d (gdi_AllocatedCount g) @ '', availableCount:'' @ fmt_d (gdi_AvailableCount g) @ ''}''"

definition getVMsOccupyingGPU :: "gpuVMDetail list \<Rightarrow> gpuVMDetail list panics" where
  "getVMsOccupyingGPU gpuVMs =
     filterP (\<lambda>v. if gv_InRecycleBin v = Some True then Some False
                  else do { st \<leftarrow> gv_Status v; Some (st \<noteq> VMStatusSTOPPED) }) gpuVMs"

definition GetAvailableCountFromGPUVMInfo :: "gpuVMInfo \<Rightarrow> int panics" where
  "GetAvailableCountFromGPUVMInfo g = do {
     usage \<leftarrow> g_UserUsage g;
     if usage = GpuDeviceUsagePASSTHROUGH then do {
       vms \<leftarrow> getVMsOccupyingGPU (g_Vms g);
       Some (if vms \<noteq> [] then 0 else 1) }
     else g_AvailableVgpusNum g }"

definition FilterAvailableGPUVMInfos :: "gpuVMInfos \<Rightarrow> gpuVMInfos panics" where
  "FilterAvailableGPUVMInfos s =
     GPUVMInfos_Filter s (\<lambda>g. map_option (\<lambda>n. n > 0) (GetAvailableCountFromGPUVMInfo g))"

text \<open>The two branches of \<^verbatim>\<open>HasGPUsCanNotBeUsedForVM\<close>.\<close>

fun gpuOccupiedByOther :: "gpuVMInfo list \<Rightarrow> string \<Rightarrow> bool panics" where
  "gpuOccupiedByOther [] name = Some False"
| "gpuOccupiedByOther (g # gs) name = do {
     vms \<leftarrow> getVMsOccupyingGPU (g_Vms g);
     bad \<leftarrow> (case vms of
        [] \<Rightarrow> Some False
      | [v] \<Rightarrow> do { n \<leftarrow> gv_Name v; Some (n \<noteq> name) }
      | _ \<Rightarrow> Some True);
     if bad then Some True else gpuOccupiedByOther gs name }"

fun availableCountMap :: "gpuVMInfo list \<Rightarrow> int gomap \<Rightarrow> int gomap panics" where
  "availableCountMap [] acc = Some acc"
| "availableCountMap (g # gs) acc = do {
     availableCount \<leftarrow> GetAvailableCountFromGPUVMInfo g;
     ty \<leftarrow> g_UserVgpuTypeName g;
     availableCountMap gs
       (case gm_get acc ty of
          Some count \<Rightarrow> gm_put ty (wrap32 (count + availableCount)) acc
        | None \<Rightarrow> gm_put ty availableCount acc) }"

definition HasGPUsCanNotBeUsedForVM :: "gpuVMInfos \<Rightarrow> elfMachine \<Rightarrow> bool panics" where
  "HasGPUsCanNotBeUsedForVM infos m =
     (if RequiresPassThroughGPUDevices m then
        gpuOccupiedByOther (GPUVMInfos_UnsortedList infos) (om_Name (em_meta m))
      else if GPUVMInfos_Len infos = 0 then Some False
      else do {
        counts \<leftarrow> availableCountMap (GPUVMInfos_UnsortedList infos) [];
        Some (list_ex (\<lambda>d. case gm_get counts (vs_Type d) of
                             None \<Rightarrow> True
                           | Some count \<Rightarrow> vs_Count d > count) (VGPUDevices (Spec m))) })"

section \<open>Lemmas\<close>

subsection \<open>Collections\<close>

text \<open>Well-formed collections: distinct keys, each host or GPU under its own ID.\<close>

definition hosts_wf :: "hosts \<Rightarrow> bool" where
  "hosts_wf s \<longleftrightarrow> gm_wf s \<and> (\<forall>(k, h) \<in> set s. k = h_ID h)"

definition gpus_wf :: "gpuVMInfos \<Rightarrow> bool" where
  "gpus_wf s \<longleftrightarrow> gm_wf s \<and> (\<forall>(k, g) \<in> set s. k = g_ID g)"

lemma update_fresh: "k \<notin> fst ` set m \<Longrightarrow> AList.update k v m = m @ [(k, v)]"
  by (induction m) auto

lemma fold_insert_distinct:
  "distinct (map key xs) \<Longrightarrow> fst ` set m \<inter> key ` set xs = {} \<Longrightarrow>
     fold (\<lambda>x s. AList.update (key x) x s) xs m = m @ map (\<lambda>x. (key x, x)) xs"
proof (induction xs arbitrary: m)
  case Nil
  then show ?case by simp
next
  case (Cons x xs)
  then have "AList.update (key x) x m = m @ [(key x, x)]" by (intro update_fresh) auto
  with Cons show ?case by auto
qed

lemma wf_map_key_snd:
  "\<forall>(k, x) \<in> set s. k = key x \<Longrightarrow> map (\<lambda>x. (key x, x)) (map snd s) = s"
  by (induction s) auto

lemma map_key_filter_snd:
  "\<forall>(k, x) \<in> set s. k = key x \<Longrightarrow>
     map (\<lambda>x. (key x, x)) (filter P (map snd s)) = filter (\<lambda>e. P (snd e)) s"
  by (induction s) auto

lemma distinct_keys_snd:
  "distinct (map fst s) \<Longrightarrow> \<forall>(k, x) \<in> set s. k = key x \<Longrightarrow> distinct (map key (map snd s))"
proof -
  assume d: "distinct (map fst s)" and k: "\<forall>(k, x) \<in> set s. k = key x"
  from k have "map key (map snd s) = map fst s" by (induction s) auto
  with d show ?thesis by (simp only:)
qed

lemma NewHosts_filter:
  assumes "hosts_wf s"
  shows "NewHostsFromList (filter P (map snd s)) = filter (\<lambda>e. P (snd e)) s"
proof -
  from assms have k: "\<forall>(k, h) \<in> set s. k = h_ID h" and "distinct (map fst s)"
    by (simp_all add: hosts_wf_def gm_wf_def)
  then have d: "distinct (map h_ID (map snd s))" by (intro distinct_keys_snd)
  from d have "distinct (map h_ID (filter P (map snd s)))" by (rule distinct_map_filter)
  then have "NewHostsFromList (filter P (map snd s)) = map (\<lambda>h. (h_ID h, h)) (filter P (map snd s))"
    unfolding NewHostsFromList_def Hosts_Insert_def by (subst fold_insert_distinct) auto
  also have "\<dots> = filter (\<lambda>e. P (snd e)) s" using k by (rule map_key_filter_snd)
  finally show ?thesis .
qed

lemma NewGPUVMInfos_filter:
  assumes "gpus_wf s"
  shows "NewGPUVMInfos (filter P (map snd s)) = filter (\<lambda>e. P (snd e)) s"
proof -
  from assms have k: "\<forall>(k, g) \<in> set s. k = g_ID g" and "distinct (map fst s)"
    by (simp_all add: gpus_wf_def gm_wf_def)
  then have d: "distinct (map g_ID (map snd s))" by (intro distinct_keys_snd)
  from d have "distinct (map g_ID (filter P (map snd s)))" by (rule distinct_map_filter)
  then have "NewGPUVMInfos (filter P (map snd s)) = map (\<lambda>g. (g_ID g, g)) (filter P (map snd s))"
    unfolding NewGPUVMInfos_def GPUVMInfos_Insert_def by (subst fold_insert_distinct) auto
  also have "\<dots> = filter (\<lambda>e. P (snd e)) s" using k by (rule map_key_filter_snd)
  finally show ?thesis .
qed

lemma Hosts_Filter_Some:
  assumes "hosts_wf s"
  shows "Hosts_Filter s P = Some r \<longleftrightarrow>
    (\<forall>h \<in> snd ` set s. P h \<noteq> None) \<and> r = filter (\<lambda>e. P (snd e) = Some True) s"
  using NewHosts_filter [OF assms]
  by (auto simp: Hosts_Filter_def newFilteredHostCollection_def Hosts_UnsortedList_def filterP_Some)

lemma GPUVMInfos_Filter_Some:
  assumes "gpus_wf s"
  shows "GPUVMInfos_Filter s P = Some r \<longleftrightarrow>
    (\<forall>g \<in> snd ` set s. P g \<noteq> None) \<and> r = filter (\<lambda>e. P (snd e) = Some True) s"
  using NewGPUVMInfos_filter [OF assms]
  by (auto simp: GPUVMInfos_Filter_def GPUVMInfos_UnsortedList_def filterP_Some)

lemma hosts_wf_filter [simp]: "hosts_wf s \<Longrightarrow> hosts_wf (filter P s)"
  by (auto simp: hosts_wf_def)

lemma gpus_wf_filter [simp]: "gpus_wf s \<Longrightarrow> gpus_wf (filter P s)"
  by (auto simp: gpus_wf_def)

lemma set_gm_put_subset: "set (gm_put k v m) \<subseteq> insert (k, v) (set m)"
  by (induction m) auto

lemma hosts_wf_Insert [simp]: "hosts_wf s \<Longrightarrow> hosts_wf (Hosts_Insert s h)"
  using set_gm_put_subset [of "h_ID h" h s] by (auto simp: hosts_wf_def Hosts_Insert_def)

lemma hosts_wf_get: "hosts_wf s \<Longrightarrow> gm_get s k = Some h \<Longrightarrow> h_ID h = k"
  by (auto simp: hosts_wf_def dest: map_of_SomeD)

lemma Hosts_Find_Some:
  "hosts_wf s \<Longrightarrow> Hosts_Find s ids = Some r \<longleftrightarrow> r = filter (\<lambda>e. h_ID (snd e) \<in> set ids) s"
  by (simp add: Hosts_Find_def Hosts_Filter_Some)

lemma Hosts_Difference_Some:
  "hosts_wf s \<Longrightarrow> Hosts_Difference s o' = Some r \<longleftrightarrow>
     r = filter (\<lambda>e. gm_get o' (h_ID (snd e)) = None) s"
  by (simp add: Hosts_Difference_def Hosts_Filter_Some)

subsection \<open>Hosts\<close>

lemma IsAvailableHost_memory:
  "IsAvailableHost (Some h) memory = Some (True, msg) \<Longrightarrow> memory > 0 \<Longrightarrow>
     \<exists>mem. h_AllocatableMemoryBytes h = Some mem \<and> memory \<le> mem"
  by (auto simp: IsAvailableHost_def split: option.splits if_splits Option.bind_splits)

lemma IsAvailableHost_status:
  "IsAvailableHost (Some h) memory = Some (True, msg) \<Longrightarrow>
     \<exists>st. h_Status h = Some st \<and>
       st \<notin> {HostStatusCONNECTEDERROR, HostStatusSESSIONEXPIRED, HostStatusINITIALIZING} \<and>
       h_HostState h \<notin> {Some (Some MaintenanceModeEnumMAINTENANCEMODE),
                         Some (Some MaintenanceModeEnumENTERINGMAINTENANCEMODE)}"
  by (auto simp: IsAvailableHost_def split: option.splits if_splits Option.bind_splits)

subsection \<open>Virtual machines and identifiers\<close>

lemma matchUUID_length:
  "matchUUID ns s \<Longrightarrow> length s = sum_list ns + (length ns - 1)"
  by (induction ns s rule: matchUUID.induct) auto

lemma IsUUID_length: "IsUUID s \<Longrightarrow> length s = 36"
  by (auto simp: IsUUID_def dest: matchUUID_length split: if_splits)

lemma IsUUID_Nil [simp]: "\<not> IsUUID []"
  by (simp add: IsUUID_def)

text \<open>The chosen disk is one of the disks and no disk boots before it.\<close>

lemma systemDiskFrom_mem: "systemDiskFrom best ds = Some d \<Longrightarrow> d \<in> insert best (set ds)"
proof (induction ds arbitrary: best)
  case Nil
  then show ?case by simp
next
  case (Cons e ds)
  then obtain b bb where "systemDiskFrom (if b < (bb::int) then e else best) ds = Some d"
    by (auto simp: bind_eq_Some_conv)
  then have "d \<in> insert (if b < bb then e else best) (set ds)" by (rule Cons.IH)
  then show ?case by (auto split: if_splits)
qed

lemma systemDiskFrom_le_best:
  "systemDiskFrom best ds = Some d \<Longrightarrow> vd_Boot best = Some bb \<Longrightarrow> \<exists>b. vd_Boot d = Some b \<and> b \<le> bb"
proof (induction best ds arbitrary: bb rule: systemDiskFrom.induct)
  case (1 best)
  then show ?case by simp
next
  case (2 best e ds)
  then obtain b where b: "vd_Boot e = Some b"
    and r: "systemDiskFrom (if b < bb then e else best) ds = Some d"
    by (auto simp: bind_eq_Some_conv)
  have "\<exists>c. vd_Boot (if b < bb then e else best) = Some c \<and> c \<le> bb"
    using b "2.prems" by auto
  then show ?case using "2.IH" [OF b "2.prems"(2) r] by (meson order_trans)
qed

lemma systemDiskFrom_min:
  "systemDiskFrom best ds = Some d \<Longrightarrow> e \<in> set ds \<Longrightarrow>
     \<exists>b be. vd_Boot d = Some b \<and> vd_Boot e = Some be \<and> b \<le> be"
proof (induction best ds rule: systemDiskFrom.induct)
  case (1 best)
  then show ?case by simp
next
  case (2 best f ds)
  then obtain b bb where b: "vd_Boot f = Some b" "vd_Boot best = Some bb"
    and r: "systemDiskFrom (if b < bb then f else best) ds = Some d"
    by (auto simp: bind_eq_Some_conv)
  show ?case
  proof (cases "e = f")
    case True
    have "\<exists>c. vd_Boot (if b < bb then f else best) = Some c \<and> c \<le> b" using b by auto
    then show ?thesis using systemDiskFrom_le_best [OF r] b True by (meson order_trans)
  next
    case False
    with "2.prems" show ?thesis using "2.IH" [OF b r] by simp
  qed
qed

end
