(* ===== verification/Vm_Limiter.thy ===== *)
theory Vm_Limiter
  imports Tower_Util
begin

text \<open>
  \<^verbatim>\<open>controllers/vm_limiter.go\<close>: the process-wide tickets that limit VM creation,
  VM operations, placement-group operations and label garbage collection, and the table of
  GPU devices locked by virtual machines. The package variables form the record
  \<open>gstate\<close>; every function takes the cache library \<open>C\<close>, the reading \<open>now\<close> of
  the clock where it uses it, and the state, and returns the new state. A function that runs
  under a mutex is one atomic step.
\<close>

section \<open>Package state\<close>

record clusterResource =
  LastDetected :: int
  LastRetried :: int
  RequestAmount :: int

text \<open>
  The dynamic types stored in the caches. A recorded resource shortage is stored as a pointer
  (\<^verbatim>\<open>*clusterResource\<close>), so the entry holds an address of the store
  \<open>resHeap\<close> and updates through the pointer do not touch the cache entry.
\<close>

datatype cacheVal =
    CVNil
  | CVTime int
  | CVResource nat
  | CVPG vmPlacementGroup
  | CVGPU gpuVMInfo

record lockedGPUDevice =
  lg_ID :: string
  lg_Count :: int

record lockedVMGPUs =
  lk_HostID :: string
  lk_GPUDevices :: "lockedGPUDevice list"
  lk_LockedAt :: int

type_synonym lockedClusterGPUMap = "lockedVMGPUs gomap"

record 'c gstate =
  inMemoryCache :: 'c
  vmConcurrentCache :: 'c
  resHeap :: "clusterResource list"
  lockedGPUMap :: "lockedClusterGPUMap gomap"

definition vmCreationTimeout :: int where "vmCreationTimeout = 6 * time_Minute"
definition vmOperationRateLimit :: int where "vmOperationRateLimit = 6 * time_Second"
definition vmSilenceTime :: int where "vmSilenceTime = 5 * time_Minute"
definition placementGroupSilenceTime :: int where "placementGroupSilenceTime = 5 * time_Minute"
definition gpuLockTimeout :: int where "gpuLockTimeout = 8 * time_Minute"

lemmas limiter_time_defs =
  vmCreationTimeout_def vmOperationRateLimit_def vmSilenceTime_def placementGroupSilenceTime_def
  gpuLockTimeout_def time_defs

section \<open>Cache keys\<close>

definition getKeyForPlacementGroup :: "string \<Rightarrow> string" where
  "getKeyForPlacementGroup name = ''pg:'' @ name"

definition getKeyForPlacementGroupDuplicate :: "string \<Rightarrow> string" where
  "getKeyForPlacementGroupDuplicate name = ''pg:duplicate:'' @ name"

definition getKeyForVM :: "string \<Rightarrow> string" where
  "getKeyForVM name = ''vm:'' @ name"

definition getKeyForVMDuplicate :: "string \<Rightarrow> string" where
  "getKeyForVMDuplicate name = ''vm:duplicate:'' @ name"

definition getKeyForGCLabel :: "string \<Rightarrow> string" where
  "getKeyForGCLabel tower = ''label:gc:'' @ tower"

definition getKeyForGCLabelTime :: "string \<Rightarrow> string" where
  "getKeyForGCLabelTime tower = ''label:gc:time:'' @ tower"

lemmas limiter_key_defs =
  getKeyForPlacementGroup_def getKeyForPlacementGroupDuplicate_def getKeyForVM_def
  getKeyForVMDuplicate_def getKeyForGCLabel_def getKeyForGCLabelTime_def

section \<open>Tickets\<close>

definition acquireTicketForCreateVM ::
  "('c, cacheVal) gocache \<Rightarrow> config \<Rightarrow> int \<Rightarrow> string \<Rightarrow> bool \<Rightarrow> 'c gstate \<Rightarrow> (bool \<times> string) \<times> 'c gstate"
where
  "acquireTicketForCreateVM C cfg now vmName isControlPlaneVM g =
     (if cGet C (inMemoryCache g) now (getKeyForVMDuplicate vmName) \<noteq> None then
        ((False, ''Duplicate virtual machine detected''), g)
      else if isControlPlaneVM then ((True, []), g)
      else if cItemCount C (vmConcurrentCache g) \<ge> cfg_MaxConcurrentVMCreations cfg then
        ((False, ''The number of concurrently created VMs has reached the limit '' @
                 fmt_d (int (cfg_MaxConcurrentVMCreations cfg))), g)
      else
        ((True, []),
         g\<lparr>vmConcurrentCache :=
             cSet C (vmConcurrentCache g) now (getKeyForVM vmName) CVNil (Some vmCreationTimeout)\<rparr>))"

definition releaseTicketForCreateVM ::
  "('c, cacheVal) gocache \<Rightarrow> string \<Rightarrow> 'c gstate \<Rightarrow> 'c gstate" where
  "releaseTicketForCreateVM C vmName g =
     g\<lparr>vmConcurrentCache := cDelete C (vmConcurrentCache g) (getKeyForVM vmName)\<rparr>"

definition acquireTicketForUpdatingVM ::
  "('c, cacheVal) gocache \<Rightarrow> int \<Rightarrow> string \<Rightarrow> 'c gstate \<Rightarrow> bool \<times> 'c gstate" where
  "acquireTicketForUpdatingVM C now vmName g =
     (if cGet C (inMemoryCache g) now (getKeyForVM vmName) \<noteq> None then (False, g)
      else (True,
            g\<lparr>inMemoryCache :=
                cSet C (inMemoryCache g) now (getKeyForVM vmName) CVNil (Some vmOperationRateLimit)\<rparr>))"

definition setVMDuplicate ::
  "('c, cacheVal) gocache \<Rightarrow> int \<Rightarrow> string \<Rightarrow> 'c gstate \<Rightarrow> 'c gstate" where
  "setVMDuplicate C now vmName g =
     g\<lparr>inMemoryCache :=
         cSet C (inMemoryCache g) now (getKeyForVMDuplicate vmName) CVNil (Some vmSilenceTime)\<rparr>"

definition acquireTicketForPlacementGroupOperation ::
  "('c, cacheVal) gocache \<Rightarrow> int \<Rightarrow> string \<Rightarrow> 'c gstate \<Rightarrow> bool \<times> 'c gstate" where
  "acquireTicketForPlacementGroupOperation C now groupName g =
     (if cGet C (inMemoryCache g) now (getKeyForPlacementGroup groupName) \<noteq> None then (False, g)
      else (True,
            g\<lparr>inMemoryCache :=
                cSet C (inMemoryCache g) now (getKeyForPlacementGroup groupName) CVNil None\<rparr>))"

definition releaseTicketForPlacementGroupOperation ::
  "('c, cacheVal) gocache \<Rightarrow> string \<Rightarrow> 'c gstate \<Rightarrow> 'c gstate" where
  "releaseTicketForPlacementGroupOperation C groupName g =
     g\<lparr>inMemoryCache := cDelete C (inMemoryCache g) (getKeyForPlacementGroup groupName)\<rparr>"

definition setPlacementGroupDuplicate ::
  "('c, cacheVal) gocache \<Rightarrow> int \<Rightarrow> string \<Rightarrow> 'c gstate \<Rightarrow> 'c gstate" where
  "setPlacementGroupDuplicate C now groupName g =
     g\<lparr>inMemoryCache :=
         cSet C (inMemoryCache g) now (getKeyForPlacementGroupDuplicate groupName) CVNil
           (Some placementGroupSilenceTime)\<rparr>"

definition canCreatePlacementGroup ::
  "('c, cacheVal) gocache \<Rightarrow> int \<Rightarrow> string \<Rightarrow> 'c gstate \<Rightarrow> bool" where
  "canCreatePlacementGroup C now groupName g =
     (cGet C (inMemoryCache g) now (getKeyForPlacementGroupDuplicate groupName) = None)"

definition acquireLockForGCTowerLabels ::
  "('c, cacheVal) gocache \<Rightarrow> int \<Rightarrow> string \<Rightarrow> 'c gstate \<Rightarrow> bool \<times> 'c gstate" where
  "acquireLockForGCTowerLabels C now tower g =
     (if cGet C (inMemoryCache g) now (getKeyForGCLabel tower) \<noteq> None then (False, g)
      else
        (let key = getKeyForGCLabelTime tower;
             acquire = (\<lambda>c. (True, g\<lparr>inMemoryCache := cSet C c now (getKeyForGCLabel tower) CVNil None\<rparr>))
         in case cGet C (inMemoryCache g) now key of
              None \<Rightarrow> acquire (inMemoryCache g)
            | Some (CVTime lastGCTime) \<Rightarrow>
                if now < lastGCTime + 24 * time_Hour then (False, g) else acquire (inMemoryCache g)
            | Some _ \<Rightarrow> acquire (cDelete C (inMemoryCache g) key)))"

definition releaseLockForForGCTowerLabels ::
  "('c, cacheVal) gocache \<Rightarrow> string \<Rightarrow> 'c gstate \<Rightarrow> 'c gstate" where
  "releaseLockForForGCTowerLabels C tower g =
     g\<lparr>inMemoryCache := cDelete C (inMemoryCache g) (getKeyForGCLabel tower)\<rparr>"

definition recordGCTimeForTowerLabels ::
  "('c, cacheVal) gocache \<Rightarrow> int \<Rightarrow> string \<Rightarrow> 'c gstate \<Rightarrow> 'c gstate" where
  "recordGCTimeForTowerLabels C now tower g =
     g\<lparr>inMemoryCache := cSet C (inMemoryCache g) now (getKeyForGCLabelTime tower) (CVTime now) None\<rparr>"

section \<open>GPU locks\<close>

definition GetGPUIDs :: "lockedVMGPUs \<Rightarrow> string list" where
  "GetGPUIDs l = map lg_ID (lk_GPUDevices l)"

definition GetGPUDeviceInfos :: "lockedVMGPUs \<Rightarrow> gpuDeviceInfo list" where
  "GetGPUDeviceInfos l =
     map (\<lambda>d. \<lparr>gdi_ID = lg_ID d, gdi_HostID = [], gdi_AllocatedCount = lg_Count d,
              gdi_AvailableCount = 0\<rparr>) (lk_GPUDevices l)"

text \<open>
  The map of the cluster is shared with \<^verbatim>\<open>lockedGPUMap\<close>: deleting the expired
  entries changes the package state too.
\<close>

definition getLockedClusterGPUsWithoutLock ::
  "int \<Rightarrow> string \<Rightarrow> 'c gstate \<Rightarrow> lockedClusterGPUMap \<times> 'c gstate" where
  "getLockedClusterGPUsWithoutLock now clusterID g =
     (case gm_get (lockedGPUMap g) clusterID of
        None \<Rightarrow> ([], g)
      | Some m \<Rightarrow>
          (let m' = filter (\<lambda>e. now < lk_LockedAt (snd e) + gpuLockTimeout) m
           in (m', g\<lparr>lockedGPUMap := gm_put clusterID m' (lockedGPUMap g)\<rparr>)))"

definition addLockedCount :: "lockedGPUDevice \<Rightarrow> int gomap \<Rightarrow> int gomap" where
  "addLockedCount d m =
     (case gm_get m (lg_ID d) of
        Some count \<Rightarrow> gm_put (lg_ID d) (wrap32 (count + lg_Count d)) m
      | None \<Rightarrow> gm_put (lg_ID d) (lg_Count d) m)"

definition getLockedCountMapWithoutLock :: "lockedClusterGPUMap \<Rightarrow> int gomap" where
  "getLockedCountMapWithoutLock m =
     fold addLockedCount (concat (map (\<lambda>e. lk_GPUDevices (snd e)) m)) []"

definition lockGPUDevicesForVM ::
  "int \<Rightarrow> string \<Rightarrow> string \<Rightarrow> string \<Rightarrow> gpuDeviceInfo list \<Rightarrow> 'c gstate \<Rightarrow> bool \<times> 'c gstate"
where
  "lockGPUDevicesForVM now clusterID vmName hostID infos g =
     (let availableCounts =
            fold (\<lambda>i m. gm_put (gdi_ID i) (wrap32 (gdi_AvailableCount i - gdi_AllocatedCount i)) m) infos [];
          lockedGPUs = \<lparr>lk_HostID = hostID,
            lk_GPUDevices = map (\<lambda>i. \<lparr>lg_ID = gdi_ID i, lg_Count = gdi_AllocatedCount i\<rparr>) infos,
            lk_LockedAt = now\<rparr>;
          (lockedClusterGPUs, g) = getLockedClusterGPUsWithoutLock now clusterID g;
          lockedCountMap = getLockedCountMapWithoutLock lockedClusterGPUs
      in if list_ex (\<lambda>(gpuID, availableCount).
              case gm_get lockedCountMap gpuID of
                None \<Rightarrow> False
              | Some lockedCount \<Rightarrow> lockedCount > availableCount) availableCounts
         then (False, g)
         else (True, g\<lparr>lockedGPUMap :=
                 gm_put clusterID (gm_put vmName lockedGPUs lockedClusterGPUs) (lockedGPUMap g)\<rparr>))"

definition filterGPUVMInfosByLockGPUDevices ::
  "int \<Rightarrow> string \<Rightarrow> gpuVMInfos \<Rightarrow> 'c gstate \<Rightarrow> (gpuVMInfos \<times> 'c gstate) panics" where
  "filterGPUVMInfosByLockGPUDevices now clusterID infos g =
     (let (lockedClusterGPUs, g) = getLockedClusterGPUsWithoutLock now clusterID g;
          lockedCountMap = getLockedCountMapWithoutLock lockedClusterGPUs
      in do {
        r \<leftarrow> GPUVMInfos_Filter infos (\<lambda>i. do {
               availableCount \<leftarrow> GetAvailableCountFromGPUVMInfo i;
               Some (case gm_get lockedCountMap (g_ID i) of
                       None \<Rightarrow> True
                     | Some lockedCount \<Rightarrow> \<not> lockedCount \<ge> availableCount) });
        Some (r, g) })"

definition getGPUDevicesLockedByVM ::
  "int \<Rightarrow> string \<Rightarrow> string \<Rightarrow> 'c gstate \<Rightarrow> lockedVMGPUs option \<times> 'c gstate" where
  "getGPUDevicesLockedByVM now clusterID vmName g =
     (let (lockedClusterGPUs, g) = getLockedClusterGPUsWithoutLock now clusterID g
      in (gm_get lockedClusterGPUs vmName, g))"

definition unlockGPUDevicesLockedByVM ::
  "int \<Rightarrow> string \<Rightarrow> string \<Rightarrow> 'c gstate \<Rightarrow> 'c gstate" where
  "unlockGPUDevicesLockedByVM now clusterID vmName g =
     (let (lockedClusterGPUs, g) = getLockedClusterGPUsWithoutLock now clusterID g;
          lockedClusterGPUs = gm_del vmName lockedClusterGPUs
      in if lockedClusterGPUs = [] then g\<lparr>lockedGPUMap := gm_del clusterID (lockedGPUMap g)\<rparr>
         else g\<lparr>lockedGPUMap := gm_put clusterID lockedClusterGPUs (lockedGPUMap g)\<rparr>)"

section \<open>Lemmas: tickets\<close>

lemmas ticket_defs =
  acquireTicketForCreateVM_def releaseTicketForCreateVM_def acquireTicketForUpdatingVM_def
  setVMDuplicate_def acquireTicketForPlacementGroupOperation_def
  releaseTicketForPlacementGroupOperation_def setPlacementGroupDuplicate_def
  canCreatePlacementGroup_def

text \<open>
  The contract of a ticket: a holder excludes every other acquisition until the release.
\<close>

locale exclusive_ticket =
  fixes acquire :: "int \<Rightarrow> string \<Rightarrow> 's \<Rightarrow> bool \<times> 's"
    and release :: "string \<Rightarrow> 's \<Rightarrow> 's"
    and held :: "int \<Rightarrow> string \<Rightarrow> 's \<Rightarrow> bool"
  assumes acquire_ok: "fst (acquire t n s) \<longleftrightarrow> \<not> held t n s"
    and acquire_held: "fst (acquire t n s) \<Longrightarrow> t \<le> t' \<Longrightarrow> held t' n (snd (acquire t n s))"
    and acquire_fail: "\<not> fst (acquire t n s) \<Longrightarrow> snd (acquire t n s) = s"
    and release_free: "\<not> held t n (release n s)"
    and acquire_other: "n' \<noteq> n \<Longrightarrow> held t' n' (snd (acquire t n s)) \<Longrightarrow> t \<le> t' \<Longrightarrow> held t' n' s"
    and release_other: "n' \<noteq> n \<Longrightarrow> held t n' (release n s) = held t n' s"
begin

lemma second_acquire_fails:
  "fst (acquire t n s) \<Longrightarrow> t \<le> t' \<Longrightarrow> \<not> fst (acquire t' n (snd (acquire t n s)))"
  by (simp add: acquire_ok acquire_held)

lemma acquire_after_release: "fst (acquire t n (release n s))"
  by (simp add: acquire_ok release_free)

text \<open>Every sequence of foreign acquisitions between acquire and release is refused.\<close>

lemma foreign_acquires_fail:
  assumes "held t n s" and "t \<le> t'" and mono: "\<And>a b. a \<le> b \<Longrightarrow> held a n s \<Longrightarrow> held b n s"
  shows "acquire t' n s = (False, s)"
proof -
  from assms have "held t' n s" by blast
  then have f: "\<not> fst (acquire t' n s)" by (simp add: acquire_ok)
  then have "snd (acquire t' n s) = s" by (rule acquire_fail)
  with f show ?thesis by (simp add: prod_eq_iff)
qed

end

text \<open>A cache of the provider's values that satisfies the cache contract.\<close>

locale limiter_cache = go_cache C for C :: "('c, cacheVal) gocache"
begin

lemma getKeyForPlacementGroup_inj: "getKeyForPlacementGroup a = getKeyForPlacementGroup b \<longleftrightarrow> a = b"
  by (simp add: getKeyForPlacementGroup_def)

lemma pg_acquire_held:
  "fst (acquireTicketForPlacementGroupOperation C t n g) \<Longrightarrow> t \<le> t' \<Longrightarrow>
     cGet C (inMemoryCache (snd (acquireTicketForPlacementGroupOperation C t n g))) t'
       (getKeyForPlacementGroup n) = Some CVNil"
  by (auto simp: acquireTicketForPlacementGroupOperation_def cGet_set not_expired_def
      split: if_splits)

lemma pg_acquire_other_key:
  "k \<noteq> getKeyForPlacementGroup n \<Longrightarrow> t \<le> t' \<Longrightarrow>
     cGet C (inMemoryCache (snd (acquireTicketForPlacementGroupOperation C t n g))) t' k
       = cGet C (inMemoryCache g) t' k"
  by (auto simp: acquireTicketForPlacementGroupOperation_def cGet_set split: if_splits)

lemma pg_release_get:
  "cGet C (inMemoryCache (releaseTicketForPlacementGroupOperation C n g)) t k =
     (if k = getKeyForPlacementGroup n then None else cGet C (inMemoryCache g) t k)"
  by (simp add: releaseTicketForPlacementGroupOperation_def cGet_delete)

lemma update_ticket_window:
  assumes "fst (acquireTicketForUpdatingVM C t n g)" and "t \<le> t'"
  shows "fst (acquireTicketForUpdatingVM C t' n (snd (acquireTicketForUpdatingVM C t n g)))
           \<longleftrightarrow> t + vmOperationRateLimit < t'"
proof -
  from assms(1) have snd_eq: "snd (acquireTicketForUpdatingVM C t n g) =
      g\<lparr>inMemoryCache := cSet C (inMemoryCache g) t (getKeyForVM n) CVNil (Some vmOperationRateLimit)\<rparr>"
    by (simp add: acquireTicketForUpdatingVM_def split: if_splits)
  have pos: "0 < vmOperationRateLimit" by (simp add: limiter_time_defs)
  then have "cGet C (inMemoryCache (snd (acquireTicketForUpdatingVM C t n g))) t' (getKeyForVM n) =
      (if t' \<le> t + vmOperationRateLimit then Some CVNil else None)"
    unfolding snd_eq using assms(2) by (simp add: cGet_set not_expired_def)
  then show ?thesis by (auto simp: acquireTicketForUpdatingVM_def)
qed

lemma create_ticket_live:
  "live_keys C (vmConcurrentCache (snd (acquireTicketForCreateVM C cfg now n cp g))) now \<subseteq>
     insert (getKeyForVM n) (live_keys C (vmConcurrentCache g) now)"
  by (auto simp: acquireTicketForCreateVM_def live_keys_set limiter_time_defs split: if_splits)

lemma create_ticket_bound:
  assumes "card (live_keys C (vmConcurrentCache g) now) \<le> cfg_MaxConcurrentVMCreations cfg"
  shows "card (live_keys C (vmConcurrentCache (snd (acquireTicketForCreateVM C cfg now n cp g))) now)
           \<le> cfg_MaxConcurrentVMCreations cfg"
proof (cases "cItemCount C (vmConcurrentCache g) < cfg_MaxConcurrentVMCreations cfg")
  case True
  let ?A = "live_keys C (vmConcurrentCache g) now"
  have "card (live_keys C (vmConcurrentCache (snd (acquireTicketForCreateVM C cfg now n cp g))) now)
      \<le> card (insert (getKeyForVM n) ?A)"
    by (rule card_mono [OF _ create_ticket_live]) (simp add: live_finite)
  also have "\<dots> \<le> Suc (card ?A)" by (rule card_insert_le_m1) simp_all
  also have "\<dots> \<le> Suc (cItemCount C (vmConcurrentCache g))" using live_itemcount by simp
  also have "\<dots> \<le> cfg_MaxConcurrentVMCreations cfg" using True by simp
  finally show ?thesis .
next
  case False
  with assms show ?thesis by (simp add: acquireTicketForCreateVM_def)
qed

end

text \<open>The placement-group ticket is exclusive for every cache that satisfies the contract.\<close>

sublocale limiter_cache \<subseteq> pg: exclusive_ticket
  "acquireTicketForPlacementGroupOperation C" "releaseTicketForPlacementGroupOperation C"
  "\<lambda>t n g. cGet C (inMemoryCache g) t (getKeyForPlacementGroup n) \<noteq> None"
proof (standard, goal_cases)
  case (1 t n s)
  show ?case by (simp add: acquireTicketForPlacementGroupOperation_def)
next
  case (2 t n s t')
  then show ?case by (simp add: pg_acquire_held)
next
  case (3 t n s)
  then show ?case by (simp add: acquireTicketForPlacementGroupOperation_def split: if_splits)
next
  case (4 t n s)
  show ?case by (simp add: pg_release_get)
next
  case (5 n' n t' t s)
  then show ?case by (simp add: pg_acquire_other_key getKeyForPlacementGroup_inj)
next
  case (6 n' n t s)
  then show ?case by (simp add: pg_release_get getKeyForPlacementGroup_inj)
qed

context limiter_cache
begin

lemma pg_ticket_refused:
  assumes "acquireTicketForPlacementGroupOperation C t n g = (True, g')" and "t \<le> t'"
  shows "acquireTicketForPlacementGroupOperation C t' n g' = (False, g')"
proof -
  have "\<not> fst (acquireTicketForPlacementGroupOperation C t' n g')"
    using pg.second_acquire_fails [of t n g t'] assms by simp
  then show ?thesis using pg.acquire_fail by (metis prod.collapse)
qed

lemma pg_ticket_again:
  "fst (acquireTicketForPlacementGroupOperation C t n (releaseTicketForPlacementGroupOperation C n g))"
  by (rule pg.acquire_after_release)

end

interpretation lim: limiter_cache "ttl_cache :: (cacheVal ttl, cacheVal) gocache"
  by unfold_locales

section \<open>Lemmas: GPU locks\<close>

text \<open>The number of units of a device that the locks of a cluster hold.\<close>

definition devCount :: "lockedGPUDevice list \<Rightarrow> string \<Rightarrow> int" where
  "devCount ds i = sum_list (map lg_Count (filter (\<lambda>d. lg_ID d = i) ds))"

definition lockedTotal :: "lockedClusterGPUMap \<Rightarrow> string \<Rightarrow> int" where
  "lockedTotal m i = sum_list (map (\<lambda>e. devCount (lk_GPUDevices (snd e)) i) m)"

definition liveLocks :: "int \<Rightarrow> string \<Rightarrow> 'c gstate \<Rightarrow> lockedClusterGPUMap" where
  "liveLocks now clusterID g =
     (case gm_get (lockedGPUMap g) clusterID of
        None \<Rightarrow> []
      | Some m \<Rightarrow> filter (\<lambda>e. now < lk_LockedAt (snd e) + gpuLockTimeout) m)"

lemma wrap32_add_left [simp]: "wrap32 (wrap32 a + b) = wrap32 (a + b)"
proof -
  have "wrap32 a + b + 2 ^ 31 = (a + 2 ^ 31) mod 2 ^ 32 + b" by (simp add: wrap32_def)
  then have "(wrap32 a + b + 2 ^ 31) mod 2 ^ 32 = (a + 2 ^ 31 + b) mod 2 ^ 32"
    by (simp only: mod_add_left_eq)
  then show ?thesis by (simp add: wrap32_def algebra_simps)
qed

lemma fold_addLockedCount_Some:
  "gm_get m i = Some c \<Longrightarrow> is_int32 c \<Longrightarrow>
     gm_get (fold addLockedCount ds m) i = Some (wrap32 (c + devCount ds i))"
proof (induction ds arbitrary: m c)
  case Nil
  then show ?case by (simp add: devCount_def)
next
  case (Cons d ds)
  show ?case
  proof (cases "lg_ID d = i")
    case True
    with Cons.prems have "gm_get (addLockedCount d m) i = Some (wrap32 (c + lg_Count d))"
      by (simp add: addLockedCount_def gm_get_put)
    from Cons.IH [OF this] True show ?thesis by (simp add: devCount_def add.assoc)
  next
    case False
    with Cons.prems have "gm_get (addLockedCount d m) i = Some c"
      by (simp add: addLockedCount_def gm_get_put split: option.splits)
    from Cons.IH [OF this] Cons.prems False show ?thesis by (simp add: devCount_def)
  qed
qed

lemma fold_addLockedCount_None:
  "gm_get m i = None \<Longrightarrow> (\<forall>d \<in> set ds. is_int32 (lg_Count d)) \<Longrightarrow>
     gm_get (fold addLockedCount ds m) i =
       (if i \<in> lg_ID ` set ds then Some (wrap32 (devCount ds i)) else None)"
proof (induction ds arbitrary: m)
  case Nil
  then show ?case by simp
next
  case (Cons d ds)
  show ?case
  proof (cases "lg_ID d = i")
    case True
    with Cons.prems have "gm_get (addLockedCount d m) i = Some (lg_Count d)"
      by (simp add: addLockedCount_def gm_get_put)
    from fold_addLockedCount_Some [OF this, of ds] Cons.prems True show ?thesis
      by (simp add: devCount_def)
  next
    case False
    with Cons.prems have "gm_get (addLockedCount d m) i = None"
      by (simp add: addLockedCount_def gm_get_put split: option.splits)
    from Cons.IH [OF this] Cons.prems False show ?thesis by (simp add: devCount_def)
  qed
qed

lemma devCount_append: "devCount (xs @ ys) i = devCount xs i + devCount ys i"
  by (simp add: devCount_def)

lemma devCount_notin: "i \<notin> lg_ID ` set ds \<Longrightarrow> devCount ds i = 0"
  by (induction ds) (auto simp: devCount_def)

lemma devCount_concat:
  "devCount (concat (map (\<lambda>e. lk_GPUDevices (snd e)) m)) i = lockedTotal m i"
  by (induction m) (auto simp: lockedTotal_def devCount_append devCount_notin)

definition locks_int32 :: "lockedClusterGPUMap \<Rightarrow> bool" where
  "locks_int32 m \<longleftrightarrow>
     (\<forall>e \<in> set m. \<forall>d \<in> set (lk_GPUDevices (snd e)). 0 \<le> lg_Count d \<and> is_int32 (lg_Count d))"

lemma getLockedCountMap_get:
  assumes "locks_int32 m" and "is_int32 (lockedTotal m i)"
  shows "gm_get (getLockedCountMapWithoutLock m) i = Some (lockedTotal m i) \<or>
         gm_get (getLockedCountMapWithoutLock m) i = None \<and> lockedTotal m i = 0"
proof -
  let ?ds = "concat (map (\<lambda>e. lk_GPUDevices (snd e)) m)"
  have "gm_get (getLockedCountMapWithoutLock m) i =
      (if i \<in> lg_ID ` set ?ds then Some (wrap32 (devCount ?ds i)) else None)"
    unfolding getLockedCountMapWithoutLock_def
    by (rule fold_addLockedCount_None) (use assms(1) in \<open>auto simp: locks_int32_def\<close>)
  then show ?thesis
    using devCount_notin [of i ?ds] assms(2) by (simp add: devCount_concat)
qed

lemma getLockedClusterGPUs_fst: "fst (getLockedClusterGPUsWithoutLock now cid g) = liveLocks now cid g"
  by (simp add: getLockedClusterGPUsWithoutLock_def liveLocks_def Let_def split: option.splits)

lemma getLockedClusterGPUs_get:
  "gm_get (lockedGPUMap (snd (getLockedClusterGPUsWithoutLock now cid g))) c =
     (if c = cid then map_option (\<lambda>_. liveLocks now cid g) (gm_get (lockedGPUMap g) cid)
      else gm_get (lockedGPUMap g) c)"
  by (auto simp: getLockedClusterGPUsWithoutLock_def liveLocks_def Let_def gm_get_put
      split: option.splits)

text \<open>Pruning, looking up and filtering never change the locks that are still alive.\<close>

lemma liveLocks_prune [simp]:
  "liveLocks now c (snd (getLockedClusterGPUsWithoutLock now cid g)) = liveLocks now c g"
  by (auto simp: liveLocks_def getLockedClusterGPUs_get split: option.splits)

lemma liveLocks_unlock:
  "liveLocks now c (unlockGPUDevicesLockedByVM now cid n g) =
     (if c = cid then gm_del n (liveLocks now cid g) else liveLocks now c g)"
proof -
  let ?m = "liveLocks now cid g"
  have live: "filter (\<lambda>e. now < lk_LockedAt (snd e) + gpuLockTimeout) (gm_del n ?m) = gm_del n ?m"
    by (rule filter_True) (auto simp: liveLocks_def AList.delete_eq split: option.splits)
  obtain g' where g': "getLockedClusterGPUsWithoutLock now cid g = (?m, g')"
    by (metis getLockedClusterGPUs_fst prod.collapse)
  have get: "gm_get (lockedGPUMap g') c = (if c = cid then map_option (\<lambda>_. ?m) (gm_get (lockedGPUMap g) cid)
      else gm_get (lockedGPUMap g) c)"
    using getLockedClusterGPUs_get [of now cid g c] g' by simp
  show ?thesis
  proof (cases "c = cid")
    case True
    then show ?thesis
      using live by (simp add: unlockGPUDevicesLockedByVM_def g' Let_def liveLocks_def gm_get_put gm_get_del)
  next
    case False
    then show ?thesis
      using get by (simp add: unlockGPUDevicesLockedByVM_def g' Let_def liveLocks_def gm_get_put gm_get_del)
  qed
qed

lemma lockGPU_True:
  assumes "lockGPUDevicesForVM now cid n host infos g = (True, g')"
  shows "liveLocks now cid g' =
    gm_put n \<lparr>lk_HostID = host,
              lk_GPUDevices = map (\<lambda>i. \<lparr>lg_ID = gdi_ID i, lg_Count = gdi_AllocatedCount i\<rparr>) infos,
              lk_LockedAt = now\<rparr> (liveLocks now cid g)"
    (is "_ = gm_put n ?l ?m")
proof -
  obtain g1 where g1: "getLockedClusterGPUsWithoutLock now cid g = (?m, g1)"
    by (metis getLockedClusterGPUs_fst prod.collapse)
  from assms have g': "g' = g1\<lparr>lockedGPUMap := gm_put cid (gm_put n ?l ?m) (lockedGPUMap g1)\<rparr>"
    by (simp add: lockGPUDevicesForVM_def g1 Let_def split: if_splits)
  have "set (gm_put n ?l ?m) \<subseteq> insert (n, ?l) (set ?m)" by (rule set_gm_put_subset)
  then have "filter (\<lambda>e. now < lk_LockedAt (snd e) + gpuLockTimeout) (gm_put n ?l ?m) = gm_put n ?l ?m"
    by (intro filter_True) (auto simp: liveLocks_def limiter_time_defs split: option.splits)
  then show ?thesis by (simp add: g' liveLocks_def gm_get_put)
qed

lemma lockGPU_False:
  "lockGPUDevicesForVM now cid n host infos g = (False, g') \<Longrightarrow> liveLocks now c g' = liveLocks now c g"
proof -
  assume a: "lockGPUDevicesForVM now cid n host infos g = (False, g')"
  obtain g1 where g1: "getLockedClusterGPUsWithoutLock now cid g = (liveLocks now cid g, g1)"
    by (metis getLockedClusterGPUs_fst prod.collapse)
  from a have "g' = g1"
    by (simp add: lockGPUDevicesForVM_def g1 Let_def split: if_splits)
  then show ?thesis using liveLocks_prune [of now c cid g] g1 by simp
qed

lemma availableCounts_get:
  "distinct (map gdi_ID infos) \<Longrightarrow> i \<in> set infos \<Longrightarrow>
     (gdi_ID i, f i) \<in> set (fold (\<lambda>i m. gm_put (gdi_ID i) (f i) m) infos [])"
proof -
  assume d: "distinct (map gdi_ID infos)" and i: "i \<in> set infos"
  have get: "gm_get (fold (\<lambda>i m. gm_put (gdi_ID i) (f i) m) xs m) (gdi_ID i) =
      (if i \<in> set xs then Some (f i) else gm_get m (gdi_ID i))"
    if "distinct (map gdi_ID xs)" "set xs \<subseteq> set infos" for xs m
    using that
  proof (induction xs arbitrary: m)
    case (Cons x xs)
    have inj: "gdi_ID x = gdi_ID i \<longleftrightarrow> x = i"
      using d i Cons.prems by (auto simp: distinct_map dest: inj_onD)
    with Cons show ?case by (auto simp: gm_get_put)
  qed simp
  from get [OF d] i show ?thesis by (auto dest: map_of_SomeD)
qed

lemma lockedTotal_put_le:
  "locks_int32 m \<Longrightarrow> lockedTotal (gm_put n l m) i \<le> lockedTotal m i + devCount (lk_GPUDevices l) i"
proof (induction m)
  case Nil
  then show ?case by (simp add: lockedTotal_def)
next
  case (Cons e m)
  then have "0 \<le> devCount (lk_GPUDevices (snd e)) i"
    by (auto simp: locks_int32_def devCount_def intro!: sum_list_nonneg)
  with Cons show ?case by (auto simp: lockedTotal_def locks_int32_def)
qed

lemma devCount_infos:
  "distinct (map gdi_ID infos) \<Longrightarrow> i \<in> set infos \<Longrightarrow>
     devCount (map (\<lambda>i. \<lparr>lg_ID = gdi_ID i, lg_Count = gdi_AllocatedCount i\<rparr>) infos) (gdi_ID i)
       = gdi_AllocatedCount i"
proof (induction infos)
  case (Cons x xs)
  show ?case
  proof (cases "i = x")
    case True
    with Cons.prems have "gdi_ID i \<notin> lg_ID ` set (map (\<lambda>i. \<lparr>lg_ID = gdi_ID i, lg_Count = gdi_AllocatedCount i\<rparr>) xs)"
      by auto
    from devCount_notin [OF this] True show ?thesis by (simp add: devCount_def)
  next
    case False
    with Cons.prems have "gdi_ID x \<noteq> gdi_ID i" by auto
    with False Cons show ?thesis by (simp add: devCount_def)
  qed
qed simp

section \<open>Properties\<close>

text \<open>
  Property C9. GPU devices are never oversubscribed by locks: when locking the selected devices
  for a virtual machine succeeds, then for every selected device the units held by all locks
  of the cluster that are alive, including the new one, do not exceed the number of units
  that were available. The request names each device once and asks for no more than is
  available, the recorded counts are non-negative \<^verbatim>\<open>int32\<close> values and their
  sum fits in an \<^verbatim>\<open>int32\<close>.
\<close>

theorem gpu_lock_never_oversubscribes:
  assumes "lockGPUDevicesForVM now cid n host infos g = (True, g')"
    and "locks_int32 (liveLocks now cid g)"
    and "is_int32 (lockedTotal (liveLocks now cid g) (gdi_ID i))"
    and "distinct (map gdi_ID infos)" and "i \<in> set infos"
    and "0 \<le> gdi_AllocatedCount i" and "gdi_AllocatedCount i \<le> gdi_AvailableCount i"
    and "is_int32 (gdi_AvailableCount i)"
  shows "lockedTotal (liveLocks now cid g') (gdi_ID i) \<le> gdi_AvailableCount i"
proof -
  let ?m = "liveLocks now cid g"
  let ?f = "\<lambda>i. wrap32 (gdi_AvailableCount i - gdi_AllocatedCount i)"
  let ?av = "fold (\<lambda>i m. gm_put (gdi_ID i) (?f i) m) infos []"
  obtain g1 where g1: "getLockedClusterGPUsWithoutLock now cid g = (?m, g1)"
    by (metis getLockedClusterGPUs_fst prod.collapse)
  have "\<not> list_ex (\<lambda>(gpuID, availableCount).
      case gm_get (getLockedCountMapWithoutLock ?m) gpuID of None \<Rightarrow> False
      | Some lockedCount \<Rightarrow> lockedCount > availableCount) ?av"
    using assms(1) by (simp add: lockGPUDevicesForVM_def g1 Let_def split: if_splits)
  then have "gm_get (getLockedCountMapWithoutLock ?m) (gdi_ID i) = Some c \<Longrightarrow> c \<le> ?f i" for c
    using availableCounts_get [OF assms(4,5), of ?f] by (fastforce simp: list_ex_iff)
  moreover have "?f i = gdi_AvailableCount i - gdi_AllocatedCount i"
    using assms(6-8) by (simp add: is_int32_def)
  ultimately have "lockedTotal ?m (gdi_ID i) + gdi_AllocatedCount i \<le> gdi_AvailableCount i"
    using getLockedCountMap_get [OF assms(2,3)] assms(7) by auto
  then show ?thesis
    using lockedTotal_put_le [OF assms(2)] devCount_infos [OF assms(4,5)] lockGPU_True [OF assms(1)]
    by (metis (no_types, lifting) add_left_mono lockedVMGPUs.select_convs(2) order_trans)
qed

definition wit_gstate :: "cacheVal ttl gstate" where
  "wit_gstate = \<lparr>inMemoryCache = [], vmConcurrentCache = [], resHeap = [],
     lockedGPUMap = [(''c1'', [(''vm1'', \<lparr>lk_HostID = ''h1'',
        lk_GPUDevices = [\<lparr>lg_ID = ''g1'', lg_Count = 2\<rparr>], lk_LockedAt = 0\<rparr>)])]\<rparr>"

definition wit_gpu :: gpuDeviceInfo where
  "wit_gpu = \<lparr>gdi_ID = ''g1'', gdi_HostID = ''h1'', gdi_AllocatedCount = 2, gdi_AvailableCount = 4\<rparr>"

lemma wit_gpu_lock:
  "fst (lockGPUDevicesForVM 5 ''c1'' ''vm2'' ''h1'' [wit_gpu] wit_gstate)"
  "lockedTotal (liveLocks 5 ''c1'' wit_gstate) ''g1'' = 2"
  "locks_int32 (liveLocks 5 ''c1'' wit_gstate)"
  by (simp_all add: lockGPUDevicesForVM_def getLockedClusterGPUsWithoutLock_def wit_gstate_def
      wit_gpu_def Let_def limiter_time_defs getLockedCountMapWithoutLock_def addLockedCount_def wrap32_def
      lockedTotal_def liveLocks_def devCount_def locks_int32_def is_int32_def)

theorem gpu_lock_never_oversubscribes_witness:
  "lockedTotal (liveLocks 5 ''c1'' (snd (lockGPUDevicesForVM 5 ''c1'' ''vm2'' ''h1'' [wit_gpu] wit_gstate)))
     ''g1'' \<le> 4"
proof -
  have "lockGPUDevicesForVM 5 ''c1'' ''vm2'' ''h1'' [wit_gpu] wit_gstate =
      (True, snd (lockGPUDevicesForVM 5 ''c1'' ''vm2'' ''h1'' [wit_gpu] wit_gstate))"
    using wit_gpu_lock(1) by (metis prod.collapse)
  from gpu_lock_never_oversubscribes [OF this, of wit_gpu] wit_gpu_lock(2,3) show ?thesis
    by (simp add: wit_gpu_def is_int32_def)
qed

text \<open>
  Locking, reading back and unlocking the GPU devices of a virtual machine are
  consistent: after a successful lock the machine's own lock is read back with the locked
  devices as long as the lock timeout has not passed, and after an unlock no lock is read
  back.
\<close>

theorem gpu_lock_roundtrip:
  assumes "lockGPUDevicesForVM now cid n host infos g = (True, g')"
  shows "(\<exists>l. fst (getGPUDevicesLockedByVM now cid n g') = Some l \<and> lk_HostID l = host \<and>
      GetGPUIDs l = map gdi_ID infos \<and>
      map gdi_AllocatedCount (GetGPUDeviceInfos l) = map gdi_AllocatedCount infos) \<and>
    fst (getGPUDevicesLockedByVM now cid n (unlockGPUDevicesLockedByVM now cid n g')) = None"
proof -
  have get: "fst (getGPUDevicesLockedByVM now cid n x) = gm_get (liveLocks now cid x) n"
    for x :: "'a gstate"
    using getLockedClusterGPUs_fst [of now cid x]
    by (auto simp: getGPUDevicesLockedByVM_def split: prod.splits)
  show ?thesis
    by (simp add: get lockGPU_True [OF assms] gm_get_put GetGPUIDs_def GetGPUDeviceInfos_def comp_def
        liveLocks_unlock gm_get_del)
qed

theorem gpu_lock_roundtrip_witness:
  "fst (getGPUDevicesLockedByVM 5 ''c1'' ''vm2'' (unlockGPUDevicesLockedByVM 5 ''c1'' ''vm2''
     (snd (lockGPUDevicesForVM 5 ''c1'' ''vm2'' ''h1'' [wit_gpu] wit_gstate)))) = None"
proof -
  have "lockGPUDevicesForVM 5 ''c1'' ''vm2'' ''h1'' [wit_gpu] wit_gstate =
      (True, snd (lockGPUDevicesForVM 5 ''c1'' ''vm2'' ''h1'' [wit_gpu] wit_gstate))"
    using wit_gpu_lock(1) by (metis prod.collapse)
  from gpu_lock_roundtrip [OF this] show ?thesis by blast
qed

text \<open>
  The states of the creation limiter: no live ticket at the start; then time passes, tickets
  are acquired (for workers and control-plane machines) and released, and the other
  operations of the limiter run, in any order.
\<close>

inductive limiter_reach :: "('c, cacheVal) gocache \<Rightarrow> config \<Rightarrow> int \<Rightarrow> 'c gstate \<Rightarrow> bool"
  for C :: "('c, cacheVal) gocache" and cfg :: config
where
  start: "live_keys C (vmConcurrentCache g) t = {} \<Longrightarrow> limiter_reach C cfg t g"
| tick: "limiter_reach C cfg t g \<Longrightarrow> t \<le> t' \<Longrightarrow> limiter_reach C cfg t' g"
| create: "limiter_reach C cfg t g \<Longrightarrow>
     limiter_reach C cfg t (snd (acquireTicketForCreateVM C cfg t n cp g))"
| release: "limiter_reach C cfg t g \<Longrightarrow> limiter_reach C cfg t (releaseTicketForCreateVM C n g)"
| update: "limiter_reach C cfg t g \<Longrightarrow>
     limiter_reach C cfg t (snd (acquireTicketForUpdatingVM C t n g))"
| duplicate: "limiter_reach C cfg t g \<Longrightarrow> limiter_reach C cfg t (setVMDuplicate C t n g)"
| pg_acquire: "limiter_reach C cfg t g \<Longrightarrow>
     limiter_reach C cfg t (snd (acquireTicketForPlacementGroupOperation C t n g))"
| pg_release: "limiter_reach C cfg t g \<Longrightarrow>
     limiter_reach C cfg t (releaseTicketForPlacementGroupOperation C n g)"

text \<open>
  At every reachable state of the limiter the number of live creation tickets of
  worker machines is at most \<^verbatim>\<open>MaxConcurrentVMCreations\<close>, for every cache that
  satisfies the documented cache contract.
\<close>

theorem create_ticket_limit:
  assumes "limiter_cache C" and "limiter_reach C cfg t g"
  shows "card (live_keys C (vmConcurrentCache g) t) \<le> cfg_MaxConcurrentVMCreations cfg"
  using assms(2)
proof (induction rule: limiter_reach.induct)
  case (tick t g t')
  have gc: "go_cache C" using assms(1) by (rule limiter_cache.axioms)
  have "card (live_keys C (vmConcurrentCache g) t') \<le> card (live_keys C (vmConcurrentCache g) t)"
    by (rule card_mono) (simp_all add: go_cache.live_finite [OF gc] go_cache.live_keys_antimono [OF gc] tick)
  with tick.IH show ?case by linarith
next
  case (create t g n cp)
  then show ?case by (intro limiter_cache.create_ticket_bound [OF assms(1)])
next
  case (release t g n)
  have gc: "go_cache C" using assms(1) by (rule limiter_cache.axioms)
  have "card (live_keys C (vmConcurrentCache (releaseTicketForCreateVM C n g)) t) \<le>
      card (live_keys C (vmConcurrentCache g) t)"
    by (rule card_mono)
      (auto simp: releaseTicketForCreateVM_def go_cache.live_keys_delete [OF gc] go_cache.live_finite [OF gc])
  with release.IH show ?case by linarith
qed (auto simp: ticket_defs)

theorem create_ticket_limit_witness:
  "card (live_keys ttl_cache (vmConcurrentCache
     (snd (acquireTicketForCreateVM ttl_cache
        \<lparr>cfg_DefaultRequeueTimeout = 10, cfg_WaitTaskInterval = 1,
         cfg_WaitTaskTimeoutForPlacementGroupOperation = 10, cfg_VMPowerStatusCheckingDuration = 120,
         cfg_VMNumCPUs = 2, cfg_VMMemoryMiB = 2048, cfg_NameserverLimit = 3,
         cfg_MaxConcurrentVMCreations = 1\<rparr> 7 ''vm1'' False wit_gstate))) 7) \<le> 1"
proof -
  define cfg where "cfg = \<lparr>cfg_DefaultRequeueTimeout = 10, cfg_WaitTaskInterval = 1,
         cfg_WaitTaskTimeoutForPlacementGroupOperation = 10, cfg_VMPowerStatusCheckingDuration = 120,
         cfg_VMNumCPUs = 2, cfg_VMMemoryMiB = 2048, cfg_NameserverLimit = 3,
         cfg_MaxConcurrentVMCreations = 1\<rparr>"
  have "live_keys ttl_cache (vmConcurrentCache wit_gstate) 7 = {}"
    by (simp add: live_keys_def ttl_cache_def ttl_get_def wit_gstate_def)
  then have "limiter_reach ttl_cache cfg 7 (snd (acquireTicketForCreateVM ttl_cache cfg 7 ''vm1'' False wit_gstate))"
    by (intro limiter_reach.create limiter_reach.start)
  from create_ticket_limit [OF lim.limiter_cache_axioms this] show ?thesis
    by (simp add: cfg_def)
qed

text \<open>
  Property C11. A placement-group ticket is exclusive: once it is acquired, every other
  acquisition for the same group, at any later time, fails and changes nothing, until the
  holder releases it; after the release the next acquisition succeeds.
\<close>

theorem pg_ticket_exclusive:
  assumes "limiter_cache C"
    and "acquireTicketForPlacementGroupOperation C t n g = (True, g')" and "t \<le> t'"
  shows "acquireTicketForPlacementGroupOperation C t' n g' = (False, g') \<and>
    fst (acquireTicketForPlacementGroupOperation C t' n (releaseTicketForPlacementGroupOperation C n g'))"
  using limiter_cache.pg_ticket_refused [OF assms] limiter_cache.pg_ticket_again [OF assms(1)] by simp

theorem pg_ticket_exclusive_witness:
  "\<not> fst (acquireTicketForPlacementGroupOperation ttl_cache 9 ''pg1''
     (snd (acquireTicketForPlacementGroupOperation ttl_cache 7 ''pg1'' wit_gstate)))"
proof -
  have "acquireTicketForPlacementGroupOperation ttl_cache 7 ''pg1'' wit_gstate =
      (True, snd (acquireTicketForPlacementGroupOperation ttl_cache 7 ''pg1'' wit_gstate))"
    by (simp add: acquireTicketForPlacementGroupOperation_def ttl_cache_def ttl_get_def wit_gstate_def)
  from pg_ticket_exclusive [OF lim.limiter_cache_axioms this, of 9] show ?thesis by simp
qed

text \<open>
  The rate limit of VM operations: after an operation on a machine got its ticket,
  a later operation on it gets one exactly when more than the rate-limit interval of six
  seconds has passed.
\<close>

theorem vm_operation_rate_limit:
  assumes "limiter_cache C"
    and "acquireTicketForUpdatingVM C t n g = (True, g')" and "t \<le> t'"
  shows "fst (acquireTicketForUpdatingVM C t' n g') \<longleftrightarrow> t + 6 * 10 ^ 9 < t'"
  using limiter_cache.update_ticket_window [OF assms(1), of t n g t'] assms(2,3)
  by (simp add: limiter_time_defs)

theorem vm_operation_rate_limit_witness:
  "\<not> fst (acquireTicketForUpdatingVM ttl_cache 8 ''vm1''
     (snd (acquireTicketForUpdatingVM ttl_cache 7 ''vm1'' wit_gstate)))"
proof -
  have "acquireTicketForUpdatingVM ttl_cache 7 ''vm1'' wit_gstate =
      (True, snd (acquireTicketForUpdatingVM ttl_cache 7 ''vm1'' wit_gstate))"
    by (simp add: acquireTicketForUpdatingVM_def ttl_cache_def ttl_get_def wit_gstate_def)
  from vm_operation_rate_limit [OF lim.limiter_cache_axioms this, of 8] show ?thesis by simp
qed

end
