(* ===== verification/Cloud_Init.thy ===== *)
theory Cloud_Init
  imports Prelude
begin

text \<open>
  \<^verbatim>\<open>controllers/elfmachine_controller_cloudinit.go\<close>: the rewriting of the bootstrap
  data before a virtual machine is cloned. The YAML package is a parameter
  (\<open>yamlLib\<close>): its parser gives a tree of nodes, which the code mutates through
  pointers; here the mutated node is returned and stored at the position where it was found.
  The fields of a node that the code neither reads nor writes (style, anchor, comments,
  position) are one opaque string.
\<close>

section \<open>Nodes\<close>

datatype yamlKind = ZeroKind | DocumentNode | SequenceNode | MappingNode | ScalarNode | AliasNode

datatype yamlNode =
  YNode (Kind: yamlKind) (Tag: string) (Value: string) (Content: "yamlNode list") (Rest: string)

record yamlLib =
  yUnmarshal :: "string \<Rightarrow> yamlNode option"  \<comment> \<open>the document node, or an error\<close>
  yDecode :: "string \<Rightarrow> yamlNode list \<times> bool"  \<comment> \<open>the documents read, and whether the end was reached\<close>
  yMarshal :: "yamlNode \<Rightarrow> go_error + string"

definition setContent :: "yamlNode list \<Rightarrow> yamlNode \<Rightarrow> yamlNode" where
  "setContent cs n = YNode (Kind n) (Tag n) (Value n) cs (Rest n)"

definition setTagValue :: "string \<Rightarrow> string \<Rightarrow> yamlNode \<Rightarrow> yamlNode" where
  "setTagValue t v n = YNode (Kind n) t v (Content n) (Rest n)"

definition kubeadmAPIVersionV1Beta3 :: string where "kubeadmAPIVersionV1Beta3 = ''kubeadm.k8s.io/v1beta3''"
definition kubeadmAPIVersionV1Beta4 :: string where "kubeadmAPIVersionV1Beta4 = ''kubeadm.k8s.io/v1beta4''"
definition kubeadmProviderIDValue :: string where
  "kubeadmProviderIDValue = ''elf://{{ ds.meta_data.instance_id }}''"
definition yamlTagString :: string where "yamlTagString = ''!!str''"

definition newStringYAMLNode :: "string \<Rightarrow> yamlNode" where
  "newStringYAMLNode value = YNode ScalarNode yamlTagString value [] []"

definition newScalarNodes :: "string list \<Rightarrow> yamlNode list" where
  "newScalarNodes values = map newStringYAMLNode values"

text \<open>The loop over the pairs of keys and values of a mapping.\<close>

fun pairLookup :: "yamlNode list \<Rightarrow> string \<Rightarrow> yamlNode option" where
  "pairLookup (k # v # r) key = (if Value k = key then Some v else pairLookup r key)"
| "pairLookup _ key = None"

fun pairStore :: "string \<Rightarrow> yamlNode \<Rightarrow> yamlNode list \<Rightarrow> yamlNode list" where
  "pairStore key x (k # v # r) = (if Value k = key then k # x # r else k # v # pairStore key x r)"
| "pairStore key x r = r"

definition findYAMLMapValue :: "yamlNode option \<Rightarrow> string \<Rightarrow> yamlNode option" where
  "findYAMLMapValue n key =
     (case n of
        None \<Rightarrow> None
      | Some n \<Rightarrow> if Kind n \<noteq> MappingNode then None else pairLookup (Content n) key)"

text \<open>The node after the value found under a key was changed in place.\<close>

definition storeYAMLMapValue :: "string \<Rightarrow> yamlNode \<Rightarrow> yamlNode \<Rightarrow> yamlNode" where
  "storeYAMLMapValue key x n = setContent (pairStore key x (Content n)) n"

definition getYAMLMapString :: "yamlNode option \<Rightarrow> string \<Rightarrow> string" where
  "getYAMLMapString n key =
     (case findYAMLMapValue n key of
        None \<Rightarrow> []
      | Some v \<Rightarrow> if Kind v \<noteq> ScalarNode then [] else Value v)"

definition appendYAMLMapValue :: "yamlNode \<Rightarrow> string \<Rightarrow> yamlNode \<Rightarrow> yamlNode" where
  "appendYAMLMapValue parent key value = setContent (Content parent @ [newStringYAMLNode key, value]) parent"

definition upsertYAMLMapString :: "yamlNode \<Rightarrow> string \<Rightarrow> string \<Rightarrow> bool \<times> yamlNode" where
  "upsertYAMLMapString parent key value =
     (case findYAMLMapValue (Some parent) key of
        None \<Rightarrow> (True, appendYAMLMapValue parent key (newStringYAMLNode value))
      | Some existing \<Rightarrow>
          if Kind existing \<noteq> ScalarNode then (False, parent)
          else if Value existing = value then (False, parent)
          else (True, storeYAMLMapValue key (setTagValue yamlTagString value existing) parent))"

definition newNamedValueMappingNode :: "string \<Rightarrow> string \<Rightarrow> yamlNode" where
  "newNamedValueMappingNode name value =
     (let node = YNode MappingNode ''!!map'' [] [] [];
          node = appendYAMLMapValue node ''name'' (newStringYAMLNode name)
      in appendYAMLMapValue node ''value'' (newStringYAMLNode value))"

text \<open>The loop over the items; \<^term>\<open>None\<close> when no item has the name.\<close>

fun upsertNamedItem :: "yamlNode list \<Rightarrow> string \<Rightarrow> string \<Rightarrow> (bool \<times> yamlNode list) option" where
  "upsertNamedItem [] name value = None"
| "upsertNamedItem (item # items) name value =
     (if Kind item \<noteq> MappingNode then map_option (map_prod id ((#) item)) (upsertNamedItem items name value)
      else
        (case findYAMLMapValue (Some item) ''name'' of
           None \<Rightarrow> map_option (map_prod id ((#) item)) (upsertNamedItem items name value)
         | Some itemName \<Rightarrow>
             if Value itemName \<noteq> name then map_option (map_prod id ((#) item)) (upsertNamedItem items name value)
             else
               (let (changed, item') = upsertYAMLMapString item ''value'' value
                in Some (changed, item' # items))))"

definition upsertNamedValueSequenceItem :: "yamlNode \<Rightarrow> string \<Rightarrow> string \<Rightarrow> bool \<times> yamlNode" where
  "upsertNamedValueSequenceItem s name value =
     (case upsertNamedItem (Content s) name value of
        Some (changed, items) \<Rightarrow> (changed, setContent items s)
      | None \<Rightarrow> (True, setContent (Content s @ [newNamedValueMappingNode name value]) s))"

text \<open>The child and the parent, which has the child appended when it was missing.\<close>

definition ensureYAMLMappingValue :: "yamlNode \<Rightarrow> string \<Rightarrow> yamlNode option \<times> yamlNode" where
  "ensureYAMLMappingValue parent key =
     (if Kind parent \<noteq> MappingNode then (None, parent)
      else
        (case findYAMLMapValue (Some parent) key of
           Some existing \<Rightarrow> if Kind existing \<noteq> MappingNode then (None, parent) else (Some existing, parent)
         | None \<Rightarrow>
             (let child = YNode MappingNode ''!!map'' [] [] []
              in (Some child, appendYAMLMapValue parent key child))))"

section \<open>Headers\<close>

fun strSplitNL :: "string \<Rightarrow> string list" where
  "strSplitNL [] = [[]]"
| "strSplitNL (c # s) =
     (if c = CHR 0x0A then [] # strSplitNL s
      else (case strSplitNL s of l # ls \<Rightarrow> (c # l) # ls | [] \<Rightarrow> [[c]]))"

definition isBlank :: "string \<Rightarrow> bool" where "isBlank l = (strTrimSpace l = [])"

definition NL :: string where "NL = [CHR 0x0A]"

definition splitCloudConfigHeader :: "string \<Rightarrow> string \<times> string" where
  "splitCloudConfigHeader data =
     (let ls = strSplitNL data;
          jinja = (case ls of l # _ \<Rightarrow> strTrimSpace l = ''## template: jinja'' | [] \<Rightarrow> False);
          header = (if jinja then take 1 ls else []);
          rest = (if jinja then drop 1 ls else ls)
      in case rest of
           [] \<Rightarrow> ([], data)
         | l # r \<Rightarrow>
             if strTrimSpace l \<noteq> ''#cloud-config'' then ([], data)
             else (strJoin (header @ [l]) NL, strJoin (dropWhile isBlank r) NL))"

definition splitYAMLDocumentHeader :: "string \<Rightarrow> string \<times> string" where
  "splitYAMLDocumentHeader data =
     (case strSplitNL data of
        [] \<Rightarrow> ([], data)
      | l # r \<Rightarrow> if strTrimSpace l \<noteq> ''---'' then ([], data) else (l, strJoin (dropWhile isBlank r) NL))"

section \<open>Parsing and printing\<close>

definition parseYAMLMapping :: "yamlLib \<Rightarrow> string \<Rightarrow> yamlNode option" where
  "parseYAMLMapping Y data =
     (case yUnmarshal Y data of
        None \<Rightarrow> None
      | Some document \<Rightarrow>
          (case Content document of
             [] \<Rightarrow> None
           | n # _ \<Rightarrow> if Kind n \<noteq> MappingNode then None else Some n))"

definition parseYAMLDocuments :: "yamlLib \<Rightarrow> string \<Rightarrow> yamlNode list option" where
  "parseYAMLDocuments Y data =
     (let (documents, eof) = yDecode Y data;
          roots = concat (map (\<lambda>d. case Content d of [] \<Rightarrow> [] | n # _ \<Rightarrow> [n]) documents)
      in if \<not> eof then None else if roots = [] then None else Some roots)"

definition strTrimSuffixNL :: "string \<Rightarrow> string" where
  "strTrimSuffixNL s = (if s \<noteq> [] \<and> last s = CHR 0x0A then butlast s else s)"

fun renderAll :: "yamlLib \<Rightarrow> yamlNode list \<Rightarrow> go_error + string list" where
  "renderAll Y [] = Inr []"
| "renderAll Y (d # ds) =
     (case yMarshal Y d of
        Inl e \<Rightarrow> Inl e
      | Inr m \<Rightarrow> (case renderAll Y ds of Inl e \<Rightarrow> Inl e | Inr ms \<Rightarrow> Inr (strTrimSuffixNL m # ms)))"

definition marshalYAMLDocuments :: "yamlLib \<Rightarrow> yamlNode list \<Rightarrow> string \<Rightarrow> go_error + string" where
  "marshalYAMLDocuments Y documents header =
     (case renderAll Y documents of
        Inl e \<Rightarrow> Inl e
      | Inr rendered \<Rightarrow>
          Inr ((if header \<noteq> [] then header @ NL else []) @ strJoin rendered (NL @ ''---'' @ NL) @ NL))"

section \<open>The kubeadm configuration\<close>

definition isKubeadmConfigWriteFile :: "string \<Rightarrow> bool" where
  "isKubeadmConfigWriteFile path = (strHasPrefix path ''/run/kubeadm/'' \<and> suffix ''.yaml'' path)"

definition isKubeadmNodeRegistrationDocument :: "yamlNode \<Rightarrow> bool" where
  "isKubeadmNodeRegistrationDocument root =
     (let kind = getYAMLMapString (Some root) ''kind''
      in kind = ''InitConfiguration'' \<or> kind = ''JoinConfiguration'')"

text \<open>
  The node registration and whether it changed. A missing child is appended to the node
  registration, which panics when that is nil.
\<close>

definition ensureKubeletProviderID ::
  "yamlNode \<Rightarrow> yamlNode option \<Rightarrow> (bool \<times> yamlNode option) panics" where
  "ensureKubeletProviderID root nodeRegistration =
     (case findYAMLMapValue nodeRegistration ''kubeletExtraArgs'' of
        None \<Rightarrow>
          (let version = getYAMLMapString (Some root) ''apiVersion'' in
           if version = kubeadmAPIVersionV1Beta3 then do {
             n \<leftarrow> nodeRegistration;
             let (changed, args) = upsertYAMLMapString (YNode MappingNode ''!!map'' [] [] []) ''provider-id'' kubeadmProviderIDValue;
             Some (changed, Some (appendYAMLMapValue n ''kubeletExtraArgs'' args)) }
           else if version = kubeadmAPIVersionV1Beta4 then do {
             n \<leftarrow> nodeRegistration;
             let (changed, args) =
               upsertNamedValueSequenceItem (YNode SequenceNode ''!!seq'' [] [] []) ''provider-id'' kubeadmProviderIDValue;
             Some (changed, Some (appendYAMLMapValue n ''kubeletExtraArgs'' args)) }
           else Some (False, nodeRegistration))
      | Some args \<Rightarrow>
          (let store = (\<lambda>(changed, args). (changed, map_option (storeYAMLMapValue ''kubeletExtraArgs'' args) nodeRegistration)) in
           if Kind args = MappingNode then
             Some (store (upsertYAMLMapString args ''provider-id'' kubeadmProviderIDValue))
           else if Kind args = SequenceNode then
             Some (store (upsertNamedValueSequenceItem args ''provider-id'' kubeadmProviderIDValue))
           else Some (False, nodeRegistration)))"

definition ensureKubeadmNodeRegistration :: "yamlNode \<Rightarrow> (bool \<times> yamlNode) panics" where
  "ensureKubeadmNodeRegistration root = do {
     let (nodeRegistration, root) = ensureYAMLMappingValue root ''nodeRegistration'';
     (changed, nodeRegistration) \<leftarrow> ensureKubeletProviderID root nodeRegistration;
     Some (changed, case nodeRegistration of None \<Rightarrow> root | Some n \<Rightarrow> storeYAMLMapValue ''nodeRegistration'' n root) }"

fun ensureKubeadmNodeRegistrationDocuments :: "yamlNode list \<Rightarrow> (bool \<times> yamlNode list) panics" where
  "ensureKubeadmNodeRegistrationDocuments [] = Some (False, [])"
| "ensureKubeadmNodeRegistrationDocuments (document # documents) = do {
     (changed, document) \<leftarrow> (if \<not> isKubeadmNodeRegistrationDocument document then Some (False, document)
                            else ensureKubeadmNodeRegistration document);
     (changed', documents) \<leftarrow> ensureKubeadmNodeRegistrationDocuments documents;
     Some (changed \<or> changed', document # documents) }"

definition ensureKubeadmConfigContent :: "yamlLib \<Rightarrow> yamlNode \<Rightarrow> (go_error + bool \<times> yamlNode) panics" where
  "ensureKubeadmConfigContent Y content =
     (if Kind content \<noteq> ScalarNode \<or> (Tag content \<noteq> [] \<and> Tag content \<noteq> yamlTagString)
      then Some (Inr (False, content))
      else
        (let (header, body) = splitYAMLDocumentHeader (Value content)
         in case parseYAMLDocuments Y body of
              None \<Rightarrow> Some (Inr (False, content))
            | Some documents \<Rightarrow> do {
                (changed, documents) \<leftarrow> ensureKubeadmNodeRegistrationDocuments documents;
                if \<not> changed then Some (Inr (False, content))
                else
                  (case marshalYAMLDocuments Y documents header of
                     Inl err \<Rightarrow>
                       Some (Inl (ErrWrapf ''failed to marshal kubeadm config after ensuring provider-id'' err))
                   | Inr marshaled \<Rightarrow> Some (Inr (True, setTagValue yamlTagString marshaled content))) }))"

section \<open>The mutators\<close>

definition desiredCommands :: "string \<Rightarrow> string list" where
  "desiredCommands hostName =
     [''echo \"::1         ipv6-localhost ipv6-loopback\" >/etc/hosts'',
      ''echo \"127.0.0.1   localhost\" >>/etc/hosts'',
      ''echo \"127.0.0.1   '' @ hostName @ ''\" >>/etc/hosts'']"

definition ensureHostnameCommandsInRunCmd :: "yamlNode \<Rightarrow> string \<Rightarrow> (bool \<times> yamlNode) panics" where
  "ensureHostnameCommandsInRunCmd root hostName =
     (if hostName = [] then Some (False, root)
      else do {
        runcmd \<leftarrow> findYAMLMapValue (Some root) ''runcmd'';
        Some (True, storeYAMLMapValue ''runcmd''
          (setContent (newScalarNodes (desiredCommands hostName) @ Content runcmd) runcmd) root) })"

definition ensureWriteFile :: "yamlLib \<Rightarrow> yamlNode \<Rightarrow> (go_error + bool \<times> yamlNode) panics" where
  "ensureWriteFile Y item =
     (if Kind item \<noteq> MappingNode then Some (Inr (False, item))
      else
        (case (findYAMLMapValue (Some item) ''path'', findYAMLMapValue (Some item) ''content'') of
           (Some path, Some content) \<Rightarrow>
             if \<not> isKubeadmConfigWriteFile (Value path) then Some (Inr (False, item))
             else do {
               r \<leftarrow> ensureKubeadmConfigContent Y content;
               Some (case r of
                       Inl err \<Rightarrow> Inl err
                     | Inr (updated, content) \<Rightarrow> Inr (updated, storeYAMLMapValue ''content'' content item)) }
         | _ \<Rightarrow> Some (Inr (False, item))))"

fun ensureWriteFiles :: "yamlLib \<Rightarrow> yamlNode list \<Rightarrow> (go_error + bool \<times> yamlNode list) panics" where
  "ensureWriteFiles Y [] = Some (Inr (False, []))"
| "ensureWriteFiles Y (item # items) = do {
     r \<leftarrow> ensureWriteFile Y item;
     case r of
       Inl err \<Rightarrow> Some (Inl err)
     | Inr (changed, item) \<Rightarrow> do {
         r \<leftarrow> ensureWriteFiles Y items;
         Some (case r of Inl err \<Rightarrow> Inl err | Inr (changed', items) \<Rightarrow> Inr (changed \<or> changed', item # items)) } }"

definition ensureKubeadmConfigInWriteFiles :: "yamlLib \<Rightarrow> yamlNode \<Rightarrow> (go_error + bool \<times> yamlNode) panics" where
  "ensureKubeadmConfigInWriteFiles Y root =
     (case findYAMLMapValue (Some root) ''write_files'' of
        None \<Rightarrow> Some (Inr (False, root))
      | Some writeFiles \<Rightarrow>
          if Kind writeFiles \<noteq> SequenceNode then Some (Inr (False, root))
          else do {
            r \<leftarrow> ensureWriteFiles Y (Content writeFiles);
            Some (case r of
                    Inl err \<Rightarrow> Inl err
                  | Inr (changed, items) \<Rightarrow>
                      Inr (changed, storeYAMLMapValue ''write_files'' (setContent items writeFiles) root)) })"

definition patchCloudInitBootstrapData :: "yamlLib \<Rightarrow> string \<Rightarrow> string \<Rightarrow> (go_error + string) panics" where
  "patchCloudInitBootstrapData Y bootstrapData hostName =
     (let (header, body) = splitCloudConfigHeader bootstrapData
      in case parseYAMLMapping Y body of
           None \<Rightarrow> Some (Inr bootstrapData)
         | Some root \<Rightarrow> do {
             (changed1, root) \<leftarrow> ensureHostnameCommandsInRunCmd root hostName;
             r \<leftarrow> ensureKubeadmConfigInWriteFiles Y root;
             case r of
               Inl err \<Rightarrow> Some (Inl err)
             | Inr (changed2, root) \<Rightarrow>
                 if \<not> (changed1 \<or> changed2) then Some (Inr bootstrapData)
                 else
                   (case yMarshal Y root of
                      Inl err \<Rightarrow>
                        Some (Inl (ErrWrapf ''failed to marshal bootstrap data after mutating cloud-init'' err))
                    | Inr marshaled \<Rightarrow>
                        if header = [] then Some (Inr marshaled)
                        else Some (Inr (header @ NL @ marshaled))) })"

section \<open>Lemmas: mappings\<close>

text \<open>What the parser guarantees of a tree: a mapping has as many keys as values.\<close>

fun yaml_wf :: "yamlNode \<Rightarrow> bool" where
  "yaml_wf (YNode k t v cs r) = ((k = MappingNode \<longrightarrow> even (length cs)) \<and> list_all yaml_wf cs)"

lemma yaml_wf_iff: "yaml_wf n \<longleftrightarrow> (Kind n = MappingNode \<longrightarrow> even (length (Content n))) \<and> list_all yaml_wf (Content n)"
  by (cases n) simp

lemma node_updates [simp]:
  "Kind (setContent cs n) = Kind n" "Content (setContent cs n) = cs" "Value (setContent cs n) = Value n"
  "Kind (setTagValue t v n) = Kind n" "Content (setTagValue t v n) = Content n" "Value (setTagValue t v n) = v"
  "Value (newStringYAMLNode s) = s" "Kind (newStringYAMLNode s) = ScalarNode" "Content (newStringYAMLNode s) = []"
  "Tag (newStringYAMLNode s) = yamlTagString"
  "setContent (Content n) n = n" "setContent cs (setContent cs' n) = setContent cs n"
  by (simp_all add: setContent_def setTagValue_def newStringYAMLNode_def)

lemma pairLookup_append:
  "even (length cs) \<Longrightarrow> pairLookup (cs @ [k, v]) key =
     (case pairLookup cs key of Some x \<Rightarrow> Some x | None \<Rightarrow> if Value k = key then Some v else None)"
  by (induction cs key rule: pairLookup.induct) auto

lemma pairLookup_store:
  "pairLookup (pairStore key x cs) key' =
     (if key' = key \<and> pairLookup cs key \<noteq> None then Some x else pairLookup cs key')"
  by (induction key x cs rule: pairStore.induct) auto

lemma length_pairStore [simp]: "length (pairStore key x cs) = length cs"
  by (induction key x cs rule: pairStore.induct) auto

lemma pairStore_same: "pairLookup cs key = Some v \<Longrightarrow> pairStore key v cs = cs"
  by (induction key v cs rule: pairStore.induct) (auto split: if_splits)

lemma pairStore_store [simp]: "pairStore key y (pairStore key x cs) = pairStore key y cs"
  by (induction key x cs rule: pairStore.induct) auto

lemma pairStore_append:
  "even (length cs) \<Longrightarrow> pairLookup cs key = None \<Longrightarrow> Value k = key \<Longrightarrow>
     pairStore key x (cs @ [k, v]) = cs @ [k, x]"
  by (induction key x cs rule: pairStore.induct) (auto split: if_splits)

lemma pairLookup_mem: "pairLookup cs key = Some v \<Longrightarrow> v \<in> set cs"
  by (induction cs key rule: pairLookup.induct) (auto split: if_splits)

text \<open>A mapping node with as many keys as values.\<close>

definition isMap :: "yamlNode \<Rightarrow> bool" where
  "isMap n \<longleftrightarrow> Kind n = MappingNode \<and> even (length (Content n))"

lemma find_map: "Kind n = MappingNode \<Longrightarrow> findYAMLMapValue (Some n) key = pairLookup (Content n) key"
  by (simp add: findYAMLMapValue_def)

lemma find_append:
  "isMap n \<Longrightarrow> findYAMLMapValue (Some (appendYAMLMapValue n key v)) key' =
     (case findYAMLMapValue (Some n) key' of
        Some x \<Rightarrow> Some x | None \<Rightarrow> if key = key' then Some v else None)"
  by (simp add: isMap_def find_map appendYAMLMapValue_def pairLookup_append)

lemma find_store:
  "findYAMLMapValue (Some (storeYAMLMapValue key x n)) key' =
     (if key' = key \<and> findYAMLMapValue (Some n) key \<noteq> None then Some x else findYAMLMapValue (Some n) key')"
  by (simp add: findYAMLMapValue_def storeYAMLMapValue_def pairLookup_store)

lemma store_find: "findYAMLMapValue (Some n) key = Some v \<Longrightarrow> storeYAMLMapValue key v n = n"
  by (auto simp: findYAMLMapValue_def storeYAMLMapValue_def pairStore_same split: if_splits)

lemma isMap_simps [simp]:
  "isMap (appendYAMLMapValue n key v) = isMap n" "isMap (storeYAMLMapValue key x n) = isMap n"
  "Kind (appendYAMLMapValue n key v) = Kind n" "Kind (storeYAMLMapValue key x n) = Kind n"
  by (auto simp: isMap_def appendYAMLMapValue_def storeYAMLMapValue_def)

lemma store_store [simp]: "storeYAMLMapValue key y (storeYAMLMapValue key x n) = storeYAMLMapValue key y n"
  by (simp add: storeYAMLMapValue_def)

lemma store_append:
  "isMap n \<Longrightarrow> findYAMLMapValue (Some n) key = None \<Longrightarrow>
     storeYAMLMapValue key y (appendYAMLMapValue n key x) = appendYAMLMapValue n key y"
  by (simp add: isMap_def find_map storeYAMLMapValue_def appendYAMLMapValue_def pairStore_append)

lemma wf_find: "yaml_wf n \<Longrightarrow> findYAMLMapValue (Some n) key = Some v \<Longrightarrow> yaml_wf v"
  by (auto simp: findYAMLMapValue_def yaml_wf_iff [of n] list_all_iff dest: pairLookup_mem split: if_splits)

lemma wf_isMap: "yaml_wf n \<Longrightarrow> Kind n = MappingNode \<Longrightarrow> isMap n"
  by (simp add: yaml_wf_iff [of n] isMap_def)

lemma getString_store: "key \<noteq> key' \<Longrightarrow> getYAMLMapString (Some (storeYAMLMapValue key x n)) key' = getYAMLMapString (Some n) key'"
  by (simp add: getYAMLMapString_def find_store)

lemma getString_append:
  "isMap n \<Longrightarrow> key \<noteq> key' \<Longrightarrow> getYAMLMapString (Some (appendYAMLMapValue n key x)) key' = getYAMLMapString (Some n) key'"
  by (simp add: getYAMLMapString_def find_append split: option.splits)

section \<open>Lemmas: the provider ID\<close>

text \<open>A setter that settles: it reaches the value when it reports a change, and a second run changes nothing.\<close>

definition settles :: "(yamlNode \<Rightarrow> bool \<times> yamlNode) \<Rightarrow> (yamlNode \<Rightarrow> bool) \<Rightarrow> yamlNode \<Rightarrow> bool" where
  "settles f P n \<longleftrightarrow> (fst (f n) \<longrightarrow> P (snd (f n))) \<and> (\<not> fst (f n) \<longrightarrow> snd (f n) = n) \<and>
     f (snd (f n)) = (False, snd (f n)) \<and> Kind (snd (f n)) = Kind n"

definition entryIs :: "string \<Rightarrow> string \<Rightarrow> yamlNode \<Rightarrow> bool" where
  "entryIs key value n = (getYAMLMapString (Some n) key = value)"

lemma upsert_settles: "isMap n \<Longrightarrow> settles (\<lambda>n. upsertYAMLMapString n key value) (entryIs key value) n"
  by (cases "findYAMLMapValue (Some n) key")
    (simp_all add: settles_def upsertYAMLMapString_def entryIs_def getYAMLMapString_def find_append find_store)

lemma upsert_keeps:
  "isMap n \<Longrightarrow> key \<noteq> key' \<Longrightarrow>
     findYAMLMapValue (Some (snd (upsertYAMLMapString n key value))) key' = findYAMLMapValue (Some n) key'"
  by (auto simp: upsertYAMLMapString_def find_append find_store split: option.splits)

text \<open>The value of the first item of a sequence with a name.\<close>

fun namedItem :: "yamlNode list \<Rightarrow> string \<Rightarrow> string option" where
  "namedItem [] name = None"
| "namedItem (item # items) name =
     (case findYAMLMapValue (Some item) ''name'' of
        Some n \<Rightarrow> if Value n = name then Some (getYAMLMapString (Some item) ''value'') else namedItem items name
      | None \<Rightarrow> namedItem items name)"

definition namedIs :: "string \<Rightarrow> string \<Rightarrow> yamlNode \<Rightarrow> bool" where
  "namedIs name value n = (namedItem (Content n) name = Some value)"

lemma find_nonmap: "Kind n \<noteq> MappingNode \<Longrightarrow> findYAMLMapValue (Some n) key = None"
  by (simp add: findYAMLMapValue_def)

lemma named_skip:
  assumes "\<not> (\<exists>n. findYAMLMapValue (Some item) ''name'' = Some n \<and> Value n = name)"
  shows "upsertNamedItem (item # items) name value =
      map_option (map_prod id ((#) item)) (upsertNamedItem items name value)"
    and "namedItem (item # items) name = namedItem items name"
  using assms by (auto split: option.splits)

lemma upsertNamedItem_settles:
  assumes "list_all yaml_wf items" and "upsertNamedItem items name value = Some (changed, items')"
  shows "(changed \<longrightarrow> namedItem items' name = Some value) \<and> (\<not> changed \<longrightarrow> items' = items) \<and>
    upsertNamedItem items' name value = Some (False, items')"
  using assms
proof (induction items arbitrary: changed items')
  case Nil
  then show ?case by simp
next
  case (Cons item items)
  show ?case
  proof (cases "\<exists>n. findYAMLMapValue (Some item) ''name'' = Some n \<and> Value n = name")
    case True
    then obtain n where n: "findYAMLMapValue (Some item) ''name'' = Some n" "Value n = name" by blast
    then have m: "isMap item" using Cons.prems(1) find_nonmap wf_isMap by fastforce
    obtain item' where u: "upsertYAMLMapString item ''value'' value = (changed, item')" and i: "items' = item' # items"
      using Cons.prems(2) n m by (auto simp: isMap_def split: prod.splits)
    have k: "findYAMLMapValue (Some item') ''name'' = Some n"
      using upsert_keeps [OF m, of "''value''" "''name''" "value"] u n by simp
    have "settles (\<lambda>n. upsertYAMLMapString n ''value'' value) (entryIs ''value'' value) item"
      by (rule upsert_settles [OF m])
    with u k n i m show ?thesis by (auto simp: settles_def entryIs_def isMap_def)
  next
    case False
    obtain items'' where i: "items' = item # items''" and r: "upsertNamedItem items name value = Some (changed, items'')"
      using Cons.prems(2) by (auto simp: named_skip [OF False] simp del: upsertNamedItem.simps)
    show ?thesis
      using Cons.IH [OF _ r] Cons.prems(1) by (auto simp: i named_skip [OF False] simp del: upsertNamedItem.simps namedItem.simps)
  qed
qed

lemma upsertNamedItem_None:
  "upsertNamedItem items name value = None \<Longrightarrow>
     upsertNamedItem (items @ [newNamedValueMappingNode name value]) name value =
       Some (False, items @ [newNamedValueMappingNode name value]) \<and>
     namedItem (items @ [newNamedValueMappingNode name value]) name = Some value"
proof (induction items)
  case Nil
  then show ?case
    by (simp add: newNamedValueMappingNode_def appendYAMLMapValue_def findYAMLMapValue_def setContent_def
        newStringYAMLNode_def upsertYAMLMapString_def getYAMLMapString_def Let_def)
next
  case (Cons item items)
  have s: "\<not> (\<exists>n. findYAMLMapValue (Some item) ''name'' = Some n \<and> Value n = name)"
    using Cons.prems find_nonmap [of item] by (auto simp: split_def Let_def split: if_splits)
  show ?case using Cons.IH Cons.prems by (simp add: named_skip [OF s] del: upsertNamedItem.simps namedItem.simps)
qed

lemma upsertSequence_settles:
  assumes "list_all yaml_wf (Content n)"
  shows "settles (\<lambda>n. upsertNamedValueSequenceItem n name value) (namedIs name value) n"
proof (cases "upsertNamedItem (Content n) name value")
  case None
  then show ?thesis
    using upsertNamedItem_None [OF None]
    by (simp add: settles_def upsertNamedValueSequenceItem_def namedIs_def)
next
  case (Some p)
  obtain changed items where p: "p = (changed, items)" by (cases p)
  show ?thesis
    using upsertNamedItem_settles [OF assms Some [unfolded p]] Some p
    by (auto simp: settles_def upsertNamedValueSequenceItem_def namedIs_def)
qed

text \<open>The provider ID that the kubelet arguments carry, in either API version.\<close>

definition argsHaveProviderID :: "yamlNode \<Rightarrow> bool" where
  "argsHaveProviderID args =
     (if Kind args = MappingNode then entryIs ''provider-id'' kubeadmProviderIDValue args
      else Kind args = SequenceNode \<and> namedIs ''provider-id'' kubeadmProviderIDValue args)"

definition registersProviderID :: "yamlNode \<Rightarrow> bool" where
  "registersProviderID root =
     (case findYAMLMapValue (findYAMLMapValue (Some root) ''nodeRegistration'') ''kubeletExtraArgs'' of
        None \<Rightarrow> False
      | Some args \<Rightarrow> argsHaveProviderID args)"

text \<open>The update of existing or fresh kubelet arguments.\<close>

definition upsertArgs :: "yamlNode \<Rightarrow> bool \<times> yamlNode" where
  "upsertArgs args =
     (if Kind args = MappingNode then upsertYAMLMapString args ''provider-id'' kubeadmProviderIDValue
      else if Kind args = SequenceNode then upsertNamedValueSequenceItem args ''provider-id'' kubeadmProviderIDValue
      else (False, args))"

lemma upsertArgs_settles: "yaml_wf args \<Longrightarrow> settles upsertArgs argsHaveProviderID args"
  using upsert_settles [of args "''provider-id''" kubeadmProviderIDValue]
    upsertSequence_settles [of args "''provider-id''" kubeadmProviderIDValue]
  by (cases "Kind args = MappingNode"; cases "Kind args = SequenceNode")
    (auto simp: settles_def upsertArgs_def argsHaveProviderID_def wf_isMap yaml_wf_iff [of args])

lemma ensureKubelet_alt:
  "ensureKubeletProviderID root (Some n) =
     (case findYAMLMapValue (Some n) ''kubeletExtraArgs'' of
        None \<Rightarrow>
          (let version = getYAMLMapString (Some root) ''apiVersion'';
               add = (\<lambda>empty. let (changed, args) = upsertArgs empty
                              in Some (changed, Some (appendYAMLMapValue n ''kubeletExtraArgs'' args)))
           in if version = kubeadmAPIVersionV1Beta3 then add (YNode MappingNode ''!!map'' [] [] [])
              else if version = kubeadmAPIVersionV1Beta4 then add (YNode SequenceNode ''!!seq'' [] [] [])
              else Some (False, Some n))
      | Some args \<Rightarrow>
          (let (changed, args) = upsertArgs args
           in Some (changed, Some (storeYAMLMapValue ''kubeletExtraArgs'' args n))))"
  by (auto simp: ensureKubeletProviderID_def upsertArgs_def store_find Let_def split: option.splits prod.splits)

lemma kubelet_settles:
  assumes m: "isMap n" and wf: "\<And>args. findYAMLMapValue (Some n) ''kubeletExtraArgs'' = Some args \<Longrightarrow> yaml_wf args"
    and v: "getYAMLMapString (Some root2) ''apiVersion'' = getYAMLMapString (Some root1) ''apiVersion''"
  shows "\<exists>changed n'. ensureKubeletProviderID root1 (Some n) = Some (changed, Some n') \<and> isMap n' \<and>
    (changed \<longrightarrow> (\<exists>args. findYAMLMapValue (Some n') ''kubeletExtraArgs'' = Some args \<and> argsHaveProviderID args)) \<and>
    ensureKubeletProviderID root2 (Some n') = Some (False, Some n')"
proof (cases "findYAMLMapValue (Some n) ''kubeletExtraArgs''")
  case (Some args)
  have s: "settles upsertArgs argsHaveProviderID args" by (rule upsertArgs_settles [OF wf [OF Some]])
  let ?n' = "storeYAMLMapValue ''kubeletExtraArgs'' (snd (upsertArgs args)) n"
  have f: "findYAMLMapValue (Some ?n') ''kubeletExtraArgs'' = Some (snd (upsertArgs args))"
    by (simp add: find_store Some)
  have "ensureKubeletProviderID root1 (Some n) = Some (fst (upsertArgs args), Some ?n')"
    by (simp add: ensureKubelet_alt Some split_def Let_def)
  moreover have "ensureKubeletProviderID root2 (Some ?n') = Some (False, Some ?n')"
    using s by (simp add: ensureKubelet_alt f settles_def store_find [OF f])
  ultimately show ?thesis using s f m by (auto simp: settles_def)
next
  case None
  have fresh: "settles upsertArgs argsHaveProviderID (YNode k t [] [] [])" for k t
    by (rule upsertArgs_settles) simp
  have f: "findYAMLMapValue (Some (appendYAMLMapValue n ''kubeletExtraArgs'' a)) ''kubeletExtraArgs'' = Some a" for a
    by (simp add: find_append [OF m] None)
  have fixed: "ensureKubeletProviderID root2 (Some (appendYAMLMapValue n ''kubeletExtraArgs'' a)) =
      Some (False, Some (appendYAMLMapValue n ''kubeletExtraArgs'' a))" if "upsertArgs a = (False, a)" for a
    by (simp add: ensureKubelet_alt f that store_find [OF f])
  have add: ?thesis
    if "ensureKubeletProviderID root1 (Some n) =
      Some (fst (upsertArgs (YNode k t [] [] [])), Some (appendYAMLMapValue n ''kubeletExtraArgs'' (snd (upsertArgs (YNode k t [] [] [])))))"
    for k t
    using that fresh [of k t] m f fixed by (auto simp: settles_def)
  consider "getYAMLMapString (Some root1) ''apiVersion'' = kubeadmAPIVersionV1Beta3"
    | "getYAMLMapString (Some root1) ''apiVersion'' = kubeadmAPIVersionV1Beta4"
      "kubeadmAPIVersionV1Beta4 \<noteq> kubeadmAPIVersionV1Beta3"
    | "getYAMLMapString (Some root1) ''apiVersion'' \<notin> {kubeadmAPIVersionV1Beta3, kubeadmAPIVersionV1Beta4}"
    by fastforce
  then show ?thesis
  proof cases
    case 1
    then show ?thesis by (intro add [of MappingNode "''!!map''"]) (simp add: ensureKubelet_alt None split_def Let_def)
  next
    case 2
    then show ?thesis by (intro add [of SequenceNode "''!!seq''"]) (simp add: ensureKubelet_alt None split_def Let_def)
  next
    case 3
    then show ?thesis by (intro exI [of _ False] exI [of _ n]) (simp add: ensureKubelet_alt None m v)
  qed
qed

text \<open>The node registration of a document, created when it is missing.\<close>

lemma registration_settles:
  assumes wf: "yaml_wf root" and k: "Kind root = MappingNode"
    and nr: "\<And>n. findYAMLMapValue (Some root) ''nodeRegistration'' = Some n \<Longrightarrow> Kind n = MappingNode"
  shows "\<exists>changed root'. ensureKubeadmNodeRegistration root = Some (changed, root') \<and>
    (changed \<longrightarrow> registersProviderID root') \<and> ensureKubeadmNodeRegistration root' = Some (False, root')"
proof -
  obtain n root1 where e: "ensureYAMLMappingValue root ''nodeRegistration'' = (Some n, root1)"
    and f: "findYAMLMapValue (Some root1) ''nodeRegistration'' = Some n" and m: "isMap n" "isMap root1"
    and a: "\<And>args. findYAMLMapValue (Some n) ''kubeletExtraArgs'' = Some args \<Longrightarrow> yaml_wf args"
  proof (cases "findYAMLMapValue (Some root) ''nodeRegistration''")
    case None
    have "isMap root" by (rule wf_isMap [OF wf k])
    then show ?thesis
      using None k that [of "YNode MappingNode ''!!map'' [] [] []"
          "appendYAMLMapValue root ''nodeRegistration'' (YNode MappingNode ''!!map'' [] [] [])"]
      by (simp add: ensureYAMLMappingValue_def find_append Let_def) (simp add: findYAMLMapValue_def isMap_def)
  next
    case (Some n)
    have "yaml_wf n" by (rule wf_find [OF wf Some])
    with Some k nr [OF Some] wf show ?thesis
      using that [of n root] by (auto simp: ensureYAMLMappingValue_def wf_isMap dest: wf_find)
  qed
  have v: "getYAMLMapString (Some (storeYAMLMapValue ''nodeRegistration'' x root1)) ''apiVersion'' =
      getYAMLMapString (Some root1) ''apiVersion''" for x
    by (simp add: getString_store)
  obtain changed n' where 1: "ensureKubeletProviderID root1 (Some n) = Some (changed, Some n')" "isMap n'"
    "changed \<longrightarrow> (\<exists>args. findYAMLMapValue (Some n') ''kubeletExtraArgs'' = Some args \<and> argsHaveProviderID args)"
    by (use kubelet_settles [OF m(1) a refl] in blast)
  have 2: "ensureKubeletProviderID (storeYAMLMapValue ''nodeRegistration'' n' root1) (Some n') = Some (False, Some n')"
    using kubelet_settles [OF m(1) a v, of n'] 1(1) by auto
  let ?r = "storeYAMLMapValue ''nodeRegistration'' n' root1"
  have fr: "findYAMLMapValue (Some ?r) ''nodeRegistration'' = Some n'" by (simp add: find_store f)
  have "ensureYAMLMappingValue ?r ''nodeRegistration'' = (Some n', ?r)"
    using m 1(2) fr by (simp add: ensureYAMLMappingValue_def isMap_def)
  then have "ensureKubeadmNodeRegistration ?r = Some (False, ?r)"
    by (simp add: ensureKubeadmNodeRegistration_def 2 store_find [OF fr])
  moreover have "ensureKubeadmNodeRegistration root = Some (changed, ?r)"
    by (simp add: ensureKubeadmNodeRegistration_def e 1(1))
  moreover have "changed \<longrightarrow> registersProviderID ?r"
    using 1(3) by (auto simp: registersProviderID_def fr)
  ultimately show ?thesis by blast
qed

lemma document_is_map: "isKubeadmNodeRegistrationDocument root \<Longrightarrow> Kind root = MappingNode"
  by (auto simp: isKubeadmNodeRegistrationDocument_def getYAMLMapString_def findYAMLMapValue_def Let_def
      split: if_splits)

section \<open>Lemmas: lines\<close>

lemma strSplitNL_not_Nil [simp]: "strSplitNL s \<noteq> []"
  by (induction s) (auto split: list.splits)

lemma strJoin_split: "strJoin (strSplitNL s) NL = s"
proof (induction s)
  case Nil
  then show ?case by simp
next
  case (Cons c s)
  obtain l ls where s: "strSplitNL s = l # ls" by (cases "strSplitNL s") auto
  with Cons show ?case by (cases ls) (auto simp: NL_def)
qed

section \<open>Properties\<close>

text \<open>
  Property C30. For a kubeadm init or join configuration whose node registration, if it has one, is a
  mapping, the update returns; when it reports a change, the kubelet arguments of the document
  carry the ELF provider ID (as a map entry in v1beta3, as a named item in v1beta4); and the
  update is idempotent: a second run reports no change and leaves the document as it is.
\<close>

theorem kubelet_provider_id:
  assumes "yaml_wf root" and "isKubeadmNodeRegistrationDocument root"
    and "\<And>n. findYAMLMapValue (Some root) ''nodeRegistration'' = Some n \<Longrightarrow> Kind n = MappingNode"
  shows "\<exists>changed root'. ensureKubeadmNodeRegistration root = Some (changed, root') \<and>
    (changed \<longrightarrow> registersProviderID root') \<and> ensureKubeadmNodeRegistration root' = Some (False, root')"
  by (rule registration_settles [OF assms(1) document_is_map [OF assms(2)] assms(3)])

definition wit_join_doc :: yamlNode where
  "wit_join_doc = YNode MappingNode [] []
     [newStringYAMLNode ''kind'', newStringYAMLNode ''JoinConfiguration'',
      newStringYAMLNode ''apiVersion'', newStringYAMLNode ''kubeadm.k8s.io/v1beta4''] []"

theorem kubelet_provider_id_witness:
  "\<exists>root'. ensureKubeadmNodeRegistration wit_join_doc = Some (True, root') \<and> registersProviderID root'"
proof -
  have "yaml_wf wit_join_doc" by (simp add: wit_join_doc_def newStringYAMLNode_def)
  moreover have "isKubeadmNodeRegistrationDocument wit_join_doc"
    by (simp add: wit_join_doc_def isKubeadmNodeRegistrationDocument_def getYAMLMapString_def findYAMLMapValue_def)
  moreover have "findYAMLMapValue (Some wit_join_doc) ''nodeRegistration'' = Some n \<Longrightarrow> Kind n = MappingNode" for n
    by (simp add: wit_join_doc_def findYAMLMapValue_def)
  moreover have "map_option fst (ensureKubeadmNodeRegistration wit_join_doc) = Some True"
    by (simp add: wit_join_doc_def ensureKubeadmNodeRegistration_def ensureYAMLMappingValue_def
        ensureKubeletProviderID_def findYAMLMapValue_def getYAMLMapString_def appendYAMLMapValue_def
        upsertNamedValueSequenceItem_def kubeadmAPIVersionV1Beta3_def kubeadmAPIVersionV1Beta4_def Let_def)
  ultimately show ?thesis using kubelet_provider_id [of wit_join_doc] by fastforce
qed

text \<open>
  Property C31. The update panics exactly on a document of a known API version whose node registration
  is present but not a mapping, such as the null value of an empty key: the missing arguments
  are then appended to a nil node.
\<close>

theorem node_registration_panics:
  assumes "isKubeadmNodeRegistrationDocument root"
  shows "ensureKubeadmNodeRegistration root = None \<longleftrightarrow>
    (\<exists>n. findYAMLMapValue (Some root) ''nodeRegistration'' = Some n \<and> Kind n \<noteq> MappingNode) \<and>
    getYAMLMapString (Some root) ''apiVersion'' \<in> {kubeadmAPIVersionV1Beta3, kubeadmAPIVersionV1Beta4}"
proof -
  have k: "Kind root = MappingNode" by (rule document_is_map [OF assms])
  have total: "ensureKubeletProviderID r (Some n) \<noteq> None" for r n
    by (auto simp: ensureKubelet_alt Let_def split: option.splits prod.splits)
  have nil: "ensureKubeletProviderID r None = None \<longleftrightarrow>
      getYAMLMapString (Some r) ''apiVersion'' \<in> {kubeadmAPIVersionV1Beta3, kubeadmAPIVersionV1Beta4}" for r
    by (simp add: ensureKubeletProviderID_def findYAMLMapValue_def [of None] Let_def)
  have e: "ensureKubeadmNodeRegistration root = None \<longleftrightarrow>
      (case ensureYAMLMappingValue root ''nodeRegistration'' of (n, r) \<Rightarrow> ensureKubeletProviderID r n = None)"
    by (auto simp: ensureKubeadmNodeRegistration_def split: prod.splits bind_splits)
  show ?thesis
  proof (cases "findYAMLMapValue (Some root) ''nodeRegistration''")
    case None
    then show ?thesis using k by (simp add: e ensureYAMLMappingValue_def total Let_def)
  next
    case (Some n)
    then show ?thesis using k nil [of root] by (simp add: e ensureYAMLMappingValue_def total)
  qed
qed

theorem node_registration_panics_witness:
  "ensureKubeadmNodeRegistration (appendYAMLMapValue wit_join_doc ''nodeRegistration''
     (YNode ScalarNode ''!!null'' [] [] [])) = None"
proof -
  let ?d = "appendYAMLMapValue wit_join_doc ''nodeRegistration'' (YNode ScalarNode ''!!null'' [] [] [])"
  have "isKubeadmNodeRegistrationDocument ?d" "findYAMLMapValue (Some ?d) ''nodeRegistration'' = Some (YNode ScalarNode ''!!null'' [] [] [])"
    "getYAMLMapString (Some ?d) ''apiVersion'' = kubeadmAPIVersionV1Beta4"
    by (simp_all add: wit_join_doc_def isKubeadmNodeRegistrationDocument_def getYAMLMapString_def findYAMLMapValue_def
        appendYAMLMapValue_def kubeadmAPIVersionV1Beta4_def)
  with node_registration_panics [of ?d] show ?thesis by simp
qed

text \<open>
  Splitting off the cloud-config header loses no line but blank ones: either there is no
  header and the body is the data, or the lines of the data are one or two header lines, blank
  lines, and the lines that joined give the body.
\<close>

theorem cloud_config_split:
  "splitCloudConfigHeader data = ([], data) \<or>
   (\<exists>header blanks rest. strSplitNL data = header @ blanks @ rest \<and> length header \<in> {1, 2} \<and>
      strTrimSpace (last header) = ''#cloud-config'' \<and> list_all isBlank blanks \<and>
      splitCloudConfigHeader data = (strJoin header NL, strJoin rest NL))"
proof -
  have blanks: "r = takeWhile isBlank r @ dropWhile isBlank r \<and> list_all isBlank (takeWhile isBlank r)" for r
    by (auto simp: list_all_iff dest: set_takeWhileD)
  have found: ?thesis if "strSplitNL data = h @ r" "length h \<in> {1, 2}" "strTrimSpace (last h) = ''#cloud-config''"
    "splitCloudConfigHeader data = (strJoin h NL, strJoin (dropWhile isBlank r) NL)" for h r
    using that blanks [of r]
    by (intro disjI2 exI [of _ h] exI [of _ "takeWhile isBlank r"] exI [of _ "dropWhile isBlank r"]) simp
  obtain l ls where s: "strSplitNL data = l # ls" by (cases "strSplitNL data") auto
  show ?thesis
  proof (cases "strTrimSpace l = ''## template: jinja''")
    case False
    then show ?thesis
      using found [of "[l]" ls] s by (auto simp: splitCloudConfigHeader_def)
  next
    case True
    show ?thesis
    proof (cases ls)
      case Nil
      then show ?thesis using True s by (simp add: splitCloudConfigHeader_def)
    next
      case (Cons l' r)
      then show ?thesis
        using True s found [of "[l, l']" r]
        by (cases "strTrimSpace l' = ''#cloud-config''") (simp_all add: splitCloudConfigHeader_def)
    qed
  qed
qed

text \<open>
  The host name commands come first: with a host name, the mutator panics exactly when the
  cloud-config has no \<^verbatim>\<open>runcmd\<close>, and otherwise puts its three commands in front of the
  commands that are there, and changes no other entry.
\<close>

theorem hostname_commands_first:
  assumes "hostName \<noteq> []" and "Kind root = MappingNode"
  shows "(ensureHostnameCommandsInRunCmd root hostName = None \<longleftrightarrow> findYAMLMapValue (Some root) ''runcmd'' = None) \<and>
    (\<forall>changed root'. ensureHostnameCommandsInRunCmd root hostName = Some (changed, root') \<longrightarrow>
       changed \<and> (\<forall>key. key \<noteq> ''runcmd'' \<longrightarrow> findYAMLMapValue (Some root') key = findYAMLMapValue (Some root) key) \<and>
       (\<exists>old new cmds. findYAMLMapValue (Some root) ''runcmd'' = Some old \<and>
          findYAMLMapValue (Some root') ''runcmd'' = Some new \<and> length cmds = 3 \<and>
          Content new = cmds @ Content old \<and> (\<forall>c \<in> set cmds. Kind c = ScalarNode \<and> Tag c = yamlTagString)))"
proof (cases "findYAMLMapValue (Some root) ''runcmd''")
  case None
  then show ?thesis using assms by (simp add: ensureHostnameCommandsInRunCmd_def)
next
  case (Some old)
  then show ?thesis
    using assms
    by (auto simp: ensureHostnameCommandsInRunCmd_def find_store newScalarNodes_def
        intro!: exI [of _ "map newStringYAMLNode (desiredCommands hostName)"]) (simp add: desiredCommands_def)
qed

theorem hostname_commands_first_witness:
  "ensureHostnameCommandsInRunCmd (YNode MappingNode [] [] [] []) ''node-1'' = None"
  using hostname_commands_first [of "''node-1''" "YNode MappingNode [] [] [] []"]
  by (simp add: findYAMLMapValue_def)

end
