(* ===== verification/Machine_Ctx.thy ===== *)
theory Machine_Ctx
  imports Vm_Limiter Cloud_Init
begin

text \<open>
  What a reconcile of an ElfMachine runs in: the VM service interface
  (\<^verbatim>\<open>pkg/service\<close>), the Kubernetes API as the controller uses it, the machine
  context (\<^verbatim>\<open>pkg/context/machine_context.go\<close>), and the state that a reconcile
  changes. The Tower server and the API server are an abstract world \<open>'w\<close>: a call
  takes the world and returns a result and the next world. The helpers of
  \<^verbatim>\<open>pkg/util\<close> (labels, annotations, machines, KCP) and of
  \<^verbatim>\<open>pkg/resources\<close> are here too.
\<close>

section \<open>The VM service interface\<close>

type_synonym ('w, 'a) call = "'w \<Rightarrow> (go_error + 'a) \<times> 'w"

record withTask =
  wt_DataID :: "string option"
  wt_TaskID :: "string option"

record vmNicParams =
  np_Model :: string
  np_Enabled :: bool
  np_Mirror :: bool
  np_ConnectVlanID :: "string option"
  np_MacAddress :: string
  np_SubnetMask :: "string option"
  np_IPAddress :: "string option"

record vmGpuOperation =
  go_GpuID :: "string option"
  go_Amount :: "int option"

record 'w vmservice =
  Svc_Clone :: "elfCluster \<Rightarrow> elfMachine \<Rightarrow> cloneVMInfo \<Rightarrow> ('w, withTask) call"
  Svc_UpdateVM :: "vm \<Rightarrow> elfMachine \<Rightarrow> ('w, withTask) call"
  Svc_Migrate :: "string \<Rightarrow> string \<Rightarrow> ('w, withTask) call"
  Svc_Delete :: "string \<Rightarrow> ('w, task) call"
  Svc_PowerOff :: "string \<Rightarrow> ('w, task) call"
  Svc_PowerOn :: "string \<Rightarrow> string \<Rightarrow> ('w, task) call"
  Svc_ShutDown :: "string \<Rightarrow> ('w, task) call"
  Svc_RemoveGPUDevices :: "string \<Rightarrow> vmGpuOperation list \<Rightarrow> ('w, task) call"
  Svc_AddGPUDevices :: "string \<Rightarrow> gpuDeviceInfo list \<Rightarrow> ('w, task) call"
  Svc_Get :: "string \<Rightarrow> ('w, vm) call"
  Svc_GetByName :: "string \<Rightarrow> ('w, vm) call"
  Svc_FindByIDs :: "string list \<Rightarrow> ('w, vm list) call"
  Svc_FindVMsByName :: "string \<Rightarrow> ('w, vm list) call"
  Svc_AddVMNics :: "string \<Rightarrow> vmNicParams list \<Rightarrow> ('w, withTask) call"
  Svc_GetVMNics :: "string \<Rightarrow> ('w, vmNic list) call"
  Svc_GetVMDisks :: "string list \<Rightarrow> ('w, vmDisk list) call"
  Svc_GetVMVolume :: "string \<Rightarrow> ('w, vmVolume) call"
  Svc_ResizeVMVolume :: "string \<Rightarrow> int \<Rightarrow> ('w, withTask) call"
  Svc_GetTask :: "string \<Rightarrow> ('w, task) call"
  Svc_WaitTask :: "string \<Rightarrow> int \<Rightarrow> int \<Rightarrow> ('w, task) call"
  Svc_GetCluster :: "string \<Rightarrow> ('w, nestedRef) call"
  Svc_GetClusterZones :: "string \<Rightarrow> ('w, zone list) call"
  Svc_GetHostsByCluster :: "string \<Rightarrow> string \<Rightarrow> ('w, hosts) call"
  Svc_GetVlan :: "string \<Rightarrow> ('w, nestedRef) call"
  Svc_UpsertLabel :: "string \<Rightarrow> string \<Rightarrow> ('w, vmLabel) call"
  Svc_AddLabelsToVM :: "string \<Rightarrow> string list \<Rightarrow> ('w, task) call"
  Svc_CreateVMPlacementGroup :: "string \<Rightarrow> string \<Rightarrow> string \<Rightarrow> ('w, withTask) call"
  Svc_GetVMPlacementGroup :: "string \<Rightarrow> ('w, vmPlacementGroup) call"
  Svc_AddVMsToPlacementGroup :: "vmPlacementGroup \<Rightarrow> string list \<Rightarrow> ('w, task) call"
  Svc_DeleteVMPlacementGroupByID :: "string \<Rightarrow> ('w, bool) call"
  Svc_DeleteVMPlacementGroupsByNamePrefix :: "string \<Rightarrow> ('w, string list) call"
  Svc_DeleteLabel :: "string \<Rightarrow> string \<Rightarrow> bool \<Rightarrow> ('w, string) call"
  Svc_CleanUnusedLabels :: "string list \<Rightarrow> ('w, string list) call"
  Svc_GetGPUDevicesAllocationInfoByHostIDs :: "string list \<Rightarrow> string \<Rightarrow> ('w, gpuVMInfos) call"
  Svc_GetGPUDevicesAllocationInfoByIDs :: "string list \<Rightarrow> ('w, gpuVMInfos) call"
  Svc_GetVMGPUAllocationInfo :: "string \<Rightarrow> ('w, vmGpuOperation list) call"

text \<open>
  The calls that ask Tower to change something. The state of a reconcile carries the list of
  those issued so far; the list is specification state, which no operation reads. An update carries the
  CPUs and the memory of the ElfMachine that is passed to the service.
\<close>

datatype towerCall =
    CallClone string cloneVMInfo
  | CallUpdateVM "string option" int int
  | CallMigrate string string
  | CallDelete string
  | CallPowerOff string
  | CallPowerOn string string
  | CallShutDown string
  | CallRemoveGPUs string
  | CallAddGPUs string "gpuDeviceInfo list"
  | CallAddNics string "vmNicParams list"
  | CallResizeVolume string int
  | CallUpsertLabel string string
  | CallAddLabels string "string list"
  | CallCreatePG string
  | CallAddVMsToPG "string option" "string list"
  | CallDeletePG string
  | CallDeletePGsByPrefix string
  | CallDeleteLabel string string bool
  | CallCleanLabels "string list"

section \<open>The Kubernetes side\<close>

record node =
  n_Name :: string
  n_ProviderID :: string
  n_Labels :: "string gomap option"
  n_Addresses :: "(string \<times> string) list"  \<comment> \<open>type and address\<close>

datatype jobPhase = PhaseSucceeded | PhaseFailed | PhaseOther string

record hostJob =
  hj_Name :: string
  hj_Namespace :: string
  hj_NodeName :: string
  hj_Playbook :: string
  hj_Timeout :: int
  hj_Phase :: jobPhase
  hj_FailureMessage :: string
  hj_LastExecutionTime :: "int option"
  hj_CreationTimestamp :: int

record 'w k8s =
  K_GetKCP :: "string \<Rightarrow> string \<Rightarrow> ('w, kcp) call"
  K_GetMD :: "string \<Rightarrow> string \<Rightarrow> ('w, machineDeployment) call"
  K_GetMachine :: "string \<Rightarrow> string \<Rightarrow> ('w, machine) call"
  K_GetCluster :: "string \<Rightarrow> string \<Rightarrow> ('w, cluster) call"
  K_GetElfMachine :: "string \<Rightarrow> string \<Rightarrow> ('w, elfMachine) call"
  K_GetElfCluster :: "string \<Rightarrow> string \<Rightarrow> ('w, elfCluster) call"
  K_ListElfMachines :: "string \<Rightarrow> string gomap \<Rightarrow> ('w, elfMachine list) call"
  K_GetSecretData :: "string \<Rightarrow> string \<Rightarrow> ('w, string gomap) call"
  K_GetConfigMapData :: "string \<Rightarrow> string \<Rightarrow> ('w, string gomap) call"
  K_NewMachinePatchHelper :: "machine \<Rightarrow> ('w, unit) call"
  K_PatchMachineAnnotations :: "machine \<Rightarrow> string gomap \<Rightarrow> ('w, unit) call"
  K_PatchElfMachineFrom :: "elfMachine \<Rightarrow> elfMachine \<Rightarrow> ('w, unit) call"
  K_PatchElfMachine :: "elfMachine \<Rightarrow> ('w, unit) call"
  K_RemoteClient :: "cluster \<Rightarrow> ('w, unit) call"
  K_NodesByProviderID :: "string \<Rightarrow> ('w, node list) call"
  K_ListNodes :: "('w, node list) call"
  K_DeleteNode :: "node \<Rightarrow> ('w, unit) call"
  K_PatchNodeLabels :: "node \<Rightarrow> string option gomap \<Rightarrow> ('w, unit) call"
  K_NewClusterClient :: "cluster \<Rightarrow> ('w, unit) call"
  K_GetHostJob :: "string \<Rightarrow> string \<Rightarrow> ('w, hostJob) call"
  K_CreateHostJob :: "hostJob \<Rightarrow> ('w, unit) call"
  K_DeleteHostJob :: "hostJob \<Rightarrow> ('w, unit) call"
  K_RandomString :: "nat \<Rightarrow> 'w \<Rightarrow> string \<times> 'w"
  K_NewVMService :: "elfCluster \<Rightarrow> ('w, unit) call"
  K_NewPatchHelper :: "elfMachine \<Rightarrow> ('w, unit) call"
  K_NewClusterPatchHelper :: "elfCluster \<Rightarrow> ('w, unit) call"
  K_PatchElfCluster :: "elfCluster \<Rightarrow> ('w, unit) call"
  K_ListKCPs :: "string \<Rightarrow> string gomap \<Rightarrow> ('w, kcp list) call"
  K_GetElfMachineTemplate :: "string \<Rightarrow> string \<Rightarrow> ('w, elfMachineTemplate) call"
  K_NewKubeClient :: "cluster \<Rightarrow> ('w, unit) call"
  K_ListWorkloadNodes :: "cluster \<Rightarrow> ('w, unit) call"

section \<open>Environment, context and state\<close>

record jobTimeoutConfig =
  jt_Default :: int
  jt_ExpandRootPartition :: int
  jt_RestartKubelet :: int
  jt_SetNetworkDeviceConfig :: int

record ('w, 'c) env =
  e_lib :: lib
  e_cache :: "('c, cacheVal) gocache"
  e_cfg :: config
  e_svc :: "'w vmservice"
  e_k8s :: "'w k8s"
  e_getenv :: "string \<Rightarrow> string option"
  e_yaml :: yamlLib
  e_JobTimeouts :: jobTimeoutConfig
  e_setSummary :: "int \<Rightarrow> conditions \<Rightarrow> string list \<Rightarrow> conditions"  \<comment> \<open>\<^verbatim>\<open>conditions.SetSummary\<close>\<close>
  e_ctxText :: string  \<comment> \<open>the Go context rendered in a message\<close>
  e_gvkText :: string  \<comment> \<open>the empty group, version and kind of an object read by the typed client, in a message\<close>

record machineContext =
  mc_Cluster :: cluster
  mc_Machine :: machine
  mc_ElfCluster :: elfCluster
  mc_Now :: int
  mc_VMServiceNil :: bool  \<comment> \<open>the service was not created (forced deletion)\<close>

record ('w, 'c) st =
  elf :: elfMachine
  world :: 'w
  glob :: "'c gstate"
  calls :: "towerCall list"

definition query :: "('w, 'a) call \<Rightarrow> ('w, 'c) st \<Rightarrow> (go_error + 'a) \<times> ('w, 'c) st" where
  "query f s = (let (r, w) = f (world s) in (r, s\<lparr>world := w\<rparr>))"

definition request :: "towerCall \<Rightarrow> ('w, 'a) call \<Rightarrow> ('w, 'c) st \<Rightarrow> (go_error + 'a) \<times> ('w, 'c) st" where
  "request c f s = (let (r, w) = f (world s) in (r, s\<lparr>world := w, calls := calls s @ [c]\<rparr>))"

definition updElf :: "(elfMachine \<Rightarrow> elfMachine) \<Rightarrow> ('w, 'c) st \<Rightarrow> ('w, 'c) st" where
  "updElf f s = s\<lparr>elf := f (elf s)\<rparr>"

definition updGlob :: "('c gstate \<Rightarrow> 'c gstate) \<Rightarrow> ('w, 'c) st \<Rightarrow> ('w, 'c) st" where
  "updGlob f s = s\<lparr>glob := f (glob s)\<rparr>"

text \<open>\<^verbatim>\<open>conditions.MarkFalse\<close> and \<^verbatim>\<open>conditions.MarkTrue\<close> on the ElfMachine.\<close>

definition emMarkFalse :: "lib \<Rightarrow> int \<Rightarrow> string \<Rightarrow> string \<Rightarrow> cond_severity \<Rightarrow> string \<Rightarrow> elfMachine \<Rightarrow> elfMachine" where
  "emMarkFalse L now t rs sev msg m =
     elfMachine_SetConditions (condMarkFalse L now (elfMachine_GetConditions m) t rs sev msg) m"

definition emMarkTrue :: "lib \<Rightarrow> int \<Rightarrow> string \<Rightarrow> elfMachine \<Rightarrow> elfMachine" where
  "emMarkTrue L now t m =
     elfMachine_SetConditions (condMarkTrue L now (elfMachine_GetConditions m) t) m"

definition markFalse ::
  "('w, 'c) env \<Rightarrow> machineContext \<Rightarrow> string \<Rightarrow> string \<Rightarrow> cond_severity \<Rightarrow> string \<Rightarrow> ('w, 'c) st \<Rightarrow> ('w, 'c) st" where
  "markFalse X c t rs sev msg = updElf (emMarkFalse (e_lib X) (mc_Now c) t rs sev msg)"

definition markTrue :: "('w, 'c) env \<Rightarrow> machineContext \<Rightarrow> string \<Rightarrow> ('w, 'c) st \<Rightarrow> ('w, 'c) st" where
  "markTrue X c t = updElf (emMarkTrue (e_lib X) (mc_Now c) t)"

definition elfReason :: "('w, 'c) env \<Rightarrow> string \<Rightarrow> ('w, 'c) st \<Rightarrow> string" where
  "elfReason X t s = condGetReason (e_lib X) (Conditions (Status (elf s))) t"

definition elfMessage :: "('w, 'c) env \<Rightarrow> string \<Rightarrow> ('w, 'c) st \<Rightarrow> string" where
  "elfMessage X t s = condGetMessage (e_lib X) (Conditions (Status (elf s))) t"

text \<open>The result of a reconcile; a zero \<open>RequeueAfter\<close> asks for no requeue.\<close>

record reconcileResult =
  RequeueAfter :: int

definition noRequeue :: reconcileResult where "noRequeue = \<lparr>RequeueAfter = 0\<rparr>"

definition requeue :: "int \<Rightarrow> reconcileResult" where "requeue d = \<lparr>RequeueAfter = d\<rparr>"

definition klogKObj :: "objectMeta \<Rightarrow> string" where
  "klogKObj o' = (if om_Namespace o' \<noteq> [] then om_Namespace o' @ ''/'' @ om_Name o' else om_Name o')"

lemma query_eq: "query f s = (fst (f (world s)), s\<lparr>world := snd (f (world s))\<rparr>)"
  by (simp add: query_def split_def Let_def)

lemma request_eq:
  "request c f s = (fst (f (world s)), s\<lparr>world := snd (f (world s)), calls := calls s @ [c]\<rparr>)"
  by (simp add: request_def split_def Let_def)

section \<open>Methods of the machine context\<close>

definition GetFailureDomain :: "machineContext \<Rightarrow> string" where
  "GetFailureDomain c = (case m_failureDomain (mc_Machine c) of Some fd \<Rightarrow> fd | None \<Rightarrow> [])"

definition GetCloudFailureDomain :: "machineContext \<Rightarrow> elfMachine \<Rightarrow> cloudFailureDomain option" where
  "GetCloudFailureDomain c m =
     (let fd = GetFailureDomain c
      in if fd = [] then None
         else find (\<lambda>d. fd_ComputeCluster d = fd) (FailureDomains (Spec m)))"

definition GetElfClusterID :: "machineContext \<Rightarrow> string" where
  "GetElfClusterID c =
     (let fd = GetFailureDomain c in if fd \<noteq> [] then fd else ec_Cluster (mc_ElfCluster c))"

definition GetStorageConfig :: "machineContext \<Rightarrow> storageConfig option" where
  "GetStorageConfig c =
     (let ds = ec_DatastoreID (mc_ElfCluster c); sc = ec_StorageClusterID (mc_ElfCluster c)
      in if ds = [] \<and> sc = [] then None
         else Some \<lparr>stc_DatastoreID = (if ds \<noteq> [] then Some ds else None),
                    stc_StorageClusterID = (if sc \<noteq> [] then Some sc else None)\<rparr>)"

definition GenerateHostname ::
  "('w, 'c) env \<Rightarrow> machineContext \<Rightarrow> ('w, 'c) st \<Rightarrow> string \<times> ('w, 'c) st" where
  "GenerateHostname X c s =
     (let p0 = (case GetCloudFailureDomain c (elf s) of Some d \<Rightarrow> fd_HostNamePrefix d | None \<Rightarrow> []);
          prefix = (if p0 = [] then HostNamePrefix (Spec (elf s)) else p0)
      in if prefix \<noteq> []
         then (let (r, w) = K_RandomString (e_k8s X) 5 (world s)
               in (prefix @ ''-'' @ r, s\<lparr>world := w\<rparr>))
         else (om_Name (em_meta (elf s)), s))"

section \<open>Labels, annotations, owners\<close>

definition ClusterNameLabel :: string where [const_defs]: "ClusterNameLabel = ''cluster.x-k8s.io/cluster-name''"
definition MachineControlPlaneLabel :: string where
  [const_defs]: "MachineControlPlaneLabel = ''cluster.x-k8s.io/control-plane''"
definition MachineDeploymentNameLabel :: string where
  [const_defs]: "MachineDeploymentNameLabel = ''cluster.x-k8s.io/deployment-name''"
definition DeleteMachineAnnotation :: string where
  [const_defs]: "DeleteMachineAnnotation = ''cluster.x-k8s.io/delete-machine''"
definition PausedAnnotation :: string where [const_defs]: "PausedAnnotation = ''cluster.x-k8s.io/paused''"
definition PlacementGroupNameAnnotation :: string where
  [const_defs]: "PlacementGroupNameAnnotation = ''cape.infrastructure.cluster.x-k8s.io/placement-group-name''"
definition clusterv1_Group :: string where [const_defs]: "clusterv1_Group = ''cluster.x-k8s.io''"

definition HasLabel :: "objectMeta \<Rightarrow> string \<Rightarrow> bool" where
  "HasLabel o' label = (case om_Labels o' of None \<Rightarrow> False | Some ls \<Rightarrow> gm_get ls label \<noteq> None)"

definition GetLabelValue :: "objectMeta \<Rightarrow> string \<Rightarrow> string" where
  "GetLabelValue o' label =
     (case om_Labels o' of
        None \<Rightarrow> []
      | Some ls \<Rightarrow> (case gm_get ls label of None \<Rightarrow> [] | Some v \<Rightarrow> v))"

definition SetLabelValue :: "objectMeta \<Rightarrow> string \<Rightarrow> string \<Rightarrow> objectMeta" where
  "SetLabelValue o' label value =
     o'\<lparr>om_Labels := Some (gm_put label value (case om_Labels o' of None \<Rightarrow> [] | Some ls \<Rightarrow> ls))\<rparr>"

definition GetClusterNameLabelLabel :: "objectMeta \<Rightarrow> string" where
  "GetClusterNameLabelLabel o' = GetLabelValue o' ClusterNameLabel"

definition GetHostServerIDLabel :: "objectMeta \<Rightarrow> string" where
  "GetHostServerIDLabel o' = GetLabelValue o' HostServerIDLabel"

definition GetHostServerNameLabel :: "objectMeta \<Rightarrow> string" where
  "GetHostServerNameLabel o' = GetLabelValue o' HostServerNameLabel"

definition GetZoneIDLabel :: "objectMeta \<Rightarrow> string" where
  "GetZoneIDLabel o' = GetLabelValue o' ZoneIDLabel"

definition GetZoneTypeLabel :: "objectMeta \<Rightarrow> string" where
  "GetZoneTypeLabel o' = GetLabelValue o' ZoneTypeLabel"

definition GetTowerVMIDLabel :: "objectMeta \<Rightarrow> string" where
  "GetTowerVMIDLabel o' = GetLabelValue o' TowerVMIDLabel"

definition GetNodeGroupLabel :: "objectMeta \<Rightarrow> string" where
  "GetNodeGroupLabel o' = GetLabelValue o' NodeGroupLabel"

definition GetClusterNameLabel :: "objectMeta \<Rightarrow> string" where
  "GetClusterNameLabel o' = GetLabelValue o' ClusterNameLabel"

definition GetDeploymentNameLabel :: "objectMeta \<Rightarrow> string" where
  "GetDeploymentNameLabel o' = GetLabelValue o' MachineDeploymentNameLabel"

definition HasAnnotation :: "objectMeta \<Rightarrow> string \<Rightarrow> bool" where
  "HasAnnotation o' key = (case om_Annotations o' of None \<Rightarrow> False | Some as \<Rightarrow> gm_get as key \<noteq> None)"

definition GetPlacementGroupName :: "objectMeta \<Rightarrow> string" where
  "GetPlacementGroupName o' =
     (case om_Annotations o' of
        None \<Rightarrow> []
      | Some as \<Rightarrow> (case gm_get as PlacementGroupNameAnnotation of None \<Rightarrow> [] | Some v \<Rightarrow> v))"

definition RemoveAnnotation :: "objectMeta \<Rightarrow> string \<Rightarrow> objectMeta" where
  "RemoveAnnotation o' key =
     (case om_Annotations o' of None \<Rightarrow> o' | Some as \<Rightarrow> o'\<lparr>om_Annotations := Some (gm_del key as)\<rparr>)"

definition IsControlPlaneMachine :: "objectMeta \<Rightarrow> bool" where
  "IsControlPlaneMachine o' =
     (case om_Labels o' of None \<Rightarrow> False | Some ls \<Rightarrow> gm_get ls MachineControlPlaneLabel \<noteq> None)"

text \<open>\<^verbatim>\<open>pkg/util/capi\<close> has a function of its own for this.\<close>

definition hasAnnotation :: "objectMeta \<Rightarrow> string \<Rightarrow> bool" where
  "hasAnnotation o' key = (case om_Annotations o' of None \<Rightarrow> False | Some as \<Rightarrow> gm_get as key \<noteq> None)"

definition HasPaused :: "objectMeta \<Rightarrow> bool" where
  "HasPaused o' = hasAnnotation o' PausedAnnotation"

definition IsPaused :: "cluster \<Rightarrow> objectMeta \<Rightarrow> bool" where
  "IsPaused cl o' = (if cl_paused cl then True else HasPaused o')"

definition noLabelChar :: "char \<Rightarrow> bool" where
  "noLabelChar ch =
     (let n = (of_char ch :: nat)
      in \<not> (97 \<le> n \<and> n \<le> 122 \<or> 65 \<le> n \<and> n \<le> 90 \<or> 48 \<le> n \<and> n \<le> 57 \<or> ch = CHR ''-'' \<or> ch = CHR ''.''))"

definition isTrimChar :: "char \<Rightarrow> bool" where
  "isTrimChar ch = (ch = CHR ''-'' \<or> ch = CHR ''_'' \<or> ch = CHR ''.'')"

definition LabelValueMaxLength :: nat where "LabelValueMaxLength = 63"

definition ConvertToLabelValue :: "string \<Rightarrow> string" where
  "ConvertToLabelValue str =
     (let result = map (\<lambda>ch. if noLabelChar ch then CHR ''-'' else ch) str
      in if length result > LabelValueMaxLength then take LabelValueMaxLength result
         else rev (dropWhile isTrimChar (rev (dropWhile isTrimChar result))))"

fun GetKCPNameByMachine_owners :: "(string \<times> string \<times> string) list \<Rightarrow> string panics" where
  "GetKCPNameByMachine_owners [] = go_panic"
| "GetKCPNameByMachine_owners ((v, kind, name) # os) =
     (if kind = ''KubeadmControlPlane'' then Some name else GetKCPNameByMachine_owners os)"

definition GetKCPNameByMachine :: "machine \<Rightarrow> string panics" where
  "GetKCPNameByMachine m = GetKCPNameByMachine_owners (om_OwnerReferences (m_meta m))"

definition GetNodeGroupName :: "machine \<Rightarrow> string panics" where
  "GetNodeGroupName m = do {
     nodeGroupName \<leftarrow> (if IsControlPlaneMachine (m_meta m) then GetKCPNameByMachine m
                       else Some (GetDeploymentNameLabel (m_meta m)));
     let clusterName = GetClusterNameLabelLabel (m_meta m);
     Some (strReplaceAll nodeGroupName (clusterName @ ''-'') []) }"

definition NodeConditionsFailedReason :: string where
  [const_defs]: "NodeConditionsFailedReason = ''NodeConditionsFailed''"
definition MachineNodeHealthyCondition :: string where
  [const_defs]: "MachineNodeHealthyCondition = ''NodeHealthy''"

definition IsNodeHealthyConditionUnknown :: "lib \<Rightarrow> machine \<Rightarrow> bool" where
  "IsNodeHealthyConditionUnknown L m =
     (condIsUnknown L (m_conditions m) MachineNodeHealthyCondition \<and>
      condGetReason L (m_conditions m) MachineNodeHealthyCondition = NodeConditionsFailedReason)"

definition IsMachineFailed :: "machine \<Rightarrow> bool" where
  "IsMachineFailed m = (m_failureReason m \<noteq> None \<or> m_failureMessage m \<noteq> None)"

definition ProviderIDPrefix :: string where [const_defs]: "ProviderIDPrefix = ''elf://''"

definition ConvertUUIDToProviderID :: "string \<Rightarrow> string" where
  "ConvertUUIDToProviderID uuid = (if \<not> IsUUID uuid then [] else ProviderIDPrefix @ uuid)"

text \<open>The pattern is case-insensitive, so the prefix is compared after lowering it.\<close>

definition ConvertProviderIDToUUID :: "string option \<Rightarrow> string" where
  "ConvertProviderIDToUUID providerID =
     (case providerID of
        None \<Rightarrow> []
      | Some p \<Rightarrow>
          if strToLower (take 6 p) = ProviderIDPrefix \<and> IsUUID (drop 6 p) then drop 6 p else [])"

section \<open>KCP and MachineDeployment\<close>

definition GetKCPByMachine ::
  "('w, 'c) env \<Rightarrow> machine \<Rightarrow> ('w, 'c) st \<Rightarrow> ((go_error + kcp) \<times> ('w, 'c) st) panics" where
  "GetKCPByMachine X m s = do {
     kcpName \<leftarrow> GetKCPNameByMachine m;
     Some (query (K_GetKCP (e_k8s X) (om_Namespace (m_meta m)) kcpName) s) }"

definition GetMDByMachine ::
  "('w, 'c) env \<Rightarrow> machine \<Rightarrow> ('w, 'c) st \<Rightarrow> (go_error + machineDeployment) \<times> ('w, 'c) st" where
  "GetMDByMachine X m s =
     query (K_GetMD (e_k8s X) (om_Namespace (m_meta m)) (GetDeploymentNameLabel (m_meta m))) s"

definition GetControlPlaneElfMachinesInCluster ::
  "('w, 'c) env \<Rightarrow> string \<Rightarrow> string \<Rightarrow> ('w, 'c) st \<Rightarrow> (go_error + elfMachine list) \<times> ('w, 'c) st" where
  "GetControlPlaneElfMachinesInCluster X namespace clusterName s =
     query (K_ListElfMachines (e_k8s X) namespace
       [(ClusterNameLabel, clusterName), (MachineControlPlaneLabel, [])]) s"

definition IsKCPInRollingUpdate :: "kcp \<Rightarrow> bool panics" where
  "IsKCPInRollingUpdate k = do {
     r \<leftarrow> kcp_specReplicas k;
     Some ((r > kcp_updatedReplicas k \<and> r \<le> kcp_replicas k) \<or>
           (r = kcp_updatedReplicas k \<and> r < kcp_replicas k)) }"

definition ResizedCondition :: string where [const_defs]: "ResizedCondition = ''Resized''"
definition ScalingDownReason :: string where [const_defs]: "ScalingDownReason = ''ScalingDown''"

definition IsKCPInScalingDown :: "lib \<Rightarrow> kcp \<Rightarrow> bool panics" where
  "IsKCPInScalingDown L k =
     (if condIsFalse L (kcp_conditions k) ResizedCondition \<and>
         condGetReason L (kcp_conditions k) ResizedCondition = ScalingDownReason
      then do { r \<leftarrow> kcp_specReplicas k; Some (r < kcp_updatedReplicas k) }
      else Some False)"

text \<open>\<^verbatim>\<open>GetOwnerMachine\<close>: the first owner of kind Machine in the Cluster API group.\<close>

fun ownerMachineName :: "lib \<Rightarrow> (string \<times> string \<times> string) list \<Rightarrow> go_error + string option" where
  "ownerMachineName L [] = Inr None"
| "ownerMachineName L ((v, kind, name) # os) =
     (case parseGroupVersion L v of
        Inl e \<Rightarrow> Inl e
      | Inr grp \<Rightarrow>
          if kind = ''Machine'' \<and> grp = clusterv1_Group then Inr (Some name)
          else ownerMachineName L os)"

definition GetOwnerMachine ::
  "('w, 'c) env \<Rightarrow> objectMeta \<Rightarrow> ('w, 'c) st \<Rightarrow> (go_error + machine option) \<times> ('w, 'c) st" where
  "GetOwnerMachine X obj s =
     (case ownerMachineName (e_lib X) (om_OwnerReferences obj) of
        Inl e \<Rightarrow> (Inl e, s)
      | Inr None \<Rightarrow> (Inr None, s)
      | Inr (Some name) \<Rightarrow>
          (case query (K_GetMachine (e_k8s X) (om_Namespace obj) name) s of
             (Inl e, s) \<Rightarrow> (Inl e, s)
           | (Inr m, s) \<Rightarrow> (Inr (Some m), s)))"

section \<open>Tower resource names\<close>

definition GetEnv :: "(string \<Rightarrow> string option) \<Rightarrow> string \<Rightarrow> string \<Rightarrow> string" where
  "GetEnv env key def = (case env key of Some v \<Rightarrow> v | None \<Rightarrow> def)"

definition GetResourcePrefix :: "('w, 'c) env \<Rightarrow> string" where
  "GetResourcePrefix X = GetEnv (e_getenv X) ''TOWER_RESOURCE_PREFIX'' ''cape''"

definition IsAllowCustomVMConfig :: "('w, 'c) env \<Rightarrow> bool" where
  "IsAllowCustomVMConfig X = (GetEnv (e_getenv X) ''ALLOW_CUSTOM_VM_CONFIG'' ''true'' = ''false'')"

definition GetVMLabelManaged :: "('w, 'c) env \<Rightarrow> string" where
  "GetVMLabelManaged X = GetResourcePrefix X @ ''-'' @ ''managed''"
definition GetVMLabelNamespace :: "('w, 'c) env \<Rightarrow> string" where
  "GetVMLabelNamespace X = GetResourcePrefix X @ ''-'' @ ''namespace''"
definition GetVMLabelClusterName :: "('w, 'c) env \<Rightarrow> string" where
  "GetVMLabelClusterName X = GetResourcePrefix X @ ''-'' @ ''cluster-name''"
definition GetVMLabelVIP :: "('w, 'c) env \<Rightarrow> string" where
  "GetVMLabelVIP X = GetResourcePrefix X @ ''-'' @ ''vip''"

definition GetVMPlacementGroupNamePrefix :: "('w, 'c) env \<Rightarrow> cluster \<Rightarrow> string" where
  "GetVMPlacementGroupNamePrefix X cl =
     GetResourcePrefix X @ ''-managed-'' @ om_UID (cl_meta cl) @ ''-'' @ om_Namespace (cl_meta cl)"

definition placementGroupNameFor :: "('w, 'c) env \<Rightarrow> machine \<Rightarrow> cluster \<Rightarrow> string \<Rightarrow> string" where
  "placementGroupNameFor X m cl groupName =
     (if groupName = [] then []
      else
        (let pgName = GetVMPlacementGroupNamePrefix X cl @ ''-'' @ groupName
         in case m_failureDomain m of
              None \<Rightarrow> pgName
            | Some fd \<Rightarrow> pgName @ ''-'' @ (if length fd > 8 then take 8 fd else fd)))"

definition GetVMPlacementGroupName ::
  "('w, 'c) env \<Rightarrow> machine \<Rightarrow> cluster \<Rightarrow> ('w, 'c) st \<Rightarrow> ((go_error + string) \<times> ('w, 'c) st) panics" where
  "GetVMPlacementGroupName X m cl s =
     (if IsControlPlaneMachine (m_meta m) then do {
        (r, s) \<leftarrow> GetKCPByMachine X m s;
        case r of
          Inl e \<Rightarrow> Some (Inl e, s)
        | Inr k \<Rightarrow>
            if GetPlacementGroupName (kcp_meta k) \<noteq> [] then Some (Inr (GetPlacementGroupName (kcp_meta k)), s)
            else do {
              groupName \<leftarrow> GetKCPNameByMachine m;
              Some (Inr (placementGroupNameFor X m cl groupName), s) } }
      else
        (case GetMDByMachine X m s of
           (Inl e, s) \<Rightarrow> Some (Inl e, s)
         | (Inr md, s) \<Rightarrow>
             if GetPlacementGroupName (md_meta md) \<noteq> [] then Some (Inr (GetPlacementGroupName (md_meta md)), s)
             else Some (Inr (placementGroupNameFor X m cl (GetDeploymentNameLabel (m_meta m))), s)))"

definition GetVMPlacementGroupPolicy :: "machine \<Rightarrow> string" where
  "GetVMPlacementGroupPolicy m =
     (if IsControlPlaneMachine (m_meta m) then ''MUST_DIFFERENT'' else ''PREFER_DIFFERENT'')"

section \<open>A concrete environment\<close>

text \<open>
  A Tower server that knows no object and an API server that knows none either, a machine
  context and a state; witnesses replace the calls and fields they need.
\<close>

definition wit_svc :: "'w vmservice" where
  "wit_svc = \<lparr>
     Svc_Clone = (\<lambda>_ _ _ w. (Inl (ErrMsg ''offline''), w)),
     Svc_UpdateVM = (\<lambda>_ _ w. (Inl (ErrMsg ''offline''), w)),
     Svc_Migrate = (\<lambda>_ _ w. (Inl (ErrMsg ''offline''), w)),
     Svc_Delete = (\<lambda>_ w. (Inl (ErrMsg ''offline''), w)),
     Svc_PowerOff = (\<lambda>_ w. (Inl (ErrMsg ''offline''), w)),
     Svc_PowerOn = (\<lambda>_ _ w. (Inl (ErrMsg ''offline''), w)),
     Svc_ShutDown = (\<lambda>_ w. (Inl (ErrMsg ''offline''), w)),
     Svc_RemoveGPUDevices = (\<lambda>_ _ w. (Inl (ErrMsg ''offline''), w)),
     Svc_AddGPUDevices = (\<lambda>_ _ w. (Inl (ErrMsg ''offline''), w)),
     Svc_Get = (\<lambda>_ w. (Inl (ErrMsg VMNotFound), w)),
     Svc_GetByName = (\<lambda>_ w. (Inl (ErrMsg VMNotFound), w)),
     Svc_FindByIDs = (\<lambda>_ w. (Inr [], w)),
     Svc_FindVMsByName = (\<lambda>_ w. (Inr [], w)),
     Svc_AddVMNics = (\<lambda>_ _ w. (Inl (ErrMsg ''offline''), w)),
     Svc_GetVMNics = (\<lambda>_ w. (Inr [], w)),
     Svc_GetVMDisks = (\<lambda>_ w. (Inr [], w)),
     Svc_GetVMVolume = (\<lambda>_ w. (Inl (ErrMsg VMVolumeNotFound), w)),
     Svc_ResizeVMVolume = (\<lambda>_ _ w. (Inl (ErrMsg ''offline''), w)),
     Svc_GetTask = (\<lambda>_ w. (Inl (ErrMsg TaskNotFound), w)),
     Svc_WaitTask = (\<lambda>_ _ _ w. (Inl (ErrMsg TaskNotFound), w)),
     Svc_GetCluster = (\<lambda>_ w. (Inl (ErrMsg ''offline''), w)),
     Svc_GetClusterZones = (\<lambda>_ w. (Inr [], w)),
     Svc_GetHostsByCluster = (\<lambda>_ _ w. (Inr [], w)),
     Svc_GetVlan = (\<lambda>_ w. (Inl (ErrMsg ''offline''), w)),
     Svc_UpsertLabel = (\<lambda>_ _ w. (Inl (ErrMsg ''offline''), w)),
     Svc_AddLabelsToVM = (\<lambda>_ _ w. (Inl (ErrMsg ''offline''), w)),
     Svc_CreateVMPlacementGroup = (\<lambda>_ _ _ w. (Inl (ErrMsg ''offline''), w)),
     Svc_GetVMPlacementGroup = (\<lambda>_ w. (Inl (ErrMsg VMPlacementGroupNotFound), w)),
     Svc_AddVMsToPlacementGroup = (\<lambda>_ _ w. (Inl (ErrMsg ''offline''), w)),
     Svc_DeleteVMPlacementGroupByID = (\<lambda>_ w. (Inl (ErrMsg ''offline''), w)),
     Svc_DeleteVMPlacementGroupsByNamePrefix = (\<lambda>_ w. (Inr [], w)),
     Svc_DeleteLabel = (\<lambda>_ _ _ w. (Inr [], w)),
     Svc_CleanUnusedLabels = (\<lambda>_ w. (Inr [], w)),
     Svc_GetGPUDevicesAllocationInfoByHostIDs = (\<lambda>_ _ w. (Inr [], w)),
     Svc_GetGPUDevicesAllocationInfoByIDs = (\<lambda>_ w. (Inr [], w)),
     Svc_GetVMGPUAllocationInfo = (\<lambda>_ w. (Inr [], w))\<rparr>"

definition wit_k8s :: "'w k8s" where
  "wit_k8s = \<lparr>
     K_GetKCP = (\<lambda>_ n w. (Inl (ErrApiNotFound n), w)),
     K_GetMD = (\<lambda>_ n w. (Inl (ErrApiNotFound n), w)),
     K_GetMachine = (\<lambda>_ n w. (Inl (ErrApiNotFound n), w)),
     K_GetCluster = (\<lambda>_ n w. (Inl (ErrApiNotFound n), w)),
     K_GetElfMachine = (\<lambda>_ n w. (Inl (ErrApiNotFound n), w)),
     K_GetElfCluster = (\<lambda>_ n w. (Inl (ErrApiNotFound n), w)),
     K_ListElfMachines = (\<lambda>_ _ w. (Inr [], w)),
     K_GetSecretData = (\<lambda>_ n w. (Inl (ErrApiNotFound n), w)),
     K_GetConfigMapData = (\<lambda>_ n w. (Inl (ErrApiNotFound n), w)),
     K_NewMachinePatchHelper = (\<lambda>_ w. (Inr (), w)),
     K_PatchMachineAnnotations = (\<lambda>_ _ w. (Inr (), w)),
     K_PatchElfMachineFrom = (\<lambda>_ _ w. (Inr (), w)),
     K_PatchElfMachine = (\<lambda>_ w. (Inr (), w)),
     K_RemoteClient = (\<lambda>_ w. (Inr (), w)),
     K_NodesByProviderID = (\<lambda>_ w. (Inr [], w)),
     K_ListNodes = (\<lambda>w. (Inr [], w)),
     K_DeleteNode = (\<lambda>_ w. (Inr (), w)),
     K_PatchNodeLabels = (\<lambda>_ _ w. (Inr (), w)),
     K_NewClusterClient = (\<lambda>_ w. (Inr (), w)),
     K_GetHostJob = (\<lambda>_ n w. (Inl (ErrApiNotFound n), w)),
     K_CreateHostJob = (\<lambda>_ w. (Inr (), w)),
     K_DeleteHostJob = (\<lambda>_ w. (Inr (), w)),
     K_RandomString = (\<lambda>n w. (replicate n (CHR ''x''), w)),
     K_NewVMService = (\<lambda>_ w. (Inr (), w)),
     K_NewPatchHelper = (\<lambda>_ w. (Inr (), w)),
     K_NewClusterPatchHelper = (\<lambda>_ w. (Inr (), w)),
     K_PatchElfCluster = (\<lambda>_ w. (Inr (), w)),
     K_ListKCPs = (\<lambda>_ _ w. (Inr [], w)),
     K_GetElfMachineTemplate = (\<lambda>_ n w. (Inl (ErrApiNotFound n), w)),
     K_NewKubeClient = (\<lambda>_ w. (Inr (), w)),
     K_ListWorkloadNodes = (\<lambda>_ w. (Inr (), w))\<rparr>"

definition wit_cfg :: config where
  "wit_cfg = \<lparr>cfg_DefaultRequeueTimeout = 10 * 10 ^ 9, cfg_WaitTaskInterval = 10 ^ 9,
     cfg_WaitTaskTimeoutForPlacementGroupOperation = 10 * 10 ^ 9,
     cfg_VMPowerStatusCheckingDuration = 120 * 10 ^ 9, cfg_VMNumCPUs = 2, cfg_VMMemoryMiB = 2048,
     cfg_NameserverLimit = 3, cfg_MaxConcurrentVMCreations = 20\<rparr>"

definition wit_env :: "('w, cacheVal ttl) env" where
  "wit_env = \<lparr>e_lib = ref_lib, e_cache = ttl_cache, e_cfg = wit_cfg, e_svc = wit_svc, e_k8s = wit_k8s,
     e_getenv = (\<lambda>_. None), e_yaml = \<lparr>yUnmarshal = (\<lambda>_. None), yDecode = (\<lambda>_. ([], False)), yMarshal = (\<lambda>n. Inr (Value n))\<rparr>, e_JobTimeouts = \<lparr>jt_Default = 0, jt_ExpandRootPartition = 0,
       jt_RestartKubelet = 5 * time_Minute, jt_SetNetworkDeviceConfig = 0\<rparr>, e_setSummary = (\<lambda>_ cs _. cs), e_ctxText = [], e_gvkText = []\<rparr>"

definition wit_meta :: "string \<Rightarrow> objectMeta" where
  "wit_meta n = \<lparr>om_Name = n, om_Namespace = ''default'', om_UID = ''u'', om_Labels = Some [],
     om_Annotations = Some [], om_Finalizers = [], om_DeletionTimestamp = None,
     om_CreationTimestamp = 0, om_OwnerReferences = []\<rparr>"

definition wit_elf :: elfMachine where
  "wit_elf = \<lparr>em_meta = (wit_meta ''vm1'')\<lparr>om_Finalizers := [MachineFinalizer]\<rparr>,
     Spec = \<lparr>ProviderID = None, FailureDomains = [], HostNamePrefix = [], Template = ''t'',
       OSType = [], Network = \<lparr>ns_Devices = [], ns_Nameservers = [], ns_PreferredAPIServerCIDR = []\<rparr>,
       NumCPUs = 4, NumCoresPerSocket = 4, MemoryMiB = 8192, DiskGiB = 40, GPUDevices = [],
       VGPUDevices = [], HA = True, HAPriority = [], CloneMode = FastClone, Host = []\<rparr>,
     Status = \<lparr>Ready = False, Conditions = [], Addresses = [], NetworkStatuses = [], GPUStatuses = [],
       Resources = \<lparr>rs_Disk = 0, rs_CPUCores = 0, rs_Memory = 0\<rparr>,
       FailureReason = None, FailureMessage = None, VMRef = [], TaskRef = [], HostServerRef = [],
       HostServerName = [], PlacementGroupRef = [], Zone = \<lparr>zs_ZoneID = [], zs_Type = []\<rparr>,
       ComputeCluster = \<lparr>in_ID = [], in_Name = []\<rparr>, StorageClusterSt = \<lparr>in_ID = [], in_Name = []\<rparr>,
       DataStore = \<lparr>in_ID = [], in_Name = []\<rparr>\<rparr>\<rparr>"

definition wit_ctx :: machineContext where
  "wit_ctx = \<lparr>
     mc_Cluster = \<lparr>cl_meta = wit_meta ''cluster1'', cl_paused = False, cl_infrastructureRefName = Some ''cluster1'',
       cl_infrastructureReady = True, cl_controlPlaneReady = True, cl_conditions = []\<rparr>,
     mc_Machine = \<lparr>m_meta = wit_meta ''machine1'', m_failureDomain = None,
       m_bootstrapDataSecretName = Some ''b'', m_nodeRef = None, m_failureReason = None,
       m_failureMessage = None, m_conditions = [], m_Version = None\<rparr>,
     mc_ElfCluster = \<lparr>ec_meta = wit_meta ''cluster1'', ec_Tower = \<lparr>t_Server = ''tower'', t_Username = ''root'', t_Password = ''pw'',
       t_AuthMode = ''LOCAL'', t_SkipTLSVerify = True, t_SecretRef = None\<rparr>, ec_Cluster = ''c1'', ec_DatastoreID = [],
       ec_StorageClusterID = [], ec_ClusterType = ElfClusterTypeStandard, ec_EndpointHost = ''10.0.0.1'',
       ec_EndpointPort = 6443, ec_VMGracefulShutdown = False, ec_Ready = True, ec_FailureDomains = [], ec_Conditions = []\<rparr>,
     mc_Now = 0, mc_VMServiceNil = False\<rparr>"

definition wit_st :: "(unit, cacheVal ttl) st" where
  "wit_st = \<lparr>elf = wit_elf, world = (), glob = wit_gstate, calls = []\<rparr>"

lemmas wit_env_sels = wit_env_def wit_svc_def wit_k8s_def wit_ctx_def wit_st_def

lemma wit_env_simps [simp]:
  "e_lib wit_env = ref_lib" "e_cache wit_env = ttl_cache" "e_cfg wit_env = wit_cfg"
  "e_svc wit_env = wit_svc" "e_k8s wit_env = wit_k8s"
  by (simp_all add: wit_env_def)

end
