(* ===== verification/Tower_Cache.thy ===== *)
theory Tower_Cache
  imports Machine_Ctx
begin

text \<open>
  \<^verbatim>\<open>controllers/tower_cache.go\<close>: the record of resource shortages of ELF
  clusters (memory, storage, unsatisfied placement-group policies), which delays VM creation
  and power-on, and the caches of placement groups and GPU devices.
\<close>

section \<open>Keys and durations\<close>

definition resourceSilenceTime :: int where "resourceSilenceTime = 5 * time_Minute"
definition resourceDuration :: int where "resourceDuration = 10 * time_Minute"
definition pgCacheDuration :: int where "pgCacheDuration = 20 * time_Second"
definition gpuCacheDuration :: int where "gpuCacheDuration = 3 * time_Second"
definition defaultStorageAmount :: int where "defaultStorageAmount = 200"

lemmas cache_time_defs =
  resourceSilenceTime_def resourceDuration_def pgCacheDuration_def gpuCacheDuration_def time_defs

definition getKeyForInsufficientStorageError :: "string \<Rightarrow> string" where
  "getKeyForInsufficientStorageError clusterID = ''insufficient:storage:'' @ clusterID"

definition getKeyForInsufficientMemoryError :: "string \<Rightarrow> string" where
  "getKeyForInsufficientMemoryError clusterID = ''insufficient:memory:'' @ clusterID"

definition getKeyForDuplicatePlacementGroupError :: "string \<Rightarrow> string" where
  "getKeyForDuplicatePlacementGroupError placementGroup = ''pg:duplicate:'' @ placementGroup"

definition getKeyForPGCache :: "string \<Rightarrow> string" where
  "getKeyForPGCache pgName = ''pg:'' @ pgName @ '':cache''"

definition getKeyForGPUVMInfo :: "string \<Rightarrow> string" where
  "getKeyForGPUVMInfo gpuID = ''gpu:vm:info:'' @ gpuID"

section \<open>Recorded resource shortages\<close>

text \<open>\<^verbatim>\<open>newClusterResource\<close> allocates; the result is the address.\<close>

definition newClusterResource :: "int \<Rightarrow> int \<Rightarrow> 'c gstate \<Rightarrow> nat \<times> 'c gstate" where
  "newClusterResource now requestAmount g =
     (length (resHeap g),
      g\<lparr>resHeap := resHeap g @
          [\<lparr>LastDetected = now, LastRetried = now, RequestAmount = requestAmount\<rparr>]\<rparr>)"

definition getClusterResource ::
  "('c, cacheVal) gocache \<Rightarrow> int \<Rightarrow> string \<Rightarrow> 'c gstate \<Rightarrow> nat option \<times> 'c gstate" where
  "getClusterResource C now key g =
     (case cGet C (inMemoryCache g) now key of
        None \<Rightarrow> (None, g)
      | Some (CVResource a) \<Rightarrow> (Some a, g)
      | Some _ \<Rightarrow> (None, g\<lparr>inMemoryCache := cDelete C (inMemoryCache g) key\<rparr>))"

definition setClusterResource ::
  "('c, cacheVal) gocache \<Rightarrow> int \<Rightarrow> string \<Rightarrow> int \<Rightarrow> 'c gstate \<Rightarrow> 'c gstate" where
  "setClusterResource C now key requestAmount g =
     (let (a, g) = newClusterResource now requestAmount g
      in g\<lparr>inMemoryCache := cSet C (inMemoryCache g) now key (CVResource a) (Some resourceDuration)\<rparr>)"

definition deleteKey :: "('c, cacheVal) gocache \<Rightarrow> string \<Rightarrow> 'c gstate \<Rightarrow> 'c gstate" where
  "deleteKey C key g = g\<lparr>inMemoryCache := cDelete C (inMemoryCache g) key\<rparr>"

definition getMemoryRequestAmount :: "elfMachine \<Rightarrow> int" where
  "getMemoryRequestAmount m =
     (let specMemory = wrap64 (MemoryMiB (Spec m) * 1024 * 1024)
      in wrap64 (specMemory - rs_Memory (Resources (Status m))))"

definition getStorageRequestAmount :: "elfMachine \<Rightarrow> int" where
  "getStorageRequestAmount m =
     (if DiskGiB (Spec m) = 0 then defaultStorageAmount
      else wrap32 (DiskGiB (Spec m) - rs_Disk (Resources (Status m))))"

definition isELFClusterMemoryInsufficient ::
  "('w, 'c) env \<Rightarrow> machineContext \<Rightarrow> ('w, 'c) st \<Rightarrow> (bool \<times> string) \<times> ('w, 'c) st" where
  "isELFClusterMemoryInsufficient X c s =
     (let (r, g) = getClusterResource (e_cache X) (mc_Now c)
                     (getKeyForInsufficientMemoryError (GetElfClusterID c)) (glob s)
      in (if r \<noteq> None
          then (True, ''Insufficient memory detected for the ELF cluster '' @ GetElfClusterID c)
          else (False, []), s\<lparr>glob := g\<rparr>))"

definition isELFClusterStorageInsufficient ::
  "('w, 'c) env \<Rightarrow> machineContext \<Rightarrow> ('w, 'c) st \<Rightarrow> (bool \<times> string) \<times> ('w, 'c) st" where
  "isELFClusterStorageInsufficient X c s =
     (let (r, g) = getClusterResource (e_cache X) (mc_Now c)
                     (getKeyForInsufficientStorageError (GetElfClusterID c)) (glob s)
      in (if r \<noteq> None
          then (True, ''Insufficient storage detected for the ELF cluster '' @ GetElfClusterID c)
          else (False, []), s\<lparr>glob := g\<rparr>))"

definition isELFScheduleVMErrorRecorded ::
  "('w, 'c) env \<Rightarrow> machineContext \<Rightarrow> ('w, 'c) st \<Rightarrow>
     ((bool \<times> string \<times> go_error option) \<times> ('w, 'c) st) panics" where
  "isELFScheduleVMErrorRecorded X c s =
     (let ((insufficient, msg), s) = isELFClusterMemoryInsufficient X c s
      in if insufficient then
           Some ((True, msg, None),
             markFalse X c VMProvisionedCondition WaitingForELFClusterWithSufficientMemoryReason SevInfo [] s)
         else
           (let ((insufficient, msg), s) = isELFClusterStorageInsufficient X c s
            in if insufficient then
                 Some ((True, msg, None),
                   markFalse X c VMProvisionedCondition WaitingForELFClusterWithSufficientStorageReason SevInfo [] s)
               else do {
                 (r, s) \<leftarrow> GetVMPlacementGroupName X (mc_Machine c) (mc_Cluster c) s;
                 case r of
                   Inl err \<Rightarrow> Some ((False, [], Some err), s)
                 | Inr placementGroupName \<Rightarrow>
                     (let (resource, g) = getClusterResource (e_cache X) (mc_Now c)
                            (getKeyForDuplicatePlacementGroupError placementGroupName) (glob s);
                          s = s\<lparr>glob := g\<rparr>
                      in if resource \<noteq> None then
                           Some ((True, ''Not satisfy policy detected for the placement group '' @
                                        placementGroupName, None),
                             markFalse X c VMProvisionedCondition
                               WaitingForPlacementGroupPolicySatisfiedReason SevInfo [] s)
                         else Some ((False, [], None), s)) }))"

definition recordElfClusterMemoryInsufficient ::
  "('w, 'c) env \<Rightarrow> machineContext \<Rightarrow> bool \<Rightarrow> ('w, 'c) st \<Rightarrow> ('w, 'c) st" where
  "recordElfClusterMemoryInsufficient X c isInsufficient s =
     (let key = getKeyForInsufficientMemoryError (GetElfClusterID c)
      in if isInsufficient
         then updGlob (setClusterResource (e_cache X) (mc_Now c) key (getMemoryRequestAmount (elf s))) s
         else updGlob (deleteKey (e_cache X) key) s)"

definition recordElfClusterStorageInsufficient ::
  "('w, 'c) env \<Rightarrow> machineContext \<Rightarrow> bool \<Rightarrow> ('w, 'c) st \<Rightarrow> ('w, 'c) st" where
  "recordElfClusterStorageInsufficient X c isError s =
     (let key = getKeyForInsufficientStorageError (GetElfClusterID c)
      in if isError
         then updGlob (setClusterResource (e_cache X) (mc_Now c) key (getStorageRequestAmount (elf s))) s
         else updGlob (deleteKey (e_cache X) key) s)"

definition recordPlacementGroupPolicyNotSatisfied ::
  "('w, 'c) env \<Rightarrow> machineContext \<Rightarrow> bool \<Rightarrow> ('w, 'c) st \<Rightarrow> (go_error option \<times> ('w, 'c) st) panics" where
  "recordPlacementGroupPolicyNotSatisfied X c isPGPolicyNotSatisfied s = do {
     (r, s) \<leftarrow> GetVMPlacementGroupName X (mc_Machine c) (mc_Cluster c) s;
     case r of
       Inl err \<Rightarrow> Some (Some err, s)
     | Inr placementGroupName \<Rightarrow>
         (let key = getKeyForDuplicatePlacementGroupError placementGroupName
          in if isPGPolicyNotSatisfied
             then Some (None, updGlob (setClusterResource (e_cache X) (mc_Now c) key 0) s)
             else Some (None, updGlob (deleteKey (e_cache X) key) s)) }"

section \<open>Retrying\<close>

text \<open>The retry time is written through the pointer, so the cache entry keeps its expiration.\<close>

definition canRetry ::
  "('c, cacheVal) gocache \<Rightarrow> int \<Rightarrow> string \<Rightarrow> int \<Rightarrow> 'c gstate \<Rightarrow> bool \<times> 'c gstate" where
  "canRetry C now key requestAmount g =
     (let (r, g) = getClusterResource C now key g
      in case r of
           None \<Rightarrow> (False, g)
         | Some a \<Rightarrow>
             (let resource = resHeap g ! a
              in if requestAmount < RequestAmount resource then (True, g)
                 else if now < LastDetected resource + resourceSilenceTime then (False, g)
                 else if now < LastRetried resource + resourceSilenceTime then (False, g)
                 else (True, g\<lparr>resHeap := (resHeap g)[a := resource\<lparr>LastRetried := now\<rparr>]\<rparr>)))"

definition canRetryMemoryAllocation ::
  "('w, 'c) env \<Rightarrow> machineContext \<Rightarrow> ('w, 'c) st \<Rightarrow> bool \<times> ('w, 'c) st" where
  "canRetryMemoryAllocation X c s =
     (let (ok, g) = canRetry (e_cache X) (mc_Now c) (getKeyForInsufficientMemoryError (GetElfClusterID c))
                      (getMemoryRequestAmount (elf s)) (glob s)
      in (ok, s\<lparr>glob := g\<rparr>))"

definition canRetryStorageAllocation ::
  "('w, 'c) env \<Rightarrow> machineContext \<Rightarrow> ('w, 'c) st \<Rightarrow> bool \<times> ('w, 'c) st" where
  "canRetryStorageAllocation X c s =
     (let (ok, g) = canRetry (e_cache X) (mc_Now c) (getKeyForInsufficientStorageError (GetElfClusterID c))
                      (getStorageRequestAmount (elf s)) (glob s)
      in (ok, s\<lparr>glob := g\<rparr>))"

definition canRetryVMOperation ::
  "('w, 'c) env \<Rightarrow> machineContext \<Rightarrow> ('w, 'c) st \<Rightarrow> ((bool \<times> go_error option) \<times> ('w, 'c) st) panics" where
  "canRetryVMOperation X c s =
     (let (ok, s) = canRetryMemoryAllocation X c s
      in if ok then Some ((True, None), s)
         else
           (let (ok, s) = canRetryStorageAllocation X c s
            in if ok then Some ((True, None), s)
               else do {
                 (r, s) \<leftarrow> GetVMPlacementGroupName X (mc_Machine c) (mc_Cluster c) s;
                 case r of
                   Inl err \<Rightarrow> Some ((False, Some err), s)
                 | Inr placementGroupName \<Rightarrow>
                     (let (ok, g) = canRetry (e_cache X) (mc_Now c)
                            (getKeyForDuplicatePlacementGroupError placementGroupName) 0 (glob s)
                      in Some ((ok, None), s\<lparr>glob := g\<rparr>)) }))"

section \<open>Placement group and GPU caches\<close>

definition setPGCache ::
  "('c, cacheVal) gocache \<Rightarrow> int \<Rightarrow> vmPlacementGroup \<Rightarrow> 'c gstate \<Rightarrow> 'c gstate panics" where
  "setPGCache C now pg g = do {
     name \<leftarrow> pg_Name pg;
     Some (g\<lparr>inMemoryCache :=
       cSet C (inMemoryCache g) now (getKeyForPGCache name) (CVPG pg) (Some pgCacheDuration)\<rparr>) }"

definition delPGCaches :: "('c, cacheVal) gocache \<Rightarrow> string list \<Rightarrow> 'c gstate \<Rightarrow> 'c gstate" where
  "delPGCaches C pgNames g = fold (\<lambda>n. deleteKey C (getKeyForPGCache n)) pgNames g"

definition getPGFromCache ::
  "('c, cacheVal) gocache \<Rightarrow> int \<Rightarrow> string \<Rightarrow> 'c gstate \<Rightarrow> vmPlacementGroup option \<times> 'c gstate" where
  "getPGFromCache C now pgName g =
     (let key = getKeyForPGCache pgName
      in case cGet C (inMemoryCache g) now key of
           None \<Rightarrow> (None, g)
         | Some (CVPG pg) \<Rightarrow> (Some pg, g)
         | Some _ \<Rightarrow> (None, deleteKey C key g))"

definition setGPUVMInfosCache ::
  "('c, cacheVal) gocache \<Rightarrow> int \<Rightarrow> gpuVMInfos \<Rightarrow> 'c gstate \<Rightarrow> 'c gstate" where
  "setGPUVMInfosCache C now infos g =
     fold (\<lambda>(k, i) g. g\<lparr>inMemoryCache :=
        cSet C (inMemoryCache g) now (getKeyForGPUVMInfo (g_ID i)) (CVGPU i) (Some gpuCacheDuration)\<rparr>)
       infos g"

text \<open>The entry is deleted on every hit, also when it holds a GPU device.\<close>

fun gpuVMInfosFromCache ::
  "('c, cacheVal) gocache \<Rightarrow> int \<Rightarrow> string list \<Rightarrow> gpuVMInfos \<Rightarrow> 'c gstate \<Rightarrow> gpuVMInfos \<times> 'c gstate" where
  "gpuVMInfosFromCache C now [] infos g = (infos, g)"
| "gpuVMInfosFromCache C now (i # ids) infos g =
     (let key = getKeyForGPUVMInfo i
      in case cGet C (inMemoryCache g) now key of
           None \<Rightarrow> gpuVMInfosFromCache C now ids infos g
         | Some v \<Rightarrow>
             gpuVMInfosFromCache C now ids
               (case v of CVGPU info \<Rightarrow> GPUVMInfos_Insert infos info | _ \<Rightarrow> infos) (deleteKey C key g))"

definition getGPUVMInfosFromCache ::
  "('c, cacheVal) gocache \<Rightarrow> int \<Rightarrow> string list \<Rightarrow> 'c gstate \<Rightarrow> gpuVMInfos \<times> 'c gstate" where
  "getGPUVMInfosFromCache C now gpuIDs g = gpuVMInfosFromCache C now gpuIDs [] g"

section \<open>Lemmas\<close>

lemma cache_keys_distinct [simp]:
  "getKeyForInsufficientMemoryError a \<noteq> getKeyForInsufficientStorageError b"
  "getKeyForInsufficientStorageError b \<noteq> getKeyForInsufficientMemoryError a"
  "getKeyForInsufficientMemoryError a \<noteq> getKeyForDuplicatePlacementGroupError b"
  "getKeyForInsufficientStorageError a \<noteq> getKeyForDuplicatePlacementGroupError b"
  by (simp_all add: getKeyForInsufficientMemoryError_def getKeyForInsufficientStorageError_def
      getKeyForDuplicatePlacementGroupError_def)

lemma markFalse_st [simp]:
  "glob (markFalse X c t rs sev msg s) = glob s" "world (markFalse X c t rs sev msg s) = world s"
  "calls (markFalse X c t rs sev msg s) = calls s"
  "elf (markFalse X c t rs sev msg s) = emMarkFalse (e_lib X) (mc_Now c) t rs sev msg (elf s)"
  by (simp_all add: markFalse_def updElf_def)

lemma markTrue_st [simp]:
  "glob (markTrue X c t s) = glob s" "world (markTrue X c t s) = world s"
  "calls (markTrue X c t s) = calls s"
  "elf (markTrue X c t s) = emMarkTrue (e_lib X) (mc_Now c) t (elf s)"
  by (simp_all add: markTrue_def updElf_def)

context limiter_cache
begin

lemma getClusterResource_set:
  assumes "t \<le> t'" and "t' \<le> t + resourceDuration"
  shows "getClusterResource C t' key (setClusterResource C t key amount g) =
    (Some (length (resHeap g)), setClusterResource C t key amount g)"
  using assms
  by (simp add: getClusterResource_def setClusterResource_def newClusterResource_def cGet_set
      not_expired_def cache_time_defs)

lemma setClusterResource_heap:
  "resHeap (setClusterResource C t key amount g) =
     resHeap g @ [\<lparr>LastDetected = t, LastRetried = t, RequestAmount = amount\<rparr>]"
  by (simp add: setClusterResource_def newClusterResource_def)

lemma getClusterResource_deleted:
  "getClusterResource C t' key (deleteKey C key g) = (None, deleteKey C key g)"
  by (simp add: getClusterResource_def deleteKey_def cGet_delete)

text \<open>The decision of \<^verbatim>\<open>canRetry\<close> on a recorded shortage.\<close>

lemma canRetry_recorded:
  assumes "cGet C (inMemoryCache g) t key = Some (CVResource a)"
  shows "fst (canRetry C t key amount g) \<longleftrightarrow>
      amount < RequestAmount (resHeap g ! a) \<or>
      (LastDetected (resHeap g ! a) + resourceSilenceTime \<le> t \<and>
       LastRetried (resHeap g ! a) + resourceSilenceTime \<le> t)"
  using assms by (auto simp: canRetry_def getClusterResource_def Let_def)

lemma canRetry_state:
  assumes "cGet C (inMemoryCache g) t key = Some (CVResource a)"
    and "fst (canRetry C t key amount g)" and "\<not> amount < RequestAmount (resHeap g ! a)"
  shows "snd (canRetry C t key amount g) =
      g\<lparr>resHeap := (resHeap g)[a := (resHeap g ! a)\<lparr>LastRetried := t\<rparr>]\<rparr>"
  using assms by (auto simp: canRetry_def getClusterResource_def Let_def split: if_splits)

text \<open>A second retry with the same or a larger amount waits for the silence time.\<close>

lemma canRetry_again:
  assumes "cGet C (inMemoryCache g) t key = Some (CVResource a)" and "a < length (resHeap g)"
    and "RequestAmount (resHeap g ! a) \<le> amount" and "RequestAmount (resHeap g ! a) \<le> amount'"
    and "fst (canRetry C t key amount g)" and "t \<le> t'" and "t' < t + resourceSilenceTime"
  shows "\<not> fst (canRetry C t' key amount' (snd (canRetry C t key amount g)))"
proof -
  let ?g = "snd (canRetry C t key amount g)"
  have g: "?g = g\<lparr>resHeap := (resHeap g)[a := (resHeap g ! a)\<lparr>LastRetried := t\<rparr>]\<rparr>"
    using assms(1,3,5) by (intro canRetry_state) auto
  show ?thesis
  proof (cases "cGet C (inMemoryCache g) t' key")
    case None
    then show ?thesis unfolding g by (simp add: canRetry_def getClusterResource_def)
  next
    case (Some v)
    with cGet_antimono [OF assms(6) Some] assms(1) have "cGet C (inMemoryCache ?g) t' key = Some (CVResource a)"
      by (simp add: g)
    then show ?thesis
      using assms(2,4,7) by (subst canRetry_recorded) (auto simp: g)
  qed
qed

lemma pg_duplicate_lost:
  "canCreatePlacementGroup C t n
     (snd (getClusterResource C t (getKeyForDuplicatePlacementGroupError n)
        (setPlacementGroupDuplicate C t n g)))"
  by (simp add: canCreatePlacementGroup_def getClusterResource_def setPlacementGroupDuplicate_def
      getKeyForPlacementGroupDuplicate_def getKeyForDuplicatePlacementGroupError_def cGet_set
      not_expired_def limiter_time_defs cGet_delete)

lemma pg_cache_hit:
  assumes "setPGCache C t pg g = Some g'" and "pg_Name pg = Some n"
    and "t \<le> t'" and "t' \<le> t + pgCacheDuration"
  shows "getPGFromCache C t' n g' = (Some pg, g')"
    and "fst (getPGFromCache C t' n (delPGCaches C [n] g')) = None"
  using assms
  by (auto simp: setPGCache_def getPGFromCache_def delPGCaches_def deleteKey_def cGet_set cGet_delete
      not_expired_def cache_time_defs)

lemma getKeyForGPUVMInfo_inj [simp]: "getKeyForGPUVMInfo a = getKeyForGPUVMInfo b \<longleftrightarrow> a = b"
  by (simp add: getKeyForGPUVMInfo_def)

lemma gpu_cache_gone:
  "i \<in> set ids \<or> cGet C (inMemoryCache g) t (getKeyForGPUVMInfo i) = None \<Longrightarrow>
     cGet C (inMemoryCache (snd (gpuVMInfosFromCache C t ids infos g))) t (getKeyForGPUVMInfo i) = None"
proof (induction ids arbitrary: infos g)
  case Nil
  then show ?case by simp
next
  case (Cons j ids)
  show ?case
  proof (cases "cGet C (inMemoryCache g) t (getKeyForGPUVMInfo j)")
    case None
    with Cons show ?thesis by auto
  next
    case (Some v)
    have "i \<in> set ids \<or> cGet C (inMemoryCache (deleteKey C (getKeyForGPUVMInfo j) g)) t (getKeyForGPUVMInfo i) = None"
      using Cons.prems by (auto simp: deleteKey_def cGet_delete)
    with Some show ?thesis by (auto simp: Let_def dest!: Cons.IH)
  qed
qed

lemma gpu_cache_empty_read:
  "\<forall>i \<in> set ids. cGet C (inMemoryCache g) t (getKeyForGPUVMInfo i) = None \<Longrightarrow>
     gpuVMInfosFromCache C t ids infos g = (infos, g)"
  by (induction ids) auto

lemma gpu_cache_read_once:
  "fst (getGPUVMInfosFromCache C t ids (snd (getGPUVMInfosFromCache C t ids g))) = []"
  by (subst getGPUVMInfosFromCache_def, subst gpu_cache_empty_read)
    (auto simp: getGPUVMInfosFromCache_def gpu_cache_gone)

end

section \<open>Properties\<close>

text \<open>
  Property C12. Retries of an operation that failed for lack of resources are throttled: when a
  retry was granted for a request at least as large as the recorded one, no further retry of
  such a request is granted during the silence time of five minutes.
\<close>

theorem retry_throttled:
  assumes "limiter_cache C"
    and "cGet C (inMemoryCache g) t key = Some (CVResource a)" and "a < length (resHeap g)"
    and "canRetry C t key amount g = (True, g')"
    and "RequestAmount (resHeap g ! a) \<le> amount" and "RequestAmount (resHeap g ! a) \<le> amount'"
    and "t \<le> t'" and "t' < t + 5 * 60 * 10 ^ 9"
  shows "\<not> fst (canRetry C t' key amount' g')"
proof -
  have "t' < t + resourceSilenceTime" using assms(8) by (simp add: cache_time_defs)
  from limiter_cache.canRetry_again [OF assms(1-3,5,6) _ assms(7) this] assms(4) show ?thesis by simp
qed

definition wit_shortage :: "cacheVal ttl gstate" where
  "wit_shortage = wit_gstate
     \<lparr>inMemoryCache := [(''insufficient:memory:c1'', CVResource 0, Some (600 * 10 ^ 9))],
      resHeap := [\<lparr>LastDetected = 0, LastRetried = 0, RequestAmount = 4\<rparr>]\<rparr>"

theorem retry_throttled_witness:
  "\<not> fst (canRetry ttl_cache (400 * 10 ^ 9) ''insufficient:memory:c1'' 8
      (snd (canRetry ttl_cache (300 * 10 ^ 9) ''insufficient:memory:c1'' 4 wit_shortage)))"
proof -
  have get: "cGet ttl_cache (inMemoryCache wit_shortage) (300 * 10 ^ 9) ''insufficient:memory:c1''
      = Some (CVResource 0)"
    by (simp add: ttl_cache_def ttl_get_def ttl_live_def wit_shortage_def)
  have "fst (canRetry ttl_cache (300 * 10 ^ 9) ''insufficient:memory:c1'' 4 wit_shortage)"
    by (subst lim.canRetry_recorded [OF get]) (simp add: wit_shortage_def cache_time_defs)
  then have "canRetry ttl_cache (300 * 10 ^ 9) ''insufficient:memory:c1'' 4 wit_shortage =
      (True, snd (canRetry ttl_cache (300 * 10 ^ 9) ''insufficient:memory:c1'' 4 wit_shortage))"
    by (simp add: prod_eq_iff)
  from retry_throttled [OF lim.limiter_cache_axioms get _ this, of 8 "400 * 10 ^ 9"] show ?thesis
    by (simp add: wit_shortage_def)
qed

text \<open>
  A recorded memory shortage blocks the creation of virtual machines in that ELF
  cluster: for ten minutes after it was recorded every check reports an error, issues no call
  to Tower and gives the ElfMachine the waiting reason; once the shortage is cleared, the
  memory check reports none.
\<close>

theorem memory_shortage_blocks:
  assumes "limiter_cache (e_cache X)" and "capi_lib (e_lib X)"
    and "GetElfClusterID c' = GetElfClusterID c"
    and "mc_Now c \<le> mc_Now c'" and "mc_Now c' \<le> mc_Now c + 600 * 10 ^ 9"
  shows "(\<exists>msg s'. isELFScheduleVMErrorRecorded X c' (recordElfClusterMemoryInsufficient X c True s)
      = Some ((True, msg, None), s') \<and> calls s' = calls s \<and>
        elfReason X VMProvisionedCondition s' = WaitingForELFClusterWithSufficientMemoryReason) \<and>
    \<not> fst (fst (isELFClusterMemoryInsufficient X c' (recordElfClusterMemoryInsufficient X c False s)))"
proof -
  have d: "mc_Now c' \<le> mc_Now c + resourceDuration" using assms(5) by (simp add: cache_time_defs)
  show ?thesis
    by (simp add: isELFScheduleVMErrorRecorded_def isELFClusterMemoryInsufficient_def
        recordElfClusterMemoryInsufficient_def updGlob_def assms(3)
        limiter_cache.getClusterResource_set [OF assms(1,4) d] elfReason_def emMarkFalse_def
        capi_lib.markFalse_views [OF assms(2)] limiter_cache.getClusterResource_deleted [OF assms(1)])
qed

theorem memory_shortage_blocks_witness:
  "\<not> fst (fst (isELFClusterMemoryInsufficient wit_env wit_ctx
      (recordElfClusterMemoryInsufficient wit_env wit_ctx False wit_st)))"
  using memory_shortage_blocks [of wit_env wit_ctx wit_ctx wit_st]
  by (simp add: lim.limiter_cache_axioms reflib.capi_lib_axioms)

text \<open>
  Property C13. The two users of the key for duplicate placement groups disturb each other: a
  placement group that was just reported as duplicate can be created again as soon as a VM
  creation looks for an unsatisfied policy of that group, because the lookup deletes the
  entry of the other user.
\<close>

theorem pg_duplicate_silence_lost:
  assumes "limiter_cache C"
  shows "canCreatePlacementGroup C t n
     (snd (getClusterResource C t (getKeyForDuplicatePlacementGroupError n)
        (setPlacementGroupDuplicate C t n g)))"
  by (rule limiter_cache.pg_duplicate_lost [OF assms])

theorem pg_duplicate_silence_lost_witness:
  "canCreatePlacementGroup ttl_cache 5 ''pg1''
     (snd (getClusterResource ttl_cache 5 (getKeyForDuplicatePlacementGroupError ''pg1'')
        (setPlacementGroupDuplicate ttl_cache 5 ''pg1'' wit_gstate)))"
  by (rule pg_duplicate_silence_lost [OF lim.limiter_cache_axioms])

text \<open>
  The placement-group cache: a group that was stored is read back for twenty
  seconds, and no longer after its entry was deleted.
\<close>

theorem pg_cache_roundtrip:
  assumes "limiter_cache C" and "setPGCache C t pg g = Some g'" and "pg_Name pg = Some n"
    and "t \<le> t'" and "t' \<le> t + 20 * 10 ^ 9"
  shows "getPGFromCache C t' n g' = (Some pg, g') \<and>
    fst (getPGFromCache C t' n (delPGCaches C [n] g')) = None"
  using limiter_cache.pg_cache_hit [OF assms(1-4)] assms(5) by (simp add: cache_time_defs)

definition wit_pg :: vmPlacementGroup where
  "wit_pg = \<lparr>pg_ID = Some ''p1'', pg_LocalID = Some ''12345678-1234-1234-1234-123456789abc'',
     pg_Name = Some ''pg1'', pg_EntityAsyncStatus = None, pg_Vms = [],
     pg_Policy = \<lparr>pp_Enabled = Some True, pp_Description = None, pp_VMHostMustEnabled = Some False, pp_VMHostMustPolicy = None,
       pp_VMHostPreferEnabled = Some False, pp_VMHostPreferPolicy = None, pp_VMVMPolicyEnabled = Some True,
       pp_VMVMPolicy = Some ''MUST_DIFFERENT''\<rparr>\<rparr>"

theorem pg_cache_roundtrip_witness:
  "fst (getPGFromCache ttl_cache 7 ''pg1'' (the (setPGCache ttl_cache 5 wit_pg wit_gstate))) = Some wit_pg"
proof -
  have "setPGCache ttl_cache 5 wit_pg wit_gstate = Some (the (setPGCache ttl_cache 5 wit_pg wit_gstate))"
    by (simp add: setPGCache_def wit_pg_def)
  from pg_cache_roundtrip [OF lim.limiter_cache_axioms this, of "''pg1''" 7] show ?thesis
    by (simp add: wit_pg_def)
qed

text \<open>
  The cache of GPU devices serves every entry once: a second read of the same
  devices finds nothing, because the first read deletes the entries it returns.
\<close>

theorem gpu_cache_serves_once:
  assumes "limiter_cache C"
  shows "fst (getGPUVMInfosFromCache C t ids (snd (getGPUVMInfosFromCache C t ids g))) = []"
  by (rule limiter_cache.gpu_cache_read_once [OF assms])

theorem gpu_cache_serves_once_witness:
  "fst (getGPUVMInfosFromCache ttl_cache 5 [''g1'']
     (snd (getGPUVMInfosFromCache ttl_cache 5 [''g1''] wit_gstate))) = []"
  by (rule gpu_cache_serves_once [OF lim.limiter_cache_axioms])

end
