(* ===== verification/Machine_Coll.thy ===== *)
theory Machine_Coll
  imports Machine_Ctx "HOL-Library.List_Lexorder" "HOL-Library.Char_ord" "HOL-Library.Product_Lexorder"
begin

text \<open>
  \<^verbatim>\<open>pkg/util/capi/collections\<close>: sets of Cluster API machines, as Go maps from the
  machine name to the machine, with their filters and orders. Go compares strings bytewise,
  which is the lexicographic order of the library on \<^typ>\<open>string\<close>.
\<close>

section \<open>Sorting\<close>

text \<open>\<^verbatim>\<open>sort.Sort\<close>: for a strict total order the result does not depend on the algorithm.\<close>

fun insertGo :: "('a \<Rightarrow> 'a \<Rightarrow> bool) \<Rightarrow> 'a \<Rightarrow> 'a list \<Rightarrow> 'a list" where
  "insertGo lt x [] = [x]"
| "insertGo lt x (y # ys) = (if lt y x then y # insertGo lt x ys else x # y # ys)"

definition sortGo :: "('a \<Rightarrow> 'a \<Rightarrow> bool) \<Rightarrow> 'a list \<Rightarrow> 'a list" where
  "sortGo lt xs = foldr (insertGo lt) xs []"

section \<open>Collections\<close>

type_synonym machines = "machine gomap"

abbreviation m_Name :: "machine \<Rightarrow> string" where "m_Name m \<equiv> om_Name (m_meta m)"
abbreviation m_CreationTimestamp :: "machine \<Rightarrow> int" where
  "m_CreationTimestamp m \<equiv> om_CreationTimestamp (m_meta m)"
abbreviation m_DeletionTimestamp :: "machine \<Rightarrow> int option" where
  "m_DeletionTimestamp m \<equiv> om_DeletionTimestamp (m_meta m)"

definition machinesByCreationTimestamp_Less :: "machine \<Rightarrow> machine \<Rightarrow> bool" where
  "machinesByCreationTimestamp_Less a b =
     (if m_CreationTimestamp a = m_CreationTimestamp b then m_Name a < m_Name b
      else m_CreationTimestamp a < m_CreationTimestamp b)"

definition machinesByDeletionTimestamp_Less :: "machine \<Rightarrow> machine \<Rightarrow> bool" where
  "machinesByDeletionTimestamp_Less a b =
     (case (m_DeletionTimestamp a, m_DeletionTimestamp b) of
        (None, None) \<Rightarrow> m_Name a < m_Name b
      | (None, Some _) \<Rightarrow> False
      | (Some _, None) \<Rightarrow> True
      | (Some ta, Some tb) \<Rightarrow> if ta = tb then m_Name a < m_Name b else ta < tb)"

text \<open>A nil machine is skipped.\<close>

definition Machines_Insert :: "machines \<Rightarrow> machine option list \<Rightarrow> machines" where
  "Machines_Insert s ms =
     fold (\<lambda>mo s. case mo of None \<Rightarrow> s | Some m \<Rightarrow> gm_put (m_Name m) m s) ms s"

definition FromMachines :: "machine option list \<Rightarrow> machines" where
  "FromMachines ms = Machines_Insert [] ms"

definition FromMachineList :: "machine list \<Rightarrow> machines" where
  "FromMachineList ms = fold (\<lambda>m s. Machines_Insert s [Some m]) ms []"

definition ToMachineList :: "machines \<Rightarrow> machine list" where
  "ToMachineList s = map snd s"

definition Machines_Has :: "machines \<Rightarrow> machine \<Rightarrow> bool" where
  "Machines_Has s machine =
     list_ex (\<lambda>(_, m). m_Name m = m_Name machine \<and> om_Namespace (m_meta m) = om_Namespace (m_meta machine)) s"

definition Machines_UnsortedList :: "machines \<Rightarrow> machine list" where
  "Machines_UnsortedList s = map snd s"

definition Machines_Len :: "machines \<Rightarrow> nat" where
  "Machines_Len s = length s"

definition Machines_Names :: "machines \<Rightarrow> string list" where
  "Machines_Names s = map (\<lambda>(_, m). m_Name m) s"

definition filterAnd :: "(machine \<Rightarrow> bool) list \<Rightarrow> machine \<Rightarrow> bool" where
  "filterAnd filters m = list_all (\<lambda>f. f m) filters"

definition filterOr :: "(machine \<Rightarrow> bool) list \<Rightarrow> machine \<Rightarrow> bool" where
  "filterOr filters m = list_ex (\<lambda>f. f m) filters"

definition filterNot :: "(machine \<Rightarrow> bool) \<Rightarrow> machine \<Rightarrow> bool" where
  "filterNot mf m = (\<not> mf m)"

definition newFilteredMachineCollection :: "(machine \<Rightarrow> bool) \<Rightarrow> machine list \<Rightarrow> machines" where
  "newFilteredMachineCollection flt ms =
     fold (\<lambda>m ss. if flt m then Machines_Insert ss [Some m] else ss) ms []"

definition Machines_Filter :: "machines \<Rightarrow> (machine \<Rightarrow> bool) list \<Rightarrow> machines" where
  "Machines_Filter s filters = newFilteredMachineCollection (filterAnd filters) (Machines_UnsortedList s)"

definition Machines_AnyFilter :: "machines \<Rightarrow> (machine \<Rightarrow> bool) list \<Rightarrow> machines" where
  "Machines_AnyFilter s filters = newFilteredMachineCollection (filterOr filters) (Machines_UnsortedList s)"

definition Machines_Difference :: "machines \<Rightarrow> machines \<Rightarrow> machines" where
  "Machines_Difference s other = Machines_Filter s [\<lambda>m. gm_get other (m_Name m) = None]"

definition SortedByCreationTimestamp :: "machines \<Rightarrow> machine list" where
  "SortedByCreationTimestamp s = sortGo machinesByCreationTimestamp_Less (map snd s)"

definition SortedByDeletionTimestamp :: "machines \<Rightarrow> machine list" where
  "SortedByDeletionTimestamp s = sortGo machinesByDeletionTimestamp_Less (map snd s)"

definition Oldest :: "machines \<Rightarrow> machine option panics" where
  "Oldest s =
     (if length s = 0 then Some None else map_option Some (nth_go (SortedByCreationTimestamp s) 0))"

definition Newest :: "machines \<Rightarrow> machine option panics" where
  "Newest s =
     (if length s = 0 then Some None
      else map_option Some (nth_go (SortedByCreationTimestamp s) (length s - 1)))"

definition OldestDeletionTimestamp :: "machines \<Rightarrow> machine option panics" where
  "OldestDeletionTimestamp s =
     (if length s = 0 then Some None else map_option Some (nth_go (SortedByDeletionTimestamp s) 0))"

section \<open>Lemmas\<close>

definition creationKey :: "machine \<Rightarrow> int \<times> string" where
  "creationKey m = (m_CreationTimestamp m, m_Name m)"

lemma creation_Less_key: "machinesByCreationTimestamp_Less a b \<longleftrightarrow> creationKey a < creationKey b"
  by (auto simp: machinesByCreationTimestamp_Less_def creationKey_def less_prod_def')

lemma insertGo_insort:
  "(\<And>a b. lt a b \<longleftrightarrow> key a < (key b :: 'k :: linorder)) \<Longrightarrow> insertGo lt x ys = insort_key key x ys"
  by (induction ys) (auto simp: not_le)

lemma sortGo_sort_key:
  "(\<And>a b. lt a b \<longleftrightarrow> key a < (key b :: 'k :: linorder)) \<Longrightarrow> sortGo lt xs = sort_key key xs"
  unfolding sortGo_def sort_key_def by (induction xs) (simp_all add: insertGo_insort [of lt key])

lemma SortedByCreationTimestamp_sort: "SortedByCreationTimestamp s = sort_key creationKey (map snd s)"
  unfolding SortedByCreationTimestamp_def by (rule sortGo_sort_key) (rule creation_Less_key)

lemma sorted_last_max: "sorted ys \<Longrightarrow> y \<in> set ys \<Longrightarrow> y \<le> last ys"
  by (induction ys) (auto split: if_splits)

text \<open>The newest machine is a member that no member follows in creation order.\<close>

lemma Newest_spec:
  assumes "s \<noteq> []"
  obtains m where "Newest s = Some (Some m)" and "m \<in> snd ` set s"
    and "\<forall>m' \<in> snd ` set s. creationKey m' \<le> creationKey m"
proof -
  let ?xs = "SortedByCreationTimestamp s"
  have len: "length ?xs = length s" and st: "set ?xs = snd ` set s"
    by (simp_all add: SortedByCreationTimestamp_sort)
  with assms have ne: "?xs \<noteq> []" by auto
  then have last: "?xs ! (length s - 1) = last ?xs" by (simp add: last_conv_nth len)
  have srt: "sorted (map creationKey ?xs)" by (simp add: SortedByCreationTimestamp_sort)
  have max: "creationKey m' \<le> creationKey (last ?xs)" if "m' \<in> set ?xs" for m'
    using sorted_last_max [OF srt, of "creationKey m'"] that ne by (simp add: last_map)
  have "Newest s = Some (Some (last ?xs))" using assms len last by (simp add: Newest_def nth_go_def)
  then show thesis using that [of "last ?xs"] ne max st by (metis last_in_set)
qed

text \<open>
  The newest machine of a collection exists whenever the collection is not empty;
  it is one of its machines and no machine of the collection was created later (with the
  name deciding between equal times).
\<close>

theorem newest_machine_is_newest:
  assumes "s \<noteq> []"
  shows "\<exists>m. Newest s = Some (Some m) \<and> m \<in> snd ` set s \<and>
    (\<forall>m' \<in> snd ` set s. \<not> machinesByCreationTimestamp_Less m m')"
  using Newest_spec [OF assms] by (metis creation_Less_key leD)

theorem newest_machine_is_newest_witness:
  "\<exists>m. Newest [(''machine1'', mc_Machine wit_ctx)] = Some (Some m)"
  using newest_machine_is_newest [of "[(''machine1'', mc_Machine wit_ctx)]"] by auto

end
