(* ===== verification/Placement_Group.thy ===== *)
theory Placement_Group
  imports Tower_Cache Machine_Coll
begin

text \<open>
  \<^verbatim>\<open>controllers/elfmachine_controller_placement_group.go\<close>: creation of placement
  groups, the check for free hosts before a control-plane machine is created, joining a
  virtual machine to its group (with migration where needed) and deletion of the groups of
  removed MachineDeployments. A deferred release runs after the body on every return. The
  name of a placement group that \<^verbatim>\<open>getPlacementGroup\<close> returns was dereferenced when
  the group entered the cache, so that the log messages naming it are left out.
\<close>

section \<open>Reading and creating the placement group\<close>

definition getPlacementGroup ::
  "('w, 'c) env \<Rightarrow> machineContext \<Rightarrow> string \<Rightarrow> ('w, 'c) st \<Rightarrow>
     ((go_error + vmPlacementGroup option) \<times> ('w, 'c) st) panics" where
  "getPlacementGroup X c placementGroupName s =
     (let (cached, g) = getPGFromCache (e_cache X) (mc_Now c) placementGroupName (glob s);
          s = s\<lparr>glob := g\<rparr>
      in case cached of
           Some pg \<Rightarrow> Some (Inr (Some pg), s)
         | None \<Rightarrow>
             (case query (Svc_GetVMPlacementGroup (e_svc X) placementGroupName) s of
                (Inl err, s) \<Rightarrow> Some (Inl err, s)
              | (Inr pg, s) \<Rightarrow> do {
                  localID \<leftarrow> pg_LocalID pg;
                  if \<not> IsUUID localID \<or> pg_EntityAsyncStatus pg \<noteq> None then do {
                    _ \<leftarrow> pg_Name pg;
                    Some (Inr None, s) }
                  else do {
                    g \<leftarrow> setPGCache (e_cache X) (mc_Now c) pg (glob s);
                    Some (Inr (Some pg), s\<lparr>glob := g\<rparr>) } }))"

definition createPlacementGroup ::
  "('w, 'c) env \<Rightarrow> machineContext \<Rightarrow> string \<Rightarrow> ('w, 'c) st \<Rightarrow>
     ((go_error + vmPlacementGroup option) \<times> ('w, 'c) st) panics" where
  "createPlacementGroup X c placementGroupName s =
     (if \<not> canCreatePlacementGroup (e_cache X) (mc_Now c) placementGroupName (glob s) then Some (Inr None, s)
      else
        (case query (Svc_GetCluster (e_svc X) (GetElfClusterID c)) s of
           (Inl err, s) \<Rightarrow> Some (Inl err, s)
         | (Inr towerCluster, s) \<Rightarrow> do {
             let placementGroupPolicy = GetVMPlacementGroupPolicy (mc_Machine c);
             clusterID \<leftarrow> ref_ID towerCluster;
             case request (CallCreatePG placementGroupName)
                    (Svc_CreateVMPlacementGroup (e_svc X) placementGroupName clusterID placementGroupPolicy) s of
               (Inl err, s) \<Rightarrow> Some (Inl err, s)
             | (Inr withTaskVMPlacementGroup, s) \<Rightarrow> do {
                 taskID \<leftarrow> wt_TaskID withTaskVMPlacementGroup;
                 let timeout = cfg_WaitTaskTimeoutForPlacementGroupOperation (e_cfg X);
                 case query (Svc_WaitTask (e_svc X) taskID timeout (cfg_WaitTaskInterval (e_cfg X))) s of
                   (Inl err, s) \<Rightarrow>
                     Some (Inl (ErrWrapf (''failed to wait for placement group creating task to complete in '' @
                             durationString timeout @ '': pgName '' @ placementGroupName @ '', taskID '' @ taskID) err),
                           updGlob (setPlacementGroupDuplicate (e_cache X) (mc_Now c) placementGroupName) s)
                 | (Inr task, s) \<Rightarrow> do {
                     status \<leftarrow> task_Status task;
                     if status = TaskStatusFAILED then do {
                       let s = (if IsVMPlacementGroupDuplicate (GetTowerString (task_ErrorMessage task))
                                then updGlob (setPlacementGroupDuplicate (e_cache X) (mc_Now c) placementGroupName) s
                                else s);
                       tid \<leftarrow> task_ID task;
                       Some (Inl (ErrMsg (''failed to create placement group '' @ placementGroupName @
                               '' in task '' @ tid)), s) }
                     else do {
                       _ \<leftarrow> task_ID task;
                       getPlacementGroup X c placementGroupName s } } } }))"

definition reconcilePlacementGroup ::
  "('w, 'c) env \<Rightarrow> machineContext \<Rightarrow> ('w, 'c) st \<Rightarrow>
     ((reconcileResult \<times> go_error option) \<times> ('w, 'c) st) panics" where
  "reconcilePlacementGroup X c s = do {
     (r, s) \<leftarrow> GetVMPlacementGroupName X (mc_Machine c) (mc_Cluster c) s;
     case r of
       Inl err \<Rightarrow> Some ((noRequeue, Some err), s)
     | Inr placementGroupName \<Rightarrow> do {
         (r, s) \<leftarrow> getPlacementGroup X c placementGroupName s;
         case r of
           Inl err \<Rightarrow>
             if \<not> IsVMPlacementGroupNotFound (e_lib X) err then Some ((noRequeue, Some err), s)
             else
               (let (ok, g) = acquireTicketForPlacementGroupOperation (e_cache X) (mc_Now c)
                                placementGroupName (glob s);
                    s = s\<lparr>glob := g\<rparr>
                in if \<not> ok then Some ((requeue (cfg_DefaultRequeueTimeout (e_cfg X)), None), s)
                   else do {
                     (r, s) \<leftarrow> createPlacementGroup X c placementGroupName s;
                     let s = updGlob (releaseTicketForPlacementGroupOperation (e_cache X) placementGroupName) s;
                     Some (case r of
                             Inl err \<Rightarrow> (noRequeue, Some err)
                           | Inr None \<Rightarrow> (requeue (cfg_DefaultRequeueTimeout (e_cfg X)), None)
                           | Inr (Some _) \<Rightarrow> (noRequeue, None), s) })
         | Inr None \<Rightarrow> Some ((requeue (cfg_DefaultRequeueTimeout (e_cfg X)), None), s)
         | Inr (Some _) \<Rightarrow> Some ((noRequeue, None), s) } }"

section \<open>Hosts\<close>

definition getHostsInPlacementGroup ::
  "('w, 'c) env \<Rightarrow> vmPlacementGroup \<Rightarrow> ('w, 'c) st \<Rightarrow> ((go_error + string list) \<times> ('w, 'c) st) panics" where
  "getHostsInPlacementGroup X placementGroup s = do {
     placementGroupVMSet \<leftarrow> GetVMsInPlacementGroup placementGroup;
     case query (Svc_FindByIDs (e_svc X) placementGroupVMSet) s of
       (Inl err, s) \<Rightarrow> Some (Inl err, s)
     | (Inr vms, s) \<Rightarrow> do {
         hostIDs \<leftarrow> mapP (\<lambda>v. do { h \<leftarrow> vm_Host v; ref_ID h }) vms;
         Some (Inr (remdups hostIDs), s) } }"

definition getAvailableHostsForVM ::
  "config \<Rightarrow> elfMachine \<Rightarrow> hosts \<Rightarrow> hosts \<Rightarrow> vm option \<Rightarrow> hosts panics" where
  "getAvailableHostsForVM cfg m hosts usedHostsByPG vmo = do {
     enough \<leftarrow> FilterAvailableHostsWithEnoughMemory hosts (TowerMemory cfg (MemoryMiB (Spec m)));
     availableHosts \<leftarrow> Hosts_Difference enough usedHostsByPG;
     case vmo of
       None \<Rightarrow> Some availableHosts
     | Some v \<Rightarrow> do {
         status \<leftarrow> vm_Status v;
         if status = VMStatusRUNNING \<or> status = VMStatusSUSPENDED then do {
           vh \<leftarrow> vm_Host v;
           hostID \<leftarrow> ref_ID vh;
           if \<not> Hosts_Contains availableHosts hostID then do {
             let host = Hosts_Get hosts hostID;
             (available, _) \<leftarrow> IsAvailableHost host 0;
             if available then do {
               h \<leftarrow> host;
               if \<not> Hosts_Contains usedHostsByPG (h_ID h) then Some (Hosts_Insert availableHosts h)
               else Some availableHosts }
             else Some availableHosts }
           else Some availableHosts }
         else Some availableHosts } }"

text \<open>The machines of the group whose ElfMachine is known, with the IDs of their virtual machines.\<close>

fun placementGroupMachinesOf ::
  "('w, 'c) env \<Rightarrow> elfMachine gomap \<Rightarrow> nestedRef list \<Rightarrow> machine option list \<Rightarrow> string gomap \<Rightarrow>
     ('w, 'c) st \<Rightarrow> ((go_error + (machine option list \<times> string gomap)) \<times> ('w, 'c) st) panics" where
  "placementGroupMachinesOf X em [] ms vmMap s = Some (Inr (ms, vmMap), s)"
| "placementGroupMachinesOf X em (v # vs) ms vmMap s = do {
     name \<leftarrow> ref_Name v;
     case gm_get em name of
       None \<Rightarrow> placementGroupMachinesOf X em vs ms vmMap s
     | Some elfMachine \<Rightarrow>
         (case GetOwnerMachine X (em_meta elfMachine) s of
            (Inl err, s) \<Rightarrow> Some (Inl err, s)
          | (Inr machine, s) \<Rightarrow> do {
              m \<leftarrow> machine;
              i \<leftarrow> ref_ID v;
              placementGroupMachinesOf X em vs (ms @ [machine]) (gm_put (m_Name m) i vmMap) s }) }"

definition getVMHostForRollingUpdate ::
  "('w, 'c) env \<Rightarrow> machineContext \<Rightarrow> vmPlacementGroup \<Rightarrow> hosts \<Rightarrow> ('w, 'c) st \<Rightarrow>
     ((go_error + string) \<times> ('w, 'c) st) panics" where
  "getVMHostForRollingUpdate X c placementGroup hosts s =
     (case GetControlPlaneElfMachinesInCluster X (om_Namespace (cl_meta (mc_Cluster c)))
             (om_Name (cl_meta (mc_Cluster c))) s of
        (Inl err, s) \<Rightarrow> Some (Inl err, s)
      | (Inr elfMachines, s) \<Rightarrow> do {
          let elfMachineMap = fold (\<lambda>e m. if IsUUID (VMRef (Status e)) then gm_put (om_Name (em_meta e)) e m else m)
                                elfMachines [];
          (r, s) \<leftarrow> placementGroupMachinesOf X elfMachineMap (pg_Vms placementGroup) [] [] s;
          case r of
            Inl err \<Rightarrow> Some (Inl err, s)
          | Inr (placementGroupMachines, vmMap) \<Rightarrow> do {
              newestMachine \<leftarrow> Newest (FromMachines placementGroupMachines);
              case newestMachine of
                None \<Rightarrow> Some (Inr [], s)
              | Some newest \<Rightarrow>
                  (case query (Svc_Get (e_svc X)
                           (case gm_get vmMap (m_Name newest) of None \<Rightarrow> [] | Some i \<Rightarrow> i)) s of
                     (Inl err, s) \<Rightarrow> Some (Inl err, s)
                   | (Inr v, s) \<Rightarrow> do {
                       vh \<leftarrow> vm_Host v;
                       hostID \<leftarrow> ref_ID vh;
                       case Hosts_Get hosts hostID of
                         None \<Rightarrow> Some (Inr [], s)
                       | Some host \<Rightarrow> do {
                           (ok, message) \<leftarrow> IsAvailableHost (Some host)
                              (TowerMemory (e_cfg X) (MemoryMiB (Spec (elf s))));
                           if ok then Some (Inr hostID, s) else Some (Inr [], s) } }) } })"

section \<open>The check before creation\<close>

text \<open>Scaling down: mark the machine that cannot be created for deletion by the KCP.\<close>

definition markMachineForDeletion ::
  "('w, 'c) env \<Rightarrow> machineContext \<Rightarrow> ('w, 'c) st \<Rightarrow> (string option \<times> go_error option) \<times> ('w, 'c) st" where
  "markMachineForDeletion X c s =
     (let machine = mc_Machine c
      in if HasAnnotation (m_meta machine) DeleteMachineAnnotation then ((None, None), s)
         else
           (case query (K_NewMachinePatchHelper (e_k8s X) machine) s of
              (Inl err, s) \<Rightarrow> ((None, Some (ErrWrapf ''failed to init patch helper'' err)), s)
            | (Inr _, s) \<Rightarrow>
                (case query (K_PatchMachineAnnotations (e_k8s X) machine [(DeleteMachineAnnotation, [])]) s of
                   (Inl err, s) \<Rightarrow>
                     ((None, Some (ErrWrapf (''failed to patch Machine '' @ klogKObj (m_meta machine) @
                         '' to add delete machine annotation '' @ DeleteMachineAnnotation @ ''.'') err)), s)
                 | (Inr _, s) \<Rightarrow> ((None, None), s))))"

text \<open>The placement group is full: what \<^verbatim>\<open>preCheckPlacementGroup\<close> does from the KCP on.\<close>

definition preCheckFullPlacementGroup ::
  "('w, 'c) env \<Rightarrow> machineContext \<Rightarrow> vmPlacementGroup \<Rightarrow> hosts \<Rightarrow> hosts \<Rightarrow> ('w, 'c) st \<Rightarrow>
     ((string option \<times> go_error option) \<times> ('w, 'c) st) panics" where
  "preCheckFullPlacementGroup X c placementGroup hosts usedHostsByPG s = do {
     (r, s) \<leftarrow> GetKCPByMachine X (mc_Machine c) s;
     case r of
       Inl err \<Rightarrow> Some ((None, Some err), s)
     | Inr kcp \<Rightarrow> do {
         rolling \<leftarrow> IsKCPInRollingUpdate kcp;
         scalingDown \<leftarrow> IsKCPInScalingDown (e_lib X) kcp;
         if \<not> rolling \<and> \<not> scalingDown then do { _ \<leftarrow> Hosts_String usedHostsByPG; Some ((None, None), s) }
         else if scalingDown then Some (markMachineForDeletion X c s)
         else do {
           replicas \<leftarrow> kcp_specReplicas kcp;
           if replicas > int (Hosts_Len usedHostsByPG) then do { _ \<leftarrow> Hosts_String usedHostsByPG; Some ((None, None), s) }
           else do {
             unusableHosts \<leftarrow> FilterUnavailableHostsOrWithoutEnoughMemory usedHostsByPG
                (TowerMemory (e_cfg X) (MemoryMiB (Spec (elf s))));
             if \<not> Hosts_IsEmpty unusableHosts then do {
               _ \<leftarrow> Hosts_String unusableHosts;
               _ \<leftarrow> Hosts_String usedHostsByPG;
               Some ((None, None), s) }
             else do {
               (r, s) \<leftarrow> getVMHostForRollingUpdate X c placementGroup hosts s;
               Some (case r of
                       Inl err \<Rightarrow> (None, Some err)
                     | Inr hostID \<Rightarrow> if hostID = [] then (None, None) else (Some hostID, None), s) } } } } }"

definition preCheckPlacementGroup_body ::
  "('w, 'c) env \<Rightarrow> machineContext \<Rightarrow> ('w, 'c) st \<Rightarrow>
     ((string option \<times> go_error option) \<times> ('w, 'c) st) panics" where
  "preCheckPlacementGroup_body X c s =
     (if \<not> IsControlPlaneMachine (m_meta (mc_Machine c)) then Some ((Some [], None), s)
      else if GetFailureDomain c \<noteq> [] then Some ((Some [], None), s)
      else do {
        (r, s) \<leftarrow> GetVMPlacementGroupName X (mc_Machine c) (mc_Cluster c) s;
        case r of
          Inl err \<Rightarrow> Some ((None, Some err), s)
        | Inr placementGroupName \<Rightarrow> do {
            (r, s) \<leftarrow> getPlacementGroup X c placementGroupName s;
            case r of
              Inl err \<Rightarrow> Some ((None, Some err), s)
            | Inr None \<Rightarrow> Some ((None, None), s)
            | Inr (Some placementGroup) \<Rightarrow> do {
                (r, s) \<leftarrow> getHostsInPlacementGroup X placementGroup s;
                case r of
                  Inl err \<Rightarrow> Some ((None, Some err), s)
                | Inr usedHostSetByPG \<Rightarrow>
                    (case query (Svc_GetHostsByCluster (e_svc X) (GetElfClusterID c)
                             (ec_DatastoreID (mc_ElfCluster c))) s of
                       (Inl err, s) \<Rightarrow> Some ((None, Some err), s)
                     | (Inr hosts, s) \<Rightarrow> do {
                         usedHostsByPG \<leftarrow> Hosts_Find hosts usedHostSetByPG;
                         availableHosts \<leftarrow> getAvailableHostsForVM (e_cfg X) (elf s) hosts usedHostsByPG None;
                         if \<not> Hosts_IsEmpty availableHosts then do {
                           _ \<leftarrow> Hosts_String availableHosts;
                           Some ((Some [], None), s) }
                         else preCheckFullPlacementGroup X c placementGroup hosts usedHostsByPG s }) } } })"

definition preCheckPlacementGroup ::
  "('w, 'c) env \<Rightarrow> machineContext \<Rightarrow> ('w, 'c) st \<Rightarrow>
     ((string option \<times> go_error option) \<times> ('w, 'c) st) panics" where
  "preCheckPlacementGroup X c s = do {
     ((rethost, reterr), s) \<leftarrow> preCheckPlacementGroup_body X c s;
     Some ((rethost, reterr),
       if rethost = None
       then markFalse X c VMProvisionedCondition WaitingForAvailableHostRequiredByPlacementGroupReason SevInfo [] s
       else s) }"

section \<open>Joining\<close>

definition migrateVM ::
  "('w, 'c) env \<Rightarrow> vm \<Rightarrow> string \<Rightarrow> ('w, 'c) st \<Rightarrow> ((bool \<times> go_error option) \<times> ('w, 'c) st) panics" where
  "migrateVM X v targetHost s = do {
     vh \<leftarrow> vm_Host v;
     hostID \<leftarrow> ref_ID vh;
     if hostID = targetHost then Some ((True, None), s)
     else
       (case request (CallMigrate (GetTowerString (vm_ID v)) targetHost)
               (Svc_Migrate (e_svc X) (GetTowerString (vm_ID v)) targetHost) s of
          (Inl err, s) \<Rightarrow> Some ((False, Some err), s)
        | (Inr withTaskVM, s) \<Rightarrow> do {
            taskID \<leftarrow> wt_TaskID withTaskVM;
            let s = updElf (SetTask taskID) s;
            _ \<leftarrow> vm_ID v;
            Some ((False, None), s) }) }"

definition setPlacementGroupRef :: "string \<Rightarrow> elfMachine \<Rightarrow> elfMachine" where
  "setPlacementGroupRef i m = m\<lparr>Status := (Status m)\<lparr>PlacementGroupRef := i\<rparr>\<rparr>"

definition addVMsToPlacementGroup ::
  "('w, 'c) env \<Rightarrow> vmPlacementGroup \<Rightarrow> string list \<Rightarrow> ('w, 'c) st \<Rightarrow>
     (go_error option \<times> ('w, 'c) st) panics" where
  "addVMsToPlacementGroup X placementGroup vmIDs s =
     (case request (CallAddVMsToPG (pg_ID placementGroup) vmIDs)
             (Svc_AddVMsToPlacementGroup (e_svc X) placementGroup vmIDs) s of
        (Inl err, s) \<Rightarrow> Some (Some err, s)
      | (Inr task, s) \<Rightarrow> do {
          pgName \<leftarrow> pg_Name placementGroup;
          let s = updGlob (delPGCaches (e_cache X) [pgName]) s;
          taskID \<leftarrow> task_ID task;
          let timeout = cfg_WaitTaskTimeoutForPlacementGroupOperation (e_cfg X);
          case query (Svc_WaitTask (e_svc X) taskID timeout (cfg_WaitTaskInterval (e_cfg X))) s of
            (Inl err, s) \<Rightarrow>
              Some (Some (ErrWrapf (''failed to wait for placement group updating task to complete in '' @
                 durationString timeout @ '': pgName '' @ pgName @ '', taskID '' @ taskID) err), s)
          | (Inr task, s) \<Rightarrow> do {
              status \<leftarrow> task_Status task;
              if status = TaskStatusFAILED then
                Some (Some (ErrMsg (''failed to update placement group '' @ pgName @ '' in task '' @ taskID)), s)
              else do {
                pgID \<leftarrow> pg_ID placementGroup;
                Some (None, updElf (setPlacementGroupRef pgID) s) } } })"

text \<open>
  The branch of a running control-plane machine on a host that is not available to the
  placement group.
\<close>

definition joinMigrate ::
  "('w, 'c) env \<Rightarrow> machineContext \<Rightarrow> vm \<Rightarrow> vmPlacementGroup \<Rightarrow> hosts \<Rightarrow> ('w, 'c) st \<Rightarrow>
     ((bool \<times> go_error option) \<times> ('w, 'c) st) panics" where
  "joinMigrate X c v placementGroup availableHosts s = do {
     (r, s) \<leftarrow> GetKCPByMachine X (mc_Machine c) s;
     case r of
       Inl err \<Rightarrow> Some ((False, Some err), s)
     | Inr kcp \<Rightarrow> do {
         rolling \<leftarrow> IsKCPInRollingUpdate kcp;
         if rolling then Some ((True, None), s)
         else
           (case GetControlPlaneElfMachinesInCluster X (om_Namespace (cl_meta (mc_Cluster c)))
                   (om_Name (cl_meta (mc_Cluster c))) s of
              (Inl err, s) \<Rightarrow> Some ((False, Some err), s)
            | (Inr cpElfMachines, s) \<Rightarrow> do {
                pgID \<leftarrow> (if list_ex (\<lambda>e. om_Name (em_meta (elf s)) \<noteq> om_Name (em_meta e)) cpElfMachines
                         then pg_ID placementGroup else Some []);
                let usedHosts = remdups (map (\<lambda>e. HostServerRef (Status e))
                      (filter (\<lambda>e. om_Name (em_meta (elf s)) \<noteq> om_Name (em_meta e) \<and>
                                   PlacementGroupRef (Status e) = pgID) cpElfMachines));
                replicas \<leftarrow> kcp_specReplicas kcp;
                if int (length cpElfMachines) \<noteq> replicas then Some ((True, None), s)
                else do {
                  targetHost \<leftarrow> nth_go (Hosts_UnsortedList availableHosts) 0;
                  if int (length usedHosts) < wrap32 (replicas - 1) then Some ((True, None), s)
                  else if List.member usedHosts (h_ID targetHost) then Some ((True, None), s)
                  else migrateVM X v (h_ID targetHost) s } }) } }"

text \<open>
  The checks of a control-plane machine before it is added: \<open>Some\<close> a result is an early
  return, \<open>None\<close> goes on to add the machine to the group.
\<close>

definition joinControlPlane ::
  "('w, 'c) env \<Rightarrow> machineContext \<Rightarrow> vm \<Rightarrow> vmPlacementGroup \<Rightarrow> ('w, 'c) st \<Rightarrow>
     ((bool \<times> go_error option) option \<times> ('w, 'c) st) panics" where
  "joinControlPlane X c v placementGroup s =
     (case query (Svc_GetHostsByCluster (e_svc X) (GetElfClusterID c) (ec_DatastoreID (mc_ElfCluster c))) s of
        (Inl err, s) \<Rightarrow> Some (Some (False, Some err), s)
      | (Inr hosts, s) \<Rightarrow> do {
          (r, s) \<leftarrow> getHostsInPlacementGroup X placementGroup s;
          case r of
            Inl err \<Rightarrow> Some (Some (False, Some err), s)
          | Inr usedHostSetByPG \<Rightarrow> do {
              usedHostsByPG \<leftarrow> Hosts_Find hosts usedHostSetByPG;
              availableHosts \<leftarrow> getAvailableHostsForVM (e_cfg X) (elf s) hosts usedHostsByPG (Some v);
              status \<leftarrow> vm_Status v;
              if GetFailureDomain c \<noteq> [] then
                (if Hosts_IsEmpty availableHosts \<and> status = VMStatusSTOPPED
                 then do { _ \<leftarrow> Hosts_String usedHostsByPG; Some (Some (False, None), s) } else Some (None, s))
              else if Hosts_IsEmpty availableHosts then do {
                (r, s) \<leftarrow> GetKCPByMachine X (mc_Machine c) s;
                case r of
                  Inl err \<Rightarrow> Some (Some (False, Some err), s)
                | Inr kcp \<Rightarrow> do {
                    rolling \<leftarrow> IsKCPInRollingUpdate kcp;
                    if rolling \<and> status = VMStatusSTOPPED then do {
                      unusablehosts \<leftarrow> FilterUnavailableHostsOrWithoutEnoughMemory usedHostsByPG
                         (TowerMemory (e_cfg X) (MemoryMiB (Spec (elf s))));
                      _ \<leftarrow> Hosts_String unusablehosts;
                      _ \<leftarrow> Hosts_String usedHostsByPG;
                      Some (Some (Hosts_IsEmpty unusablehosts, None), s) }
                    else do {
                      _ \<leftarrow> Hosts_String usedHostsByPG;
                      Some (Some (status \<noteq> VMStatusSTOPPED, None), s) } } }
              else do {
                _ \<leftarrow> Hosts_String availableHosts;
                vh \<leftarrow> vm_Host v;
                hostID \<leftarrow> ref_ID vh;
                if \<not> Hosts_Contains availableHosts hostID \<and> status \<noteq> VMStatusSTOPPED then do {
                  (r, s) \<leftarrow> joinMigrate X c v placementGroup availableHosts s;
                  Some (Some r, s) }
                else Some (None, s) } } })"

text \<open>The part of \<^verbatim>\<open>joinPlacementGroup\<close> that runs while the ticket is held.\<close>

definition joinPlacementGroup_ticket ::
  "('w, 'c) env \<Rightarrow> machineContext \<Rightarrow> vm \<Rightarrow> string \<Rightarrow> ('w, 'c) st \<Rightarrow>
     ((bool \<times> go_error option) \<times> ('w, 'c) st) panics" where
  "joinPlacementGroup_ticket X c v placementGroupName s = do {
     (r, s) \<leftarrow> getPlacementGroup X c placementGroupName s;
     case r of
       Inl err \<Rightarrow> Some ((False, Some err), s)
     | Inr None \<Rightarrow> Some ((False, None), s)
     | Inr (Some placementGroup) \<Rightarrow> do {
         placementGroupVMSet \<leftarrow> GetVMsInPlacementGroup placementGroup;
         vmID \<leftarrow> vm_ID v;
         if List.member placementGroupVMSet vmID then do {
           pgID \<leftarrow> pg_ID placementGroup;
           Some ((True, None), updElf (setPlacementGroupRef pgID) s) }
         else do {
           (early, s) \<leftarrow> (if IsControlPlaneMachine (m_meta (mc_Machine c))
                          then joinControlPlane X c v placementGroup s else Some (None, s));
           case early of
             Some res \<Rightarrow> Some (res, s)
           | None \<Rightarrow> do {
               (err, s) \<leftarrow> addVMsToPlacementGroup X placementGroup (placementGroupVMSet @ [vmID]) s;
               Some (case err of Some e \<Rightarrow> (False, Some e) | None \<Rightarrow> (True, None), s) } } } }"

definition joinPlacementGroup_body ::
  "('w, 'c) env \<Rightarrow> machineContext \<Rightarrow> vm \<Rightarrow> ('w, 'c) st \<Rightarrow>
     ((bool \<times> go_error option) \<times> ('w, 'c) st) panics" where
  "joinPlacementGroup_body X c v s = do {
     (r, s) \<leftarrow> GetVMPlacementGroupName X (mc_Machine c) (mc_Cluster c) s;
     case r of
       Inl err \<Rightarrow> Some ((False, Some err), s)
     | Inr placementGroupName \<Rightarrow>
         (let (ok, g) = acquireTicketForPlacementGroupOperation (e_cache X) (mc_Now c) placementGroupName (glob s);
              s = s\<lparr>glob := g\<rparr>
          in if \<not> ok then Some ((False, None), s)
             else do {
               (res, s) \<leftarrow> joinPlacementGroup_ticket X c v placementGroupName s;
               Some (res, updGlob (releaseTicketForPlacementGroupOperation (e_cache X) placementGroupName) s) }) }"

definition joinPlacementGroup ::
  "('w, 'c) env \<Rightarrow> machineContext \<Rightarrow> vm \<Rightarrow> ('w, 'c) st \<Rightarrow>
     ((bool \<times> go_error option) \<times> ('w, 'c) st) panics" where
  "joinPlacementGroup X c v s = do {
     ((ret, reterr), s) \<leftarrow> joinPlacementGroup_body X c v s;
     Some ((ret, reterr),
       case reterr of
         Some e \<Rightarrow> markFalse X c VMProvisionedCondition JoiningPlacementGroupFailedReason SevWarning
                     (errText (e_lib X) e) s
       | None \<Rightarrow> if \<not> ret then markFalse X c VMProvisionedCondition JoiningPlacementGroupReason SevInfo [] s
                 else s) }"

section \<open>Deletion\<close>

definition deletePlacementGroup ::
  "('w, 'c) env \<Rightarrow> machineContext \<Rightarrow> ('w, 'c) st \<Rightarrow> ((bool \<times> go_error option) \<times> ('w, 'c) st) panics" where
  "deletePlacementGroup X c s =
     (if om_DeletionTimestamp (cl_meta (mc_Cluster c)) \<noteq> None \<or> IsControlPlaneMachine (m_meta (mc_Machine c))
      then Some ((True, None), s)
      else
        (case GetMDByMachine X (mc_Machine c) s of
           (Inl err, s) \<Rightarrow> if IsApiNotFound err then Some ((True, None), s) else Some ((False, Some err), s)
         | (Inr md, s) \<Rightarrow> do {
             keep \<leftarrow> (if om_DeletionTimestamp (md_meta md) = None
                      then do { replicas \<leftarrow> md_specReplicas md; Some (replicas > 0) } else Some False);
             if keep then Some ((True, None), s)
             else do {
               (r, s) \<leftarrow> GetVMPlacementGroupName X (mc_Machine c) (mc_Cluster c) s;
               case r of
                 Inl err \<Rightarrow> Some ((False, Some err), s)
               | Inr placementGroupName \<Rightarrow>
                   if \<not> strHasPrefix placementGroupName (GetVMPlacementGroupNamePrefix X (mc_Cluster c))
                   then Some ((True, None), s)
                   else if mc_VMServiceNil c then go_panic
                   else
                     (case query (Svc_GetVMPlacementGroup (e_svc X) placementGroupName) s of
                        (Inl err, s) \<Rightarrow>
                          if IsVMPlacementGroupNotFound (e_lib X) err then Some ((True, None), s)
                          else Some ((False, Some err), s)
                      | (Inr placementGroup, s) \<Rightarrow> do {
                          pgName \<leftarrow> pg_Name placementGroup;
                          let (ok, g) = acquireTicketForPlacementGroupOperation (e_cache X) (mc_Now c) pgName (glob s);
                          let s = s\<lparr>glob := g\<rparr>;
                          if \<not> ok then Some ((False, None), s)
                          else do {
                            pgID \<leftarrow> pg_ID placementGroup;
                            let (r, s) = request (CallDeletePG pgID) (Svc_DeleteVMPlacementGroupByID (e_svc X) pgID) s;
                            let (res, s) =
                              (case r of
                                 Inl err \<Rightarrow> ((False, Some err), s)
                               | Inr ok \<Rightarrow> if \<not> ok then ((False, None), s)
                                          else ((True, None), updGlob (delPGCaches (e_cache X) [pgName]) s));
                            Some (res, updGlob (releaseTicketForPlacementGroupOperation (e_cache X) pgName) s) } }) } }))"

section \<open>Texts of log messages\<close>

definition formatNestedHost :: "nestedRef option \<Rightarrow> string" where
  "formatNestedHost ho =
     (case ho of
        None \<Rightarrow> ''{}''
      | Some h \<Rightarrow> ''{id: '' @ GetTowerString (ref_ID h) @ '',name: '' @ GetTowerString (ref_Name h) @ ''}'')"

definition formatHost :: "host option \<Rightarrow> string" where
  "formatHost ho =
     (case ho of None \<Rightarrow> ''{}'' | Some h \<Rightarrow> ''{id: '' @ h_ID h @ '',name: '' @ GetTowerString (h_Name h) @ ''}'')"

definition formatKCP :: "kcp option \<Rightarrow> string panics" where
  "formatKCP ko =
     (case ko of
        None \<Rightarrow> Some ''{}''
      | Some k \<Rightarrow> do {
          n \<leftarrow> kcp_specReplicas k;
          Some (''{name:'' @ om_Name (kcp_meta k) @ '',namespace:'' @ om_Namespace (kcp_meta k) @ '',spec:{replicas:'' @ fmt_d n @
                ''},status:{replicas:'' @ fmt_d (kcp_replicas k) @ '',readyReplicas:'' @ fmt_d (kcp_readyReplicas k) @
                '',updatedReplicas:'' @ fmt_d (kcp_updatedReplicas k) @ '',unavailableReplicas:'' @
                fmt_d (kcp_unavailableReplicas k) @ ''}}'') })"

section \<open>Lemmas: frames\<close>

text \<open>An operation that only reads Tower and the API server: it issues no mutating call and keeps the ElfMachine.\<close>

definition quiet :: "('w, 'c) st \<Rightarrow> ('w, 'c) st \<Rightarrow> bool" where
  "quiet s s' \<longleftrightarrow> calls s' = calls s \<and> elf s' = elf s"

lemma quiet_refl [simp]: "quiet s s"
  by (simp add: quiet_def)

lemma quiet_trans: "quiet s s' \<Longrightarrow> quiet s' s'' \<Longrightarrow> quiet s s''"
  by (simp add: quiet_def)

lemma quiet_simps [simp]:
  "quiet s (s'\<lparr>world := w\<rparr>) = quiet s s'" "quiet s (s'\<lparr>glob := g\<rparr>) = quiet s s'"
  "quiet (s\<lparr>world := w\<rparr>) s' = quiet s s'" "quiet (s\<lparr>glob := g\<rparr>) s' = quiet s s'"
  "quiet s (updGlob f s') = quiet s s'" "quiet (updGlob f s) s' = quiet s s'"
  by (simp_all add: quiet_def updGlob_def)

lemma updGlob_st [simp]:
  "calls (updGlob f s) = calls s" "elf (updGlob f s) = elf s" "world (updGlob f s) = world s"
  "glob (updGlob f s) = f (glob s)"
  by (simp_all add: updGlob_def)

lemma updElf_st [simp]:
  "calls (updElf f s) = calls s" "elf (updElf f s) = f (elf s)" "world (updElf f s) = world s"
  "glob (updElf f s) = glob s"
  by (simp_all add: updElf_def)

lemma GetKCPByMachine_quiet [post_intros]: "post (GetKCPByMachine X m s) (\<lambda>(r, s'). quiet s s')"
  by (auto simp: GetKCPByMachine_def query_eq post_simps intro: postI)

lemma GetVMPlacementGroupName_quiet [post_intros]:
  "post (GetVMPlacementGroupName X m cl s) (\<lambda>(r, s'). quiet s s')"
proof -
  have *: "post (GetKCPByMachine X m s) (\<lambda>(r, s').
      case r of Inl e \<Rightarrow> quiet s s'
      | Inr k \<Rightarrow> if GetPlacementGroupName (kcp_meta k) \<noteq> [] then quiet s s'
                 else post (GetKCPNameByMachine m) (\<lambda>n. quiet s s'))"
    by (rule post_mono [OF GetKCPByMachine_quiet]) (auto split: sum.splits intro: postI)
  show ?thesis
    using * by (auto simp: GetVMPlacementGroupName_def GetMDByMachine_def query_eq post_simps split_def
        elim!: post_mono split: sum.splits if_splits)
qed

lemma getPlacementGroup_quiet [post_intros]:
  "post (getPlacementGroup X c n s) (\<lambda>(r, s'). quiet s s')"
  by (auto simp: getPlacementGroup_def query_eq post_simps split: sum.splits prod.splits option.splits
      intro!: postI)

lemma getHostsInPlacementGroup_quiet [post_intros]:
  "post (getHostsInPlacementGroup X pg s) (\<lambda>(r, s'). quiet s s')"
  by (auto simp: getHostsInPlacementGroup_def query_eq post_simps split: sum.splits intro!: postI)

lemma post_quiet:
  "post m (\<lambda>(r, s'). quiet s s') \<Longrightarrow>
     post m Q = (\<forall>r s'. m = Some (r, s') \<longrightarrow> calls s' = calls s \<longrightarrow> elf s' = elf s \<longrightarrow> Q (r, s'))"
  by (auto simp: post_def quiet_def split: option.splits)

lemmas quiet_posts [post_simps] =
  GetKCPByMachine_quiet [THEN post_quiet] GetVMPlacementGroupName_quiet [THEN post_quiet]
  getPlacementGroup_quiet [THEN post_quiet] getHostsInPlacementGroup_quiet [THEN post_quiet]

section \<open>Lemmas: hosts\<close>

lemma foldHosts_get:
  "gm_get (fold (\<lambda>h s. Hosts_Insert s h) hs s0) k = None \<longleftrightarrow> k \<notin> h_ID ` set hs \<and> gm_get s0 k = None"
  by (induction hs arbitrary: s0) (auto simp: Hosts_Insert_def gm_get_put)

lemma foldHosts_snd:
  "snd ` set (fold (\<lambda>h s. Hosts_Insert s h) hs s0) \<subseteq> set hs \<union> snd ` set s0"
proof (induction hs arbitrary: s0)
  case (Cons h hs)
  have "snd ` set (Hosts_Insert s0 h) \<subseteq> insert h (snd ` set s0)"
    using set_gm_put_subset [of "h_ID h" h s0] by (force simp: Hosts_Insert_def)
  with Cons.IH [of "Hosts_Insert s0 h"] show ?case by auto
qed simp

lemma Hosts_Filter_members:
  assumes "Hosts_Filter s P = Some r"
  shows "\<And>h. h \<in> snd ` set r \<Longrightarrow> h \<in> snd ` set s \<and> P h = Some True"
    and "\<And>h. h \<in> snd ` set s \<Longrightarrow> P h = Some True \<Longrightarrow> Hosts_Contains r (h_ID h)"
proof -
  from assms have r: "r = NewHostsFromList (filter (\<lambda>h. P h = Some True) (map snd s))"
    by (auto simp: Hosts_Filter_def newFilteredHostCollection_def Hosts_UnsortedList_def filterP_Some)
  show "h \<in> snd ` set s \<and> P h = Some True" if "h \<in> snd ` set r" for h
    using that foldHosts_snd [of "filter (\<lambda>h. P h = Some True) (map snd s)" "[]"]
    by (auto simp: r NewHostsFromList_def)
  show "Hosts_Contains r (h_ID h)" if "h \<in> snd ` set s" "P h = Some True" for h
  proof -
    have "gm_get r (h_ID h) \<noteq> None"
      using that unfolding r NewHostsFromList_def foldHosts_get by auto
    then show ?thesis by (simp add: Hosts_Contains_def)
  qed
qed

lemma IsAvailableHost_zero:
  "IsAvailableHost (Some h) memory = Some (True, msg) \<Longrightarrow> IsAvailableHost (Some h) 0 = Some (True, [])"
  by (auto simp: IsAvailableHost_def bind_eq_Some_conv split: option.splits if_splits)

lemma FilterAvailable_members:
  assumes "FilterAvailableHostsWithEnoughMemory s memory = Some r" and "h \<in> snd ` set r"
  shows "h \<in> snd ` set s \<and> (\<exists>msg. IsAvailableHost (Some h) memory = Some (True, msg))"
  using Hosts_Filter_members(1) [OF assms(1) [unfolded FilterAvailableHostsWithEnoughMemory_def] assms(2)]
  by (auto simp: map_option_case split: option.splits)

lemma Hosts_Difference_members:
  assumes "Hosts_Difference s other = Some r" and "h \<in> snd ` set r"
  shows "h \<in> snd ` set s \<and> \<not> Hosts_Contains other (h_ID h)"
  using Hosts_Filter_members(1) [OF assms(1) [unfolded Hosts_Difference_def] assms(2)]
  by (auto simp: Hosts_Contains_def)

lemma Hosts_Find_contains:
  assumes "Hosts_Find s ids = Some r" and "h \<in> snd ` set s" and "h_ID h \<in> set ids"
  shows "Hosts_Contains r (h_ID h)"
  using Hosts_Filter_members(2) [OF assms(1) [unfolded Hosts_Find_def] assms(2)] assms(3) by simp

lemma Hosts_Get_member: "Hosts_Get s k = Some h \<Longrightarrow> h \<in> snd ` set s"
  unfolding Hosts_Get_def by (force dest: map_of_SomeD)

lemma getAvailableHostsForVM_members:
  assumes "getAvailableHostsForVM cfg m hosts used vmo = Some avail" and "h \<in> snd ` set avail"
  shows "h \<in> snd ` set hosts \<and> \<not> Hosts_Contains used (h_ID h) \<and>
    IsAvailableHost (Some h) 0 = Some (True, []) \<and>
    ((\<exists>msg. IsAvailableHost (Some h) (TowerMemory cfg (MemoryMiB (Spec m))) = Some (True, msg)) \<or>
     (\<exists>v vh i. vmo = Some v \<and> vm_Host v = Some vh \<and> ref_ID vh = Some i \<and> gm_get hosts i = Some h \<and>
        vm_Status v \<in> {Some VMStatusRUNNING, Some VMStatusSUSPENDED}))"
proof -
  from assms(1) obtain enough av where
    e: "FilterAvailableHostsWithEnoughMemory hosts (TowerMemory cfg (MemoryMiB (Spec m))) = Some enough"
    and d: "Hosts_Difference enough used = Some av"
    by (auto simp: getAvailableHostsForVM_def bind_eq_Some_conv)
  have base: "h' \<in> snd ` set hosts \<and> \<not> Hosts_Contains used (h_ID h') \<and>
      (\<exists>msg. IsAvailableHost (Some h') (TowerMemory cfg (MemoryMiB (Spec m))) = Some (True, msg))"
    if "h' \<in> snd ` set av" for h'
    using Hosts_Difference_members [OF d that] FilterAvailable_members [OF e] by auto
  show ?thesis
  proof (cases "h \<in> snd ` set av")
    case True
    with base [OF True] show ?thesis by (auto dest: IsAvailableHost_zero)
  next
    case False
    then have "avail \<noteq> av" using assms(2) by auto
    then obtain v vh i h' msg where v: "vmo = Some v" "vm_Host v = Some vh" "ref_ID vh = Some i"
      and st: "vm_Status v \<in> {Some VMStatusRUNNING, Some VMStatusSUSPENDED}"
      and h': "Hosts_Get hosts i = Some h'" "IsAvailableHost (Some h') 0 = Some (True, msg)"
        "\<not> Hosts_Contains used (h_ID h')" and av: "avail = Hosts_Insert av h'"
      using assms(1) e d
      by (auto simp: getAvailableHostsForVM_def bind_eq_Some_conv Let_def split: option.splits if_splits)
    have "h = h'"
      using False assms(2) set_gm_put_subset [of "h_ID h'" h' av] unfolding av Hosts_Insert_def by force
    then show ?thesis
      using v st h'(1,3) IsAvailableHost_zero [OF h'(2)]
      by (auto simp: Hosts_Get_def [symmetric] dest: Hosts_Get_member)
  qed
qed

section \<open>Lemmas: joining\<close>

lemma migrateVM_calls [post_intros]:
  "post (migrateVM X v target s) (\<lambda>((ok, err), s').
     (calls s' = calls s \<and> elf s' = elf s \<and> ok \<and> err = None) \<or>
     (calls s' = calls s @ [CallMigrate (GetTowerString (vm_ID v)) target] \<and> \<not> ok \<and>
       (err = None \<longrightarrow> (\<exists>tid. elf s' = SetTask tid (elf s)))))"
  by (auto simp: migrateVM_def request_eq post_simps updElf_def split: sum.splits intro!: postI)

lemma joinMigrate_calls [post_intros]:
  "post (joinMigrate X c v pg avail s) (\<lambda>(r, s'). calls s' = calls s \<or>
     (\<exists>h \<in> snd ` set avail. calls s' = calls s @ [CallMigrate (GetTowerString (vm_ID v)) (h_ID h)]))"
proof -
  have m: "post (migrateVM X v (h_ID h) s1) (\<lambda>(r, s'). calls s' = calls s \<or>
     (\<exists>h \<in> snd ` set avail. calls s' = calls s @ [CallMigrate (GetTowerString (vm_ID v)) (h_ID h)]))"
    if "calls s1 = calls s" "nth_go (Hosts_UnsortedList avail) 0 = Some h" for h s1
  proof (rule post_mono [OF migrateVM_calls])
    from that(2) have "h \<in> snd ` set avail"
      by (auto simp: nth_go_Some Hosts_UnsortedList_def)
    then show "\<And>x. case x of (xa, s') \<Rightarrow> (case xa of (ok, err) \<Rightarrow> \<lambda>s'.
        calls s' = calls s1 \<and> elf s' = elf s1 \<and> ok \<and> err = None \<or>
        calls s' = calls s1 @ [CallMigrate (GetTowerString (vm_ID v)) (h_ID h)] \<and> \<not> ok \<and>
        (err = None \<longrightarrow> (\<exists>tid. elf s' = SetTask tid (elf s1)))) s' \<Longrightarrow>
      case x of (r, s') \<Rightarrow> calls s' = calls s \<or> (\<exists>h \<in> snd ` set avail.
        calls s' = calls s @ [CallMigrate (GetTowerString (vm_ID v)) (h_ID h)])"
      using that(1) by auto
  qed
  show ?thesis
    unfolding joinMigrate_def
    by (auto simp: post_simps GetControlPlaneElfMachinesInCluster_def query_eq quiet_def Let_def
        split: sum.splits intro!: postI post_mono [OF GetKCPByMachine_quiet]
        dest: postD [OF m, rotated -1])
qed

text \<open>A migration goes to a host that no virtual machine of the placement group uses.\<close>

definition migratesAway :: "('w, 'c) env \<Rightarrow> vm \<Rightarrow> vmPlacementGroup \<Rightarrow> towerCall list \<Rightarrow> bool" where
  "migratesAway X v pg cs \<longleftrightarrow> cs = [] \<or>
     (\<exists>h used s1 s2. cs = [CallMigrate (GetTowerString (vm_ID v)) h] \<and>
        getHostsInPlacementGroup X pg s1 = Some (Inr used, s2) \<and> h \<notin> set used)"

lemma migratesAway_Nil [simp]: "migratesAway X v pg []"
  by (simp add: migratesAway_def)

lemma joinControlPlane_calls:
  "post (joinControlPlane X c v pg s) (\<lambda>(r, s'). (\<exists>cs. calls s' = calls s @ cs \<and> migratesAway X v pg cs) \<and>
     (r = None \<longrightarrow> calls s' = calls s \<and> elf s' = elf s))"
proof -
  have mig: "migratesAway X v pg [CallMigrate (GetTowerString (vm_ID v)) (h_ID h)]"
    if "getHostsInPlacementGroup X pg s1 = Some (Inr ids, s2)" "Hosts_Find hosts ids = Some used"
      "getAvailableHostsForVM cfg m hosts used (Some v) = Some avail" "(k, h) \<in> set avail"
    for s1 ids s2 hosts used cfg m avail h k
  proof -
    from that(4) have "h \<in> snd ` set avail" by force
    from getAvailableHostsForVM_members [OF that(3) this] Hosts_Find_contains [OF that(2), of h]
    have "h_ID h \<notin> set ids" by auto
    with that(1) show ?thesis by (auto simp: migratesAway_def)
  qed
  show ?thesis
    unfolding joinControlPlane_def
    by (auto simp: post_simps joinMigrate_calls [THEN post_spec] query_eq split: sum.splits
        intro!: postI intro: mig)
qed

lemma addVMs_calls [post_intros]:
  "post (addVMsToPlacementGroup X pg ids s) (\<lambda>(err, s').
     calls s' = calls s @ [CallAddVMsToPG (pg_ID pg) ids] \<and>
     (err = None \<longrightarrow> (\<exists>i. pg_ID pg = Some i \<and> elf s' = setPlacementGroupRef i (elf s))))"
  by (auto simp: addVMsToPlacementGroup_def post_simps query_eq request_eq updElf_def Let_def
      split: sum.splits intro!: postI)

text \<open>What \<^verbatim>\<open>joinPlacementGroup\<close> may ask of Tower, given the group it works on.\<close>

definition joinCalls :: "('w, 'c) env \<Rightarrow> vm \<Rightarrow> vmPlacementGroup \<Rightarrow> towerCall list \<Rightarrow> bool" where
  "joinCalls X v pg cs \<longleftrightarrow> migratesAway X v pg cs \<or>
     (\<exists>vmID members. cs = [CallAddVMsToPG (pg_ID pg) (members @ [vmID])] \<and> vm_ID v = Some vmID \<and>
        GetVMsInPlacementGroup pg = Some members \<and> vmID \<notin> set members)"

lemma join_ticket_calls:
  "post (joinPlacementGroup_ticket X c v n s) (\<lambda>(r, s').
     calls s' = calls s \<or> (\<exists>pg cs s0 s1. getPlacementGroup X c n s0 = Some (Inr (Some pg), s1) \<and>
        calls s' = calls s @ cs \<and> joinCalls X v pg cs))"
proof -
  show ?thesis
    unfolding joinPlacementGroup_ticket_def
    by (auto simp: post_simps joinControlPlane_calls [THEN post_spec] addVMs_calls [THEN post_spec]
        joinCalls_def split: sum.splits option.splits intro!: postI; blast)
qed

lemma GetVMPlacementGroupName_glob:
  "post (GetVMPlacementGroupName X m cl s) (\<lambda>(r, s'). glob s' = glob s \<and> quiet s s')"
  by (auto simp: GetVMPlacementGroupName_def GetMDByMachine_def GetKCPByMachine_def query_eq post_simps
      quiet_def split: sum.splits intro!: postI)

section \<open>Lemmas: hosts in log messages\<close>

text \<open>
  The hosts of a log message are rendered before the logger sees them. Available hosts always
  can be; a host without a status, which counts as unavailable, ends the run in a panic.
\<close>

lemma hostText_None: "hostText h = None \<longleftrightarrow> h_Status h = None \<or> h_HostState h = Some None"
proof (cases "h_HostState h")
  case None
  then show ?thesis unfolding hostText_def by (cases "h_Status h") simp_all
next
  case (Some st)
  then show ?thesis unfolding hostText_def by (cases st; cases "h_Status h") simp_all
qed

lemma available_hosts_render:
  assumes "getAvailableHostsForVM cfg m hosts used vmo = Some avail"
  shows "Hosts_String avail \<noteq> None"
proof -
  have "hostText h \<noteq> None" if "h \<in> snd ` set avail" for h
  proof -
    from getAvailableHostsForVM_members [OF assms that] have "IsAvailableHost (Some h) 0 = Some (True, [])" by blast
    moreover have "IsAvailableHost (Some h) 0 \<noteq> Some (True, [])" if "h_Status h = None \<or> h_HostState h = Some None"
      using that by (auto simp: IsAvailableHost_def split: option.splits)
    ultimately show ?thesis unfolding hostText_None by blast
  qed
  then have "mapP hostText (map snd avail) \<noteq> None" by (auto simp: mapP_None)
  then show ?thesis by (auto simp: Hosts_String_def)
qed

lemma unstatused_host_panics:
  assumes "h \<in> snd ` set hs" and "h_Status h = None"
  shows "Hosts_String hs = None"
proof -
  from assms have "mapP hostText (map snd hs) = None" by (auto simp: mapP_None hostText_None)
  then show ?thesis by (simp add: Hosts_String_def)
qed

section \<open>Properties\<close>

text \<open>
  Property C14. The hosts offered to a virtual machine: every one is a host of the cluster, is
  not used by the placement group, has a status other than \<^verbatim>\<open>CONNECTED_ERROR\<close>,
  \<^verbatim>\<open>SESSION_EXPIRED\<close> and \<^verbatim>\<open>INITIALIZING\<close>, and is neither in maintenance mode nor
  entering it. Its allocatable memory is at least the memory of the machine in bytes (the
  configured default where the spec names none, the product taken in 64 bits), unless the
  virtual machine already runs, or is suspended, on that very host.
\<close>

theorem available_hosts_sound:
  assumes "getAvailableHostsForVM cfg m hosts used vmo = Some avail" and "h \<in> snd ` set avail"
  shows "h \<in> snd ` set hosts \<and> gm_get used (h_ID h) = None \<and>
    (\<exists>st. h_Status h = Some st \<and>
       st \<notin> {''CONNECTED_ERROR'', ''SESSION_EXPIRED'', ''INITIALIZING''}) \<and>
    h_HostState h \<notin> {Some (Some ''MAINTENANCE_MODE''), Some (Some ''ENTERING_MAINTENANCE_MODE'')} \<and>
    (let need = wrap64 ((if MemoryMiB (Spec m) \<le> 0 then cfg_VMMemoryMiB cfg else MemoryMiB (Spec m)) * 2 ^ 20)
     in (0 < need \<longrightarrow> (\<exists>mem. h_AllocatableMemoryBytes h = Some mem \<and> need \<le> mem)) \<or>
        (\<exists>v vh i. vmo = Some v \<and> vm_Host v = Some vh \<and> ref_ID vh = Some i \<and> gm_get hosts i = Some h \<and>
           vm_Status v \<in> {Some VMStatusRUNNING, Some VMStatusSUSPENDED}))"
proof -
  let ?need = "TowerMemory cfg (MemoryMiB (Spec m))"
  have need: "?need =
      wrap64 ((if MemoryMiB (Spec m) \<le> 0 then cfg_VMMemoryMiB cfg else MemoryMiB (Spec m)) * 2 ^ 20)"
    by (simp add: TowerMemory_def unit_defs Let_def)
  note m = getAvailableHostsForVM_members [OF assms]
  from m have "IsAvailableHost (Some h) 0 = Some (True, [])" by blast
  then have "\<exists>st. h_Status h = Some st \<and>
       st \<notin> {HostStatusCONNECTEDERROR, HostStatusSESSIONEXPIRED, HostStatusINITIALIZING} \<and>
       h_HostState h \<notin> {Some (Some MaintenanceModeEnumMAINTENANCEMODE),
                         Some (Some MaintenanceModeEnumENTERINGMAINTENANCEMODE)}"
    by (rule IsAvailableHost_status)
  moreover have "(0 < ?need \<longrightarrow> (\<exists>mem. h_AllocatableMemoryBytes h = Some mem \<and> ?need \<le> mem)) \<or>
        (\<exists>v vh i. vmo = Some v \<and> vm_Host v = Some vh \<and> ref_ID vh = Some i \<and> gm_get hosts i = Some h \<and>
           vm_Status v \<in> {Some VMStatusRUNNING, Some VMStatusSUSPENDED})"
    using m IsAvailableHost_memory [of h ?need] by blast
  ultimately show ?thesis
    using m by (auto simp: need Let_def const_defs Hosts_Contains_def)
qed

definition wit_host :: "string \<Rightarrow> int \<Rightarrow> host" where
  "wit_host i mem = \<lparr>h_ID = i, h_Name = Some i, h_Status = Some ''CONNECTED_HEALTHY'', h_HostState = None,
     h_AllocatableMemoryBytes = Some mem\<rparr>"

theorem available_hosts_sound_witness:
  "gm_get [(''h1'', wit_host ''h1'' (2 ^ 40))] (h_ID (wit_host ''h2'' (2 ^ 40))) = None"
proof -
  have "getAvailableHostsForVM wit_cfg wit_elf
      [(''h1'', wit_host ''h1'' (2 ^ 40)), (''h2'', wit_host ''h2'' (2 ^ 40))]
      [(''h1'', wit_host ''h1'' (2 ^ 40))] None = Some [(''h2'', wit_host ''h2'' (2 ^ 40))]"
    by (simp add: getAvailableHostsForVM_def FilterAvailableHostsWithEnoughMemory_def Hosts_Filter_def
        newFilteredHostCollection_def Hosts_UnsortedList_def Hosts_Difference_def NewHostsFromList_def
        Hosts_Insert_def IsAvailableHost_def wit_host_def wit_elf_def wit_cfg_def TowerMemory_def
        unit_defs wrap64_def const_defs)
  from available_hosts_sound [OF this, of "wit_host ''h2'' (2 ^ 40)"] show ?thesis by simp
qed

text \<open>
  The ticket of a placement group is released on every path: after
  \<^verbatim>\<open>joinPlacementGroup\<close> nobody holds the ticket of the group, unless another
  reconcile held it before; then the call reports \<^verbatim>\<open>false\<close> without an error and asks
  nothing of Tower.
\<close>

theorem join_releases_ticket:
  assumes "limiter_cache (e_cache X)"
    and "joinPlacementGroup X c v s = Some (r, s')"
    and "GetVMPlacementGroupName X (mc_Machine c) (mc_Cluster c) s = Some (Inr n, s1)"
  shows "(cGet (e_cache X) (inMemoryCache (glob s')) t (getKeyForPlacementGroup n) = None) \<or>
    (cGet (e_cache X) (inMemoryCache (glob s)) (mc_Now c) (getKeyForPlacementGroup n) \<noteq> None \<and>
     r = (False, None) \<and> calls s' = calls s)"
proof -
  let ?C = "e_cache X"
  have s1: "glob s1 = glob s" "calls s1 = calls s"
    using GetVMPlacementGroupName_glob [THEN postD, OF assms(3)] by (auto simp: quiet_def)
  from assms(2) obtain ret err sb where b: "joinPlacementGroup_body X c v s = Some ((ret, err), sb)"
    and r: "r = (ret, err)" "glob s' = glob sb" "calls s' = calls sb"
    by (auto simp: joinPlacementGroup_def bind_eq_Some_conv split: option.splits if_splits)
  show ?thesis
  proof (cases "fst (acquireTicketForPlacementGroupOperation ?C (mc_Now c) n (glob s))")
    case True
    with b have "\<exists>g. glob sb = releaseTicketForPlacementGroupOperation ?C n g"
      by (auto simp: joinPlacementGroup_body_def assms(3) s1 Let_def split_def bind_eq_Some_conv)
    with r show ?thesis by (auto simp: limiter_cache.pg_release_get [OF assms(1)])
  next
    case False
    with b r show ?thesis
      by (auto simp: joinPlacementGroup_body_def assms(3) s1 Let_def split_def bind_eq_Some_conv
          acquireTicketForPlacementGroupOperation_def split: if_splits)
  qed
qed

definition wit_task :: task where
  "wit_task = \<lparr>task_ID = Some ''t1'', task_Status = Some TaskStatusSUCCESSED, task_ErrorMessage = None,
     task_ErrorCode = None, task_Description = None\<rparr>"

definition wit_vm :: vm where
  "wit_vm = \<lparr>vm_ID = Some ''v1'', vm_LocalID = Some ''12345678-1234-1234-1234-123456789abc'',
     vm_Name = Some ''vm1'', vm_Status = Some VMStatusSTOPPED, vm_EntityAsyncStatus = None,
     vm_InRecycleBin = None, vm_Host = Some \<lparr>ref_ID = Some ''h1'', ref_Name = Some ''h1''\<rparr>,
     vm_Cluster = None, vm_Vcpu = Some 4, vm_Memory = Some (8 * 2 ^ 30),
     vm_CPU = Some \<lparr>cpu_Cores = Some 4, cpu_Sockets = Some 1\<rparr>, vm_VMDisks = [], vm_GpuDevices = [],
     vm_Labels = []\<rparr>"

definition wit_join_env :: "(unit, cacheVal ttl) env" where
  "wit_join_env = wit_env
     \<lparr>e_svc := wit_svc
        \<lparr>Svc_GetVMPlacementGroup := (\<lambda>_ w. (Inr wit_pg, w)),
         Svc_AddVMsToPlacementGroup := (\<lambda>_ _ w. (Inr wit_task, w)),
         Svc_WaitTask := (\<lambda>_ _ _ w. (Inr wit_task, w))\<rparr>,
      e_k8s := wit_k8s\<lparr>K_GetMD := (\<lambda>_ n w. (Inr \<lparr>md_meta = wit_meta n, md_specReplicas = Some 1\<rparr>, w))\<rparr>\<rparr>"

definition wit_worker :: machineContext where
  "wit_worker = wit_ctx\<lparr>mc_Machine := (mc_Machine wit_ctx)
     \<lparr>m_meta := (wit_meta ''machine1'')\<lparr>om_Labels := Some [(MachineDeploymentNameLabel, ''md1'')]\<rparr>\<rparr>\<rparr>"

lemma IsUUID_wit: "IsUUID ''12345678-1234-1234-1234-123456789abc''"
  by code_simp

lemma wit_pg_name:
  "GetVMPlacementGroupName wit_join_env (mc_Machine wit_worker) (mc_Cluster wit_worker) wit_st =
     Some (Inr ''cape-managed-u-default-md1'', wit_st)"
  by (simp add: GetVMPlacementGroupName_def GetMDByMachine_def query_eq wit_join_env_def wit_worker_def
      wit_env_sels wit_meta_def IsControlPlaneMachine_def GetDeploymentNameLabel_def GetLabelValue_def
      GetPlacementGroupName_def placementGroupNameFor_def GetVMPlacementGroupNamePrefix_def
      GetResourcePrefix_def GetEnv_def const_defs)

lemma wit_join_sels:
  "e_cache wit_join_env = ttl_cache" "e_lib wit_join_env = ref_lib"
  "Svc_GetVMPlacementGroup (e_svc wit_join_env) n w = (Inr wit_pg, w)"
  "Svc_AddVMsToPlacementGroup (e_svc wit_join_env) pg ids w = (Inr wit_task, w)"
  "Svc_WaitTask (e_svc wit_join_env) i a b w = (Inr wit_task, w)"
  "glob wit_st = wit_gstate" "calls wit_st = []" "mc_Now wit_worker = 0"
  "\<not> IsControlPlaneMachine (m_meta (mc_Machine wit_worker))"
  by (simp_all add: wit_join_env_def wit_st_def wit_worker_def wit_ctx_def IsControlPlaneMachine_def
      wit_meta_def const_defs)

lemma wit_join:
  "\<exists>s'. joinPlacementGroup wit_join_env wit_worker wit_vm wit_st = Some ((True, None), s') \<and>
     calls s' = [CallAddVMsToPG (Some ''p1'') [''v1'']]"
  by (simp add: joinPlacementGroup_def joinPlacementGroup_body_def wit_pg_name wit_join_sels
      acquireTicketForPlacementGroupOperation_def joinPlacementGroup_ticket_def getPlacementGroup_def
      getPGFromCache_def query_eq request_eq addVMsToPlacementGroup_def wit_gstate_def
      ttl_cache_def ttl_get_def ttl_set_def wit_pg_def IsUUID_wit setPGCache_def
      GetVMsInPlacementGroup_def wit_vm_def wit_task_def Let_def getKeyForPGCache_def
      getKeyForPlacementGroup_def TaskStatusSUCCESSED_def TaskStatusFAILED_def)

theorem join_releases_ticket_witness:
  "\<exists>s' :: (unit, cacheVal ttl) st. calls s' = [CallAddVMsToPG (Some ''p1'') [''v1'']] \<and>
     cGet ttl_cache (inMemoryCache (glob s')) 7 (getKeyForPlacementGroup ''cape-managed-u-default-md1'') = None"
proof -
  obtain s' where j: "joinPlacementGroup wit_join_env wit_worker wit_vm wit_st = Some ((True, None), s')"
    and c: "calls s' = [CallAddVMsToPG (Some ''p1'') [''v1'']]" using wit_join by blast
  have X: "e_cache wit_join_env = ttl_cache" by (simp add: wit_join_env_def)
  from join_releases_ticket [OF _ j wit_pg_name, of 7] lim.limiter_cache_axioms c show ?thesis
    by (intro exI [of _ s']) (auto simp: X)
qed

text \<open>
  Property C16. What joining a placement group asks of Tower: nothing; or, for a group it read,
  one update that adds the virtual machine to exactly the members the group has; or one
  migration of the virtual machine to a host on which no member of the group is located.
\<close>

theorem join_tower_calls:
  assumes "joinPlacementGroup X c v s = Some (r, s')"
  shows "calls s' = calls s \<or>
    (\<exists>n pg cs s0 s1. getPlacementGroup X c n s0 = Some (Inr (Some pg), s1) \<and>
       calls s' = calls s @ cs \<and> joinCalls X v pg cs)"
proof -
  have body: "post (joinPlacementGroup_body X c v s) (\<lambda>(r, s'). calls s' = calls s \<or>
      (\<exists>n pg cs s0 s1. getPlacementGroup X c n s0 = Some (Inr (Some pg), s1) \<and>
         calls s' = calls s @ cs \<and> joinCalls X v pg cs))"
    unfolding joinPlacementGroup_body_def
    by (auto simp: post_simps join_ticket_calls [THEN post_spec] Let_def split: sum.splits prod.splits; blast)
  from assms obtain ret err sb where b: "joinPlacementGroup_body X c v s = Some ((ret, err), sb)"
    and "calls s' = calls sb"
    by (auto simp: joinPlacementGroup_def bind_eq_Some_conv split: option.splits if_splits)
  with body [THEN postD, OF b] show ?thesis by simp
qed

theorem join_tower_calls_witness:
  "\<exists>pg cs. cs \<noteq> [] \<and> joinCalls wit_join_env wit_vm pg cs"
proof -
  obtain s' where j: "joinPlacementGroup wit_join_env wit_worker wit_vm wit_st = Some ((True, None), s')"
    and c: "calls s' = [CallAddVMsToPG (Some ''p1'') [''v1'']]" using wit_join by blast
  from join_tower_calls [OF j] c show ?thesis by (auto simp: wit_st_def)
qed

end
