(* ===== verification/Gpu_Alloc.thy ===== *)
theory Gpu_Alloc
  imports Placement_Group
begin

text \<open>
  \<^verbatim>\<open>controllers/elfmachine_controller_gpu.go\<close>: selection of a host and of GPU or
  vGPU devices for a virtual machine, with the locks of \<open>Vm_Limiter\<close>, and the
  reconciliation of the devices of an existing virtual machine. The iteration over a Go map
  follows the order of its association list; every statement holds for every such order.
\<close>

section \<open>Selecting devices of one host\<close>

text \<open>Grouping by a key: the first device opens a group, the others are appended to it.\<close>

definition addToGroup :: "string \<Rightarrow> 'a \<Rightarrow> 'a list gomap \<Rightarrow> 'a list gomap" where
  "addToGroup k x m = (case gm_get m k of None \<Rightarrow> gm_put k [x] m | Some xs \<Rightarrow> gm_put k (xs @ [x]) m)"

fun groupGPUs :: "(gpuVMInfo \<Rightarrow> string panics) \<Rightarrow> gpuVMInfo list \<Rightarrow> gpuVMInfo list gomap \<Rightarrow> gpuVMInfo list gomap panics" where
  "groupGPUs key [] m = Some m"
| "groupGPUs key (g # gs) m = do { k \<leftarrow> key g; groupGPUs key gs (addToGroup k g m) }"

definition wholeGPU :: "gpuVMInfo \<Rightarrow> gpuDeviceInfo" where
  "wholeGPU g = \<lparr>gdi_ID = g_ID g, gdi_HostID = [], gdi_AllocatedCount = 1, gdi_AvailableCount = 1\<rparr>"

fun pickGPUs ::
  "gpuVMInfo list gomap \<Rightarrow> gpuPassthroughDeviceSpec list \<Rightarrow> gpuDeviceInfo list \<Rightarrow> gpuDeviceInfo list panics" where
  "pickGPUs m [] acc = Some acc"
| "pickGPUs m (d # ds) acc =
     (case gm_get m (gs_Model d) of
        None \<Rightarrow> Some []
      | Some gpus \<Rightarrow>
          if int (length gpus) < gs_Count d then Some []
          else if gs_Count d < 0 then go_panic
          else pickGPUs m ds
                 (acc @ map wholeGPU (take (nat (gs_Count d)) gpus)))"

definition selectGPUDevicesForVM ::
  "gpuVMInfos \<Rightarrow> gpuPassthroughDeviceSpec list \<Rightarrow> gpuDeviceInfo list panics" where
  "selectGPUDevicesForVM hostGPUVMInfos requiredGPUDevices = do {
     modelGPUVMInfoMap \<leftarrow> groupGPUs g_Model (GPUVMInfos_UnsortedList hostGPUVMInfos) [];
     pickGPUs modelGPUVMInfoMap requiredGPUDevices [] }"

text \<open>The inner loop over the devices of one type: the picked devices and the count still missing.\<close>

fun pickVGPU :: "gpuVMInfo list \<Rightarrow> int \<Rightarrow> gpuDeviceInfo list \<Rightarrow> (gpuDeviceInfo list \<times> int) panics" where
  "pickVGPU [] requiredCount acc = Some (acc, requiredCount)"
| "pickVGPU (g # gs) requiredCount acc = do {
     availableCount \<leftarrow> GetAvailableCountFromGPUVMInfo g;
     if availableCount \<le> 0 then pickVGPU gs requiredCount acc
     else if availableCount \<ge> requiredCount then
       Some (acc @ [\<lparr>gdi_ID = g_ID g, gdi_HostID = [], gdi_AllocatedCount = requiredCount,
                     gdi_AvailableCount = availableCount\<rparr>], 0)
     else do {
       n \<leftarrow> g_AvailableVgpusNum g;
       pickVGPU gs (wrap32 (requiredCount - n))
         (acc @ [\<lparr>gdi_ID = g_ID g, gdi_HostID = [], gdi_AllocatedCount = n,
                  gdi_AvailableCount = availableCount\<rparr>]) } }"

fun pickVGPUs ::
  "gpuVMInfo list gomap \<Rightarrow> vgpuDeviceSpec list \<Rightarrow> gpuDeviceInfo list \<Rightarrow> gpuDeviceInfo list panics" where
  "pickVGPUs m [] acc = Some acc"
| "pickVGPUs m (d # ds) acc =
     (case gm_get m (vs_Type d) of
        None \<Rightarrow> Some []
      | Some gpus \<Rightarrow> do {
          (gpuInfos, requiredCount) \<leftarrow> pickVGPU gpus (vs_Count d) [];
          if requiredCount > 0 then Some [] else pickVGPUs m ds (acc @ gpuInfos) })"

definition selectVGPUDevicesForVM ::
  "gpuVMInfos \<Rightarrow> vgpuDeviceSpec list \<Rightarrow> gpuDeviceInfo list panics" where
  "selectVGPUDevicesForVM hostGPUVMInfos requiredVGPUDevices = do {
     typeVGPUVMInfoMap \<leftarrow> groupGPUs g_UserVgpuTypeName (GPUVMInfos_UnsortedList hostGPUVMInfos) [];
     pickVGPUs typeVGPUVMInfoMap requiredVGPUDevices [] }"

section \<open>Selecting the host\<close>

definition checkGPUsCanBeUsedForVM ::
  "('w, 'c) env \<Rightarrow> machineContext \<Rightarrow> string list \<Rightarrow> ('w, 'c) st \<Rightarrow>
     ((go_error + bool) \<times> ('w, 'c) st) panics" where
  "checkGPUsCanBeUsedForVM X c gpuDeviceIDs s =
     (let (cached, g) = getGPUVMInfosFromCache (e_cache X) (mc_Now c) gpuDeviceIDs (glob s);
          s = s\<lparr>glob := g\<rparr>
      in if GPUVMInfos_Len cached \<noteq> length gpuDeviceIDs then
           (case query (Svc_GetGPUDevicesAllocationInfoByIDs (e_svc X) gpuDeviceIDs) s of
              (Inl err, s) \<Rightarrow> Some (Inl err, s)
            | (Inr infos, s) \<Rightarrow>
                if length infos \<noteq> length gpuDeviceIDs then Some (Inr False, s)
                else do {
                  let s = updGlob (setGPUVMInfosCache (e_cache X) (mc_Now c) infos) s;
                  bad \<leftarrow> HasGPUsCanNotBeUsedForVM infos (elf s);
                  Some (Inr (\<not> bad), s) })
         else do {
           bad \<leftarrow> HasGPUsCanNotBeUsedForVM cached (elf s);
           Some (Inr (\<not> bad), s) })"

fun groupByHost :: "gpuVMInfo list \<Rightarrow> gpuVMInfos gomap \<Rightarrow> gpuVMInfos gomap panics" where
  "groupByHost [] m = Some m"
| "groupByHost (g # gs) m = do {
     h \<leftarrow> g_Host g;
     hostID \<leftarrow> ref_ID h;
     groupByHost gs
       (case gm_get m hostID of
          None \<Rightarrow> gm_put hostID (NewGPUVMInfos [g]) m
        | Some infos \<Rightarrow> gm_put hostID (GPUVMInfos_Insert infos g) m) }"

definition selectDevices :: "elfMachine \<Rightarrow> gpuVMInfos \<Rightarrow> gpuDeviceInfo list panics" where
  "selectDevices m hostGPUVMInfos =
     (if RequiresPassThroughGPUDevices m then selectGPUDevicesForVM hostGPUVMInfos (GPUDevices (Spec m))
      else selectVGPUDevicesForVM hostGPUVMInfos (VGPUDevices (Spec m)))"

text \<open>The loop over the hosts: the first host whose devices suffice and can be locked.\<close>

fun chooseHost ::
  "machineContext \<Rightarrow> gpuVMInfos gomap \<Rightarrow> string list \<Rightarrow> ('w, 'c) st \<Rightarrow>
     ((string \<times> gpuDeviceInfo list) option \<times> ('w, 'c) st) panics" where
  "chooseHost c m [] s = Some (None, s)"
| "chooseHost c m (h # hs) s =
     (case gm_get m h of
        None \<Rightarrow> chooseHost c m hs s
      | Some hostGPUVMInfos \<Rightarrow> do {
          selected \<leftarrow> selectDevices (elf s) hostGPUVMInfos;
          if selected \<noteq> [] then
            (let (ok, g) = lockGPUDevicesForVM (mc_Now c) (GetElfClusterID c) (om_Name (em_meta (elf s)))
                             h selected (glob s);
                 s = s\<lparr>glob := g\<rparr>
             in if \<not> ok then chooseHost c m hs s else Some (Some (h, selected), s))
          else chooseHost c m hs s })"

text \<open>
  The body from the query of the hosts on; the number of available hosts is what the deferred
  function reads to choose the reason.
\<close>

definition selectHostAndGPUs_search ::
  "('w, 'c) env \<Rightarrow> machineContext \<Rightarrow> string \<Rightarrow> ('w, 'c) st \<Rightarrow>
     (((go_error + (string \<times> gpuDeviceInfo list) option) \<times> nat) \<times> ('w, 'c) st) panics" where
  "selectHostAndGPUs_search X c preferredHostID s =
     (case query (Svc_GetHostsByCluster (e_svc X) (GetElfClusterID c) (ec_DatastoreID (mc_ElfCluster c))) s of
        (Inl err, s) \<Rightarrow> Some ((Inl err, 0), s)
      | (Inr hosts, s) \<Rightarrow> do {
          availableHosts \<leftarrow> FilterAvailableHostsWithEnoughMemory hosts
             (TowerMemory (e_cfg X) (MemoryMiB (Spec (elf s))));
          let n = Hosts_Len availableHosts;
          if n = 0 then Some ((Inr None, n), s)
          else
            (let gpuDeviceUsage = (if RequiresVGPUDevices (elf s) then GpuDeviceUsageVGPU
                                   else GpuDeviceUsagePASSTHROUGH)
             in case query (Svc_GetGPUDevicesAllocationInfoByHostIDs (e_svc X) (Hosts_IDs availableHosts) gpuDeviceUsage) s of
                  (Inl err, s) \<Rightarrow> Some ((Inl err, n), s)
                | (Inr gpuVMInfos, s) \<Rightarrow>
                    if length gpuVMInfos = 0 then Some ((Inr None, n), s)
                    else do {
                      infos \<leftarrow> FilterAvailableGPUVMInfos gpuVMInfos;
                      (infos, g) \<leftarrow> filterGPUVMInfosByLockGPUDevices (mc_Now c) (GetElfClusterID c) infos (glob s);
                      let s = s\<lparr>glob := g\<rparr>;
                      hostMap \<leftarrow> groupByHost (GPUVMInfos_UnsortedList infos) [];
                      let hostIDs = map fst hostMap;
                      let unsortedHostIDs =
                        (if List.member hostIDs preferredHostID
                         then preferredHostID # removeAll preferredHostID hostIDs else hostIDs);
                      (r, s) \<leftarrow> chooseHost c hostMap unsortedHostIDs s;
                      Some ((Inr r, n), s) }) })"

definition selectHostAndGPUs_body ::
  "('w, 'c) env \<Rightarrow> machineContext \<Rightarrow> string \<Rightarrow> ('w, 'c) st \<Rightarrow>
     (((go_error + (string \<times> gpuDeviceInfo list) option) \<times> nat) \<times> ('w, 'c) st) panics" where
  "selectHostAndGPUs_body X c preferredHostID s =
     (let name = om_Name (em_meta (elf s));
          (locked, g) = getGPUDevicesLockedByVM (mc_Now c) (GetElfClusterID c) name (glob s);
          s = s\<lparr>glob := g\<rparr>
      in case locked of
           None \<Rightarrow> selectHostAndGPUs_search X c preferredHostID s
         | Some lockedVMGPUs \<Rightarrow> do {
             (r, s) \<leftarrow> checkGPUsCanBeUsedForVM X c (GetGPUIDs lockedVMGPUs) s;
             case r of
               Inl err \<Rightarrow> Some ((Inl err, 0), s)
             | Inr ok \<Rightarrow>
                 if ok then Some ((Inr (Some (lk_HostID lockedVMGPUs, GetGPUDeviceInfos lockedVMGPUs)), 0), s)
                 else selectHostAndGPUs_search X c preferredHostID
                        (updGlob (unlockGPUDevicesLockedByVM (mc_Now c) (GetElfClusterID c) name) s) })"

text \<open>The result \<open>Inr (Some ([], []))\<close> means that no host needs to be specified.\<close>

definition selectHostAndGPUsForVM ::
  "('w, 'c) env \<Rightarrow> machineContext \<Rightarrow> string \<Rightarrow> ('w, 'c) st \<Rightarrow>
     ((go_error + (string \<times> gpuDeviceInfo list) option) \<times> ('w, 'c) st) panics" where
  "selectHostAndGPUsForVM X c preferredHostID s =
     (if \<not> RequiresGPUDevices (elf s) then Some (Inr (Some ([], [])), s)
      else do {
        ((r, availableHosts), s) \<leftarrow> selectHostAndGPUs_body X c preferredHostID s;
        Some (r,
          case r of
            Inl err \<Rightarrow> markFalse X c VMProvisionedCondition SelectingGPUFailedReason SevError
                         (errText (e_lib X) err) s
          | Inr None \<Rightarrow>
              if availableHosts = 0
              then markFalse X c VMProvisionedCondition WaitingForELFClusterWithSufficientMemoryReason SevWarning [] s
              else markFalse X c VMProvisionedCondition WaitingForAvailableHostWithEnoughGPUsReason SevInfo [] s
          | Inr (Some _) \<Rightarrow> s) })"

section \<open>Devices of an existing virtual machine\<close>

definition unlockOwnGPUs :: "machineContext \<Rightarrow> ('w, 'c) st \<Rightarrow> ('w, 'c) st" where
  "unlockOwnGPUs c s =
     updGlob (unlockGPUDevicesLockedByVM (mc_Now c) (GetElfClusterID c) (om_Name (em_meta (elf s)))) s"

definition addGPUDevicesForVM ::
  "('w, 'c) env \<Rightarrow> machineContext \<Rightarrow> vm \<Rightarrow> ('w, 'c) st \<Rightarrow> ((bool \<times> go_error option) \<times> ('w, 'c) st) panics" where
  "addGPUDevicesForVM X c v s = do {
     vh \<leftarrow> vm_Host v;
     vmHost \<leftarrow> ref_ID vh;
     (r, s) \<leftarrow> selectHostAndGPUsForVM X c vmHost s;
     case r of
       Inl err \<Rightarrow> Some ((False, Some err), s)
     | Inr None \<Rightarrow> Some ((False, None), s)
     | Inr (Some (hostID, gpuDeviceInfos)) \<Rightarrow>
         if vmHost \<noteq> hostID then do {
           ((ok, err), s) \<leftarrow> migrateVM X v hostID s;
           Some ((ok, err), if err \<noteq> None then unlockOwnGPUs c s else s) }
         else
           (let vmRef = VMRef (Status (elf s))
            in case request (CallAddGPUs vmRef gpuDeviceInfos) (Svc_AddGPUDevices (e_svc X) vmRef gpuDeviceInfos) s of
                 (Inl err, s) \<Rightarrow>
                   Some ((False, Some (ErrWrapf (''failed to trigger attaching GPU devices for VM '' @ vmRef) err)),
                     unlockOwnGPUs c (markFalse X c VMProvisionedCondition AttachingGPUFailedReason SevWarning
                        (errText (e_lib X) err) s))
               | (Inr task, s) \<Rightarrow> do {
                   let s = markFalse X c VMProvisionedCondition UpdatingReason SevInfo [] s;
                   taskID \<leftarrow> task_ID task;
                   Some ((False, None), updElf (SetTask taskID) s) }) }"

definition removeVMGPUDevices ::
  "('w, 'c) env \<Rightarrow> machineContext \<Rightarrow> vm \<Rightarrow> ('w, 'c) st \<Rightarrow> (go_error option \<times> ('w, 'c) st) panics" where
  "removeVMGPUDevices X c v s =
     (let remove = (\<lambda>staleGPUs s.
        (let vmRef = VMRef (Status (elf s))
         in case request (CallRemoveGPUs vmRef) (Svc_RemoveGPUDevices (e_svc X) vmRef staleGPUs) s of
              (Inl err, s) \<Rightarrow>
                (let message = elfMessage X VMProvisionedCondition s;
                     s = (if \<not> (IsGPUAssignFailed message \<or> IsVGPUInsufficientError message)
                          then markFalse X c VMProvisionedCondition DetachingGPUFailedReason SevWarning
                                 (errText (e_lib X) err) s
                          else s)
                 in Some (Some (ErrWrapf (''failed to trigger detaching stale GPU devices for VM '' @ vmRef) err), s))
            | (Inr task, s) \<Rightarrow> do {
                let s = markFalse X c VMProvisionedCondition UpdatingReason SevInfo [] s;
                taskID \<leftarrow> task_ID task;
                Some (None, updElf (SetTask taskID) s) }))
      in if RequiresVGPUDevices (elf s) then do {
           vmID \<leftarrow> vm_ID v;
           case query (Svc_GetVMGPUAllocationInfo (e_svc X) vmID) s of
             (Inl err, s) \<Rightarrow> Some (Some err, s)
           | (Inr gpus, s) \<Rightarrow> remove gpus s }
         else remove (map (\<lambda>g. \<lparr>go_GpuID = ref_ID g, go_Amount = Some 1\<rparr>) (vm_GpuDevices v)) s)"

definition reconcileGPUDevices ::
  "('w, 'c) env \<Rightarrow> machineContext \<Rightarrow> vm \<Rightarrow> ('w, 'c) st \<Rightarrow> ((bool \<times> go_error option) \<times> ('w, 'c) st) panics" where
  "reconcileGPUDevices X c v s =
     (if \<not> RequiresGPUDevices (elf s) then Some ((True, None), s)
      else do {
        gpuDevices \<leftarrow> mapP (\<lambda>g. do { i \<leftarrow> ref_ID g; n \<leftarrow> ref_Name g; Some \<lparr>gst_GPUID = i, gst_Name = n\<rparr> })
                        (vm_GpuDevices v);
        let s = updElf (\<lambda>m. m\<lparr>Status := (Status m)\<lparr>GPUStatuses := gpuDevices\<rparr>\<rparr>) s;
        status \<leftarrow> vm_Status v;
        if status \<noteq> VMStatusSTOPPED then Some ((True, None), s)
        else if vm_GpuDevices v = [] then addGPUDevicesForVM X c v s
        else do {
          let message = elfMessage X VMProvisionedCondition s;
          if IsGPUAssignFailed message \<or> IsVGPUInsufficientError message then do {
            (err, s) \<leftarrow> removeVMGPUDevices X c v s;
            Some ((False, err), s) }
          else do {
            (r, s) \<leftarrow> checkGPUsCanBeUsedForVM X c (map gst_GPUID gpuDevices) s;
            case r of
              Inl err \<Rightarrow> Some ((False, Some err), s)
            | Inr ok \<Rightarrow>
                if \<not> ok then do {
                  (err, s) \<leftarrow> removeVMGPUDevices X c v s;
                  Some ((False, err), s) }
                else Some ((True, None), s) } } })"

section \<open>Lemmas: selection\<close>

lemma addToGroup_get:
  "gm_get (addToGroup k x m) k' =
     (if k' = k then Some ((case gm_get m k of None \<Rightarrow> [] | Some xs \<Rightarrow> xs) @ [x]) else gm_get m k')"
  by (auto simp: addToGroup_def gm_get_put split: option.splits)

lemma groupGPUs_get:
  "groupGPUs key gs m = Some m' \<Longrightarrow>
     gm_get m' k =
       (case gm_get m k of
          None \<Rightarrow> (if filter (\<lambda>g. key g = Some k) gs = [] then None else Some (filter (\<lambda>g. key g = Some k) gs))
        | Some ys \<Rightarrow> Some (ys @ filter (\<lambda>g. key g = Some k) gs))"
proof (induction gs arbitrary: m)
  case (Cons g gs)
  then obtain k0 where k0: "key g = Some k0" and r: "groupGPUs key gs (addToGroup k0 g m) = Some m'"
    by (auto simp: bind_eq_Some_conv)
  from Cons.IH [OF r] show ?case
    by (auto simp: k0 addToGroup_get filter_empty_conv split: option.splits)
qed (auto split: option.splits)

lemma groupGPUs_Nil_get:
  assumes "groupGPUs key gs [] = Some m"
  shows "gm_get m k = Some xs \<Longrightarrow> xs = filter (\<lambda>g. key g = Some k) gs"
  using groupGPUs_get [OF assms, of k] by (auto split: if_splits)

text \<open>The reference definition: for each requirement the first devices of that model.\<close>

definition gpusOfModel :: "gpuVMInfo list \<Rightarrow> gpuPassthroughDeviceSpec \<Rightarrow> gpuVMInfo list" where
  "gpusOfModel gs d = take (nat (gs_Count d)) (filter (\<lambda>g. g_Model g = Some (gs_Model d)) gs)"

lemma pickGPUs_result:
  assumes m: "\<And>k xs. gm_get m k = Some xs \<Longrightarrow> xs = filter (\<lambda>g. g_Model g = Some k) gs"
  shows "pickGPUs m ds acc = Some r \<Longrightarrow> r \<noteq> [] \<Longrightarrow>
     r = acc @ map wholeGPU (concat (map (gpusOfModel gs) ds)) \<and>
     (\<forall>d \<in> set ds. 0 \<le> gs_Count d \<and> int (length (gpusOfModel gs d)) = gs_Count d)"
proof (induction ds arbitrary: acc)
  case (Cons d ds)
  then obtain xs where xs: "gm_get m (gs_Model d) = Some xs" "\<not> int (length xs) < gs_Count d"
      "\<not> gs_Count d < 0"
    and r: "pickGPUs m ds (acc @ map wholeGPU (take (nat (gs_Count d)) xs)) = Some r"
    by (auto split: option.splits if_splits)
  from m [OF xs(1)] have "take (nat (gs_Count d)) xs = gpusOfModel gs d" by (simp add: gpusOfModel_def)
  moreover have "int (length (take (nat (gs_Count d)) xs)) = gs_Count d" using xs(2,3) by auto
  ultimately show ?case using Cons.IH [OF r Cons.prems(2)] xs(3) by simp
qed simp

lemma selectGPU_result:
  assumes "selectGPUDevicesForVM infos req = Some r" and "r \<noteq> []"
  shows "r = map wholeGPU (concat (map (gpusOfModel (map snd infos)) req)) \<and>
     (\<forall>d \<in> set req. 0 \<le> gs_Count d \<and> int (length (gpusOfModel (map snd infos) d)) = gs_Count d)"
proof -
  from assms(1) obtain m where m: "groupGPUs g_Model (map snd infos) [] = Some m"
    and p: "pickGPUs m req [] = Some r"
    by (auto simp: selectGPUDevicesForVM_def GPUVMInfos_UnsortedList_def bind_eq_Some_conv)
  from pickGPUs_result [OF groupGPUs_Nil_get [OF m] p assms(2)] show ?thesis by simp
qed

lemma gpusOfModel_subset: "set (gpusOfModel gs d) \<subseteq> set (filter (\<lambda>g. g_Model g = Some (gs_Model d)) gs)"
  unfolding gpusOfModel_def by (rule set_take_subset)

lemma distinct_gpusOfModel: "distinct (map g_ID gs) \<Longrightarrow> distinct (map g_ID (gpusOfModel gs d))"
  unfolding gpusOfModel_def by (metis distinct_map_filter distinct_take take_map)

lemma distinct_selected_gpus:
  assumes "distinct (map g_ID gs)" and "distinct (map gs_Model ds)"
  shows "distinct (map g_ID (concat (map (gpusOfModel gs) ds)))"
  using assms(2)
proof (induction ds)
  case (Cons d ds)
  have disj: "g_ID g \<noteq> g_ID g'" if "g \<in> set (gpusOfModel gs d)" "d' \<in> set ds" "g' \<in> set (gpusOfModel gs d')"
    for g g' d'
  proof -
    from that(1,3) gpusOfModel_subset have g: "g \<in> set gs" "g_Model g = Some (gs_Model d)"
      and g': "g' \<in> set gs" "g_Model g' = Some (gs_Model d')" by fastforce+
    from Cons.prems that(2) have "gs_Model d \<noteq> gs_Model d'" by auto
    with g g' have "g \<noteq> g'" by auto
    with assms(1) g(1) g'(1) show ?thesis by (auto simp: distinct_map dest: inj_onD)
  qed
  have "g_ID ` set (gpusOfModel gs d) \<inter> g_ID ` set (concat (map (gpusOfModel gs) ds)) = {}"
    by (auto dest: disj)
  with Cons distinct_gpusOfModel [OF assms(1), of d] show ?case by (simp add: image_UN)
qed simp

text \<open>A device that Tower reports for the vGPU usage.\<close>

definition isVGPU :: "gpuVMInfo \<Rightarrow> bool" where
  "isVGPU g \<longleftrightarrow> g_UserUsage g = Some GpuDeviceUsageVGPU \<and>
     (case g_AvailableVgpusNum g of None \<Rightarrow> False | Some n \<Rightarrow> is_int32 n)"

lemma isVGPU_available: "isVGPU g \<Longrightarrow> GetAvailableCountFromGPUVMInfo g = g_AvailableVgpusNum g"
  by (auto simp: isVGPU_def GetAvailableCountFromGPUVMInfo_def GpuDeviceUsageVGPU_def
      GpuDeviceUsagePASSTHROUGH_def)

definition fitsVGPU :: "gpuVMInfo list \<Rightarrow> gpuDeviceInfo \<Rightarrow> bool" where
  "fitsVGPU gs x \<longleftrightarrow> 0 < gdi_AllocatedCount x \<and> gdi_AllocatedCount x \<le> gdi_AvailableCount x \<and>
     (\<exists>g \<in> set gs. g_ID g = gdi_ID x \<and> g_AvailableVgpusNum g = Some (gdi_AvailableCount x))"

lemma fitsVGPU_mono: "fitsVGPU gs x \<Longrightarrow> set gs \<subseteq> set gs' \<Longrightarrow> fitsVGPU gs' x"
  by (auto simp: fitsVGPU_def)

lemma pickVGPU_result:
  "pickVGPU gs req acc = Some (r, rest) \<Longrightarrow> \<forall>g \<in> set gs. isVGPU g \<Longrightarrow> 0 < req \<Longrightarrow> is_int32 req \<Longrightarrow>
     \<exists>p. r = acc @ p \<and> sum_list (map gdi_AllocatedCount p) = req - rest \<and> 0 \<le> rest \<and>
       (\<forall>x \<in> set p. fitsVGPU gs x) \<and> subseq (map gdi_ID p) (map g_ID gs)"
proof (induction gs arbitrary: req acc)
  case (Cons g gs)
  from Cons.prems(2) have g: "isVGPU g" by simp
  then obtain n where n: "g_AvailableVgpusNum g = Some n" "is_int32 n"
    by (auto simp: isVGPU_def split: option.splits)
  have av: "GetAvailableCountFromGPUVMInfo g = Some n" using isVGPU_available [OF g] n by simp
  let ?x = "\<lambda>a. \<lparr>gdi_ID = g_ID g, gdi_HostID = [], gdi_AllocatedCount = a, gdi_AvailableCount = n\<rparr>"
  consider "n \<le> 0" | "0 < n" "req \<le> n" | "0 < n" "n < req" by linarith
  then show ?case
  proof cases
    case 1
    then have "pickVGPU gs req acc = Some (r, rest)" using Cons.prems(1) av by simp
    from Cons.IH [OF this] Cons.prems obtain p where
      "r = acc @ p" "sum_list (map gdi_AllocatedCount p) = req - rest" "0 \<le> rest"
      "\<forall>x \<in> set p. fitsVGPU gs x" "subseq (map gdi_ID p) (map g_ID gs)" by auto
    then show ?thesis by (intro exI [of _ p]) (auto intro: fitsVGPU_mono)
  next
    case 2
    then have "r = acc @ [?x req]" "rest = 0" using Cons.prems(1) av by auto
    moreover have "fitsVGPU (g # gs) (?x req)" using 2 n Cons.prems(3) by (simp add: fitsVGPU_def)
    ultimately show ?thesis by simp
  next
    case 3
    have w: "is_int32 (req - n)" using 3 Cons.prems(4) n(2) by (simp add: is_int32_def)
    have "pickVGPU gs (req - n) (acc @ [?x n]) = Some (r, rest)"
      using Cons.prems(1) av n 3 w by simp
    from Cons.IH [OF this] Cons.prems(2) 3 w obtain p where
      "r = (acc @ [?x n]) @ p" "sum_list (map gdi_AllocatedCount p) = req - n - rest" "0 \<le> rest"
      "\<forall>x \<in> set p. fitsVGPU gs x" "subseq (map gdi_ID p) (map g_ID gs)" by auto
    moreover have "fitsVGPU (g # gs) (?x n)" using 3 n by (simp add: fitsVGPU_def)
    ultimately show ?thesis by (intro exI [of _ "?x n # p"]) (auto intro: fitsVGPU_mono)
  qed
qed simp

text \<open>
  The selected devices, one group for each requirement, in order. A group visits the devices of
  its type in their order, each at most once.
\<close>

definition servesVGPU :: "gpuVMInfo list \<Rightarrow> vgpuDeviceSpec \<Rightarrow> gpuDeviceInfo list \<Rightarrow> bool" where
  "servesVGPU gs d p \<longleftrightarrow> sum_list (map gdi_AllocatedCount p) = vs_Count d \<and>
     subseq (map gdi_ID p) (map g_ID (filter (\<lambda>g. g_UserVgpuTypeName g = Some (vs_Type d)) gs)) \<and>
     (\<forall>x \<in> set p. fitsVGPU (filter (\<lambda>g. g_UserVgpuTypeName g = Some (vs_Type d)) gs) x)"

lemma pickVGPUs_result:
  assumes m: "\<And>k xs. gm_get m k = Some xs \<Longrightarrow> xs = filter (\<lambda>g. g_UserVgpuTypeName g = Some k) gs"
    and v: "\<forall>g \<in> set gs. isVGPU g"
  shows "pickVGPUs m ds acc = Some r \<Longrightarrow> r \<noteq> [] \<Longrightarrow> \<forall>d \<in> set ds. 0 < vs_Count d \<and> is_int32 (vs_Count d) \<Longrightarrow>
     \<exists>ps. r = acc @ concat ps \<and> list_all2 (servesVGPU gs) ds ps"
proof (induction ds arbitrary: acc)
  case (Cons d ds)
  then obtain xs p rest where xs: "gm_get m (vs_Type d) = Some xs"
    and p: "pickVGPU xs (vs_Count d) [] = Some (p, rest)" and rest: "\<not> rest > 0"
    and r: "pickVGPUs m ds (acc @ p) = Some r"
    by (auto simp: bind_eq_Some_conv split: option.splits if_splits)
  from m [OF xs] v have "\<forall>g \<in> set xs. isVGPU g" by simp
  from pickVGPU_result [OF p this] Cons.prems(3) rest m [OF xs] have "servesVGPU gs d p"
    by (auto simp: servesVGPU_def)
  moreover from Cons.IH [OF r Cons.prems(2)] Cons.prems(3) obtain ps where
    "r = (acc @ p) @ concat ps" "list_all2 (servesVGPU gs) ds ps" by auto
  ultimately show ?case by (intro exI [of _ "p # ps"]) simp
qed simp

lemma servesVGPU_ids:
  assumes "servesVGPU gs d p" and "x \<in> set p"
  shows "\<exists>g \<in> set gs. g_ID g = gdi_ID x \<and> g_UserVgpuTypeName g = Some (vs_Type d)"
  using assms by (force simp: servesVGPU_def fitsVGPU_def)

lemma subseq_keeps_distinct: "subseq xs ys \<Longrightarrow> distinct ys \<Longrightarrow> distinct xs"
  by (induction rule: list_emb.induct) (auto dest: list_emb_set)

lemma servesVGPU_distinct:
  assumes "distinct (map g_ID gs)" and "servesVGPU gs d p"
  shows "distinct (map gdi_ID p)"
  using assms distinct_map_filter [OF assms(1)] unfolding servesVGPU_def
  by (blast dest: subseq_keeps_distinct)

lemma distinct_selected_vgpus:
  assumes d: "distinct (map g_ID gs)"
  shows "list_all2 (servesVGPU gs) ds ps \<Longrightarrow> distinct (map vs_Type ds) \<Longrightarrow> distinct (map gdi_ID (concat ps))"
proof (induction rule: list_all2_induct)
  case (Cons r ds p ps)
  have "gdi_ID x \<noteq> gdi_ID y" if x: "x \<in> set p" and q: "q \<in> set ps" "y \<in> set q" for x y q
  proof -
    from Cons.hyps(2) q(1) obtain r' where r': "r' \<in> set ds" "servesVGPU gs r' q"
      by (metis list_all2_lengthD list_all2_nthD2 in_set_conv_nth)
    from Cons.prems r'(1) have "vs_Type r \<noteq> vs_Type r'" by auto
    moreover from servesVGPU_ids [OF Cons.hyps(1) x] servesVGPU_ids [OF r'(2) q(2)] obtain g g' where
      "g \<in> set gs" "g_ID g = gdi_ID x" "g_UserVgpuTypeName g = Some (vs_Type r)"
      "g' \<in> set gs" "g_ID g' = gdi_ID y" "g_UserVgpuTypeName g' = Some (vs_Type r')" by blast
    moreover from d have "inj_on g_ID (set gs)" by (simp add: distinct_map)
    ultimately show ?thesis by (metis inj_onD option.inject)
  qed
  then have "gdi_ID ` set p \<inter> gdi_ID ` set (concat ps) = {}" by fastforce
  with Cons servesVGPU_distinct [OF d Cons.hyps(1)] show ?case by (simp add: image_UN)
qed simp

text \<open>
  A type that is required twice is served twice from the same devices: three units and three
  units are taken from a device with four.
\<close>

lemma vgpu_type_listed_twice:
  "selectVGPUDevicesForVM
     [(''g1'', \<lparr>g_ID = ''g1'', g_Host = None, g_Model = None, g_UserVgpuTypeName = Some ''A'',
        g_UserUsage = Some GpuDeviceUsageVGPU, g_AvailableVgpusNum = Some 4, g_Vms = []\<rparr>)]
     [\<lparr>vs_Type = ''A'', vs_Count = 3\<rparr>, \<lparr>vs_Type = ''A'', vs_Count = 3\<rparr>] =
   Some (replicate 2 \<lparr>gdi_ID = ''g1'', gdi_HostID = [], gdi_AllocatedCount = 3, gdi_AvailableCount = 4\<rparr>)"
  by (simp add: selectVGPUDevicesForVM_def GPUVMInfos_UnsortedList_def addToGroup_def
      GetAvailableCountFromGPUVMInfo_def GpuDeviceUsageVGPU_def GpuDeviceUsagePASSTHROUGH_def numeral_2_eq_2)

section \<open>Lemmas: locks\<close>

lemma gpuVMInfosFromCache_locks:
  "lockedGPUMap (snd (gpuVMInfosFromCache C now ids infos g)) = lockedGPUMap g"
  by (induction C now ids infos g rule: gpuVMInfosFromCache.induct)
    (auto simp: Let_def deleteKey_def split: option.splits)

lemma setGPUVMInfosCache_locks: "lockedGPUMap (setGPUVMInfosCache C now infos g) = lockedGPUMap g"
  unfolding setGPUVMInfosCache_def by (induction infos arbitrary: g) auto

lemma liveLocks_cong: "lockedGPUMap g = lockedGPUMap g' \<Longrightarrow> liveLocks now cid g = liveLocks now cid g'"
  by (simp add: liveLocks_def)

lemma checkGPUs_frame [post_intros]:
  "post (checkGPUsCanBeUsedForVM X c ids s) (\<lambda>(r, s'). calls s' = calls s \<and> elf s' = elf s \<and>
     lockedGPUMap (glob s') = lockedGPUMap (glob s))"
  using gpuVMInfosFromCache_locks [of "e_cache X" "mc_Now c" ids "[]" "glob s"]
  by (auto simp: checkGPUsCanBeUsedForVM_def getGPUVMInfosFromCache_def query_eq post_simps
      setGPUVMInfosCache_locks split: prod.splits sum.splits intro!: postI)

text \<open>The lock a successful selection leaves behind.\<close>

definition lockedFor :: "machineContext \<Rightarrow> ('w, 'c) st \<Rightarrow> string \<Rightarrow> gpuDeviceInfo list \<Rightarrow> bool" where
  "lockedFor c s host infos \<longleftrightarrow>
     (\<exists>l. gm_get (liveLocks (mc_Now c) (GetElfClusterID c) (glob s)) (om_Name (em_meta (elf s))) = Some l \<and>
        lk_HostID l = host \<and> GetGPUIDs l = map gdi_ID infos \<and>
        map lg_Count (lk_GPUDevices l) = map gdi_AllocatedCount infos)"

lemma lock_lockedFor:
  "lockGPUDevicesForVM (mc_Now c) (GetElfClusterID c) (om_Name (em_meta (elf s))) h infos (glob s) = (True, g) \<Longrightarrow>
     lockedFor c (s\<lparr>glob := g\<rparr>) h infos"
  by (auto simp: lockedFor_def lockGPU_True gm_get_put GetGPUIDs_def comp_def)

lemma chooseHost_locked:
  "post (chooseHost c m hs s) (\<lambda>(r, s'). calls s' = calls s \<and> elf s' = elf s \<and>
     (case r of None \<Rightarrow> True | Some (h, infos) \<Rightarrow> lockedFor c s' h infos))"
proof (induction hs arbitrary: s)
  case (Cons h hs)
  then show ?case
    by (auto simp: post_simps Let_def Cons.IH [THEN post_spec] split: option.splits prod.splits
        intro!: postI lock_lockedFor)
qed (simp add: post_simps)

definition selectionLocked ::
  "machineContext \<Rightarrow> ('w, 'c) st \<Rightarrow> go_error + (string \<times> gpuDeviceInfo list) option \<Rightarrow> bool" where
  "selectionLocked c s r \<longleftrightarrow> (\<forall>h infos. r = Inr (Some (h, infos)) \<longrightarrow> lockedFor c s h infos)"

lemma search_locked:
  "post (selectHostAndGPUs_search X c p s) (\<lambda>((r, n), s'). calls s' = calls s \<and> elf s' = elf s \<and>
     selectionLocked c s' r)"
  unfolding selectHostAndGPUs_search_def
  by (auto simp: query_eq post_simps chooseHost_locked [THEN post_spec] selectionLocked_def Let_def
      split: sum.splits option.splits intro!: postI)

lemma getLocked_lockedFor:
  assumes "getGPUDevicesLockedByVM (mc_Now c) (GetElfClusterID c) (om_Name (em_meta (elf s))) (glob s) = (Some l, g)"
    and "lockedGPUMap (glob s') = lockedGPUMap g" and "elf s' = elf s"
  shows "lockedFor c s' (lk_HostID l) (GetGPUDeviceInfos l)"
proof -
  have l: "gm_get (liveLocks (mc_Now c) (GetElfClusterID c) (glob s)) (om_Name (em_meta (elf s))) = Some l"
    and g: "g = snd (getLockedClusterGPUsWithoutLock (mc_Now c) (GetElfClusterID c) (glob s))"
    using assms(1) getLockedClusterGPUs_fst [of "mc_Now c" "GetElfClusterID c" "glob s"]
    by (auto simp: getGPUDevicesLockedByVM_def split_def)
  have "liveLocks (mc_Now c) (GetElfClusterID c) (glob s') = liveLocks (mc_Now c) (GetElfClusterID c) (glob s)"
    using liveLocks_cong [OF assms(2)] liveLocks_prune g by metis
  then show ?thesis
    using l assms(3) by (simp add: lockedFor_def GetGPUIDs_def GetGPUDeviceInfos_def comp_def)
qed

lemma body_locked:
  "post (selectHostAndGPUs_body X c p s) (\<lambda>((r, n), s'). calls s' = calls s \<and> elf s' = elf s \<and>
     selectionLocked c s' r)"
  unfolding selectHostAndGPUs_body_def
  by (auto simp: post_simps search_locked [THEN post_spec] checkGPUs_frame [THEN post_spec] Let_def
      selectionLocked_def split: sum.splits option.splits prod.splits intro: getLocked_lockedFor)

lemma lockedFor_cong:
  "glob s' = glob s \<Longrightarrow> om_Name (em_meta (elf s')) = om_Name (em_meta (elf s)) \<Longrightarrow>
     lockedFor c s' h i = lockedFor c s h i"
  by (simp add: lockedFor_def)

lemma select_locked:
  "post (selectHostAndGPUsForVM X c p s) (\<lambda>(r, s'). calls s' = calls s \<and>
     VMRef (Status (elf s')) = VMRef (Status (elf s)) \<and> em_meta (elf s') = em_meta (elf s) \<and>
     Spec (elf s') = Spec (elf s) \<and> TaskRef (Status (elf s')) = TaskRef (Status (elf s)) \<and>
     (RequiresGPUDevices (elf s) \<longrightarrow> selectionLocked c s' r))"
  unfolding selectHostAndGPUsForVM_def
  by (auto simp: post_simps body_locked [THEN post_spec] selectionLocked_def emMarkFalse_def
      split: sum.splits option.splits)

lemma addGPUs_calls:
  "post (addGPUDevicesForVM X c v s) (\<lambda>((ok, err), s').
     length (calls s') \<le> length (calls s) + 1 \<and> (ok \<longrightarrow> calls s' = calls s))"
  unfolding addGPUDevicesForVM_def
  by (auto simp: post_simps select_locked [THEN post_spec] migrateVM_calls [THEN post_spec] request_eq
      Let_def unlockOwnGPUs_def split: sum.splits option.splits intro!: postI)

lemma removeGPUs_calls:
  "post (removeVMGPUDevices X c v s) (\<lambda>(err, s'). length (calls s') \<le> length (calls s) + 1)"
  unfolding removeVMGPUDevices_def
  by (auto simp: post_simps query_eq request_eq Let_def split: sum.splits intro!: postI)

section \<open>Properties\<close>

text \<open>
  Property C17. The passthrough selection equals its reference definition: a non-empty selection
  consists, for every required model in order, of the first devices of that model on the
  host, in the required number; each is taken whole. Only when no model is required twice and
  the map of devices is well formed (keyed by the IDs, each key once) is no device selected
  twice: a model that is required twice gets the same devices twice.
\<close>

theorem gpu_selection_exact:
  assumes "selectGPUDevicesForVM infos req = Some sel" and "sel \<noteq> []"
  shows "sel = map wholeGPU (concat (map (gpusOfModel (map snd infos)) req)) \<and>
    (\<forall>d \<in> set req. int (length (gpusOfModel (map snd infos) d)) = gs_Count d) \<and>
    (gpus_wf infos \<and> distinct (map gs_Model req) \<longrightarrow> distinct (map gdi_ID sel))"
proof -
  note r = selectGPU_result [OF assms]
  have "distinct (map gdi_ID sel)" if "gpus_wf infos" "distinct (map gs_Model req)"
  proof -
    from that(1) have "distinct (map g_ID (map snd infos))"
      by (intro distinct_keys_snd) (simp_all add: gpus_wf_def gm_wf_def)
    from distinct_selected_gpus [OF this that(2)] show ?thesis
      using r by (simp add: comp_def wholeGPU_def)
  qed
  with r show ?thesis by blast
qed

definition wit_gpuInfo :: "string \<Rightarrow> string \<Rightarrow> gpuVMInfo" where
  "wit_gpuInfo i usage = \<lparr>g_ID = i, g_Host = Some \<lparr>ref_ID = Some ''h1'', ref_Name = None\<rparr>, g_Model = Some ''A16'',
     g_UserVgpuTypeName = Some ''vA16'', g_UserUsage = Some usage, g_AvailableVgpusNum = Some 4, g_Vms = []\<rparr>"

lemma wit_select_gpu:
  "selectGPUDevicesForVM [(''g1'', wit_gpuInfo ''g1'' GpuDeviceUsagePASSTHROUGH)] [\<lparr>gs_Model = ''A16'', gs_Count = 1\<rparr>]
     = Some [wholeGPU (wit_gpuInfo ''g1'' GpuDeviceUsagePASSTHROUGH)]"
  by (simp add: selectGPUDevicesForVM_def GPUVMInfos_UnsortedList_def wit_gpuInfo_def addToGroup_def)

theorem gpu_selection_exact_witness:
  "int (length (gpusOfModel (map snd [(''g1'', wit_gpuInfo ''g1'' GpuDeviceUsagePASSTHROUGH)])
     \<lparr>gs_Model = ''A16'', gs_Count = 1\<rparr>)) = 1"
  using gpu_selection_exact [OF wit_select_gpu] by simp

text \<open>
  Property C18. The vGPU selection satisfies every requirement. For positive 32-bit counts, on
  devices in vGPU use that report their available units: a non-empty selection splits into one
  group of devices for each required type, in order; the units taken from a group sum up to the
  required count, and every device of the group has that type, gives at least one unit and no
  more than it has available, and is visited at most once, in the order of the host's list. When
  moreover no type is required twice, no device occurs twice in the whole selection, so no
  device gives more than it has. (A type required twice is served twice from the same devices,
  \<open>vgpu_type_listed_twice\<close>.)
\<close>

theorem vgpu_selection_exact:
  assumes "selectVGPUDevicesForVM infos req = Some sel" and "sel \<noteq> []"
    and "\<forall>g \<in> set (map snd infos). isVGPU g"
    and "\<forall>d \<in> set req. 0 < vs_Count d \<and> is_int32 (vs_Count d)"
  shows "\<exists>ps. sel = concat ps \<and> list_all2 (servesVGPU (map snd infos)) req ps \<and>
    (gpus_wf infos \<and> distinct (map vs_Type req) \<longrightarrow> distinct (map gdi_ID sel))"
proof -
  from assms(1) obtain m where m: "groupGPUs g_UserVgpuTypeName (map snd infos) [] = Some m"
    and p: "pickVGPUs m req [] = Some sel"
    by (auto simp: selectVGPUDevicesForVM_def GPUVMInfos_UnsortedList_def bind_eq_Some_conv)
  from pickVGPUs_result [OF groupGPUs_Nil_get [OF m] assms(3) p assms(2,4)]
  obtain ps where ps: "sel = concat ps" "list_all2 (servesVGPU (map snd infos)) req ps" by auto
  have "distinct (map gdi_ID sel)" if "gpus_wf infos" "distinct (map vs_Type req)"
  proof -
    from that(1) have "distinct (map g_ID (map snd infos))"
      by (intro distinct_keys_snd) (simp_all add: gpus_wf_def gm_wf_def)
    from distinct_selected_vgpus [OF this ps(2) that(2)] show ?thesis by (simp add: ps(1))
  qed
  with ps show ?thesis by blast
qed

theorem vgpu_selection_exact_witness:
  "\<exists>ps. [\<lparr>gdi_ID = ''g1'', gdi_HostID = [], gdi_AllocatedCount = 2, gdi_AvailableCount = 4\<rparr>] = concat ps \<and>
     list_all2 (servesVGPU [wit_gpuInfo ''g1'' GpuDeviceUsageVGPU]) [\<lparr>vs_Type = ''vA16'', vs_Count = 2\<rparr>] ps"
proof -
  have "selectVGPUDevicesForVM [(''g1'', wit_gpuInfo ''g1'' GpuDeviceUsageVGPU)] [\<lparr>vs_Type = ''vA16'', vs_Count = 2\<rparr>]
      = Some [\<lparr>gdi_ID = ''g1'', gdi_HostID = [], gdi_AllocatedCount = 2, gdi_AvailableCount = 4\<rparr>]"
    by (simp add: selectVGPUDevicesForVM_def GPUVMInfos_UnsortedList_def wit_gpuInfo_def addToGroup_def
        GetAvailableCountFromGPUVMInfo_def GpuDeviceUsageVGPU_def GpuDeviceUsagePASSTHROUGH_def)
  note e = vgpu_selection_exact [OF this]
  have "isVGPU (wit_gpuInfo ''g1'' GpuDeviceUsageVGPU)" by (simp add: isVGPU_def wit_gpuInfo_def is_int32_def)
  with e show ?thesis by (force simp: is_int32_def)
qed

text \<open>
  Property C19. The devices a machine gets are locked for it: whenever the selection returns a
  host and devices for a machine that requires GPUs, the lock table holds a live lock of the
  machine on exactly that host and those devices and counts; the selection itself asks for no
  change in Tower.
\<close>

theorem selected_gpus_are_locked:
  assumes "selectHostAndGPUsForVM X c p s = Some (Inr (Some (h, infos)), s')"
    and "RequiresGPUDevices (elf s)"
  shows "lockedFor c s' h infos \<and> calls s' = calls s"
  using select_locked [THEN postD, OF assms(1)] assms(2) by (auto simp: selectionLocked_def)

definition wit_gpu_st :: "(unit, cacheVal ttl) st" where
  "wit_gpu_st = wit_st\<lparr>elf := wit_elf\<lparr>Spec := (Spec wit_elf)\<lparr>GPUDevices := [\<lparr>gs_Model = ''A16'', gs_Count = 1\<rparr>]\<rparr>\<rparr>,
     glob := wit_gstate\<lparr>inMemoryCache := [(''gpu:vm:info:g1'', CVGPU (wit_gpuInfo ''g1'' GpuDeviceUsagePASSTHROUGH), None)]\<rparr>\<rparr>"

lemma wit_gpu_select:
  "\<exists>s'. selectHostAndGPUsForVM wit_env (wit_ctx\<lparr>mc_Now := 5\<rparr>) [] wit_gpu_st =
     Some (Inr (Some (''h1'', [\<lparr>gdi_ID = ''g1'', gdi_HostID = [], gdi_AllocatedCount = 2, gdi_AvailableCount = 0\<rparr>])), s')"
  by (simp add: selectHostAndGPUsForVM_def selectHostAndGPUs_body_def RequiresGPUDevices_def
      RequiresPassThroughGPUDevices_def wit_gpu_st_def wit_st_def wit_elf_def wit_meta_def
      getGPUDevicesLockedByVM_def getLockedClusterGPUsWithoutLock_def wit_gstate_def wit_ctx_def
      GetElfClusterID_def GetFailureDomain_def limiter_time_defs checkGPUsCanBeUsedForVM_def
      getGPUVMInfosFromCache_def GetGPUIDs_def getKeyForGPUVMInfo_def ttl_cache_def ttl_get_def ttl_live_def
      deleteKey_def GPUVMInfos_Insert_def GPUVMInfos_Len_def HasGPUsCanNotBeUsedForVM_def
      GPUVMInfos_UnsortedList_def getVMsOccupyingGPU_def wit_gpuInfo_def GetGPUDeviceInfos_def Let_def)

theorem selected_gpus_are_locked_witness:
  "\<exists>s' :: (unit, cacheVal ttl) st. lockedFor (wit_ctx\<lparr>mc_Now := 5\<rparr>) s' ''h1''
     [\<lparr>gdi_ID = ''g1'', gdi_HostID = [], gdi_AllocatedCount = 2, gdi_AvailableCount = 0\<rparr>]"
proof -
  obtain s' where j: "selectHostAndGPUsForVM wit_env (wit_ctx\<lparr>mc_Now := 5\<rparr>) [] wit_gpu_st =
     Some (Inr (Some (''h1'', [\<lparr>gdi_ID = ''g1'', gdi_HostID = [], gdi_AllocatedCount = 2, gdi_AvailableCount = 0\<rparr>])), s')"
    using wit_gpu_select by blast
  from selected_gpus_are_locked [OF j] show ?thesis
    by (auto simp: wit_gpu_st_def RequiresGPUDevices_def RequiresPassThroughGPUDevices_def)
qed

text \<open>
  Property C20. The GPU devices of a virtual machine change only while it is stopped: if
  \<^verbatim>\<open>reconcileGPUDevices\<close> issues a call to Tower, the machine requires GPUs and the
  virtual machine is stopped; it issues at most one, and none when it reports that the
  devices are as expected.
\<close>

theorem gpu_changes_only_when_stopped:
  assumes "reconcileGPUDevices X c v s = Some ((ok, err), s')"
  shows "(calls s' \<noteq> calls s \<longrightarrow> RequiresGPUDevices (elf s) \<and> vm_Status v = Some VMStatusSTOPPED) \<and>
    length (calls s') \<le> length (calls s) + 1 \<and> (ok \<longrightarrow> calls s' = calls s)"
proof -
  have "post (reconcileGPUDevices X c v s) (\<lambda>((ok, err), s').
      (calls s' \<noteq> calls s \<longrightarrow> RequiresGPUDevices (elf s) \<and> vm_Status v = Some VMStatusSTOPPED) \<and>
      length (calls s') \<le> length (calls s) + 1 \<and> (ok \<longrightarrow> calls s' = calls s))"
    unfolding reconcileGPUDevices_def
    by (auto simp: post_simps addGPUs_calls [THEN post_spec] removeGPUs_calls [THEN post_spec]
        checkGPUs_frame [THEN post_spec] Let_def split: sum.splits intro!: postI)
  from postD [OF this assms] show ?thesis by simp
qed

theorem gpu_changes_only_when_stopped_witness:
  "calls (snd (the (reconcileGPUDevices wit_env wit_ctx wit_vm wit_st))) = []"
proof -
  have "reconcileGPUDevices wit_env wit_ctx wit_vm wit_st = Some ((True, None), wit_st)"
    by (simp add: reconcileGPUDevices_def RequiresGPUDevices_def RequiresPassThroughGPUDevices_def
        RequiresVGPUDevices_def wit_st_def wit_elf_def)
  with gpu_changes_only_when_stopped [OF this] show ?thesis by (simp add: wit_st_def)
qed

end
