(* ===== verification/Host_Agent.thy ===== *)
theory Host_Agent
  imports Tower_Cache
begin

text \<open>
  \<^verbatim>\<open>pkg/hostagent\<close>: the jobs that the host agent runs on the node of a machine
  during a hot update. A job is identified by its name, which encodes the desired resources.
\<close>

definition HostAgentJobTypeExpandRootPartition :: string where
  [const_defs]: "HostAgentJobTypeExpandRootPartition = ''expand-root-partition''"
definition HostAgentJobTypeRestartKubelet :: string where
  [const_defs]: "HostAgentJobTypeRestartKubelet = ''restart-kubelet''"
definition HostAgentJobTypeSetNetworkDeviceConfig :: string where
  [const_defs]: "HostAgentJobTypeSetNetworkDeviceConfig = ''set-network-device-config''"
definition HostAgentJobsConfigName :: string where
  [const_defs]: "HostAgentJobsConfigName = ''cape-hostagent-jobs''"
definition NamespaceCape :: string where [const_defs]: "NamespaceCape = ''cape-system''"
definition defaultTimeout :: int where "defaultTimeout = 1 * time_Minute"

lemmas job_type_defs =
  HostAgentJobTypeExpandRootPartition_def HostAgentJobTypeRestartKubelet_def
  HostAgentJobTypeSetNetworkDeviceConfig_def

record macType =
  mt_Mac :: string
  mt_Type :: string

definition TimeoutFor :: "jobTimeoutConfig \<Rightarrow> string \<Rightarrow> int" where
  "TimeoutFor c jobType =
     (let jobTimeout = (if jobType = HostAgentJobTypeExpandRootPartition then jt_ExpandRootPartition c
                        else if jobType = HostAgentJobTypeRestartKubelet then jt_RestartKubelet c
                        else if jobType = HostAgentJobTypeSetNetworkDeviceConfig then jt_SetNetworkDeviceConfig c
                        else 0)
      in if jobTimeout > 0 then jobTimeout
         else if jt_Default c > 0 then jt_Default c
         else defaultTimeout)"

definition GetHostJob ::
  "('w, 'c) env \<Rightarrow> string \<Rightarrow> string \<Rightarrow> ('w, 'c) st \<Rightarrow> (go_error + hostJob) \<times> ('w, 'c) st" where
  "GetHostJob X namespace name s = query (K_GetHostJob (e_k8s X) ''default'' name) s"

definition GetExpandRootPartitionJobName :: "elfMachine \<Rightarrow> string" where
  "GetExpandRootPartitionJobName m =
     ''cape-expand-root-partition-'' @ om_Name (em_meta m) @ ''-'' @ fmt_d (DiskGiB (Spec m))"

definition GetRestartKubeletJobName :: "elfMachine \<Rightarrow> string" where
  "GetRestartKubeletJobName m =
     ''cape-restart-kubelet-'' @ om_Name (em_meta m) @ ''-'' @ fmt_d (NumCPUs (Spec m)) @ ''-'' @
     fmt_d (NumCoresPerSocket (Spec m)) @ ''-'' @ fmt_d (MemoryMiB (Spec m))"

definition GetSetNetworkDeviceConfigJobName :: "elfMachine \<Rightarrow> macType list \<Rightarrow> string" where
  "GetSetNetworkDeviceConfigJobName m macTypes =
     (if macTypes = [] then ''cape-set-network-config-'' @ om_Name (em_meta m)
      else ''cape-set-network-config-'' @ om_Name (em_meta m) @ ''-'' @
           strToLower (strReplaceAll (mt_Mac (last macTypes)) '':'' []))"

definition GetJobName :: "elfMachine \<Rightarrow> string \<Rightarrow> macType list \<Rightarrow> string" where
  "GetJobName m jobType macTypes =
     (if jobType = HostAgentJobTypeExpandRootPartition then GetExpandRootPartitionJobName m
      else if jobType = HostAgentJobTypeRestartKubelet then GetRestartKubeletJobName m
      else if jobType = HostAgentJobTypeSetNetworkDeviceConfig then GetSetNetworkDeviceConfigJobName m macTypes
      else [])"

text \<open>The three generators fill the same job; a new job has the zero status.\<close>

definition newHostJob :: "string \<Rightarrow> string \<Rightarrow> string \<Rightarrow> int \<Rightarrow> hostJob" where
  "newHostJob name playbook nodeName timeout =
     \<lparr>hj_Name = name, hj_Namespace = ''default'', hj_NodeName = nodeName, hj_Playbook = playbook,
      hj_Timeout = timeout, hj_Phase = PhaseOther [], hj_FailureMessage = [],
      hj_LastExecutionTime = None, hj_CreationTimestamp = 0\<rparr>"

definition GenerateExpandRootPartitionJob ::
  "jobTimeoutConfig \<Rightarrow> elfMachine \<Rightarrow> string \<Rightarrow> string \<Rightarrow> hostJob" where
  "GenerateExpandRootPartitionJob J m playbook nodeName =
     newHostJob (GetExpandRootPartitionJobName m) playbook nodeName
       (TimeoutFor J HostAgentJobTypeExpandRootPartition)"

definition GenerateRestartKubeletJob ::
  "jobTimeoutConfig \<Rightarrow> elfMachine \<Rightarrow> string \<Rightarrow> string \<Rightarrow> hostJob" where
  "GenerateRestartKubeletJob J m playbook nodeName =
     newHostJob (GetRestartKubeletJobName m) playbook nodeName
       (TimeoutFor J HostAgentJobTypeRestartKubelet)"

definition GenerateSetNetworkDeviceConfigJob ::
  "jobTimeoutConfig \<Rightarrow> elfMachine \<Rightarrow> string \<Rightarrow> macType list \<Rightarrow> string \<Rightarrow> hostJob" where
  "GenerateSetNetworkDeviceConfigJob J m playbook macTypes nodeName =
     newHostJob (GetSetNetworkDeviceConfigJobName m macTypes) playbook nodeName
       (TimeoutFor J HostAgentJobTypeSetNetworkDeviceConfig)"

text \<open>\<^verbatim>\<open>strings.Replace\<close> of the first occurrence.\<close>

definition strReplaceFirst :: "string \<Rightarrow> string \<Rightarrow> string \<Rightarrow> string" where
  "strReplaceFirst s old new =
     (case strIndex s old of None \<Rightarrow> s | Some i \<Rightarrow> take i s @ new @ drop (i + length old) s)"

definition macTypesYaml :: "macType list \<Rightarrow> string" where
  "macTypesYaml macTypes =
     ''mac_types:'' @ [CHR 0x0A] @
     concat (map (\<lambda>m. ''      '' @ [CHR 0x22] @ mt_Mac m @ [CHR 0x22] @ '': '' @ [CHR 0x22] @ mt_Type m @
                       [CHR 0x22, CHR 0x0A]) macTypes)"

definition GenerateJob ::
  "('w, 'c) env \<Rightarrow> string \<Rightarrow> macType list \<Rightarrow> string \<Rightarrow> ('w, 'c) st \<Rightarrow> (go_error + hostJob) \<times> ('w, 'c) st" where
  "GenerateJob X jobType macTypes nodeName s =
     (case query (K_GetConfigMapData (e_k8s X) NamespaceCape HostAgentJobsConfigName) s of
        (Inl err, s) \<Rightarrow> (Inl err, s)
      | (Inr data, s) \<Rightarrow>
          (case gm_get data jobType of
             None \<Rightarrow> (Inl (ErrMsg (''job playbook not found for job type: '' @ jobType)), s)
           | Some playbook \<Rightarrow>
               if jobType = HostAgentJobTypeExpandRootPartition then
                 (Inr (GenerateExpandRootPartitionJob (e_JobTimeouts X) (elf s) playbook nodeName), s)
               else if jobType = HostAgentJobTypeRestartKubelet then
                 (Inr (GenerateRestartKubeletJob (e_JobTimeouts X) (elf s) playbook nodeName), s)
               else if jobType = HostAgentJobTypeSetNetworkDeviceConfig then
                 (let playbook = (if macTypes \<noteq> [] then strReplaceFirst playbook ''mac_types: {}'' (macTypesYaml macTypes)
                                  else playbook)
                  in (Inr (GenerateSetNetworkDeviceConfigJob (e_JobTimeouts X) (elf s) playbook macTypes nodeName), s))
               else (Inl (ErrMsg (''unknown job type: '' @ jobType)), s)))"

section \<open>Lemmas\<close>

lemma TimeoutFor_pos: "0 < TimeoutFor c jobType"
  by (simp add: TimeoutFor_def defaultTimeout_def time_defs Let_def)

text \<open>The generated job carries the name under which the reconciler looks for it.\<close>

lemma GenerateJob_name:
  "GenerateJob X jobType macTypes nodeName s = (Inr job, s') \<Longrightarrow>
     hj_Name job = GetJobName (elf s) jobType macTypes \<and> hj_Namespace job = ''default'' \<and>
     hj_NodeName job = nodeName \<and> 0 < hj_Timeout job \<and> elf s' = elf s \<and> calls s' = calls s"
  by (auto simp: GenerateJob_def query_eq GenerateExpandRootPartitionJob_def GenerateRestartKubeletJob_def
      GenerateSetNetworkDeviceConfigJob_def newHostJob_def GetJobName_def TimeoutFor_pos job_type_defs Let_def
      split: sum.splits option.splits if_splits)

end
