(* ===== verification/Resources_Update.thy ===== *)
theory Resources_Update
  imports Host_Agent Placement_Group
begin

text \<open>
  \<^verbatim>\<open>controllers/elfmachine_controller_resources.go\<close>: the hot update of the
  resources of a running virtual machine: CPU and memory, kubelet restart, system disk, root
  partition and network devices, in this order. Each stage records its reason in the
  condition \<^verbatim>\<open>ResourceHotUpdated\<close> before it asks Tower for a change.
\<close>

section \<open>Host jobs\<close>

definition hotMarkFalse ::
  "('w, 'c) env \<Rightarrow> machineContext \<Rightarrow> string \<Rightarrow> cond_severity \<Rightarrow> string \<Rightarrow> ('w, 'c) st \<Rightarrow> ('w, 'c) st" where
  "hotMarkFalse X c rs sev msg s = markFalse X c ResourcesHotUpdatedCondition rs sev msg s"

definition hotReason :: "('w, 'c) env \<Rightarrow> ('w, 'c) st \<Rightarrow> string" where
  "hotReason X s = elfReason X ResourcesHotUpdatedCondition s"

definition jobFailReason :: "string \<Rightarrow> string" where
  "jobFailReason jobType =
     (if jobType = HostAgentJobTypeExpandRootPartition then ExpandingRootPartitionFailedReason
      else if jobType = HostAgentJobTypeRestartKubelet then RestartingKubeletFailedReason
      else if jobType = HostAgentJobTypeSetNetworkDeviceConfig then SettingVMNetworkDeviceConfigFailedReason
      else [])"

definition createHostJob ::
  "('w, 'c) env \<Rightarrow> machineContext \<Rightarrow> string \<Rightarrow> macType list \<Rightarrow> string \<Rightarrow> ('w, 'c) st \<Rightarrow>
     (bool \<times> go_error option) \<times> ('w, 'c) st" where
  "createHostJob X c jobType macTypes nodeName s =
     (case GenerateJob X jobType macTypes nodeName s of
        (Inl err, s) \<Rightarrow>
          ((False, Some err), hotMarkFalse X c (jobFailReason jobType) SevWarning
             (''failed to generate host agent job: '' @ errText (e_lib X) err) s)
      | (Inr agentJob, s) \<Rightarrow>
          (case query (K_CreateHostJob (e_k8s X) agentJob) s of
             (Inl err, s) \<Rightarrow>
               ((False, Some err), hotMarkFalse X c (jobFailReason jobType) SevWarning (errText (e_lib X) err) s)
           | (Inr _, s) \<Rightarrow> ((False, None), s)))"

definition reconcileHostJob ::
  "('w, 'c) env \<Rightarrow> machineContext \<Rightarrow> string \<Rightarrow> macType list \<Rightarrow> ('w, 'c) st \<Rightarrow>
     (bool \<times> go_error option) \<times> ('w, 'c) st" where
  "reconcileHostJob X c jobType macTypes s =
     (case m_nodeRef (mc_Machine c) of
        None \<Rightarrow> ((False, None), s)
      | Some nodeName \<Rightarrow>
          (case query (K_NewClusterClient (e_k8s X) (mc_Cluster c)) s of
             (Inl err, s) \<Rightarrow>
               ((False, Some err), hotMarkFalse X c (jobFailReason jobType) SevWarning
                  (''failed to create kubeClient: '' @ errText (e_lib X) err) s)
           | (Inr _, s) \<Rightarrow>
               (case GetHostJob X (om_Namespace (em_meta (elf s))) (GetJobName (elf s) jobType macTypes) s of
                  (Inl err, s) \<Rightarrow>
                    if \<not> IsApiNotFound err then
                      ((False, Some err), hotMarkFalse X c (jobFailReason jobType) SevWarning
                         (''failed to get HostOperationJob: '' @ errText (e_lib X) err) s)
                    else createHostJob X c jobType macTypes nodeName s
                | (Inr agentJob, s) \<Rightarrow>
                    (case hj_Phase agentJob of
                       PhaseSucceeded \<Rightarrow> ((True, None), s)
                     | PhaseFailed \<Rightarrow>
                         (let s = hotMarkFalse X c (jobFailReason jobType) SevWarning (hj_FailureMessage agentJob) s;
                              lastExecutionTime = (case hj_LastExecutionTime agentJob of
                                                     None \<Rightarrow> hj_CreationTimestamp agentJob | Some t \<Rightarrow> t)
                          in if mc_Now c > lastExecutionTime + 3 * time_Minute then
                               (case query (K_DeleteHostJob (e_k8s X) agentJob) s of
                                  (Inl err, s) \<Rightarrow>
                                    ((False, Some (ErrWrapf (''failed to delete hostJob '' @ hj_Namespace agentJob @
                                        ''/'' @ hj_Name agentJob @ '' for retry'') err)), s)
                                | (Inr _, s) \<Rightarrow> ((False, None), s))
                             else ((False, None), s))
                     | PhaseOther _ \<Rightarrow> ((False, None), s)))))"

section \<open>Disk\<close>

definition setDiskStatus :: "int \<Rightarrow> elfMachine \<Rightarrow> elfMachine" where
  "setDiskStatus d m = m\<lparr>Status := (Status m)\<lparr>Resources := (Resources (Status m))\<lparr>rs_Disk := d\<rparr>\<rparr>\<rparr>"

definition resizeVMVolume ::
  "('w, 'c) env \<Rightarrow> machineContext \<Rightarrow> vmVolume \<Rightarrow> int \<Rightarrow> string \<Rightarrow> ('w, 'c) st \<Rightarrow>
     (go_error option \<times> ('w, 'c) st) panics" where
  "resizeVMVolume X c vmVolume diskSize conditionType s =
     (let reason = elfReason X conditionType s
      in if reason = [] \<or> (reason \<noteq> ExpandingVMDiskReason \<and> reason \<noteq> ExpandingVMDiskFailedReason) then
           Some (None, markFalse X c conditionType ExpandingVMDiskReason SevInfo [] s)
         else
           (let ((insufficient, message), s) = isELFClusterStorageInsufficient X c s;
                (canRetry, s) = (if insufficient then canRetryStorageAllocation X c s else (True, s))
            in if \<not> canRetry then
                 Some (None, markFalse X c conditionType ExpandingVMDiskReason SevInfo
                         ''Waiting for the ELF cluster with sufficient storage'' s)
               else if IsTowerResourcePerformingAnOperation (vol_EntityAsyncStatus vmVolume) then do {
                 _ \<leftarrow> vol_ID vmVolume; _ \<leftarrow> vol_Name vmVolume;
                 Some (None, s) }
               else do {
                 volID \<leftarrow> vol_ID vmVolume;
                 case request (CallResizeVolume volID diskSize) (Svc_ResizeVMVolume (e_svc X) volID diskSize) s of
                   (Inl err, s) \<Rightarrow> do {
                     let s = markFalse X c conditionType ExpandingVMDiskFailedReason SevWarning (errText (e_lib X) err) s;
                     size \<leftarrow> vol_Size vmVolume;
                     name \<leftarrow> vol_Name vmVolume;
                     Some (Some (ErrWrapf (''failed to trigger expand size from '' @ fmt_d size @ '' to '' @
                       fmt_d diskSize @ '' for vm volume '' @ volID @ ''/'' @ name) err), s) }
                 | (Inr withTaskVMVolume, s) \<Rightarrow> do {
                     taskID \<leftarrow> wt_TaskID withTaskVMVolume;
                     let s = updElf (SetTask taskID) s;
                     _ \<leftarrow> vol_Name vmVolume;
                     Some (None, s) } }))"

definition reconcieVMVolume ::
  "('w, 'c) env \<Rightarrow> machineContext \<Rightarrow> vm \<Rightarrow> string \<Rightarrow> ('w, 'c) st \<Rightarrow>
     ((bool \<times> go_error option) \<times> ('w, 'c) st) panics" where
  "reconcieVMVolume X c v conditionType s =
     (if DiskGiB (Spec (elf s)) = 0 then Some ((True, None), s)
      else do {
        vmDiskIDs \<leftarrow> mapP (\<lambda>d. do { r \<leftarrow> d; ref_ID r }) (vm_VMDisks v);
        case query (Svc_GetVMDisks (e_svc X) vmDiskIDs) s of
          (Inl err, s) \<Rightarrow> do {
            i \<leftarrow> vm_ID v; n \<leftarrow> vm_Name v;
            Some ((False, Some (ErrWrapf (''failed to get disks for vm '' @ i @ ''/'' @ n) err)), s) }
        | (Inr vmDisks, s) \<Rightarrow>
            if vmDisks = [] then do {
              i \<leftarrow> vm_ID v; n \<leftarrow> vm_Name v;
              Some ((False, Some (ErrMsg (''no disks found for vm '' @ i @ ''/'' @ n))), s) }
            else do {
              systemDisk \<leftarrow> GetVMSystemDisk vmDisks;
              disk \<leftarrow> systemDisk;
              vol \<leftarrow> vd_VMVolume disk;
              volID \<leftarrow> ref_ID vol;
              case query (Svc_GetVMVolume (e_svc X) volID) s of
                (Inl err, s) \<Rightarrow> Some ((False, Some err), s)
              | (Inr vmVolume, s) \<Rightarrow> do {
                  size \<leftarrow> vol_Size vmVolume;
                  let diskSize = ByteToGiB size;
                  let s = updElf (setDiskStatus diskSize) s;
                  if DiskGiB (Spec (elf s)) > diskSize then do {
                    (err, s) \<leftarrow> resizeVMVolume X c vmVolume (TowerDisk (DiskGiB (Spec (elf s)))) conditionType s;
                    Some ((False, err), s) }
                  else if DiskGiB (Spec (elf s)) < diskSize then do {
                    _ \<leftarrow> vol_ID vmVolume; _ \<leftarrow> vol_Name vmVolume;
                    Some ((True, None), s) }
                  else Some ((True, None), s) } } })"

definition expandVMRootPartition ::
  "('w, 'c) env \<Rightarrow> machineContext \<Rightarrow> ('w, 'c) st \<Rightarrow> (bool \<times> go_error option) \<times> ('w, 'c) st" where
  "expandVMRootPartition X c s =
     (let reason = hotReason X s
      in if reason = [] then ((True, None), s)
         else if reason \<noteq> ExpandingVMDiskReason \<and> reason \<noteq> ExpandingVMDiskFailedReason \<and>
                 reason \<noteq> ExpandingRootPartitionReason \<and> reason \<noteq> ExpandingRootPartitionFailedReason
         then ((True, None), s)
         else
           (let s = (if reason \<noteq> ExpandingRootPartitionFailedReason
                     then hotMarkFalse X c ExpandingRootPartitionReason SevInfo [] s else s)
            in reconcileHostJob X c HostAgentJobTypeExpandRootPartition [] s))"

section \<open>CPU and memory\<close>

definition setComputeStatus :: "int \<Rightarrow> int \<Rightarrow> elfMachine \<Rightarrow> elfMachine" where
  "setComputeStatus cpu mem m =
     m\<lparr>Status := (Status m)\<lparr>Resources := (Resources (Status m))\<lparr>rs_CPUCores := cpu, rs_Memory := mem\<rparr>\<rparr>\<rparr>"

definition reconcileVMCPUAndMemory ::
  "('w, 'c) env \<Rightarrow> machineContext \<Rightarrow> vm \<Rightarrow> ('w, 'c) st \<Rightarrow> ((bool \<times> go_error option) \<times> ('w, 'c) st) panics" where
  "reconcileVMCPUAndMemory X c v s = do {
     vcpu \<leftarrow> vm_Vcpu v;
     memory \<leftarrow> vm_Memory v;
     let s = updElf (setComputeStatus vcpu (wrap64 (ByteToMiB memory * 1024 * 1024))) s;
     if \<not> (NumCPUs (Spec (elf s)) > vcpu \<or> MemoryMiB (Spec (elf s)) > ByteToMiB memory) then Some ((True, None), s)
     else
       (let reason = hotReason X s
        in if reason = [] \<or>
              (reason \<noteq> ExpandingVMComputeResourcesReason \<and> reason \<noteq> ExpandingVMComputeResourcesFailedReason)
           then Some ((False, None), hotMarkFalse X c ExpandingVMComputeResourcesReason SevInfo [] s)
           else
             (let ((insufficient, message), s) = isELFClusterMemoryInsufficient X c s;
                  (canRetry, s) = (if insufficient then canRetryMemoryAllocation X c s else (True, s))
              in if \<not> canRetry then
                   Some ((False, None), hotMarkFalse X c ExpandingVMComputeResourcesReason SevInfo
                      ''Waiting for the ELF cluster with sufficient memory'' s)
                 else
                   (let (ok, g) = acquireTicketForUpdatingVM (e_cache X) (mc_Now c) (om_Name (em_meta (elf s))) (glob s);
                        s = s\<lparr>glob := g\<rparr>
                    in if \<not> ok then Some ((False, None), s)
                       else
                         (case request (CallUpdateVM (vm_ID v) (NumCPUs (Spec (elf s))) (MemoryMiB (Spec (elf s)))) (Svc_UpdateVM (e_svc X) v (elf s)) s of
                            (Inl err, s) \<Rightarrow> do {
                              let s = hotMarkFalse X c ExpandingVMComputeResourcesFailedReason SevWarning
                                        (errText (e_lib X) err) s;
                              name \<leftarrow> vm_Name v;
                              Some ((False, Some (ErrWrapf (''failed to trigger update CPU and memory for VM '' @ name) err)), s) }
                          | (Inr withTaskVM, s) \<Rightarrow> do {
                              taskID \<leftarrow> wt_TaskID withTaskVM;
                              Some ((False, None), updElf (SetTask taskID) s) })))) }"

definition restartKubelet ::
  "('w, 'c) env \<Rightarrow> machineContext \<Rightarrow> ('w, 'c) st \<Rightarrow> (bool \<times> go_error option) \<times> ('w, 'c) st" where
  "restartKubelet X c s =
     (let reason = hotReason X s
      in if reason = [] then ((True, None), s)
         else if reason \<noteq> ExpandingVMComputeResourcesReason \<and> reason \<noteq> ExpandingVMComputeResourcesFailedReason \<and>
                 reason \<noteq> RestartingKubeletReason \<and> reason \<noteq> RestartingKubeletFailedReason
         then ((True, None), s)
         else
           (let s = (if reason \<noteq> RestartingKubeletFailedReason
                     then hotMarkFalse X c RestartingKubeletReason SevInfo [] s else s)
            in reconcileHostJob X c HostAgentJobTypeRestartKubelet [] s))"

section \<open>Network devices\<close>

definition nicStatus :: "vmNic \<Rightarrow> networkStatus" where
  "nicStatus n =
     \<lparr>nst_Connected = False, nst_IPAddrs = [GetTowerString (nic_IPAddress n)],
      nst_MACAddr = GetTowerString (nic_MacAddress n), nst_Gateway = GetTowerString (nic_Gateway n),
      nst_SubnetMask = GetTowerString (nic_SubnetMask n), nst_NetworkName = []\<rparr>"

definition setNetworkStatus :: "networkStatus list \<Rightarrow> elfMachine \<Rightarrow> elfMachine" where
  "setNetworkStatus ns m = m\<lparr>Status := (Status m)\<lparr>NetworkStatuses := ns\<rparr>\<rparr>"

fun newNicParams ::
  "('w, 'c) env \<Rightarrow> networkDeviceSpec list \<Rightarrow> vmNicParams list \<Rightarrow> ('w, 'c) st \<Rightarrow>
     (go_error + vmNicParams list) \<times> ('w, 'c) st" where
  "newNicParams X [] acc s = (Inr acc, s)"
| "newNicParams X (d # ds) acc s =
     (case query (Svc_GetVlan (e_svc X) (nd_Vlan d)) s of
        (Inl err, s) \<Rightarrow> (Inl err, s)
      | (Inr vlan, s) \<Rightarrow>
          newNicParams X ds
            (acc @ [\<lparr>np_Model = ''VIRTIO'', np_Enabled = True, np_Mirror = False,
                     np_ConnectVlanID = ref_ID vlan, np_MacAddress = nd_MACAddr d, np_SubnetMask = Some (nd_Netmask d),
                     np_IPAddress = (case nd_IPAddrs d of [] \<Rightarrow> None | ip # _ \<Rightarrow> Some ip)\<rparr>]) s)"

definition reconcileVMNics ::
  "('w, 'c) env \<Rightarrow> machineContext \<Rightarrow> vm \<Rightarrow> vmNic list \<Rightarrow> ('w, 'c) st \<Rightarrow>
     ((bool \<times> go_error option) \<times> ('w, 'c) st) panics" where
  "reconcileVMNics X c v vmNics s =
     (let devices = ns_Devices (Network (Spec (elf s)))
      in if length devices \<le> length vmNics then Some ((True, None), s)
         else
           (let s = (if length (NetworkStatuses (Status (elf s))) \<noteq> length vmNics
                     then updElf (setNetworkStatus (map nicStatus vmNics)) s else s);
                reason = hotReason X s
            in if reason = [] \<or> (reason \<noteq> AddingVMNetworkDeviceReason \<and> reason \<noteq> AddingVMNetworkDeviceFailedReason)
               then Some ((False, None), hotMarkFalse X c AddingVMNetworkDeviceReason SevInfo [] s)
               else
                 (case newNicParams X (drop (length vmNics) devices) [] s of
                    (Inl err, s) \<Rightarrow> Some ((False, Some err), s)
                  | (Inr newNics, s) \<Rightarrow> do {
                      vmID \<leftarrow> vm_ID v;
                      case request (CallAddNics vmID newNics) (Svc_AddVMNics (e_svc X) vmID newNics) s of
                        (Inl err, s) \<Rightarrow>
                          Some ((False, Some (ErrWrapf ''failed to trigger add new nics to vm'' err)),
                            hotMarkFalse X c AddingVMNetworkDeviceFailedReason SevWarning (errText (e_lib X) err) s)
                      | (Inr withTaskVM, s) \<Rightarrow> do {
                          let s = (if reason = AddingVMNetworkDeviceFailedReason
                                   then hotMarkFalse X c AddingVMNetworkDeviceReason SevInfo [] s else s);
                          taskID \<leftarrow> wt_TaskID withTaskVM;
                          Some ((False, None), updElf (SetTask taskID) s) } })))"

text \<open>The MAC addresses of the devices from index \<open>i\<close> on, or the first index without one.\<close>

fun collectMacTypes :: "nat \<Rightarrow> vmNic list \<Rightarrow> networkDeviceSpec list \<Rightarrow> macType list \<Rightarrow> nat + macType list" where
  "collectMacTypes i (n # ns) (d # ds) acc =
     (if GetTowerString (nic_MacAddress n) = [] then Inl i
      else collectMacTypes (Suc i) ns ds
             (acc @ [\<lparr>mt_Mac = GetTowerString (nic_MacAddress n), mt_Type = nd_NetworkType d\<rparr>]))"
| "collectMacTypes i ns ds acc = Inr acc"

definition setVMNetworkDeviceConfig ::
  "('w, 'c) env \<Rightarrow> machineContext \<Rightarrow> vmNic list \<Rightarrow> ('w, 'c) st \<Rightarrow> (bool \<times> go_error option) \<times> ('w, 'c) st" where
  "setVMNetworkDeviceConfig X c vmNics s =
     (let reason = hotReason X s
      in if reason = [] then ((True, None), s)
         else if reason \<noteq> AddingVMNetworkDeviceReason \<and> reason \<noteq> AddingVMNetworkDeviceFailedReason \<and>
                 reason \<noteq> SettingVMNetworkDeviceConfigReason \<and> reason \<noteq> SettingVMNetworkDeviceConfigFailedReason \<and>
                 reason \<noteq> WaitingForNetworkMacAddressReason
         then ((True, None), s)
         else
           (let specDevices = ns_Devices (Network (Spec (elf s)));
                deviceCount = int (length specDevices) - 1;
                n = int (length (NetworkStatuses (Status (elf s))));
                networkCount = (if n > 0 then n - 1 else n);
                toConfigNicCount = deviceCount - networkCount;
                vmNicCount = int (length vmNics) - 1
            in if toConfigNicCount \<le> 0 then ((True, None), s)
               else if deviceCount \<noteq> vmNicCount then
                 ((False, None), hotMarkFalse X c SettingVMNetworkDeviceConfigFailedReason SevWarning
                    ''The expected number of network devices is not equal to the number of vm nics'' s)
               else
                 (let nics = tl vmNics;
                      devices = tl specDevices;
                      start = int (length nics) - toConfigNicCount;
                      macs = (if start < 0 then Inr []
                              else collectMacTypes (nat start) (drop (nat start) nics) (drop (nat start) devices) [])
                  in case macs of
                       Inl i \<Rightarrow>
                         ((False, None), hotMarkFalse X c WaitingForNetworkMacAddressReason SevInfo
                            (''Waiting for the vm network device '' @ fmt_d (int i + 1) @ '' mac address'') s)
                     | Inr macTypes \<Rightarrow>
                         (let s = (if reason \<noteq> SettingVMNetworkDeviceConfigFailedReason
                                   then hotMarkFalse X c SettingVMNetworkDeviceConfigReason SevInfo [] s else s)
                          in reconcileHostJob X c HostAgentJobTypeSetNetworkDeviceConfig macTypes s))))"

text \<open>The first device that needs an address and has none yet.\<close>

fun deviceWithoutIP :: "nat \<Rightarrow> networkDeviceSpec list \<Rightarrow> vmNic list \<Rightarrow> nat option panics" where
  "deviceWithoutIP i [] nics = Some None"
| "deviceWithoutIP i (d # ds) nics =
     (if nd_NetworkType d = NetworkTypeNone then deviceWithoutIP (Suc i) ds nics
      else do {
        nic \<leftarrow> nth_go nics i;
        if GetTowerString (nic_IPAddress nic) = [] then Some (Some i) else deviceWithoutIP (Suc i) ds nics })"

text \<open>\<^verbatim>\<open>if ok, err := f(); err != nil || !ok { return ok, err }\<close>\<close>

definition andThenOk ::
  "((bool \<times> go_error option) \<times> 's) panics \<Rightarrow> ('s \<Rightarrow> ((bool \<times> go_error option) \<times> 's) panics) \<Rightarrow>
     ((bool \<times> go_error option) \<times> 's) panics" where
  "andThenOk m k = do {
     ((ok, err), s) \<leftarrow> m;
     if err \<noteq> None \<or> \<not> ok then Some ((ok, err), s) else k s }"

definition reconcieVMNetworkDevices ::
  "('w, 'c) env \<Rightarrow> machineContext \<Rightarrow> vm \<Rightarrow> ('w, 'c) st \<Rightarrow> ((bool \<times> go_error option) \<times> ('w, 'c) st) panics" where
  "reconcieVMNetworkDevices X c v s = do {
     vmID \<leftarrow> vm_ID v;
     case query (Svc_GetVMNics (e_svc X) vmID) s of
       (Inl err, s) \<Rightarrow> Some ((False, Some err), s)
     | (Inr vmNics, s) \<Rightarrow>
         if vmNics = [] then Some ((False, None), s)
         else
           andThenOk (reconcileVMNics X c v vmNics s) (\<lambda>s.
           andThenOk (Some (setVMNetworkDeviceConfig X c vmNics s)) (\<lambda>s.
             let reason = hotReason X s
             in if reason = [] then Some ((True, None), s)
                else if reason \<noteq> AddingVMNetworkDeviceReason \<and> reason \<noteq> AddingVMNetworkDeviceFailedReason \<and>
                        reason \<noteq> SettingVMNetworkDeviceConfigFailedReason \<and>
                        reason \<noteq> SettingVMNetworkDeviceConfigReason \<and>
                        reason \<noteq> WaitingForNetworkAddressesReason \<and> reason \<noteq> WaitingForNetworkMacAddressReason
                then Some ((True, None), s)
                else do {
                  waiting \<leftarrow> deviceWithoutIP 0 (ns_Devices (Network (Spec (elf s)))) vmNics;
                  case waiting of
                    Some i \<Rightarrow>
                      Some ((False, None), hotMarkFalse X c WaitingForNetworkAddressesReason SevInfo
                        (''waiting for the vm network device '' @ fmt_d (int i) @ '' ready'') s)
                  | None \<Rightarrow> Some ((True, None), s) })) }"

section \<open>The hot update\<close>

definition reconcileVMResources ::
  "('w, 'c) env \<Rightarrow> machineContext \<Rightarrow> vm \<Rightarrow> ('w, 'c) st \<Rightarrow> ((bool \<times> go_error option) \<times> ('w, 'c) st) panics" where
  "reconcileVMResources X c v s =
     andThenOk (reconcileVMCPUAndMemory X c v s) (\<lambda>s.
     andThenOk (Some (restartKubelet X c s)) (\<lambda>s.
     andThenOk (reconcieVMVolume X c v ResourcesHotUpdatedCondition s) (\<lambda>s.
     andThenOk (Some (expandVMRootPartition X c s)) (\<lambda>s.
     andThenOk (reconcieVMNetworkDevices X c v s) (\<lambda>s.
       Some ((True, None),
         if condIsFalse (e_lib X) (Conditions (Status (elf s))) ResourcesHotUpdatedCondition
         then markTrue X c ResourcesHotUpdatedCondition s else s))))))"

section \<open>Lemmas\<close>

lemmas reason_defs =
  ExpandingVMDiskReason_def ExpandingVMDiskFailedReason_def ExpandingRootPartitionReason_def
  ExpandingRootPartitionFailedReason_def ExpandingVMComputeResourcesReason_def
  ExpandingVMComputeResourcesFailedReason_def RestartingKubeletReason_def RestartingKubeletFailedReason_def
  AddingVMNetworkDeviceReason_def AddingVMNetworkDeviceFailedReason_def
  SettingVMNetworkDeviceConfigReason_def SettingVMNetworkDeviceConfigFailedReason_def
  WaitingForNetworkAddressesReason_def WaitingForNetworkMacAddressReason_def

definition diskReasons :: "string set" where
  "diskReasons = {ExpandingVMDiskReason, ExpandingVMDiskFailedReason}"
definition computeReasons :: "string set" where
  "computeReasons = {ExpandingVMComputeResourcesReason, ExpandingVMComputeResourcesFailedReason}"
definition nicReasons :: "string set" where
  "nicReasons = {AddingVMNetworkDeviceReason, AddingVMNetworkDeviceFailedReason}"
definition jobReasons :: "string set" where
  "jobReasons = {RestartingKubeletReason, RestartingKubeletFailedReason,
     ExpandingRootPartitionReason, ExpandingRootPartitionFailedReason}"

lemma reasons_disjoint:
  "r \<in> diskReasons \<Longrightarrow> r \<notin> jobReasons" "r \<in> nicReasons \<Longrightarrow> r \<notin> jobReasons"
  "r \<in> computeReasons \<Longrightarrow> r \<notin> jobReasons"
  by (auto simp: diskReasons_def nicReasons_def computeReasons_def jobReasons_def reason_defs)

lemma andThenOk_post [post_simps]:
  "post (andThenOk m k) Q =
     post m (\<lambda>((ok, err), s). if err \<noteq> None \<or> \<not> ok then Q ((ok, err), s) else post (k s) Q)"
  by (simp add: andThenOk_def post_simps split_def)

lemma status_setters [simp]:
  "Spec (setDiskStatus d m) = Spec m" "Conditions (Status (setDiskStatus d m)) = Conditions (Status m)"
  "Spec (setComputeStatus cpu mem m) = Spec m"
  "Conditions (Status (setComputeStatus cpu mem m)) = Conditions (Status m)"
  "Spec (setNetworkStatus ns m) = Spec m" "Conditions (Status (setNetworkStatus ns m)) = Conditions (Status m)"
  "Spec (emMarkFalse L now t rs sev msg m) = Spec m" "Spec (emMarkTrue L now t m) = Spec m"
  "em_meta (setDiskStatus d m) = em_meta m" "em_meta (setComputeStatus cpu mem m) = em_meta m"
  by (simp_all add: setDiskStatus_def setComputeStatus_def setNetworkStatus_def emMarkFalse_def emMarkTrue_def)

lemma hotMarkFalse_st [simp]:
  "glob (hotMarkFalse X c rs sev msg s) = glob s" "world (hotMarkFalse X c rs sev msg s) = world s"
  "calls (hotMarkFalse X c rs sev msg s) = calls s"
  "Spec (elf (hotMarkFalse X c rs sev msg s)) = Spec (elf s)"
  by (simp_all add: hotMarkFalse_def)

lemma elfReason_st [simp]:
  "elfReason X t (s\<lparr>world := w\<rparr>) = elfReason X t s" "elfReason X t (s\<lparr>glob := g\<rparr>) = elfReason X t s"
  "elfReason X t (s\<lparr>calls := cs\<rparr>) = elfReason X t s"
  "elfReason X t (updElf (setDiskStatus d) s) = elfReason X t s"
  "elfReason X t (updElf (setComputeStatus cpu mem) s) = elfReason X t s"
  "elfReason X t (updElf (setNetworkStatus ns) s) = elfReason X t s"
  by (simp_all add: elfReason_def)

lemma hotReason_st [simp]:
  "hotReason X (s\<lparr>world := w\<rparr>) = hotReason X s" "hotReason X (s\<lparr>glob := g\<rparr>) = hotReason X s"
  "hotReason X (updElf (setDiskStatus d) s) = hotReason X s"
  "hotReason X (updElf (setComputeStatus cpu mem) s) = hotReason X s"
  "hotReason X (updElf (setNetworkStatus ns) s) = hotReason X s"
  by (simp_all add: hotReason_def)

lemma hotReason_mark:
  "capi_lib (e_lib X) \<Longrightarrow> hotReason X (hotMarkFalse X c rs sev msg s) = rs"
  by (simp add: hotReason_def elfReason_def hotMarkFalse_def emMarkFalse_def capi_lib.markFalse_views)

lemma storage_check_st [simp]:
  "calls (snd (isELFClusterStorageInsufficient X c s)) = calls s"
  "elf (snd (isELFClusterStorageInsufficient X c s)) = elf s"
  "calls (snd (canRetryStorageAllocation X c s)) = calls s"
  "elf (snd (canRetryStorageAllocation X c s)) = elf s"
  "calls (snd (isELFClusterMemoryInsufficient X c s)) = calls s"
  "elf (snd (isELFClusterMemoryInsufficient X c s)) = elf s"
  "calls (snd (canRetryMemoryAllocation X c s)) = calls s"
  "elf (snd (canRetryMemoryAllocation X c s)) = elf s"
  by (simp_all add: isELFClusterStorageInsufficient_def canRetryStorageAllocation_def
      isELFClusterMemoryInsufficient_def canRetryMemoryAllocation_def split_def Let_def)

text \<open>
  A call of the hot update, with the evidence for it. CPU and memory are asked for as specified
  when the virtual machine has less of one of them. The disk is the one of those Tower lists for
  the virtual machine that boots first; its volume, as Tower returned it, is smaller than specified
  and is asked to have the specified size. The network devices are those of the specification that
  follow the ones the virtual machine has. In each case the reason is already recorded in the
  ElfMachine.
\<close>

definition systemDiskOf :: "('w, 'c) env \<Rightarrow> vm \<Rightarrow> vmDisk \<Rightarrow> bool" where
  "systemDiskOf X v disk \<longleftrightarrow> (\<exists>ids w disks. fst (Svc_GetVMDisks (e_svc X) ids w) = Inr disks \<and>
     list_all2 (\<lambda>d i. \<exists>r. d = Some r \<and> ref_ID r = Some i) (vm_VMDisks v) ids \<and> disk \<in> set disks \<and>
     (\<forall>d \<in> set disks. \<exists>b b'. vd_Boot disk = Some b \<and> vd_Boot d = Some b' \<and> b \<le> b'))"

definition volumeOf :: "('w, 'c) env \<Rightarrow> vmDisk \<Rightarrow> vmVolume \<Rightarrow> bool" where
  "volumeOf X disk vol \<longleftrightarrow> (\<exists>r i w. vd_VMVolume disk = Some r \<and> ref_ID r = Some i \<and> fst (Svc_GetVMVolume (e_svc X) i w) = Inr vol)"

definition growsDisk :: "int \<Rightarrow> int \<Rightarrow> int \<Rightarrow> bool" where
  "growsDisk spec old new \<longleftrightarrow> new = wrap64 (spec * 2 ^ 30) \<and> wrap32 (go_div old (2 ^ 30)) < spec \<and>
     (0 \<le> old \<and> old < 2 ^ 61 \<and> is_int32 spec \<longrightarrow> old < new)"

definition growCall :: "('w, 'c) env \<Rightarrow> vm \<Rightarrow> ('w, 'c) st \<Rightarrow> towerCall \<Rightarrow> bool" where
  "growCall X v s call =
     (let spec = Spec (elf s) in
      case call of
        CallUpdateVM i cpus memory \<Rightarrow> hotReason X s \<in> computeReasons \<and>
          i = vm_ID v \<and> cpus = NumCPUs spec \<and> memory = MemoryMiB spec \<and>
          (\<exists>cpu mem. vm_Vcpu v = Some cpu \<and> vm_Memory v = Some mem \<and> (cpu < cpus \<or> ByteToMiB mem < memory))
      | CallResizeVolume i n \<Rightarrow> hotReason X s \<in> diskReasons \<and>
          (\<exists>disk vol old. systemDiskOf X v disk \<and> volumeOf X disk vol \<and> vol_ID vol = Some i \<and>
             vol_Size vol = Some old \<and> growsDisk (DiskGiB spec) old n)
      | CallAddNics i new \<Rightarrow> hotReason X s \<in> nicReasons \<and> vm_ID v = Some i \<and>
          (\<exists>nics w. fst (Svc_GetVMNics (e_svc X) i w) = Inr nics \<and> length nics < length (ns_Devices (Network spec)) \<and>
             map np_MacAddress new = map nd_MACAddr (drop (length nics) (ns_Devices (Network spec))))
      | _ \<Rightarrow> False)"

lemma growsDiskI:
  assumes "ByteToGiB old < d"
  shows "growsDisk d old (TowerDisk d)"
proof -
  have g: "GiB = 2 ^ 30" by (simp add: unit_defs)
  have grow: "old < wrap64 (d * 2 ^ 30)" if "0 \<le> old" "old < 2 ^ 61" "is_int32 d"
  proof -
    have "go_div old GiB = old div 2 ^ 30" using that(1) by (simp add: go_div_nonneg g)
    moreover have "is_int32 (old div 2 ^ 30)" using that(1,2) by (auto simp: is_int32_def)
    ultimately have "old div 2 ^ 30 < d" using assms by (simp add: ByteToGiB_def)
    then have "old < d * 2 ^ 30" by (simp add: div_less_iff_less_mult)
    moreover have "is_int64 (d * 2 ^ 30)" using that(3) by (auto simp: is_int32_def is_int64_def)
    ultimately show ?thesis by simp
  qed
  show ?thesis using assms grow by (simp add: growsDisk_def TowerDisk_def ByteToGiB_def g)
qed

lemma systemDiskOfI:
  assumes "GetVMSystemDisk disks = Some (Some disk)" and "mapP (\<lambda>d. do { r \<leftarrow> d; ref_ID r }) (vm_VMDisks v) = Some ids"
    and "fst (Svc_GetVMDisks (e_svc X) ids w) = Inr disks"
  shows "systemDiskOf X v disk"
proof -
  from assms(1) obtain d ds where d: "disks = d # ds" "systemDiskFrom d disks = Some disk"
    by (auto simp: GetVMSystemDisk_def split: list.splits)
  have "disk \<in> set disks" using systemDiskFrom_mem [OF d(2)] d(1) by auto
  moreover have "\<exists>b b'. vd_Boot disk = Some b \<and> vd_Boot e = Some b' \<and> b \<le> b'" if "e \<in> set disks" for e
    using systemDiskFrom_min [OF d(2) that] .
  moreover have "list_all2 (\<lambda>d i. \<exists>r. d = Some r \<and> ref_ID r = Some i) (vm_VMDisks v) ids"
    using assms(2) by (auto simp: mapP_Some list_all2_conv_all_nth bind_eq_Some_conv)
  ultimately show ?thesis using assms(3) unfolding systemDiskOf_def by blast
qed

definition hotCalls :: "('w, 'c) env \<Rightarrow> vm \<Rightarrow> ('w, 'c) st \<Rightarrow> bool \<times> go_error option \<Rightarrow> ('w, 'c) st \<Rightarrow> bool" where
  "hotCalls X v s r s' \<longleftrightarrow>
     calls s' = calls s \<or> \<not> fst r \<and> (\<exists>call. calls s' = calls s @ [call] \<and> growCall X v s call)"

definition hotStep :: "('w, 'c) env \<Rightarrow> vm \<Rightarrow> ('w, 'c) st \<Rightarrow> bool \<times> go_error option \<Rightarrow> ('w, 'c) st \<Rightarrow> bool" where
  "hotStep X v s r s' \<longleftrightarrow> hotCalls X v s r s' \<and>
     (fst r \<longrightarrow> Spec (elf s') = Spec (elf s) \<and>
        (hotReason X s' = hotReason X s \<or> hotReason X s' \<in> jobReasons))"

lemma compute_hotStep:
  "post (reconcileVMCPUAndMemory X c v s) (\<lambda>(r, s'). hotStep X v s r s')"
  unfolding reconcileVMCPUAndMemory_def
  by (auto simp: post_simps request_eq hotStep_def hotCalls_def growCall_def computeReasons_def Let_def split_def
      split: sum.splits if_splits intro!: postI)

lemma hostJob_frame:
  assumes "reconcileHostJob X c jobType macTypes s = (r, s')"
  shows "calls s' = calls s \<and> Spec (elf s') = Spec (elf s) \<and> (fst r \<longrightarrow> elf s' = elf s \<and> hotReason X s' = hotReason X s)"
  using assms
  by (auto simp: reconcileHostJob_def createHostJob_def GetHostJob_def GenerateJob_def query_eq Let_def
      split: option.splits sum.splits if_splits jobPhase.splits)

lemma restart_hotStep:
  "capi_lib (e_lib X) \<Longrightarrow> restartKubelet X c s = (r, s') \<Longrightarrow> hotStep X v s r s'"
  by (auto simp: restartKubelet_def hotStep_def hotCalls_def hotReason_mark jobReasons_def Let_def
      split: if_splits dest!: hostJob_frame)

lemma expand_hotStep:
  "capi_lib (e_lib X) \<Longrightarrow> expandVMRootPartition X c s = (r, s') \<Longrightarrow> hotStep X v s r s'"
  by (auto simp: expandVMRootPartition_def hotStep_def hotCalls_def hotReason_mark jobReasons_def Let_def
      split: if_splits dest!: hostJob_frame)

lemma resize_calls:
  "post (resizeVMVolume X c vol n t s) (\<lambda>(err, s').
     calls s' = calls s \<or> (\<exists>i. calls s' = calls s @ [CallResizeVolume i n] \<and> vol_ID vol = Some i \<and>
        elfReason X t s \<in> diskReasons))"
  unfolding resizeVMVolume_def
  by (auto simp: post_simps request_eq diskReasons_def Let_def split_def split: sum.splits if_splits intro!: postI)

lemma volume_hotStep:
  "post (reconcieVMVolume X c v ResourcesHotUpdatedCondition s) (\<lambda>(r, s'). hotStep X v s r s')"
  unfolding reconcieVMVolume_def
  by (auto simp: post_simps query_eq resize_calls [THEN post_spec] hotStep_def hotCalls_def growCall_def hotReason_def
      volumeOf_def Let_def split: sum.splits intro!: postI; blast intro: growsDiskI systemDiskOfI)

lemma newNicParams_spec:
  "newNicParams X ds acc s = (r, s') \<Longrightarrow> calls s' = calls s \<and> elf s' = elf s \<and>
     (\<forall>ns. r = Inr ns \<longrightarrow> map np_MacAddress ns = map np_MacAddress acc @ map nd_MACAddr ds)"
  by (induction X ds acc s rule: newNicParams.induct) (auto simp: query_eq split: sum.splits)

lemma nics_hotCalls:
  assumes "vm_ID v = Some i" and "fst (Svc_GetVMNics (e_svc X) i w) = Inr nics"
  shows "post (reconcileVMNics X c v nics s) (\<lambda>(r, s'). hotCalls X v s r s' \<and> (fst r \<longrightarrow> s' = s))"
proof -
  have new: "calls s2 = calls s1 \<and> map np_MacAddress ns = map nd_MACAddr (drop n ds)"
    if "newNicParams X (drop n ds) [] s1 = (Inr ns, s2)" for n ds ns s1 s2
    using newNicParams_spec [OF that] by simp
  have failed: "calls s2 = calls s1" if "newNicParams X ds [] s1 = (Inl e, s2)" for ds e s1 s2
    using newNicParams_spec [OF that] by simp
  show ?thesis
    unfolding reconcileVMNics_def Let_def
    by (auto simp: post_simps request_eq hotCalls_def growCall_def nicReasons_def not_le assms(1) Let_def
        split: sum.splits prod.splits if_splits intro!: postI assms(2) dest!: new failed)
qed

lemma netConfig_calls [simp]: "calls (snd (setVMNetworkDeviceConfig X c nics s)) = calls s"
proof -
  have "setVMNetworkDeviceConfig X c nics s = (r, s') \<Longrightarrow> calls s' = calls s" for r s'
    by (auto simp: setVMNetworkDeviceConfig_def Let_def dest!: hostJob_frame split: if_splits sum.splits)
  then show ?thesis by (metis prod.collapse)
qed

lemma growCall_world [simp]: "growCall X v (s\<lparr>world := w\<rparr>) call = growCall X v s call"
  by (cases call) (simp_all add: growCall_def)

lemma network_hotCalls:
  "post (reconcieVMNetworkDevices X c v s) (\<lambda>(r, s'). hotCalls X v s r s')"
proof (cases "vm_ID v")
  case (Some i)
  have nics: "post (reconcileVMNics X c v nics s1) (\<lambda>(r, s'). hotCalls X v s1 r s' \<and> (fst r \<longrightarrow> s' = s1))"
    if "fst (Svc_GetVMNics (e_svc X) i w) = Inr nics" for nics w s1
    by (rule nics_hotCalls [OF Some that])
  show ?thesis
    unfolding reconcieVMNetworkDevices_def
    by (auto simp: Some post_simps query_eq nics [THEN post_spec] hotCalls_def split_def Let_def
        split: sum.splits option.splits intro!: postI)
qed (simp add: reconcieVMNetworkDevices_def post_simps)

lemma growCall_earlier:
  assumes "growCall X v s' call" and "Spec (elf s') = Spec (elf s)"
    and "hotReason X s' = hotReason X s \<or> hotReason X s' \<in> jobReasons"
  shows "growCall X v s call"
  using assms by (cases call) (auto simp: growCall_def Let_def dest: reasons_disjoint)

lemma hotCalls_trans:
  "hotStep X v s (True, None) s1 \<Longrightarrow> hotCalls X v s1 r s2 \<Longrightarrow> hotCalls X v s r s2"
  by (auto simp: hotStep_def hotCalls_def dest: growCall_earlier)

lemma hotStep_trans:
  "hotStep X v s (True, None) s1 \<Longrightarrow> hotStep X v s1 r s2 \<Longrightarrow> hotStep X v s r s2"
  using hotCalls_trans [of X v s s1 r s2] by (auto simp: hotStep_def)

lemma hotStep_calls: "hotStep X v s r s' \<Longrightarrow> hotCalls X v s r s'"
  by (simp add: hotStep_def)

text \<open>Sequencing: the next stage runs only after the stage reported success.\<close>

lemma hotStep_andThen:
  assumes "hotStep X v s0 (True, None) s" and "post m (\<lambda>(r, s1). hotStep X v s r s1)"
    and "\<And>s1. hotStep X v s0 (True, None) s1 \<Longrightarrow> post (k s1) (\<lambda>(r, s'). hotCalls X v s0 r s')"
  shows "post (andThenOk m k) (\<lambda>(r, s'). hotCalls X v s0 r s')"
  unfolding andThenOk_post
  by (rule post_mono [OF assms(2)])
    (auto dest!: hotStep_trans [OF assms(1)] intro: assms(3) hotStep_calls)

lemma hotStep_refl: "hotStep X v s (True, None) s"
  by (simp add: hotStep_def hotCalls_def)

lemma hot_update_calls:
  assumes "capi_lib (e_lib X)"
  shows "post (reconcileVMResources X c v s) (\<lambda>(r, s'). hotCalls X v s r s')"
  unfolding reconcileVMResources_def
proof (intro hotStep_andThen [OF hotStep_refl compute_hotStep])
  fix s1 assume s1: "hotStep X v s (True, None) s1"
  have rk: "post (Some (restartKubelet X c s1)) (\<lambda>(r, s'). hotStep X v s1 r s')" for s1
    by (auto simp: post_simps split: prod.splits intro: restart_hotStep [OF assms])
  have ex: "post (Some (expandVMRootPartition X c s1)) (\<lambda>(r, s'). hotStep X v s1 r s')" for s1
    by (auto simp: post_simps split: prod.splits intro: expand_hotStep [OF assms])
  show "post (andThenOk (Some (restartKubelet X c s1)) (\<lambda>s.
     andThenOk (reconcieVMVolume X c v ResourcesHotUpdatedCondition s) (\<lambda>s.
     andThenOk (Some (expandVMRootPartition X c s)) (\<lambda>s.
     andThenOk (reconcieVMNetworkDevices X c v s) (\<lambda>s.
       Some ((True, None),
         if condIsFalse (e_lib X) (Conditions (Status (elf s))) ResourcesHotUpdatedCondition
         then markTrue X c ResourcesHotUpdatedCondition s else s)))))) (\<lambda>(r, s'). hotCalls X v s r s')"
  proof (rule hotStep_andThen [OF s1 rk], rule hotStep_andThen [OF _ volume_hotStep], assumption,
      rule hotStep_andThen [OF _ ex], assumption)
    fix s2 assume s2: "hotStep X v s (True, None) s2"
    show "post (andThenOk (reconcieVMNetworkDevices X c v s2) (\<lambda>s.
       Some ((True, None),
         if condIsFalse (e_lib X) (Conditions (Status (elf s))) ResourcesHotUpdatedCondition
         then markTrue X c ResourcesHotUpdatedCondition s else s))) (\<lambda>(r, s'). hotCalls X v s r s')"
      unfolding andThenOk_post
      by (rule post_mono [OF network_hotCalls])
        (auto simp: post_simps dest!: hotCalls_trans [OF s2], simp_all add: hotCalls_def)
  qed
qed

lemma andThenOk_ok:
  "andThenOk m k = Some ((True, None), s') \<longleftrightarrow>
     (\<exists>s1. m = Some ((True, None), s1) \<and> k s1 = Some ((True, None), s'))"
  by (auto simp: andThenOk_def bind_eq_Some_conv split: if_splits)

lemma compute_ok:
  "post (reconcileVMCPUAndMemory X c v s) (\<lambda>((ok, err), s'). ok \<longrightarrow>
     (\<exists>cpu mem. vm_Vcpu v = Some cpu \<and> vm_Memory v = Some mem \<and>
        NumCPUs (Spec (elf s)) \<le> cpu \<and> MemoryMiB (Spec (elf s)) \<le> ByteToMiB mem))"
  unfolding reconcileVMCPUAndMemory_def
  by (auto simp: post_simps request_eq Let_def split_def not_less split: sum.splits intro!: postI)

section \<open>Properties\<close>

text \<open>
  Property C21. A hot update asks for no more than the specification and writes its intent first:
  one run asks Tower for at most one change, and for none when it reports completion. The change
  is one of three, each for a reason that was recorded in the ElfMachine before the run: the
  specified CPUs and memory, both, when the virtual machine has less of at least one of them; the
  specified size for the volume of the system disk, when the size Tower returned for it is smaller
  (sizes below 2 EiB then only grow); or the network devices of the specification that follow
  those the virtual machine has.
\<close>

theorem hot_update_follows_spec:
  assumes "capi_lib (e_lib X)" and "reconcileVMResources X c v s = Some (r, s')"
  shows "calls s' = calls s \<or> \<not> fst r \<and> (\<exists>call. calls s' = calls s @ [call] \<and> growCall X v s call)"
  using hot_update_calls [OF assms(1), THEN postD, OF assms(2)] by (simp add: hotCalls_def)

definition wit_hot_st :: "(unit, cacheVal ttl) st" where
  "wit_hot_st = wit_st\<lparr>elf := emMarkFalse ref_lib 0 ResourcesHotUpdatedCondition
     ExpandingVMComputeResourcesReason SevInfo [] (wit_elf\<lparr>Spec := (Spec wit_elf)\<lparr>NumCPUs := 8\<rparr>\<rparr>)\<rparr>"

definition wit_hot_env :: "(unit, cacheVal ttl) env" where
  "wit_hot_env = wit_env\<lparr>e_svc := wit_svc
     \<lparr>Svc_UpdateVM := (\<lambda>_ _ w. (Inr \<lparr>wt_DataID = None, wt_TaskID = Some ''t1''\<rparr>, w))\<rparr>\<rparr>"

lemma wit_hot_sels:
  "e_cache wit_hot_env = ttl_cache" "Svc_UpdateVM (e_svc wit_hot_env) v m w =
     (Inr \<lparr>wt_DataID = None, wt_TaskID = Some ''t1''\<rparr>, w)"
  "glob wit_hot_st = wit_gstate" "calls wit_hot_st = []" "NumCPUs (Spec (elf wit_hot_st)) = 8" "MemoryMiB (Spec (elf wit_hot_st)) = 8192"
  "hotReason wit_hot_env wit_hot_st = ExpandingVMComputeResourcesReason"
  by (simp_all add: wit_hot_env_def wit_hot_st_def wit_st_def emMarkFalse_def hotReason_def elfReason_def
      reflib.markFalse_views) (simp add: wit_elf_def)

lemma wit_hot_update:
  "\<exists>s'. reconcileVMResources wit_hot_env wit_ctx wit_vm wit_hot_st = Some ((False, None), s') \<and>
     calls s' = [CallUpdateVM (Some ''v1'') 8 8192]"
  by (simp add: reconcileVMResources_def andThenOk_def reconcileVMCPUAndMemory_def wit_hot_sels
      isELFClusterMemoryInsufficient_def getClusterResource_def wit_gstate_def ttl_cache_def ttl_get_def
      acquireTicketForUpdatingVM_def request_eq wit_vm_def Let_def
      ExpandingVMComputeResourcesReason_def ExpandingVMComputeResourcesFailedReason_def)

theorem hot_update_follows_spec_witness:
  "\<exists>call. growCall wit_hot_env wit_vm wit_hot_st call"
proof -
  obtain s' where "reconcileVMResources wit_hot_env wit_ctx wit_vm wit_hot_st = Some ((False, None), s')"
    and c: "calls s' = [CallUpdateVM (Some ''v1'') 8 8192]" using wit_hot_update by blast
  from hot_update_follows_spec [OF _ this(1)] c reflib.capi_lib_axioms show ?thesis
    by (auto simp: wit_hot_env_def wit_hot_st_def wit_st_def)
qed

text \<open>
  Property C22. When the hot update reports completion, the virtual machine has at least the
  specified CPUs and memory, and the condition \<^verbatim>\<open>ResourceHotUpdated\<close> of the
  ElfMachine is not false.
\<close>

theorem hot_update_complete:
  assumes "capi_lib (e_lib X)" and "reconcileVMResources X c v s = Some ((True, None), s')"
  shows "(\<exists>cpu mem. vm_Vcpu v = Some cpu \<and> vm_Memory v = Some mem \<and>
      NumCPUs (Spec (elf s)) \<le> cpu \<and> MemoryMiB (Spec (elf s)) \<le> ByteToMiB mem) \<and>
    \<not> condIsFalse (e_lib X) (Conditions (Status (elf s'))) ResourcesHotUpdatedCondition"
proof -
  from assms(2) obtain s1 where "reconcileVMCPUAndMemory X c v s = Some ((True, None), s1)"
    by (auto simp: reconcileVMResources_def andThenOk_ok)
  from compute_ok [THEN postD, OF this] have cpu:
    "\<exists>cpu mem. vm_Vcpu v = Some cpu \<and> vm_Memory v = Some mem \<and>
      NumCPUs (Spec (elf s)) \<le> cpu \<and> MemoryMiB (Spec (elf s)) \<le> ByteToMiB mem" by simp
  from assms(2) obtain s2 where "s' = (if condIsFalse (e_lib X) (Conditions (Status (elf s2))) ResourcesHotUpdatedCondition
         then markTrue X c ResourcesHotUpdatedCondition s2 else s2)"
    unfolding reconcileVMResources_def andThenOk_ok by blast
  then have "\<not> condIsFalse (e_lib X) (Conditions (Status (elf s'))) ResourcesHotUpdatedCondition"
    by (auto simp: emMarkTrue_def capi_lib.markTrue_views [OF assms(1)])
  with cpu show ?thesis by blast
qed

definition wit_done_st :: "(unit, cacheVal ttl) st" where
  "wit_done_st = wit_st\<lparr>elf := wit_elf\<lparr>Spec := (Spec wit_elf)\<lparr>DiskGiB := 0\<rparr>\<rparr>\<rparr>"

definition wit_done_env :: "(unit, cacheVal ttl) env" where
  "wit_done_env = wit_env\<lparr>e_svc := wit_svc
     \<lparr>Svc_GetVMNics := (\<lambda>_ w. (Inr [\<lparr>nic_ID = None, nic_IPAddress = Some ''10.0.0.2'', nic_MacAddress = None,
        nic_Gateway = None, nic_SubnetMask = None\<rparr>], w))\<rparr>\<rparr>"

lemma wit_done_update:
  "\<exists>s'. reconcileVMResources wit_done_env wit_ctx wit_vm wit_done_st = Some ((True, None), s')"
proof -
  have r: "condGet (e_lib wit_done_env) (Conditions (Status (elf wit_done_st))) t = None" for t
    by (simp add: wit_done_env_def wit_done_st_def wit_elf_def ref_lib_def)
  have sel: "DiskGiB (Spec (elf wit_done_st)) = 0" "NumCPUs (Spec (elf wit_done_st)) = 4"
      "MemoryMiB (Spec (elf wit_done_st)) = 8192" "ns_Devices (Network (Spec (elf wit_done_st))) = []"
      "fst (Svc_GetVMNics (e_svc wit_done_env) i w) = Inr [\<lparr>nic_ID = None, nic_IPAddress = Some ''10.0.0.2'',
         nic_MacAddress = None, nic_Gateway = None, nic_SubnetMask = None\<rparr>]" for i w
    by (simp_all add: wit_done_st_def wit_elf_def wit_done_env_def)
  show ?thesis
    by (simp add: reconcileVMResources_def andThenOk_def reconcileVMCPUAndMemory_def sel query_eq wit_vm_def
        ByteToMiB_def unit_defs go_div_def restartKubelet_def hotReason_def elfReason_def condGetReason_def
        r reconcieVMVolume_def expandVMRootPartition_def reconcieVMNetworkDevices_def reconcileVMNics_def
        setVMNetworkDeviceConfig_def Let_def condIsFalse_def)
qed

theorem hot_update_complete_witness:
  "\<exists>cpu. vm_Vcpu wit_vm = Some cpu \<and> NumCPUs (Spec (elf wit_done_st)) \<le> cpu"
proof -
  obtain s' where "reconcileVMResources wit_done_env wit_ctx wit_vm wit_done_st = Some ((True, None), s')"
    using wit_done_update by blast
  from hot_update_complete [OF _ this] reflib.capi_lib_axioms show ?thesis
    by (auto simp: wit_done_env_def)
qed

text \<open>
  A host job is created under the name it is looked up with, so that the next run
  finds it: the generated job has the name, namespace and node the reconciler uses, and a
  positive timeout.
\<close>

theorem host_job_found_by_name:
  assumes "GenerateJob X jobType macTypes nodeName s = (Inr job, s')"
  shows "hj_Name job = GetJobName (elf s) jobType macTypes \<and> hj_Namespace job = ''default'' \<and>
    hj_NodeName job = nodeName \<and> 0 < hj_Timeout job"
  using GenerateJob_name [OF assms] by simp

theorem host_job_found_by_name_witness:
  "0 < hj_Timeout (GenerateRestartKubeletJob (e_JobTimeouts (wit_env :: (unit, cacheVal ttl) env)) wit_elf ''p'' ''node1'')"
proof -
  define X :: "(unit, cacheVal ttl) env" where "X = wit_env\<lparr>e_k8s := wit_k8s
    \<lparr>K_GetConfigMapData := (\<lambda>_ _ w. (Inr [(HostAgentJobTypeRestartKubelet, ''p'')], w))\<rparr>\<rparr>"
  have "GenerateJob X HostAgentJobTypeRestartKubelet [] ''node1'' wit_st =
      (Inr (GenerateRestartKubeletJob (e_JobTimeouts (wit_env :: (unit, cacheVal ttl) env)) wit_elf ''p'' ''node1''), wit_st)"
    by (simp add: X_def GenerateJob_def query_eq job_type_defs wit_st_def)
  from host_job_found_by_name [OF this] show ?thesis by simp
qed

end
