(* ===== verification/Elf_Tasks.thy ===== *)
theory Elf_Tasks
  imports Gpu_Alloc Resources_Update
begin

text \<open>
  \<^verbatim>\<open>controllers/elfmachine_controller.go\<close>, the part that drives one virtual
  machine: power operations behind the rate limit, the handling of Tower tasks, the power
  state machine and the lookup of the virtual machine with the disconnection timeout.
\<close>

section \<open>Power operations\<close>

definition acquireUpdateTicket ::
  "('w, 'c) env \<Rightarrow> machineContext \<Rightarrow> ('w, 'c) st \<Rightarrow> bool \<times> ('w, 'c) st" where
  "acquireUpdateTicket X c s =
     (let (ok, g) = acquireTicketForUpdatingVM (e_cache X) (mc_Now c) (om_Name (em_meta (elf s))) (glob s)
      in (ok, s\<lparr>glob := g\<rparr>))"

text \<open>What the operations do with the answer of Tower: a failure is recorded and wrapped, a task is set.\<close>

definition operationFailed ::
  "('w, 'c) env \<Rightarrow> machineContext \<Rightarrow> string \<Rightarrow> string \<Rightarrow> go_error \<Rightarrow> ('w, 'c) st \<Rightarrow> go_error option \<times> ('w, 'c) st" where
  "operationFailed X c reason msg err s =
     (Some (ErrWrapf msg err), markFalse X c VMProvisionedCondition reason SevWarning (errText (e_lib X) err) s)"

definition operationStarted ::
  "('w, 'c) env \<Rightarrow> machineContext \<Rightarrow> string \<Rightarrow> string option \<Rightarrow> ('w, 'c) st \<Rightarrow>
     (go_error option \<times> ('w, 'c) st) panics" where
  "operationStarted X c reason taskID s = do {
     let s = markFalse X c VMProvisionedCondition reason SevInfo [] s;
     i \<leftarrow> taskID;
     Some (None, updElf (SetTask i) s) }"

definition shutDownVM ::
  "('w, 'c) env \<Rightarrow> machineContext \<Rightarrow> ('w, 'c) st \<Rightarrow> (go_error option \<times> ('w, 'c) st) panics" where
  "shutDownVM X c s =
     (let (ok, s) = acquireUpdateTicket X c s; vmRef = VMRef (Status (elf s))
      in if \<not> ok then Some (None, s)
         else
           (case request (CallShutDown vmRef) (Svc_ShutDown (e_svc X) vmRef) s of
              (Inl err, s) \<Rightarrow>
                Some (operationFailed X c ShuttingDownFailedReason
                        (''failed to trigger shut down for VM '' @ e_ctxText X) err s)
            | (Inr task, s) \<Rightarrow> operationStarted X c ShuttingDownReason (task_ID task) s))"

definition powerOffVM ::
  "('w, 'c) env \<Rightarrow> machineContext \<Rightarrow> ('w, 'c) st \<Rightarrow> (go_error option \<times> ('w, 'c) st) panics" where
  "powerOffVM X c s =
     (let (ok, s) = acquireUpdateTicket X c s; vmRef = VMRef (Status (elf s))
      in if \<not> ok then Some (None, s)
         else
           (case request (CallPowerOff vmRef) (Svc_PowerOff (e_svc X) vmRef) s of
              (Inl err, s) \<Rightarrow>
                Some (operationFailed X c PoweringOffFailedReason
                        (''failed to trigger powering off for VM '' @ vmRef) err s)
            | (Inr task, s) \<Rightarrow> operationStarted X c PowerOffReason (task_ID task) s))"

definition powerOnVM ::
  "('w, 'c) env \<Rightarrow> machineContext \<Rightarrow> vm \<Rightarrow> ('w, 'c) st \<Rightarrow> (go_error option \<times> ('w, 'c) st) panics" where
  "powerOnVM X c v s = do {
     ((ok, message, err), s) \<leftarrow> isELFScheduleVMErrorRecorded X c s;
     if err \<noteq> None then Some (err, s)
     else do {
       ((canRetry, err), s) \<leftarrow> (if ok then canRetryVMOperation X c s else Some ((True, None), s));
       if err \<noteq> None then Some (err, s)
       else if \<not> canRetry then Some (None, s)
       else
         (let (ok, s) = acquireUpdateTicket X c s; vmRef = VMRef (Status (elf s))
          in if \<not> ok then Some (None, s)
             else do {
               hostID \<leftarrow> (if RequiresGPUDevices (elf s) then do { h \<leftarrow> vm_Host v; ref_ID h } else Some []);
               case request (CallPowerOn vmRef hostID) (Svc_PowerOn (e_svc X) vmRef hostID) s of
                 (Inl err, s) \<Rightarrow>
                   Some (operationFailed X c PoweringOnFailedReason
                           (''failed to trigger power on for VM '' @ vmRef) err s)
               | (Inr task, s) \<Rightarrow> operationStarted X c PoweringOnReason (task_ID task) s }) } }"

definition updateVM ::
  "('w, 'c) env \<Rightarrow> machineContext \<Rightarrow> vm \<Rightarrow> ('w, 'c) st \<Rightarrow> (go_error option \<times> ('w, 'c) st) panics" where
  "updateVM X c v s =
     (let (ok, s) = acquireUpdateTicket X c s
      in if \<not> ok then Some (None, s)
         else
           (case request (CallUpdateVM (vm_ID v) (NumCPUs (Spec (elf s))) (MemoryMiB (Spec (elf s)))) (Svc_UpdateVM (e_svc X) v (elf s)) s of
              (Inl err, s) \<Rightarrow>
                Some (operationFailed X c UpdatingFailedReason
                        (''failed to trigger update for VM '' @ e_ctxText X) err s)
            | (Inr withTaskVM, s) \<Rightarrow> operationStarted X c UpdatingReason (wt_TaskID withTaskVM) s))"

section \<open>The power state machine\<close>

definition notDone ::
  "(go_error option \<times> ('w, 'c) st) panics \<Rightarrow> ((bool \<times> go_error option) \<times> ('w, 'c) st) panics" where
  "notDone m = do { (err, s) \<leftarrow> m; Some ((False, err), s) }"

definition reconcileVMStatus ::
  "('w, 'c) env \<Rightarrow> machineContext \<Rightarrow> vm \<Rightarrow> ('w, 'c) st \<Rightarrow> ((bool \<times> go_error option) \<times> ('w, 'c) st) panics" where
  "reconcileVMStatus X c v s =
     (case vm_Status v of
        None \<Rightarrow> Some ((False, None), s)
      | Some status \<Rightarrow> do {
          updatedVMRestrictedFields \<leftarrow> GetUpdatedVMRestrictedFields (e_cfg X) v (elf s);
          let restore = (length updatedVMRestrictedFields > 0 \<and> IsAllowCustomVMConfig X);
          if status = VMStatusRUNNING then
            (if restore then
               (if IsShutDownTimeout (elfMessage X VMProvisionedCondition s) then notDone (powerOffVM X c s)
                else notDone (shutDownVM X c s))
             else Some ((True, None), s))
          else if status = VMStatusSTOPPED then
            (if restore then notDone (updateVM X c v s)
             else if GetVMFirstBootTimestamp (e_lib X) (elf s) = None \<and> \<not> IsHotUpdating (e_lib X) (elf s) then
               andThenOk (reconcieVMVolume X c v VMProvisionedCondition s) (\<lambda>s. notDone (powerOnVM X c v s))
             else notDone (powerOnVM X c v s))
          else if status = VMStatusSUSPENDED then notDone (powerOffVM X c s)
          else Some ((False, None), s) })"

section \<open>Tasks\<close>

definition unlockIfGPU :: "machineContext \<Rightarrow> ('w, 'c) st \<Rightarrow> ('w, 'c) st" where
  "unlockIfGPU c s = (if RequiresGPUDevices (elf s) then unlockOwnGPUs c s else s)"

definition releaseCreateTicket :: "('w, 'c) env \<Rightarrow> ('w, 'c) st \<Rightarrow> ('w, 'c) st" where
  "releaseCreateTicket X s =
     updGlob (releaseTicketForCreateVM (e_cache X) (om_Name (em_meta (elf s)))) s"

definition setVMDuplicateSt :: "('w, 'c) env \<Rightarrow> machineContext \<Rightarrow> ('w, 'c) st \<Rightarrow> ('w, 'c) st" where
  "setVMDuplicateSt X c s =
     updGlob (setVMDuplicate (e_cache X) (mc_Now c) (om_Name (em_meta (elf s)))) s"

text \<open>The first \<^verbatim>\<open>switch\<close> of \<^verbatim>\<open>reconcileVMFailedTask\<close>, by the kind of the task.\<close>

definition failedTaskByKind ::
  "('w, 'c) env \<Rightarrow> machineContext \<Rightarrow> task \<Rightarrow> string \<Rightarrow> ('w, 'c) st \<Rightarrow> ('w, 'c) st" where
  "failedTaskByKind X c task errorMessage s =
     (if IsCloneVMTask task then
        (let s = releaseCreateTicket X s;
             s = (if IsVMDuplicateError errorMessage then setVMDuplicateSt X c s else s)
         in unlockIfGPU c s)
      else if IsUpdateVMDiskTask task (om_Name (em_meta (elf s))) then
        (let reason = hotReason X s
         in if reason = ExpandingVMDiskReason \<or> reason = ExpandingVMDiskFailedReason
            then hotMarkFalse X c ExpandingVMDiskFailedReason SevWarning errorMessage s else s)
      else if IsUpdateVMTask task \<and>
              condIsFalse (e_lib X) (Conditions (Status (elf s))) ResourcesHotUpdatedCondition then
        (let reason = hotReason X s
         in if reason = ExpandingVMComputeResourcesReason \<or> reason = ExpandingVMComputeResourcesFailedReason
            then hotMarkFalse X c ExpandingVMComputeResourcesFailedReason SevWarning errorMessage s else s)
      else if IsPowerOnVMTask task \<or> IsUpdateVMTask task \<or> IsVMColdMigrationTask task then unlockIfGPU c s
      else s)"

text \<open>The second \<^verbatim>\<open>switch\<close>, by the error.\<close>

definition failedTaskByError ::
  "('w, 'c) env \<Rightarrow> machineContext \<Rightarrow> string \<Rightarrow> ('w, 'c) st \<Rightarrow> (go_error option \<times> ('w, 'c) st) panics" where
  "failedTaskByError X c errorMessage s =
     (if IsVMDuplicateError errorMessage then Some (None, setVMDuplicateSt X c s)
      else if IsStorageInsufficientError errorMessage then
        Some (Some (ErrMsg (''Insufficient storage detected for the ELF cluster '' @ GetElfClusterID c)),
              recordElfClusterStorageInsufficient X c True s)
      else if IsMemoryInsufficientError errorMessage then
        Some (Some (ErrMsg (''Insufficient memory detected for the ELF cluster '' @ GetElfClusterID c)),
              recordElfClusterMemoryInsufficient X c True s)
      else if IsPlacementGroupError errorMessage then do {
        (err, s) \<leftarrow> recordPlacementGroupPolicyNotSatisfied X c True s;
        if err \<noteq> None then Some (err, s)
        else Some (Some (ErrMsg ''The placement group policy can not be satisfied''), s) }
      else Some (None, s))"

definition reconcileVMFailedTask ::
  "('w, 'c) env \<Rightarrow> machineContext \<Rightarrow> task \<Rightarrow> ('w, 'c) st \<Rightarrow> (go_error option \<times> ('w, 'c) st) panics" where
  "reconcileVMFailedTask X c task s =
     (let errorMessage = GetTowerString (task_ErrorMessage task);
          errorMessage = (if IsGPUAssignFailed errorMessage then ParseGPUAssignFailed errorMessage else errorMessage);
          s = markFalse X c VMProvisionedCondition TaskFailureReason SevInfo errorMessage s;
          s = (if IsCloudInitConfigError errorMessage
               then updElf (SetFailure CloudInitConfigError
                      (''VM cloud-init config error: '' @ FormatCloudInitError errorMessage)) s
               else s)
      in failedTaskByError X c errorMessage (failedTaskByKind X c task errorMessage s))"

text \<open>The branch of a task that succeeded.\<close>

definition succeededTask ::
  "('w, 'c) env \<Rightarrow> machineContext \<Rightarrow> task \<Rightarrow> ('w, 'c) st \<Rightarrow> (go_error option \<times> ('w, 'c) st) panics" where
  "succeededTask X c task s =
     (let provisioning = (IsCloneVMTask task \<or> IsPowerOnVMTask task \<or> IsUpdateVMTask task);
          s = (if provisioning then unlockIfGPU c s else s)
      in do {
        s \<leftarrow> (if IsPowerOnVMTask task \<and> GetVMFirstBootTimestamp (e_lib X) (elf s) = None
              then do { m \<leftarrow> SetVMFirstBootTimestamp (e_lib X) (mc_Now c) (elf s); Some (s\<lparr>elf := m\<rparr>) }
              else Some s);
        if provisioning then
          recordPlacementGroupPolicyNotSatisfied X c False
            (recordElfClusterMemoryInsufficient X c False
              (recordElfClusterStorageInsufficient X c False (releaseCreateTicket X s)))
        else Some (None, s) })"

text \<open>The deferred function: a finished task is forgotten, a busy virtual machine is waited for.\<close>

definition taskDeferred :: "vm option \<Rightarrow> bool \<times> go_error option \<Rightarrow> ('w, 'c) st \<Rightarrow> (bool \<times> go_error option) \<times> ('w, 'c) st" where
  "taskDeferred vo r s =
     (let (taskDone, reterr) = r;
          s = (if taskDone then updElf (SetTask []) s else s);
          busy = (case vo of None \<Rightarrow> False | Some v \<Rightarrow> vm_EntityAsyncStatus v \<noteq> None)
      in ((if busy then False else taskDone, reterr), s))"

definition reconcileVMTask ::
  "('w, 'c) env \<Rightarrow> machineContext \<Rightarrow> vm option \<Rightarrow> ('w, 'c) st \<Rightarrow>
     ((bool \<times> go_error option) \<times> ('w, 'c) st) panics" where
  "reconcileVMTask X c vo s =
     (let taskRef = TaskRef (Status (elf s)); vmRef = VMRef (Status (elf s));
          busy = (case vo of None \<Rightarrow> False | Some v \<Rightarrow> vm_EntityAsyncStatus v \<noteq> None);
          noTask = (\<lambda>s. Some ((\<not> busy, None), s))
      in if \<not> HasTask (elf s) then noTask s
         else
           (case query (Svc_GetTask (e_svc X) taskRef) s of
              (Inl err, s) \<Rightarrow>
                if IsTaskNotFound (e_lib X) err then noTask (updElf (SetTask []) s)
                else Some ((False, Some (ErrWrapf (''failed to get task '' @ taskRef @ '' for VM '' @ vmRef) err)), s)
            | (Inr task, s) \<Rightarrow> do {
                status \<leftarrow> task_Status task;
                if status = TaskStatusFAILED then do {
                  (err, s) \<leftarrow> reconcileVMFailedTask X c task s;
                  Some (taskDeferred vo (True, err) s) }
                else if status = TaskStatusSUCCESSED then do {
                  (err, s) \<leftarrow> succeededTask X c task s;
                  Some (taskDeferred vo (True, err) s) }
                else Some (taskDeferred vo (False, None) s) }))"

section \<open>The virtual machine\<close>

definition getVM ::
  "('w, 'c) env \<Rightarrow> machineContext \<Rightarrow> ('w, 'c) st \<Rightarrow> ((go_error + vm) \<times> ('w, 'c) st) panics" where
  "getVM X c s =
     (let vmRef = VMRef (Status (elf s))
      in case query (Svc_Get (e_svc X) vmRef) s of
           (Inr v, s) \<Rightarrow> Some (Inr v, s)
         | (Inl err, s) \<Rightarrow>
             if \<not> IsVMNotFound (e_lib X) err then Some (Inl err, s)
             else if IsUUID vmRef then
               (let (timestamp, s) =
                      (case GetVMDisconnectionTimestamp (e_lib X) (elf s) of
                         None \<Rightarrow> (mc_Now c, updElf (SetVMDisconnectionTimestamp (e_lib X) (Some (mc_Now c))) s)
                       | Some t \<Rightarrow> (t, s))
                in if \<not> (timestamp + VMDisconnectionTimeout < mc_Now c) then Some (Inl err, s)
                   else Some (Inl err, updElf (SetFailure RemovedFromInfrastructureError
                          (''Unable to find VM by UUID '' @ vmRef @ ''. The VM was removed from infrastructure.'')) s))
             else do {
               ((_, taskErr), s) \<leftarrow> reconcileVMTask X c None s;
               case taskErr of
                 Some e \<Rightarrow> Some (Inl e, s)
               | None \<Rightarrow>
                   Some (Inl (ErrWrapf (''failed to create VM for ElfMachine '' @ klogKObj (em_meta (elf s))) err),
                         updElf (SetVM []) s) })"

section \<open>Lemmas: frames\<close>

text \<open>No call to Tower, and the references to the virtual machine and its task are kept.\<close>

definition keepsRefs :: "('w, 'c) st \<Rightarrow> ('w, 'c) st \<Rightarrow> bool" where
  "keepsRefs s s' \<longleftrightarrow> calls s' = calls s \<and> VMRef (Status (elf s')) = VMRef (Status (elf s)) \<and>
     TaskRef (Status (elf s')) = TaskRef (Status (elf s)) \<and> Spec (elf s') = Spec (elf s) \<and>
     om_Finalizers (em_meta (elf s')) = om_Finalizers (em_meta (elf s))"

lemma keepsRefs_refl [simp]: "keepsRefs s s"
  by (simp add: keepsRefs_def)

lemma keepsRefs_trans: "keepsRefs s s' \<Longrightarrow> keepsRefs s' s'' \<Longrightarrow> keepsRefs s s''"
  by (simp add: keepsRefs_def)

lemma keepsRefs_simps [simp]:
  "keepsRefs s (s'\<lparr>world := w\<rparr>) = keepsRefs s s'" "keepsRefs s (s'\<lparr>glob := g\<rparr>) = keepsRefs s s'"
  "keepsRefs (s\<lparr>world := w\<rparr>) s' = keepsRefs s s'" "keepsRefs (s\<lparr>glob := g\<rparr>) s' = keepsRefs s s'"
  "keepsRefs s (updGlob f s') = keepsRefs s s'" "keepsRefs (updGlob f s) s' = keepsRefs s s'"
  "keepsRefs s (markFalse X c t rs sev msg s') = keepsRefs s s'"
  "keepsRefs (markFalse X c t rs sev msg s) s' = keepsRefs s s'"
  "keepsRefs s (hotMarkFalse X c rs sev msg s') = keepsRefs s s'"
  "keepsRefs s (updElf (SetFailure a b) s') = keepsRefs s s'"
  "keepsRefs (updElf (SetFailure a b) s) s' = keepsRefs s s'"
  by (simp_all add: keepsRefs_def updGlob_def updElf_def markFalse_def hotMarkFalse_def emMarkFalse_def)

lemma keepsRefs_ops [simp]:
  "keepsRefs s (unlockOwnGPUs c s') = keepsRefs s s'" "keepsRefs s (unlockIfGPU c s') = keepsRefs s s'"
  "keepsRefs s (releaseCreateTicket X s') = keepsRefs s s'"
  "keepsRefs s (setVMDuplicateSt X c s') = keepsRefs s s'"
  "keepsRefs s (recordElfClusterStorageInsufficient X c b s') = keepsRefs s s'"
  "keepsRefs s (recordElfClusterMemoryInsufficient X c b s') = keepsRefs s s'"
  by (simp_all add: unlockOwnGPUs_def unlockIfGPU_def releaseCreateTicket_def setVMDuplicateSt_def
      recordElfClusterStorageInsufficient_def recordElfClusterMemoryInsufficient_def Let_def)

lemma quiet_keepsRefs: "quiet s s' \<Longrightarrow> keepsRefs s s'"
  by (simp add: quiet_def keepsRefs_def)

lemma recordPG_keepsRefs:
  "post (recordPlacementGroupPolicyNotSatisfied X c b s) (\<lambda>(e, s'). keepsRefs s s')"
  by (auto simp: recordPlacementGroupPolicyNotSatisfied_def post_simps Let_def split: sum.splits)
    (auto simp: keepsRefs_def)

lemma byKind_keepsRefs [simp]: "keepsRefs s (failedTaskByKind X c task msg s') = keepsRefs s s'"
  by (simp add: failedTaskByKind_def Let_def)

lemma failedTask_keepsRefs:
  "post (reconcileVMFailedTask X c task s) (\<lambda>(e, s'). keepsRefs s s')"
proof -
  have "post (failedTaskByError X c msg s1) (\<lambda>(e, s'). keepsRefs s s')" if "keepsRefs s s1" for msg s1
    using that
    by (auto simp: failedTaskByError_def post_simps recordPG_keepsRefs [THEN post_spec]
        intro: keepsRefs_trans)
  then show ?thesis
    unfolding reconcileVMFailedTask_def Let_def by simp
qed

lemma firstBoot_refs:
  "SetVMFirstBootTimestamp L t m = Some m' \<Longrightarrow> Status m' = Status m \<and> Spec m' = Spec m \<and>
     om_Finalizers (em_meta m') = om_Finalizers (em_meta m)"
  by (auto simp: SetVMFirstBootTimestamp_def split: option.splits)

lemma succeededTask_keepsRefs:
  "post (succeededTask X c task s) (\<lambda>(e, s'). keepsRefs s s')"
proof -
  have fb: "keepsRefs s (s1\<lparr>elf := m\<rparr>)"
    if "SetVMFirstBootTimestamp L t (elf s1) = Some m" "keepsRefs s s1" for L t s1 m
    using firstBoot_refs [OF that(1)] that(2) by (simp add: keepsRefs_def)
  show ?thesis
    unfolding succeededTask_def Let_def
    by (auto simp: post_simps recordPG_keepsRefs [THEN post_spec] intro!: postI fb
        elim!: keepsRefs_trans [rotated])
qed

text \<open>What handling the task does to the references, on every path.\<close>

lemma task_refs:
  "post (reconcileVMTask X c vo s) (\<lambda>((taskDone, err), s').
     calls s' = calls s \<and> VMRef (Status (elf s')) = VMRef (Status (elf s)) \<and>
     Spec (elf s') = Spec (elf s) \<and>
     om_Finalizers (em_meta (elf s')) = om_Finalizers (em_meta (elf s)) \<and>
     TaskRef (Status (elf s')) \<in> {[], TaskRef (Status (elf s))} \<and>
     (taskDone \<longrightarrow> TaskRef (Status (elf s')) = [] \<and>
        (case vo of None \<Rightarrow> True | Some v \<Rightarrow> vm_EntityAsyncStatus v = None)))"
  unfolding reconcileVMTask_def Let_def
  by (auto simp: post_simps query_eq failedTask_keepsRefs [THEN post_spec]
      succeededTask_keepsRefs [THEN post_spec] taskDeferred_def keepsRefs_def HasTask_def
      split: sum.splits option.splits intro!: postI)

section \<open>Lemmas: power operations\<close>

text \<open>The task ID that Tower answered to a call on the virtual machine \<open>v\<close>.\<close>

definition answered :: "('w, 'c) env \<Rightarrow> vm \<Rightarrow> towerCall \<Rightarrow> string \<Rightarrow> bool" where
  "answered X v call tid =
     (case call of
        CallPowerOn r h \<Rightarrow> \<exists>w t. fst (Svc_PowerOn (e_svc X) r h w) = Inr t \<and> task_ID t = Some tid
      | CallPowerOff r \<Rightarrow> \<exists>w t. fst (Svc_PowerOff (e_svc X) r w) = Inr t \<and> task_ID t = Some tid
      | CallShutDown r \<Rightarrow> \<exists>w t. fst (Svc_ShutDown (e_svc X) r w) = Inr t \<and> task_ID t = Some tid
      | CallUpdateVM i cpus memory \<Rightarrow> \<exists>m w t. NumCPUs (Spec m) = cpus \<and> MemoryMiB (Spec m) = memory \<and>
          fst (Svc_UpdateVM (e_svc X) v m w) = Inr t \<and> wt_TaskID t = Some tid
      | CallResizeVolume i n \<Rightarrow> \<exists>w t. fst (Svc_ResizeVMVolume (e_svc X) i n w) = Inr t \<and> wt_TaskID t = Some tid
      | _ \<Rightarrow> False)"

text \<open>One step of an operation: nothing, or the call with its task recorded.\<close>

definition opStep ::
  "('w, 'c) env \<Rightarrow> vm \<Rightarrow> (towerCall \<Rightarrow> bool) \<Rightarrow> ('w, 'c) st \<Rightarrow> go_error option \<Rightarrow> ('w, 'c) st \<Rightarrow> bool" where
  "opStep X v P s err s' \<longleftrightarrow>
     (calls s' = calls s \<and> TaskRef (Status (elf s')) = TaskRef (Status (elf s)) \<or>
      (\<exists>call. calls s' = calls s @ [call] \<and> P call \<and>
         (err = None \<longrightarrow> answered X v call (TaskRef (Status (elf s')))))) \<and>
     VMRef (Status (elf s')) = VMRef (Status (elf s))"

lemma acquireUpdateTicket_st [simp]:
  "calls (snd (acquireUpdateTicket X c s)) = calls s" "elf (snd (acquireUpdateTicket X c s)) = elf s"
  "world (snd (acquireUpdateTicket X c s)) = world s"
  by (simp_all add: acquireUpdateTicket_def split_def Let_def)

lemmas operation_defs = operationFailed_def operationStarted_def

lemma emMark_refs [simp]:
  "VMRef (Status (emMarkFalse L now t rs sev msg m)) = VMRef (Status m)"
  "TaskRef (Status (emMarkFalse L now t rs sev msg m)) = TaskRef (Status m)"
  "em_meta (emMarkFalse L now t rs sev msg m) = em_meta m"
  "VMRef (Status (emMarkTrue L now t m)) = VMRef (Status m)"
  "TaskRef (Status (emMarkTrue L now t m)) = TaskRef (Status m)"
  "em_meta (emMarkTrue L now t m) = em_meta m"
  by (simp_all add: emMarkFalse_def emMarkTrue_def)

lemma shutDown_opStep:
  "post (shutDownVM X c s) (\<lambda>(e, s'). opStep X v (\<lambda>k. k = CallShutDown (VMRef (Status (elf s)))) s e s')"
  by (auto simp: shutDownVM_def operation_defs post_simps request_eq split_def Let_def opStep_def answered_def
      split: sum.splits intro!: postI)

lemma powerOff_opStep:
  "post (powerOffVM X c s) (\<lambda>(e, s'). opStep X v (\<lambda>k. k = CallPowerOff (VMRef (Status (elf s)))) s e s')"
  by (auto simp: powerOffVM_def operation_defs post_simps request_eq split_def Let_def opStep_def answered_def
      split: sum.splits intro!: postI)

lemma update_opStep:
  "post (updateVM X c v s) (\<lambda>(e, s'). opStep X v (\<lambda>k. k = CallUpdateVM (vm_ID v) (NumCPUs (Spec (elf s))) (MemoryMiB (Spec (elf s)))) s e s')"
  by (auto simp: updateVM_def operation_defs post_simps request_eq split_def Let_def opStep_def answered_def
      split: sum.splits intro!: postI)

lemma scheduleError_refs:
  "post (isELFScheduleVMErrorRecorded X c s) (\<lambda>(r, s'). keepsRefs s s')"
  by (auto simp: isELFScheduleVMErrorRecorded_def post_simps Let_def split_def split: sum.splits)
    (auto simp: keepsRefs_def)

lemma canRetryVMOperation_refs:
  "post (canRetryVMOperation X c s) (\<lambda>(r, s'). keepsRefs s s')"
  by (auto simp: canRetryVMOperation_def post_simps Let_def split_def split: sum.splits)
    (auto simp: keepsRefs_def)

lemma powerOn_opStep:
  "post (powerOnVM X c v s) (\<lambda>(e, s').
     opStep X v (\<lambda>k. \<exists>h. k = CallPowerOn (VMRef (Status (elf s))) h) s e s')"
  by (auto simp: powerOnVM_def operation_defs post_simps scheduleError_refs [THEN post_spec]
      canRetryVMOperation_refs [THEN post_spec] request_eq split_def Let_def opStep_def answered_def
      keepsRefs_def split: sum.splits intro!: postI)


lemma resize_opStep:
  "post (resizeVMVolume X c vol n t s) (\<lambda>(e, s').
     opStep X v (\<lambda>k. \<exists>i. k = CallResizeVolume i n \<and> vol_ID vol = Some i) s e s')"
  unfolding resizeVMVolume_def
  by (auto simp: post_simps request_eq Let_def split_def opStep_def answered_def
      split: sum.splits if_splits intro!: postI)

lemma setDiskStatus_refs [simp]:
  "VMRef (Status (setDiskStatus d m)) = VMRef (Status m)"
  "TaskRef (Status (setDiskStatus d m)) = TaskRef (Status m)"
  by (simp_all add: setDiskStatus_def)

lemma opStep_frame [simp]:
  "opStep X v P (updElf (setDiskStatus d) s) e s' = opStep X v P s e s'"
  "opStep X v P (s\<lparr>world := w\<rparr>) e s' = opStep X v P s e s'"
  by (simp_all add: opStep_def)

lemma opStep_still: "keepsRefs s s' \<Longrightarrow> opStep X v P s e s'"
  by (simp add: opStep_def keepsRefs_def)

lemma opStep_mono: "opStep X v P s e s' \<Longrightarrow> (\<And>k. P k \<Longrightarrow> Q k) \<Longrightarrow> opStep X v Q s e s'"
  by (auto simp: opStep_def)

lemma opStep_after:
  "keepsRefs s s1 \<Longrightarrow> opStep X v P s1 e s' \<Longrightarrow> opStep X v P s e s'"
  by (auto simp: opStep_def keepsRefs_def)

lemma keepsRefs_setDisk [simp]: "keepsRefs s (updElf (setDiskStatus d) s') = keepsRefs s s'"
  by (simp add: keepsRefs_def)

text \<open>The volume: a resize is not a success, and a success touches neither Tower nor the references.\<close>

lemma volume_opStep:
  "post (reconcieVMVolume X c v t s) (\<lambda>((ok, e), s').
     opStep X v (\<lambda>k. \<exists>i n. k = CallResizeVolume i n) s e s' \<and>
     (ok \<longrightarrow> e = None \<and> keepsRefs s s' \<and> Spec (elf s') = Spec (elf s)))"
  unfolding reconcieVMVolume_def
  by (auto simp: post_simps query_eq resize_opStep [of X c _ _ t _ v, THEN post_spec] Let_def
      split: sum.splits intro!: postI intro: opStep_still elim: opStep_mono)

text \<open>The calls the power state machine allows for a status of the virtual machine.\<close>

definition powerCall :: "string \<Rightarrow> string \<Rightarrow> vm \<Rightarrow> towerCall \<Rightarrow> bool" where
  "powerCall vmRef status v call =
     (case call of
        CallPowerOn r h \<Rightarrow> r = vmRef \<and> status = VMStatusSTOPPED
      | CallUpdateVM i cpus memory \<Rightarrow> i = vm_ID v \<and> status = VMStatusSTOPPED
      | CallResizeVolume i n \<Rightarrow> status = VMStatusSTOPPED
      | CallShutDown r \<Rightarrow> r = vmRef \<and> status = VMStatusRUNNING
      | CallPowerOff r \<Rightarrow> r = vmRef \<and> (status = VMStatusRUNNING \<or> status = VMStatusSUSPENDED)
      | _ \<Rightarrow> False)"

lemma notDone_post [post_simps]: "post (notDone m) Q = post m (\<lambda>(e, s). Q ((False, e), s))"
  by (simp add: notDone_def post_simps split_def)

lemma status_opStep:
  "post (reconcileVMStatus X c v s) (\<lambda>((ok, e), s').
     (ok \<longrightarrow> vm_Status v = Some VMStatusRUNNING \<and> e = None \<and> s' = s) \<and>
     opStep X v (\<lambda>k. \<exists>status. vm_Status v = Some status \<and> powerCall (VMRef (Status (elf s))) status v k) s e s')"
proof -
  have on: "post (powerOnVM X c v s1) (\<lambda>(e, s'). opStep X v (\<lambda>k. \<exists>h. k = CallPowerOn (VMRef (Status (elf s))) h) s e s')"
    if "keepsRefs s s1" for s1
    by (rule post_mono [OF powerOn_opStep [of X c v s1]])
      (use that in \<open>auto intro: opStep_after [OF that] simp: keepsRefs_def\<close>)
  show ?thesis
    unfolding reconcileVMStatus_def
    by (auto simp: post_simps shutDown_opStep [of X c s v, THEN post_spec] powerOff_opStep [of X c s v, THEN post_spec]
        update_opStep [THEN post_spec] on [THEN post_spec] volume_opStep [THEN post_spec] powerCall_def Let_def
        split: option.splits intro!: postI intro: opStep_still elim!: opStep_mono)
qed

section \<open>Lemmas: absence of panics\<close>

text \<open>Every control plane machine has its KubeadmControlPlane among its owners.\<close>

definition ownedMachine :: "machine \<Rightarrow> bool" where
  "ownedMachine m = (IsControlPlaneMachine (m_meta m) \<longrightarrow> GetKCPNameByMachine m \<noteq> None)"

lemma pgName_runs: "ownedMachine m \<Longrightarrow> runs (GetVMPlacementGroupName X m cl s)"
  by (auto simp: GetVMPlacementGroupName_def GetKCPByMachine_def ownedMachine_def runs_simps post_simps
      query_eq runs_def GetMDByMachine_def split: sum.splits)

lemma recordPG_runs:
  "ownedMachine (mc_Machine c) \<Longrightarrow> runs (recordPlacementGroupPolicyNotSatisfied X c b s)"
  by (auto simp: recordPlacementGroupPolicyNotSatisfied_def runs_simps pgName_runs Let_def
      split: sum.splits intro!: postI)

lemma failedTask_runs:
  "ownedMachine (mc_Machine c) \<Longrightarrow> runs (reconcileVMFailedTask X c task s)"
  by (auto simp: reconcileVMFailedTask_def failedTaskByError_def runs_simps recordPG_runs Let_def intro!: postI)

lemma unlock_meta [simp]:
  "em_meta (elf (unlockOwnGPUs c s)) = em_meta (elf s)" "em_meta (elf (unlockIfGPU c s)) = em_meta (elf s)"
  by (simp_all add: unlockOwnGPUs_def unlockIfGPU_def)

lemma succeededTask_runs:
  "ownedMachine (mc_Machine c) \<Longrightarrow> om_Annotations (em_meta (elf s)) \<noteq> None \<Longrightarrow> runs (succeededTask X c task s)"
  by (auto simp: succeededTask_def runs_simps recordPG_runs SetVMFirstBootTimestamp_def Let_def intro!: postI)

lemma task_runs:
  assumes "ownedMachine (mc_Machine c)" and "om_Annotations (em_meta (elf s)) \<noteq> None"
    and "\<And>t. fst (Svc_GetTask (e_svc X) (TaskRef (Status (elf s))) (world s)) = Inr t \<Longrightarrow> task_Status t \<noteq> None"
  shows "runs (reconcileVMTask X c vo s)"
  using assms
  by (auto simp: reconcileVMTask_def runs_simps failedTask_runs succeededTask_runs query_eq Let_def
      runs_def [of "task_Status t" for t] split: sum.splits option.splits intro!: postI)

section \<open>Properties\<close>

text \<open>
  Property C23. Handling the current task of a virtual machine. When a control plane machine has its
  KubeadmControlPlane as an owner, the ElfMachine has an annotation map and Tower returns tasks
  with a status, the handler returns; it asks nothing of Tower, keeps the reference to the
  virtual machine and the finalizers, and either keeps the task reference or clears it; it
  reports the task as done only after the reference is cleared and while no operation runs on
  the virtual machine.
\<close>

theorem task_handling:
  assumes "ownedMachine (mc_Machine c)" and "om_Annotations (em_meta (elf s)) \<noteq> None"
    and "\<And>t. fst (Svc_GetTask (e_svc X) (TaskRef (Status (elf s))) (world s)) = Inr t \<Longrightarrow> task_Status t \<noteq> None"
  shows "\<exists>taskDone err s'. reconcileVMTask X c vo s = Some ((taskDone, err), s') \<and>
     calls s' = calls s \<and> VMRef (Status (elf s')) = VMRef (Status (elf s)) \<and>
     om_Finalizers (em_meta (elf s')) = om_Finalizers (em_meta (elf s)) \<and>
     TaskRef (Status (elf s')) \<in> {[], TaskRef (Status (elf s))} \<and>
     (taskDone \<longrightarrow> TaskRef (Status (elf s')) = [] \<and>
        (\<forall>v. vo = Some v \<longrightarrow> vm_EntityAsyncStatus v = None))"
  using runs_post [OF task_runs [OF assms] task_refs [of X c vo s]] by (auto split: option.splits)

theorem task_handling_witness:
  "\<exists>taskDone err s'. reconcileVMTask wit_env wit_ctx (Some wit_vm) (updElf (SetTask ''t9'') wit_st) =
     Some ((taskDone, err), s') \<and> TaskRef (Status (elf s')) \<in> {[], ''t9''}"
proof -
  have "ownedMachine (mc_Machine wit_ctx)"
    by (simp add: ownedMachine_def wit_ctx_def IsControlPlaneMachine_def wit_meta_def)
  moreover have "om_Annotations (em_meta (elf (updElf (SetTask ''t9'') wit_st))) \<noteq> None"
    by (simp add: wit_st_def wit_elf_def wit_meta_def)
  moreover have "fst (Svc_GetTask (e_svc wit_env) (TaskRef (Status (elf (updElf (SetTask ''t9'') wit_st))))
      (world (updElf (SetTask ''t9'') wit_st))) = Inr t \<Longrightarrow> task_Status t \<noteq> None" for t
    by (simp add: wit_svc_def)
  ultimately show ?thesis
    using task_handling [of wit_ctx "updElf (SetTask ''t9'') wit_st" wit_env "Some wit_vm"] by fastforce
qed

text \<open>
  Property C24. The power state machine. Success is reported only for a running virtual machine and
  changes nothing. Otherwise at most one change is asked of Tower, on the recorded virtual
  machine, and it fits the status: a stopped machine may be powered on, reconfigured or have a
  volume resized, a running one shut down or powered off, a suspended one powered off, and no
  other status is touched. When the change was accepted, the task reference is the task of
  Tower's answer.
\<close>

theorem power_state_machine:
  assumes "reconcileVMStatus X c v s = Some ((ok, err), s')"
  shows "(ok \<longrightarrow> vm_Status v = Some VMStatusRUNNING \<and> err = None \<and> s' = s) \<and>
    VMRef (Status (elf s')) = VMRef (Status (elf s)) \<and>
    (calls s' = calls s \<and> TaskRef (Status (elf s')) = TaskRef (Status (elf s)) \<or>
     (\<exists>call status. calls s' = calls s @ [call] \<and> vm_Status v = Some status \<and>
        powerCall (VMRef (Status (elf s))) status v call \<and>
        (err = None \<longrightarrow> answered X v call (TaskRef (Status (elf s'))))))"
  using status_opStep [THEN postD, OF assms] by (auto simp: opStep_def)

definition wit_suspended :: vm where
  "wit_suspended = wit_vm\<lparr>vm_Status := Some VMStatusSUSPENDED\<rparr>"

lemma wit_suspended_status: "vm_Status wit_suspended = Some VMStatusSUSPENDED"
  by (simp add: wit_suspended_def)

definition wit_power_env :: "(unit, cacheVal ttl) env" where
  "wit_power_env = wit_env\<lparr>e_svc := wit_svc\<lparr>Svc_PowerOff := (\<lambda>_ w. (Inr wit_task, w))\<rparr>\<rparr>"

lemma wit_power:
  "\<exists>s'. reconcileVMStatus wit_power_env wit_ctx wit_suspended wit_st = Some ((False, None), s') \<and>
     calls s' = [CallPowerOff []] \<and> TaskRef (Status (elf s')) = ''t1''"
proof -
  have sel: "e_cache wit_power_env = ttl_cache" "e_cfg wit_power_env = wit_cfg"
    "Svc_PowerOff (e_svc wit_power_env) r w = (Inr wit_task, w)"
    "glob wit_st = wit_gstate" "calls wit_st = []" "elf wit_st = wit_elf" "VMRef (Status wit_elf) = []" for r w
    by (simp_all add: wit_power_env_def wit_st_def wit_elf_def)
  have f: "GetUpdatedVMRestrictedFields wit_cfg wit_suspended wit_elf = Some []"
    by (simp add: GetUpdatedVMRestrictedFields_def wit_suspended_def wit_vm_def wit_elf_def wit_cfg_def
        TowerCPUSockets_def TowerVCPU_def TowerCPUSocketCores_def TowerMemory_def go_div_panic_def go_div_def
        unit_defs wrap32_def wrap64_def Let_def)
  show ?thesis
    by (simp add: reconcileVMStatus_def sel f powerOffVM_def notDone_def wit_suspended_status
        acquireUpdateTicket_def acquireTicketForUpdatingVM_def operation_defs request_eq wit_task_def
        wit_gstate_def ttl_cache_def ttl_get_def Let_def const_defs)
qed

theorem power_state_machine_witness:
  "powerCall [] VMStatusSUSPENDED wit_suspended (CallPowerOff [])"
proof -
  obtain s' where "reconcileVMStatus wit_power_env wit_ctx wit_suspended wit_st = Some ((False, None), s')"
    and c: "calls s' = [CallPowerOff []]" using wit_power by blast
  from power_state_machine [OF this(1)] c show ?thesis
    by (auto simp: wit_st_def wit_elf_def wit_suspended_def)
qed

text \<open>
  Property C25. A virtual machine that Tower does not find by its UUID is declared removed only after
  it has been missing for more than a minute. The first run that misses it keeps the ElfMachine
  out of the failed state and records the time, in seconds; a later run on the same ElfMachine
  that misses it again fails it as removed from infrastructure exactly when a minute has passed
  since the recorded time. Both runs return the not-found error and ask nothing of Tower.
\<close>

theorem disconnection_timeout:
  assumes L: "capi_lib (e_lib X)" and "IsUUID (VMRef (Status (elf s)))" and "\<not> IsFailed (elf s)"
    and "GetVMDisconnectionTimestamp (e_lib X) (elf s) = None"
    and miss: "\<And>w. fst (Svc_Get (e_svc X) (VMRef (Status (elf s))) w) = Inl err" "IsVMNotFound (e_lib X) err"
  shows "\<exists>s1. getVM X c s = Some (Inl err, s1) \<and> calls s1 = calls s \<and> \<not> IsFailed (elf s1) \<and>
    (\<exists>s2. getVM X c' s1 = Some (Inl err, s2) \<and> calls s2 = calls s \<and>
       IsFailed (elf s2) = ((mc_Now c div 10 ^ 9) * 10 ^ 9 + VMDisconnectionTimeout < mc_Now c') \<and>
       (IsFailed (elf s2) \<longrightarrow> FailureReason (Status (elf s2)) = Some RemovedFromInfrastructureError))"
proof -
  let ?m = "SetVMDisconnectionTimestamp (e_lib X) (Some (mc_Now c)) (elf s)"
  have m: "Status ?m = Status (elf s)" "IsFailed ?m = IsFailed (elf s)"
    "GetVMDisconnectionTimestamp (e_lib X) ?m = Some ((mc_Now c div 10 ^ 9) * 10 ^ 9)"
    by (simp_all add: SetVMDisconnectionTimestamp_def GetVMDisconnectionTimestamp_def IsFailed_def gm_get_put
        capi_lib.timeParse_format [OF L] Let_def)
  have now: "\<not> VMDisconnectionTimeout < 0" by (simp add: time_defs)
  let ?s1 = "s\<lparr>world := snd (Svc_Get (e_svc X) (VMRef (Status (elf s))) (world s)), elf := ?m\<rparr>"
  have 1: "getVM X c s = Some (Inl err, ?s1)"
    by (simp add: getVM_def query_eq miss assms now Let_def updElf_def)
  have "\<exists>s2. getVM X c' ?s1 = Some (Inl err, s2) \<and> calls s2 = calls s \<and>
       IsFailed (elf s2) = ((mc_Now c div 10 ^ 9) * 10 ^ 9 + VMDisconnectionTimeout < mc_Now c') \<and>
       (IsFailed (elf s2) \<longrightarrow> FailureReason (Status (elf s2)) = Some RemovedFromInfrastructureError)"
    using assms(3) m(2)
    by (simp add: getVM_def query_eq miss assms m Let_def) (simp add: IsFailed_def SetFailure_def m)
  with 1 m assms(3) show ?thesis by (intro exI [of _ ?s1]) simp
qed

definition wit_lost_st :: "(unit, cacheVal ttl) st" where
  "wit_lost_st = updElf (SetVM ''12345678-1234-1234-1234-123456789abc'') wit_st"

theorem disconnection_timeout_witness:
  "\<exists>s1 s2. getVM wit_env wit_ctx wit_lost_st = Some (Inl (ErrMsg VMNotFound), s1) \<and> \<not> IsFailed (elf s1) \<and>
     getVM wit_env (wit_ctx\<lparr>mc_Now := 2 * time_Minute\<rparr>) s1 = Some (Inl (ErrMsg VMNotFound), s2) \<and> IsFailed (elf s2)"
proof -
  have sel: "VMRef (Status (elf wit_lost_st)) = ''12345678-1234-1234-1234-123456789abc''"
    "\<not> IsFailed (elf wit_lost_st)" "GetVMDisconnectionTimestamp (e_lib wit_env) (elf wit_lost_st) = None"
    "IsVMNotFound (e_lib wit_env) (ErrMsg VMNotFound)" "mc_Now wit_ctx = 0"
    "\<And>w. fst (Svc_Get (e_svc wit_env) r w) = Inl (ErrMsg VMNotFound)" for r
    by (simp_all add: wit_lost_st_def wit_st_def wit_elf_def wit_meta_def IsFailed_def IsVMNotFound_def
        GetVMDisconnectionTimestamp_def ref_lib_def wit_svc_def wit_ctx_def SetVM_def)
  have L: "capi_lib (e_lib wit_env)" by (simp add: reflib.capi_lib_axioms)
  have u: "IsUUID (VMRef (Status (elf wit_lost_st)))" by (simp add: sel IsUUID_wit)
  obtain s1 s2 where "getVM wit_env wit_ctx wit_lost_st = Some (Inl (ErrMsg VMNotFound), s1)" "\<not> IsFailed (elf s1)"
    and "getVM wit_env (wit_ctx\<lparr>mc_Now := 2 * time_Minute\<rparr>) s1 = Some (Inl (ErrMsg VMNotFound), s2)"
    and f: "IsFailed (elf s2) = ((mc_Now wit_ctx div 10 ^ 9) * 10 ^ 9 + VMDisconnectionTimeout
      < mc_Now (wit_ctx\<lparr>mc_Now := 2 * time_Minute\<rparr>))"
    using disconnection_timeout [OF L u sel(2,3,6,4), of wit_ctx "wit_ctx\<lparr>mc_Now := 2 * time_Minute\<rparr>"]
    by blast
  moreover have "IsFailed (elf s2)" unfolding f by (simp add: time_defs sel)
  ultimately show ?thesis by blast
qed

end
