(* ===== verification/Elf_Node.thy ===== *)
theory Elf_Node
  imports Elf_Tasks
begin

text \<open>
  \<^verbatim>\<open>controllers/elfmachine_controller.go\<close>, the part that synchronizes the ElfMachine
  and the Kubernetes node with the virtual machine: host, storage and zone, provider ID, node
  labels, network addresses, Tower labels, bootstrap data, failure domain, the deletion of the
  node and of duplicate virtual machines.
\<close>

section \<open>Host, storage and zone\<close>

definition updStatus :: "(elfMachineStatus \<Rightarrow> elfMachineStatus) \<Rightarrow> elfMachine \<Rightarrow> elfMachine" where
  "updStatus f m = m\<lparr>Status := f (Status m)\<rparr>"

definition reconcileHost :: "vm \<Rightarrow> elfMachine \<Rightarrow> elfMachine panics" where
  "reconcileHost v m =
     (case vm_Host v of
        None \<Rightarrow> Some m
      | Some h \<Rightarrow>
          if HostServerName (Status m) \<noteq> GetTowerString (ref_Name h) then do {
            i \<leftarrow> ref_ID h;
            n \<leftarrow> ref_Name h;
            Some (updStatus (\<lambda>st. st\<lparr>HostServerRef := i, HostServerName := n\<rparr>) m) }
          else Some m)"

definition idName :: "nestedRef \<Rightarrow> idNameStatus" where
  "idName r = \<lparr>in_ID = GetTowerString (ref_ID r), in_Name = GetTowerString (ref_Name r)\<rparr>"

definition reconcileComputeCluster :: "vm \<Rightarrow> elfMachine \<Rightarrow> elfMachine" where
  "reconcileComputeCluster v m =
     (case vm_Cluster v of
        None \<Rightarrow> m
      | Some cl \<Rightarrow>
          if \<not> idNameStatus_Equal (idName cl) (ComputeCluster (Status m))
          then updStatus (\<lambda>st. st\<lparr>ComputeCluster := idName cl\<rparr>) m else m)"

definition setStorage :: "storageClusterConfig \<Rightarrow> elfMachine \<Rightarrow> elfMachine" where
  "setStorage cfg m =
     (let m = (case sc_StorageCluster cfg of
                 None \<Rightarrow> m
               | Some r \<Rightarrow> if \<not> idNameStatus_Equal (idName r) (StorageClusterSt (Status m))
                           then updStatus (\<lambda>st. st\<lparr>StorageClusterSt := idName r\<rparr>) m else m)
      in case sc_Datastore cfg of
           None \<Rightarrow> m
         | Some r \<Rightarrow> if \<not> idNameStatus_Equal (idName r) (DataStore (Status m))
                     then updStatus (\<lambda>st. st\<lparr>DataStore := idName r\<rparr>) m else m)"

definition reconcileStorage ::
  "('w, 'c) env \<Rightarrow> machineContext \<Rightarrow> vm \<Rightarrow> ('w, 'c) st \<Rightarrow> (go_error option \<times> ('w, 'c) st) panics" where
  "reconcileStorage X c v s =
     (let vmDiskIDs = concat (map (\<lambda>d. case d of
                                    Some r \<Rightarrow> (case ref_ID r of Some i \<Rightarrow> [i] | None \<Rightarrow> [])
                                  | None \<Rightarrow> []) (vm_VMDisks v))
      in if GetStorageConfig c = None \<or> vm_VMDisks v = [] \<or> vmDiskIDs = [] then Some (None, s)
         else
           (case query (Svc_GetVMDisks (e_svc X) vmDiskIDs) s of
              (Inl err, s) \<Rightarrow>
                Some (Some (ErrWrapf (''failed to get disks for vm '' @ GetTowerString (vm_ID v)) err), s)
            | (Inr vmDisks, s) \<Rightarrow> do {
                systemDisk \<leftarrow> GetVMSystemDisk vmDisks;
                case (case systemDisk of
                        None \<Rightarrow> None
                      | Some d \<Rightarrow> (case vd_VMVolume d of None \<Rightarrow> None | Some vol \<Rightarrow> ref_ID vol)) of
                  None \<Rightarrow> Some (None, s)
                | Some volID \<Rightarrow>
                    (case query (Svc_GetVMVolume (e_svc X) volID) s of
                       (Inl err, s) \<Rightarrow>
                         Some (Some (ErrWrapf (''failed to get storage volume for vm '' @ GetTowerString (vm_ID v)) err), s)
                     | (Inr vmVolume, s) \<Rightarrow>
                         (case vol_StorageClusterConfig vmVolume of
                            None \<Rightarrow> Some (None, s)
                          | Some cfg \<Rightarrow> Some (None, updElf (setStorage cfg) s))) }))"

definition reconcileZone ::
  "('w, 'c) env \<Rightarrow> machineContext \<Rightarrow> ('w, 'c) st \<Rightarrow> (go_error option \<times> ('w, 'c) st) panics" where
  "reconcileZone X c s =
     (case query (Svc_GetClusterZones (e_svc X) (GetElfClusterID c)) s of
        (Inl err, s) \<Rightarrow> Some (Some err, s)
      | (Inr zones, s) \<Rightarrow> do {
          zo \<leftarrow> GetHostZone zones (HostServerRef (Status (elf s)));
          case zo of
            None \<Rightarrow>
              Some (Some (ErrMsg (''failed to get zone for the host %s'' @ HostServerRef (Status (elf s)))), s)
          | Some z \<Rightarrow> do {
              preferred \<leftarrow> z_IsPreferred z;
              zoneID \<leftarrow> z_ID z;
              let zs = \<lparr>zs_ZoneID = zoneID,
                        zs_Type = (if preferred then ElfClusterZoneTypePreferred else ElfClusterZoneTypeSecondary)\<rparr>;
              Some (None, if \<not> zoneStatus_Equal zs (Zone (Status (elf s)))
                          then updElf (updStatus (\<lambda>st. st\<lparr>Zone := zs\<rparr>)) s else s) } })"

definition reconcileHostAndZone ::
  "('w, 'c) env \<Rightarrow> machineContext \<Rightarrow> vm \<Rightarrow> ('w, 'c) st \<Rightarrow> (go_error option \<times> ('w, 'c) st) panics" where
  "reconcileHostAndZone X c v s = do {
     m \<leftarrow> reconcileHost v (elf s);
     let s = s\<lparr>elf := reconcileComputeCluster v m\<rparr>;
     (err, s) \<leftarrow> reconcileStorage X c v s;
     if err \<noteq> None then Some (err, s)
     else if \<not> IsStretched (mc_ElfCluster c) then Some (None, s)
     else reconcileZone X c s }"

section \<open>Provider ID and node\<close>

definition invalidUUID :: "('w, 'c) env \<Rightarrow> machineContext \<Rightarrow> string \<Rightarrow> go_error" where
  "invalidUUID X c localID =
     ErrMsg (''invalid VM UUID '' @ localID @ '' from '' @ e_gvkText X @ '' '' @ om_Namespace (ec_meta (mc_ElfCluster c)) @
       ''/'' @ om_Name (ec_meta (mc_ElfCluster c)) @ '' for '' @ e_ctxText X)"

definition reconcileProviderID ::
  "('w, 'c) env \<Rightarrow> machineContext \<Rightarrow> vm \<Rightarrow> ('w, 'c) st \<Rightarrow> (go_error option \<times> ('w, 'c) st) panics" where
  "reconcileProviderID X c v s = do {
     localID \<leftarrow> vm_LocalID v;
     let providerID = ConvertUUIDToProviderID localID;
     if providerID = [] then Some (Some (invalidUUID X c localID), s)
     else
       Some (None,
         if ProviderID (Spec (elf s)) \<noteq> Some providerID
         then updElf (\<lambda>m. m\<lparr>Spec := (Spec m)\<lparr>ProviderID := Some providerID\<rparr>\<rparr>) s else s) }"

definition getProviderID :: "elfMachine \<Rightarrow> string" where
  "getProviderID m =
     (case ProviderID (Spec m) of
        Some p \<Rightarrow> if p \<noteq> [] then p else ConvertUUIDToProviderID (VMRef (Status m))
      | None \<Rightarrow> ConvertUUIDToProviderID (VMRef (Status m)))"

definition getNode ::
  "('w, 'c) env \<Rightarrow> string \<Rightarrow> ('w, 'c) st \<Rightarrow> (go_error + node) \<times> ('w, 'c) st" where
  "getNode X providerID s =
     (case query (K_NodesByProviderID (e_k8s X) providerID) s of
        (Inl err, s) \<Rightarrow> (Inl err, s)
      | (Inr [], s) \<Rightarrow>
          (case query (K_ListNodes (e_k8s X)) s of
             (Inl err, s) \<Rightarrow> (Inl err, s)
           | (Inr nl, s) \<Rightarrow>
               (case find (\<lambda>n. providerID = n_ProviderID n) nl of
                  Some n \<Rightarrow> (Inr n, s)
                | None \<Rightarrow> (Inl ErrNodeNotFound, s)))
      | (Inr [n], s) \<Rightarrow> (Inr n, s)
      | (Inr (_ # _ # _), s) \<Rightarrow>
          (Inl (ErrMsg (''unexpectedly found more than one Node matching the providerID '' @ providerID)), s))"

text \<open>A client of the workload cluster, then the node with the provider ID.\<close>

definition remoteNode ::
  "('w, 'c) env \<Rightarrow> machineContext \<Rightarrow> string \<Rightarrow> ('w, 'c) st \<Rightarrow> (go_error + (go_error + node)) \<times> ('w, 'c) st" where
  "remoteNode X c providerID s =
     (case query (K_RemoteClient (e_k8s X) (mc_Cluster c)) s of
        (Inl err, s) \<Rightarrow> (Inl (ErrWrapf (''failed to get client for Cluster '' @ klogKObj (cl_meta (mc_Cluster c))) err), s)
      | (Inr _, s) \<Rightarrow> (case getNode X providerID s of (r, s) \<Rightarrow> (Inr r, s)))"

definition ClusterAutoscalerCAPIGPULabel :: string where
  [const_defs]: "ClusterAutoscalerCAPIGPULabel = ''cluster-api/accelerator''"
definition GetClusterAutoscalerCAPIGPULabel :: "objectMeta \<Rightarrow> string" where
  "GetClusterAutoscalerCAPIGPULabel o' = GetLabelValue o' ClusterAutoscalerCAPIGPULabel"
definition topologyZoneLabel :: string where
  [const_defs]: "topologyZoneLabel = ''topology.kubernetes.io/zone''"

definition nodeLabelKeys :: "string list" where
  "nodeLabelKeys =
     [ComputeClusterIDLabel, ComputeClusterNameLabel, StorageClusterIDLabel, StorageClusterNameLabel,
      DataStoreIDLabel, DataStoreNameLabel, HostServerIDLabel, HostServerNameLabel, TowerVMIDLabel,
      NodeGroupLabel, ZoneIDLabel, ZoneTypeLabel, ClusterAutoscalerCAPIGPULabel, topologyZoneLabel]"

definition actualLabels :: "node \<Rightarrow> string option gomap" where
  "actualLabels n =
     (let nodeLabels = (case n_Labels n of None \<Rightarrow> [] | Some ls \<Rightarrow> ls)
      in map (\<lambda>key. (key, gm_get nodeLabels key)) nodeLabelKeys)"

definition autoscalerCAPIGPULabel :: "elfMachine \<Rightarrow> string" where
  "autoscalerCAPIGPULabel m =
     (case GPUDevices (Spec m) of
        d # _ \<Rightarrow> ConvertToLabelValue (gs_Model d)
      | [] \<Rightarrow> (case VGPUDevices (Spec m) of d # _ \<Rightarrow> ConvertToLabelValue (vs_Type d) | [] \<Rightarrow> []))"

definition labelIf :: "bool \<Rightarrow> string \<Rightarrow> string option" where
  "labelIf b v = (if b then Some v else None)"

text \<open>The expected labels, in the order of \<open>nodeLabelKeys\<close>; a nil value removes the label.\<close>

definition expectedLabels :: "machineContext \<Rightarrow> elfMachine \<Rightarrow> vm \<Rightarrow> string option gomap panics" where
  "expectedLabels c m v = do {
     nodeGroup \<leftarrow> GetNodeGroupName (mc_Machine c);
     let st = Status m;
     let datastore = (in_ID (DataStore st) \<noteq> []);
     let storage = (in_ID (StorageClusterSt st) \<noteq> []);
     Some
       [(ComputeClusterIDLabel, Some (in_ID (ComputeCluster st))),
        (ComputeClusterNameLabel, Some (ConvertToLabelValue (in_Name (ComputeCluster st)))),
        (StorageClusterIDLabel, labelIf storage (in_ID (StorageClusterSt st))),
        (StorageClusterNameLabel, labelIf storage (ConvertToLabelValue (in_Name (StorageClusterSt st)))),
        (DataStoreIDLabel, labelIf datastore (in_ID (DataStore st))),
        (DataStoreNameLabel, labelIf datastore (ConvertToLabelValue (in_Name (DataStore st)))),
        (HostServerIDLabel, Some (HostServerRef st)),
        (HostServerNameLabel, Some (ConvertToLabelValue (HostServerName st))),
        (TowerVMIDLabel, Some (GetTowerString (vm_ID v))),
        (NodeGroupLabel, Some nodeGroup),
        (ZoneIDLabel, labelIf (zs_ZoneID (Zone st) \<noteq> []) (zs_ZoneID (Zone st))),
        (ZoneTypeLabel, labelIf (zs_Type (Zone st) \<noteq> []) (zoneType_ToLower (zs_Type (Zone st)))),
        (ClusterAutoscalerCAPIGPULabel, labelIf (autoscalerCAPIGPULabel m \<noteq> []) (autoscalerCAPIGPULabel m)),
        (topologyZoneLabel, labelIf (GetFailureDomain c \<noteq> []) (GetFailureDomain c))] }"

definition reconcileNode ::
  "('w, 'c) env \<Rightarrow> machineContext \<Rightarrow> vm \<Rightarrow> ('w, 'c) st \<Rightarrow> (go_error option \<times> ('w, 'c) st) panics" where
  "reconcileNode X c v s = do {
     localID \<leftarrow> vm_LocalID v;
     let providerID = ConvertUUIDToProviderID localID;
     if providerID = [] then Some (Some (invalidUUID X c localID), s)
     else
       (case remoteNode X c providerID s of
          (Inl err, s) \<Rightarrow> Some (Some err, s)
        | (Inr (Inl err), s) \<Rightarrow> Some (Some (ErrWrapf (''failed to get node by providerID '' @ providerID) err), s)
        | (Inr (Inr n), s) \<Rightarrow> do {
            expected \<leftarrow> expectedLabels c (elf s) v;
            if actualLabels n = expected then Some (None, s)
            else
              (case query (K_PatchNodeLabels (e_k8s X) n expected) s of
                 (Inl err, s) \<Rightarrow> Some (Some err, s)
               | (Inr _, s) \<Rightarrow> Some (None, s)) }) }"

definition deleteNode ::
  "('w, 'c) env \<Rightarrow> machineContext \<Rightarrow> ('w, 'c) st \<Rightarrow> go_error option \<times> ('w, 'c) st" where
  "deleteNode X c s =
     (let providerID = getProviderID (elf s)
      in if om_DeletionTimestamp (cl_meta (mc_Cluster c)) \<noteq> None \<or> \<not> cl_controlPlaneReady (mc_Cluster c) \<or> providerID = []
         then (None, s)
         else
           (case remoteNode X c providerID s of
              (Inl err, s) \<Rightarrow> (Some err, s)
            | (Inr (Inl err), s) \<Rightarrow>
                if err = ErrNodeNotFound then (None, s)
                else (Some (ErrWrapf (''failed to get node by providerID '' @ providerID) err), s)
            | (Inr (Inr n), s) \<Rightarrow>
                (case query (K_DeleteNode (e_k8s X) n) s of
                   (Inr _, s) \<Rightarrow> (None, s)
                 | (Inl err, s) \<Rightarrow>
                     if IsApiNotFound err then (None, s)
                     else
                       (Some (ErrWrapf (''failed to delete K8s node '' @ n_Name n @ '' for Cluster '' @
                                klogKObj (cl_meta (mc_Cluster c)) @ ''/'') err), s))))"

definition getK8sNodeIP ::
  "('w, 'c) env \<Rightarrow> machineContext \<Rightarrow> ('w, 'c) st \<Rightarrow> (go_error + string) \<times> ('w, 'c) st" where
  "getK8sNodeIP X c s =
     (let providerID = getProviderID (elf s)
      in if providerID = [] then (Inr [], s)
         else
           (case remoteNode X c providerID s of
              (Inl err, s) \<Rightarrow> (Inl err, s)
            | (Inr (Inl err), s) \<Rightarrow> (Inl (ErrWrapf (''failed to get node by providerID '' @ providerID) err), s)
            | (Inr (Inr n), s) \<Rightarrow>
                (case find (\<lambda>a. fst a = ''InternalIP'') (n_Addresses n) of
                   Some a \<Rightarrow> (Inr (snd a), s)
                 | None \<Rightarrow> (Inr [], s))))"

section \<open>Network\<close>

text \<open>The addresses by IP, from the network cards that have one.\<close>

fun nicAddresses :: "vmNic list \<Rightarrow> string gomap \<Rightarrow> string gomap" where
  "nicAddresses [] m = m"
| "nicAddresses (nic # nics) m =
     (let ip = GetTowerString (nic_IPAddress nic)
      in nicAddresses nics (if ip = [] then m else gm_put ip ip m))"

text \<open>Whether the addresses found are enough for the devices of the machine.\<close>

definition networkReady :: "elfMachine \<Rightarrow> string gomap \<Rightarrow> bool" where
  "networkReady m ips =
     (let networkDevicesWithDHCP = GetNetworkDevicesRequiringDHCP m;
          dhcpIPNum = length (filter (\<lambda>(_, ip). \<not> IsMachineStaticIP ip m) ips)
      in if length networkDevicesWithDHCP > 0 then \<not> dhcpIPNum < length networkDevicesWithDHCP
         else \<not> length ips < 1)"

definition reconcileNetwork_body ::
  "('w, 'c) env \<Rightarrow> machineContext \<Rightarrow> vm \<Rightarrow> ('w, 'c) st \<Rightarrow> ((bool \<times> go_error option) \<times> ('w, 'c) st) panics" where
  "reconcileNetwork_body X c v s = do {
     let s = updElf (updStatus (\<lambda>st. st\<lparr>NetworkStatuses := [], Addresses := []\<rparr>)) s;
     vmID \<leftarrow> vm_ID v;
     case query (Svc_GetVMNics (e_svc X) vmID) s of
       (Inl err, s) \<Rightarrow> Some ((False, Some err), s)
     | (Inr nics, s) \<Rightarrow>
         (let s = updElf (updStatus (\<lambda>st. st\<lparr>NetworkStatuses := map nicStatus nics\<rparr>)) s;
              ips = nicAddresses nics [];
              (ips, s) =
                (if length ips < length (GetNetworkDevicesRequiringIP (elf s)) then
                   (case getK8sNodeIP X c s of
                      (Inr nodeIP, s) \<Rightarrow> (if nodeIP \<noteq> [] then gm_put nodeIP nodeIP ips else ips, s)
                    | (Inl err, s) \<Rightarrow> (ips, s))
                 else (ips, s))
          in if \<not> networkReady (elf s) ips then Some ((False, None), s)
             else Some ((True, None), updElf (updStatus (\<lambda>st. st\<lparr>Addresses := Addresses st @ map snd ips\<rparr>)) s)) }"

definition reconcileNetwork ::
  "('w, 'c) env \<Rightarrow> machineContext \<Rightarrow> vm \<Rightarrow> ('w, 'c) st \<Rightarrow> ((bool \<times> go_error option) \<times> ('w, 'c) st) panics" where
  "reconcileNetwork X c v s = do {
     ((ret, reterr), s) \<leftarrow> reconcileNetwork_body X c v s;
     Some ((ret, reterr),
       case reterr of
         Some err \<Rightarrow> markFalse X c VMProvisionedCondition WaitingForNetworkAddressesReason SevWarning (errText (e_lib X) err) s
       | None \<Rightarrow>
           if \<not> ret then markFalse X c VMProvisionedCondition WaitingForNetworkAddressesReason SevInfo [] s else s) }"

definition isWaitingForStaticIPAllocation :: "elfMachine \<Rightarrow> bool" where
  "isWaitingForStaticIPAllocation m =
     list_ex (\<lambda>d. nd_NetworkType d = NetworkTypeIPV4 \<and> length (nd_IPAddrs d) = 0) (ns_Devices (Network (Spec m)))"

definition setNetwork :: "networkSpec \<Rightarrow> elfMachine \<Rightarrow> elfMachine" where
  "setNetwork n m = m\<lparr>Spec := (Spec m)\<lparr>Network := n\<rparr>\<rparr>"

definition reconcileFailureDomain :: "machineContext \<Rightarrow> elfMachine \<Rightarrow> bool \<times> elfMachine" where
  "reconcileFailureDomain c m =
     (if GetFailureDomain c = [] then (True, m)
      else
        (case GetCloudFailureDomain c m of
           None \<Rightarrow> (False, m)
         | Some failureDomain \<Rightarrow>
             (let devices = ns_Devices (Network (Spec m)); fdDevices = ns_Devices (fd_Network failureDomain)
              in if length devices = 0 then (True, setNetwork (fd_Network failureDomain) m)
                 else if length devices < length fdDevices then
                   (True, setNetwork ((Network (Spec m))\<lparr>ns_Devices := devices @ drop (length devices) fdDevices\<rparr>) m)
                 else (True, m))))"

section \<open>Bootstrap data and Tower labels\<close>

definition getBootstrapData ::
  "('w, 'c) env \<Rightarrow> machineContext \<Rightarrow> string \<Rightarrow> ('w, 'c) st \<Rightarrow> ((go_error + string) \<times> ('w, 'c) st) panics" where
  "getBootstrapData X c hostName s = do {
     name \<leftarrow> m_bootstrapDataSecretName (mc_Machine c);
     let namespace = om_Namespace (m_meta (mc_Machine c));
     case query (K_GetSecretData (e_k8s X) namespace name) s of
       (Inl err, s) \<Rightarrow>
         Some (Inl (ErrWrapf (''failed to get bootstrap data secret '' @ namespace @ ''/'' @ name) err), s)
     | (Inr secretData, s) \<Rightarrow>
         (case gm_get secretData ''value'' of
            None \<Rightarrow> Some (Inl (ErrMsg ''error retrieving bootstrap data: secret value key is missing''), s)
          | Some value \<Rightarrow> do {
              r \<leftarrow> patchCloudInitBootstrapData (e_yaml X) value hostName;
              Some (r, s) }) }"

definition exceptedLabels :: "('w, 'c) env \<Rightarrow> machineContext \<Rightarrow> elfMachine \<Rightarrow> string gomap" where
  "exceptedLabels X c m =
     (let ls = gm_put (GetVMLabelManaged X) ''true'' [];
          ls = gm_put (GetVMLabelNamespace X) (om_Namespace (em_meta m)) ls;
          ls = gm_put (GetVMLabelClusterName X) (om_Name (ec_meta (mc_ElfCluster c))) ls
      in if IsControlPlaneMachine (em_meta m) then gm_put (GetVMLabelVIP X) (ec_EndpointHost (mc_ElfCluster c)) ls else ls)"

fun currentLabels :: "vmLabel list \<Rightarrow> string list gomap \<Rightarrow> string list gomap" where
  "currentLabels [] m = m"
| "currentLabels (l # ls) m =
     currentLabels ls
       (case (lb_Key l, lb_Value l) of (Some k, Some v) \<Rightarrow> addToGroup k v m | _ \<Rightarrow> m)"

definition labelMissing :: "string list gomap \<Rightarrow> string \<Rightarrow> string \<Rightarrow> bool" where
  "labelMissing current key value =
     (case gm_get current key of None \<Rightarrow> True | Some vs \<Rightarrow> \<not> strContains (strJoin vs '','') value)"

text \<open>The loop over the expected labels, in the order in which the runtime lists them.\<close>

fun upsertLabels ::
  "('w, 'c) env \<Rightarrow> string list gomap \<Rightarrow> string gomap \<Rightarrow> string list \<Rightarrow> ('w, 'c) st \<Rightarrow>
     (go_error + string list) \<times> ('w, 'c) st" where
  "upsertLabels X current [] labelIDs s = (Inr labelIDs, s)"
| "upsertLabels X current ((key, value) # ls) labelIDs s =
     (if labelMissing current key value then
        (case request (CallUpsertLabel key value) (Svc_UpsertLabel (e_svc X) key value) s of
           (Inl err, s) \<Rightarrow> (Inl (ErrWrapf (''failed to upsert label '' @ key) err), s)
         | (Inr label, s) \<Rightarrow>
             upsertLabels X current ls (case lb_ID label of Some i \<Rightarrow> labelIDs @ [i] | None \<Rightarrow> labelIDs) s)
      else upsertLabels X current ls labelIDs s)"

definition reconcileLabels ::
  "('w, 'c) env \<Rightarrow> machineContext \<Rightarrow> vm \<Rightarrow> ('w, 'c) st \<Rightarrow> ((bool \<times> go_error option) \<times> ('w, 'c) st) panics" where
  "reconcileLabels X c v s =
     (case upsertLabels X (currentLabels (vm_Labels v) []) (exceptedLabels X c (elf s)) [] s of
        (Inl err, s) \<Rightarrow> Some ((False, Some err), s)
      | (Inr labelIDs, s) \<Rightarrow>
          if length labelIDs > 0 then do {
            vmID \<leftarrow> vm_ID v;
            case request (CallAddLabels vmID labelIDs) (Svc_AddLabelsToVM (e_svc X) vmID labelIDs) s of
              (Inl err, s) \<Rightarrow> Some ((False, Some err), s)
            | (Inr _, s) \<Rightarrow> Some ((True, None), s) }
          else Some ((True, None), s))"

section \<open>Duplicate virtual machines\<close>

definition checkDuplicateVMDuration :: int where "checkDuplicateVMDuration = 1 * time_Hour"

definition deleteVM ::
  "('w, 'c) env \<Rightarrow> vm \<Rightarrow> ('w, 'c) st \<Rightarrow> (go_error option \<times> ('w, 'c) st) panics" where
  "deleteVM X v s = do {
     vmID \<leftarrow> vm_ID v;
     if vm_EntityAsyncStatus v \<noteq> None then do { _ \<leftarrow> vm_Name v; Some (None, s) }
     else
       (case request (CallDelete vmID) (Svc_Delete (e_svc X) vmID) s of
          (Inl err, s) \<Rightarrow> Some (Some err, s)
        | (Inr task, s) \<Rightarrow> do { _ \<leftarrow> task_ID task; Some (None, s) }) }"

text \<open>Whether the loop skips a virtual machine: its own or one that is not stopped.\<close>

definition skipDuplicate :: "string \<Rightarrow> vm \<Rightarrow> bool panics" where
  "skipDuplicate vmRef v = do {
     i \<leftarrow> vm_ID v;
     if i = vmRef then Some True
     else do {
       l \<leftarrow> vm_LocalID v;
       if l = vmRef then Some True
       else do { status \<leftarrow> vm_Status v; Some (status \<noteq> VMStatusSTOPPED) } } }"

fun firstDuplicate :: "string \<Rightarrow> vm list \<Rightarrow> vm option panics" where
  "firstDuplicate vmRef [] = Some None"
| "firstDuplicate vmRef (v # vs) = do {
     skip \<leftarrow> skipDuplicate vmRef v;
     if skip then firstDuplicate vmRef vs else Some (Some v) }"

definition deleteDuplicateVMs ::
  "('w, 'c) env \<Rightarrow> machineContext \<Rightarrow> ('w, 'c) st \<Rightarrow> ((reconcileResult \<times> go_error option) \<times> ('w, 'c) st) panics" where
  "deleteDuplicateVMs X c s =
     (if om_DeletionTimestamp (em_meta (elf s)) = None \<and>
         mc_Now c > om_CreationTimestamp (em_meta (elf s)) + checkDuplicateVMDuration
      then Some ((noRequeue, None), s)
      else
        (case query (Svc_FindVMsByName (e_svc X) (om_Name (em_meta (elf s)))) s of
           (Inl err, s) \<Rightarrow> Some ((noRequeue, Some err), s)
         | (Inr vms, s) \<Rightarrow>
             if length vms \<le> 1 then Some ((noRequeue, None), s)
             else if VMRef (Status (elf s)) = [] then do {
               _ \<leftarrow> mapP vm_ID vms;
               Some ((requeue (cfg_DefaultRequeueTimeout (e_cfg X)), None), s) }
             else do {
               dup \<leftarrow> firstDuplicate (VMRef (Status (elf s))) vms;
               case dup of
                 None \<Rightarrow> Some ((noRequeue, None), s)
               | Some v \<Rightarrow> do {
                   (err, s) \<leftarrow> deleteVM X v s;
                   if err \<noteq> None then Some ((noRequeue, err), s)
                   else Some ((requeue (cfg_DefaultRequeueTimeout (e_cfg X)), None), s) } }))"

section \<open>Lemmas: frames\<close>

lemma remoteNode_quiet: "remoteNode X c p s = (r, s') \<Longrightarrow> quiet s s'"
  by (auto simp: remoteNode_def getNode_def query_eq split: sum.splits list.splits option.splits)

lemma getK8sNodeIP_quiet: "getK8sNodeIP X c s = (r, s') \<Longrightarrow> quiet s s'"
  by (auto simp: getK8sNodeIP_def Let_def split: sum.splits option.splits prod.splits if_splits dest!: remoteNode_quiet)

lemma deleteNode_quiet: "deleteNode X c s = (r, s') \<Longrightarrow> quiet s s'"
  by (auto simp: deleteNode_def query_eq Let_def split: sum.splits prod.splits if_splits dest!: remoteNode_quiet)

lemma reconcileNode_quiet: "post (reconcileNode X c v s) (\<lambda>(e, s'). quiet s s')"
  unfolding reconcileNode_def
  by (auto simp: post_simps query_eq Let_def split: sum.splits prod.splits dest!: remoteNode_quiet intro!: postI)

lemma updStatus_sels [simp]: "em_meta (updStatus f m) = em_meta m" "Spec (updStatus f m) = Spec m"
  "Status (updStatus f m) = f (Status m)"
  by (simp_all add: updStatus_def)

lemma keepsRefs_updStatus:
  "(\<And>st. VMRef (f st) = VMRef st \<and> TaskRef (f st) = TaskRef st) \<Longrightarrow> keepsRefs s (updElf (updStatus f) s') = keepsRefs s s'"
  by (simp add: keepsRefs_def)

lemma hostZone_keepsRefs: "post (reconcileHostAndZone X c v s) (\<lambda>(e, s'). keepsRefs s s')"
proof -
  have h: "keepsRefs s (s\<lparr>elf := reconcileComputeCluster v m\<rparr>)" if "reconcileHost v (elf s) = Some m" for m
    using that by (auto simp: reconcileHost_def reconcileComputeCluster_def keepsRefs_def bind_eq_Some_conv
        split: option.splits if_splits)
  have st: "keepsRefs s (updElf (setStorage cfg) s1) = keepsRefs s s1" for cfg s1
    by (auto simp: setStorage_def keepsRefs_def Let_def split: option.splits)
  have "post (reconcileStorage X c v s1) (\<lambda>(e, s'). keepsRefs s s')" if "keepsRefs s s1" for s1
    using that by (auto simp: reconcileStorage_def post_simps query_eq st Let_def split: sum.splits option.splits intro!: postI)
  note storage = this
  have zone: "post (reconcileZone X c s1) (\<lambda>(e, s'). keepsRefs s s')" if "keepsRefs s s1" for s1
    using that by (auto simp: reconcileZone_def post_simps query_eq keepsRefs_updStatus Let_def
        split: sum.splits option.splits intro!: postI)
  show ?thesis
  proof (rule postI, clarify)
    fix e s' assume "reconcileHostAndZone X c v s = Some (e, s')"
    then obtain m e1 s1 where "reconcileHost v (elf s) = Some m"
      and "reconcileStorage X c v (s\<lparr>elf := reconcileComputeCluster v m\<rparr>) = Some (e1, s1)"
      and r: "s' = s1 \<or> reconcileZone X c s1 = Some (e, s')"
      by (auto simp: reconcileHostAndZone_def bind_eq_Some_conv split: if_splits)
    then have "keepsRefs s s1" by (auto dest: storage [OF h, THEN postD])
    with r show "keepsRefs s s'" by (auto dest: zone [THEN postD])
  qed
qed

section \<open>Lemmas: node labels\<close>

lemma expected_keys: "expectedLabels c m v = Some e \<Longrightarrow> map fst e = nodeLabelKeys"
  by (auto simp: expectedLabels_def nodeLabelKeys_def bind_eq_Some_conv Let_def)

lemma nodeLabelKeys_distinct: "distinct nodeLabelKeys"
  by (simp add: nodeLabelKeys_def const_defs)

text \<open>A JSON merge patch of the labels: a null removes the label, a string sets it.\<close>

fun mergePatchLabels :: "string option gomap \<Rightarrow> string gomap \<Rightarrow> string gomap" where
  "mergePatchLabels [] labels = labels"
| "mergePatchLabels ((k, None) # ps) labels = mergePatchLabels ps (gm_del k labels)"
| "mergePatchLabels ((k, Some v) # ps) labels = mergePatchLabels ps (gm_put k v labels)"

lemma mergePatch_other: "k \<notin> fst ` set ps \<Longrightarrow> gm_get (mergePatchLabels ps labels) k = gm_get labels k"
  by (induction ps labels rule: mergePatchLabels.induct) (auto simp: gm_get_put gm_get_del)

lemma mergePatch_get:
  "distinct (map fst ps) \<Longrightarrow> (k, vo) \<in> set ps \<Longrightarrow> gm_get (mergePatchLabels ps labels) k = vo"
  by (induction ps labels rule: mergePatchLabels.induct)
    (auto simp: gm_get_put gm_get_del mergePatch_other)

section \<open>Lemmas: duplicates\<close>

lemma firstDuplicate_found:
  "firstDuplicate vmRef vs = Some (Some v) \<Longrightarrow>
     v \<in> set vs \<and> vm_ID v \<noteq> Some vmRef \<and> vm_LocalID v \<noteq> Some vmRef \<and> vm_Status v = Some VMStatusSTOPPED"
  by (induction vs) (auto simp: skipDuplicate_def bind_eq_Some_conv split: if_splits)

lemma deleteVM_calls:
  "post (deleteVM X v s) (\<lambda>(e, s'). calls s' = calls s \<or>
     (\<exists>i. vm_ID v = Some i \<and> vm_EntityAsyncStatus v = None \<and> calls s' = calls s @ [CallDelete i]))"
  unfolding deleteVM_def by (auto simp: post_simps request_eq split: sum.splits intro!: postI)

lemma deleteVM_elf: "post (deleteVM X v s) (\<lambda>(e, s'). elf s' = elf s)"
  unfolding deleteVM_def by (auto simp: post_simps request_eq split: sum.splits intro!: postI)

lemma duplicates_elf: "post (deleteDuplicateVMs X c s) (\<lambda>(r, s'). elf s' = elf s)"
  unfolding deleteDuplicateVMs_def
  by (auto simp: post_simps query_eq deleteVM_elf [THEN post_spec] split: sum.splits option.splits intro!: postI)

section \<open>Lemmas: network\<close>

lemma gm_put_set: "p \<in> set (gm_put k v m) \<Longrightarrow> p = (k, v) \<or> p \<in> set m"
  by (induction m) (auto split: if_splits)

text \<open>A map of non-empty addresses under themselves.\<close>

definition ipMap :: "string gomap \<Rightarrow> bool" where
  "ipMap m \<longleftrightarrow> gm_wf m \<and> (\<forall>p \<in> set m. fst p = snd p \<and> snd p \<noteq> [])"

lemma ipMap_put: "ipMap m \<Longrightarrow> ip \<noteq> [] \<Longrightarrow> ipMap (gm_put ip ip m)"
  by (auto simp: ipMap_def dest!: gm_put_set)

lemma ipMap_nics: "ipMap m \<Longrightarrow> ipMap (nicAddresses nics m)"
  by (induction nics m rule: nicAddresses.induct) (auto simp: Let_def ipMap_put)

lemma ipMap_addresses:
  assumes "ipMap ips"
  shows "distinct (map snd ips)" "[] \<notin> snd ` set ips"
proof -
  have "map snd ips = map fst ips" using assms by (auto simp: ipMap_def)
  then show "distinct (map snd ips)" using assms by (simp only: ipMap_def gm_wf_def)
  show "[] \<notin> snd ` set ips" using assms by (force simp: ipMap_def)
qed

lemma ready_addresses:
  "networkReady m ips \<Longrightarrow> ips \<noteq> [] \<and>
     length (GetNetworkDevicesRequiringDHCP m) \<le> length (filter (\<lambda>ip. \<not> IsMachineStaticIP ip m) (map snd ips))"
  by (auto simp: networkReady_def filter_map comp_def split_def Let_def split: if_splits)

text \<open>The addresses of a network that is ready: one per key, and enough of them.\<close>

lemma network_body:
  "post (reconcileNetwork_body X c v s) (\<lambda>((ok, err), s').
     keepsRefs s s' \<and> (ok \<longrightarrow> err = None) \<and>
     (if ok then distinct (Addresses (Status (elf s'))) \<and> [] \<notin> set (Addresses (Status (elf s'))) \<and>
        Addresses (Status (elf s')) \<noteq> [] \<and>
        length (GetNetworkDevicesRequiringDHCP (elf s)) \<le>
          length (filter (\<lambda>ip. \<not> IsMachineStaticIP ip (elf s)) (Addresses (Status (elf s'))))
      else Addresses (Status (elf s')) = []))"
proof -
  have nics: "ipMap (nicAddresses nics [])" for nics
    by (rule ipMap_nics) (simp add: ipMap_def)
  have dev: "GetNetworkDevicesRequiringDHCP (updStatus f m) = GetNetworkDevicesRequiringDHCP m"
    "IsMachineStaticIP ip (updStatus f m) = IsMachineStaticIP ip m" for f m ip
    by (simp_all add: GetNetworkDevicesRequiringDHCP_def IsMachineStaticIP_def)
  have q: "elf (snd (getK8sNodeIP X c s1)) = elf s1" "calls (snd (getK8sNodeIP X c s1)) = calls s1" for s1
    using getK8sNodeIP_quiet [of X c s1] by (simp_all add: quiet_def prod_eq_iff)
  have dup: "distinct (map snd ips)" "([] \<notin> snd ` set ips)" if "ipMap ips" for ips
    by (rule ipMap_addresses [OF that])+
  show ?thesis
    unfolding reconcileNetwork_body_def
    by (auto simp: post_simps query_eq Let_def split_def dev keepsRefs_def q dup nics ipMap_put ready_addresses
        split: sum.splits intro!: postI dest: ready_addresses)
qed

lemma mark_addresses [simp]:
  "Addresses (Status (emMarkFalse L now t rs sev msg m)) = Addresses (Status m)"
  by (simp add: emMarkFalse_def)

section \<open>Properties\<close>

text \<open>
  Property C32. Deleting duplicates never touches the machine's own virtual machine: one run deletes at
  most one virtual machine; that one was returned by the search for the machine's name together
  with at least one other, its ID and its UUID differ from the recorded reference, it is stopped
  and no operation runs on it.
\<close>

theorem duplicates_spare_own_vm:
  assumes "deleteDuplicateVMs X c s = Some (r, s')"
  shows "calls s' = calls s \<or>
    (\<exists>i v vms. fst (Svc_FindVMsByName (e_svc X) (om_Name (em_meta (elf s))) (world s)) = Inr vms \<and> v \<in> set vms \<and>
       1 < length vms \<and> calls s' = calls s @ [CallDelete i] \<and> vm_ID v = Some i \<and>
       i \<noteq> VMRef (Status (elf s)) \<and> vm_LocalID v \<noteq> Some (VMRef (Status (elf s))) \<and>
       vm_Status v = Some VMStatusSTOPPED \<and> vm_EntityAsyncStatus v = None)"
proof -
  have "post (deleteDuplicateVMs X c s) (\<lambda>(r, s'). calls s' = calls s \<or>
    (\<exists>i v vms. fst (Svc_FindVMsByName (e_svc X) (om_Name (em_meta (elf s))) (world s)) = Inr vms \<and> v \<in> set vms \<and>
       1 < length vms \<and> calls s' = calls s @ [CallDelete i] \<and> vm_ID v = Some i \<and>
       i \<noteq> VMRef (Status (elf s)) \<and> vm_LocalID v \<noteq> Some (VMRef (Status (elf s))) \<and>
       vm_Status v = Some VMStatusSTOPPED \<and> vm_EntityAsyncStatus v = None))"
    unfolding deleteDuplicateVMs_def
    by (auto simp: post_simps query_eq deleteVM_calls [THEN post_spec] not_le split: sum.splits option.splits
        intro!: postI dest!: firstDuplicate_found) fastforce+
  from postD [OF this assms] show ?thesis by simp
qed

definition wit_dup_env :: "(unit, cacheVal ttl) env" where
  "wit_dup_env = wit_env\<lparr>e_svc := wit_svc
     \<lparr>Svc_FindVMsByName := (\<lambda>_ w. (Inr [wit_vm, wit_vm\<lparr>vm_ID := Some ''v2'', vm_LocalID := Some ''l2''\<rparr>], w)),
      Svc_Delete := (\<lambda>_ w. (Inr wit_task, w))\<rparr>\<rparr>"

definition wit_dup_st :: "(unit, cacheVal ttl) st" where
  "wit_dup_st = updElf (SetVM ''v1'') wit_st"

lemma wit_dup:
  "\<exists>r s'. deleteDuplicateVMs wit_dup_env wit_ctx wit_dup_st = Some (r, s') \<and> calls s' = [CallDelete ''v2'']"
proof -
  have sel: "VMRef (Status (elf wit_dup_st)) = ''v1''" "calls wit_dup_st = []" "mc_Now wit_ctx = 0"
    "om_CreationTimestamp (em_meta (elf wit_dup_st)) = 0"
    "Svc_FindVMsByName (e_svc wit_dup_env) n w = (Inr [wit_vm, wit_vm\<lparr>vm_ID := Some ''v2'', vm_LocalID := Some ''l2''\<rparr>], w)"
    "Svc_Delete (e_svc wit_dup_env) i w = (Inr wit_task, w)" for n i w
    by (simp_all add: wit_dup_st_def wit_st_def wit_elf_def wit_meta_def wit_ctx_def wit_dup_env_def)
  show ?thesis
    by (simp add: deleteDuplicateVMs_def sel query_eq request_eq skipDuplicate_def wit_vm_def deleteVM_def wit_task_def
        checkDuplicateVMDuration_def time_defs)
qed

theorem duplicates_spare_own_vm_witness:
  "''v2'' \<noteq> VMRef (Status (elf wit_dup_st))"
proof -
  obtain r s' where "deleteDuplicateVMs wit_dup_env wit_ctx wit_dup_st = Some (r, s')"
    and c: "calls s' = [CallDelete ''v2'']" using wit_dup by blast
  from duplicates_spare_own_vm [OF this(1)] c show ?thesis by (auto simp: wit_dup_st_def wit_st_def)
qed

text \<open>
  Property C33. The network counts as ready only with enough addresses: on success the addresses are
  distinct, non-empty strings, there is at least one, and those that are not static are at least
  as many as the DHCP devices; otherwise the ElfMachine has no address and its condition
  \<^verbatim>\<open>VMProvisioned\<close> is false with the reason that addresses are awaited.
\<close>

theorem network_ready_addresses:
  assumes "capi_lib (e_lib X)" and "reconcileNetwork X c v s = Some ((ok, err), s')"
  shows "if ok then err = None \<and> distinct (Addresses (Status (elf s'))) \<and> [] \<notin> set (Addresses (Status (elf s'))) \<and>
      Addresses (Status (elf s')) \<noteq> [] \<and>
      length (GetNetworkDevicesRequiringDHCP (elf s)) \<le>
        length (filter (\<lambda>ip. \<not> IsMachineStaticIP ip (elf s)) (Addresses (Status (elf s'))))
    else Addresses (Status (elf s')) = [] \<and>
      condIsFalse (e_lib X) (Conditions (Status (elf s'))) VMProvisionedCondition \<and>
      elfReason X VMProvisionedCondition s' = WaitingForNetworkAddressesReason"
proof -
  obtain sb where b: "reconcileNetwork_body X c v s = Some ((ok, err), sb)"
    and s': "s' = (case err of
         Some err \<Rightarrow> markFalse X c VMProvisionedCondition WaitingForNetworkAddressesReason SevWarning (errText (e_lib X) err) sb
       | None \<Rightarrow>
           if \<not> ok then markFalse X c VMProvisionedCondition WaitingForNetworkAddressesReason SevInfo [] sb else sb)"
    using assms(2) by (auto simp: reconcileNetwork_def bind_eq_Some_conv)
  have m: "condIsFalse (e_lib X) (Conditions (Status (elf (markFalse X c t rs sev msg sb)))) t \<and>
      elfReason X t (markFalse X c t rs sev msg sb) = rs" for t rs sev msg
    using capi_lib.markFalse_views [OF assms(1)]
    by (simp add: markFalse_def emMarkFalse_def elfReason_def)
  from network_body [THEN postD, OF b] s' m show ?thesis
    by (auto split: option.splits if_splits)
qed

theorem network_ready_addresses_witness:
  "\<exists>s'. reconcileNetwork wit_done_env wit_ctx wit_vm wit_st = Some ((True, None), s') \<and>
     Addresses (Status (elf s')) \<noteq> []"
proof -
  have sel: "fst (Svc_GetVMNics (e_svc wit_done_env) i w) = Inr [\<lparr>nic_ID = None, nic_IPAddress = Some ''10.0.0.2'',
         nic_MacAddress = None, nic_Gateway = None, nic_SubnetMask = None\<rparr>]"
      "ns_Devices (Network (Spec (elf wit_st))) = []" "capi_lib (e_lib wit_done_env)" for i w
    by (simp_all add: wit_done_env_def wit_st_def wit_elf_def reflib.capi_lib_axioms)
  have "\<exists>s'. reconcileNetwork wit_done_env wit_ctx wit_vm wit_st = Some ((True, None), s')"
    by (simp add: reconcileNetwork_def reconcileNetwork_body_def query_eq sel wit_vm_def GetTowerString_def
        GetNetworkDevicesRequiringIP_def GetNetworkDevicesRequiringDHCP_def networkReady_def Let_def)
  with network_ready_addresses [OF sel(3)] show ?thesis by fastforce
qed

text \<open>
  Node labels converge: after the merge patch that the reconciler sends, the labels it
  looks at are exactly the expected ones, so that the next run sends no patch; labels under other
  keys are kept.
\<close>

theorem node_labels_converge:
  assumes "expectedLabels c m v = Some expected"
  shows "actualLabels (n\<lparr>n_Labels := Some (mergePatchLabels expected labels)\<rparr>) = expected \<and>
    (\<forall>key. key \<notin> set nodeLabelKeys \<longrightarrow> gm_get (mergePatchLabels expected labels) key = gm_get labels key)"
proof -
  have k: "map fst expected = nodeLabelKeys" by (rule expected_keys [OF assms])
  then have d: "distinct (map fst expected)" by (simp add: nodeLabelKeys_distinct)
  have "map (\<lambda>key. (key, gm_get (mergePatchLabels expected labels) key)) (map fst expected) = expected"
    by (auto simp: comp_def mergePatch_get [OF d] intro!: map_idI)
  moreover have "key \<notin> fst ` set expected" if "key \<notin> set nodeLabelKeys" for key
    using that by (simp flip: k)
  ultimately show ?thesis
    by (simp add: actualLabels_def k mergePatch_other)
qed

theorem node_labels_converge_witness:
  "\<exists>e. expectedLabels wit_ctx wit_elf wit_vm = Some e \<and>
     actualLabels (\<lparr>n_Name = [], n_ProviderID = [], n_Labels = Some (mergePatchLabels e []), n_Addresses = []\<rparr>) = e"
proof -
  have "expectedLabels wit_ctx wit_elf wit_vm \<noteq> None"
    by (simp add: expectedLabels_def GetNodeGroupName_def wit_ctx_def wit_meta_def IsControlPlaneMachine_def Let_def)
  then obtain e where e: "expectedLabels wit_ctx wit_elf wit_vm = Some e" by blast
  with node_labels_converge [OF e, of "[]" "\<lparr>n_Name = [], n_ProviderID = [], n_Labels = None, n_Addresses = []\<rparr>"]
  show ?thesis by simp
qed

text \<open>
  The network of a machine in a failure domain only grows: when the failure domain is
  known, the machine keeps the devices it has, in order, has at least as many as the domain
  afterwards, and a second run changes nothing; when the domain is not known, nothing changes
  and the reconcile waits.
\<close>

theorem failure_domain_network:
  assumes "reconcileFailureDomain c m = (ok, m')"
  shows "prefix (ns_Devices (Network (Spec m))) (ns_Devices (Network (Spec m'))) \<and>
    Status m' = Status m \<and> reconcileFailureDomain c m' = (ok, m') \<and>
    (if ok then \<forall>d. GetCloudFailureDomain c m = Some d \<longrightarrow>
        length (ns_Devices (fd_Network d)) \<le> length (ns_Devices (Network (Spec m')))
     else GetFailureDomain c \<noteq> [] \<and> GetCloudFailureDomain c m = None \<and> m' = m)"
proof -
  have g: "GetCloudFailureDomain c (setNetwork n m) = GetCloudFailureDomain c m"
    "Network (Spec (setNetwork n m)) = n" "setNetwork n (setNetwork n' m) = setNetwork n m"
    "Status (setNetwork n m) = Status m" for n n' m
    by (simp_all add: GetCloudFailureDomain_def setNetwork_def Let_def)
  have none: "GetCloudFailureDomain c m = None" if "GetFailureDomain c = []"
    using that by (simp add: GetCloudFailureDomain_def)
  show ?thesis
    using assms none
    by (auto simp: reconcileFailureDomain_def g Let_def split: option.splits if_splits)
qed

definition wit_fd :: cloudFailureDomain where
  "wit_fd = \<lparr>fd_ComputeCluster = ''fd1'', fd_Network = \<lparr>ns_Devices =
      [\<lparr>nd_NetworkType = NetworkTypeIPV4DHCP, nd_Vlan = ''v'', nd_IPAddrs = [], nd_Netmask = [], nd_MACAddr = [],
        nd_Routes = [], nd_AddressesFromPools = [], nd_DefaultRoute = True, nd_Nameservers = []\<rparr>],
      ns_Nameservers = [], ns_PreferredAPIServerCIDR = []\<rparr>, fd_HostNamePrefix = []\<rparr>"

theorem failure_domain_network_witness:
  "\<exists>m'. reconcileFailureDomain (wit_ctx\<lparr>mc_Machine := (mc_Machine wit_ctx)\<lparr>m_failureDomain := Some ''fd1''\<rparr>\<rparr>)
      (wit_elf\<lparr>Spec := (Spec wit_elf)\<lparr>FailureDomains := [wit_fd]\<rparr>\<rparr>) = (True, m') \<and>
    1 \<le> length (ns_Devices (Network (Spec m')))"
proof -
  let ?c = "wit_ctx\<lparr>mc_Machine := (mc_Machine wit_ctx)\<lparr>m_failureDomain := Some ''fd1''\<rparr>\<rparr>"
  let ?m = "wit_elf\<lparr>Spec := (Spec wit_elf)\<lparr>FailureDomains := [wit_fd]\<rparr>\<rparr>"
  have g: "GetCloudFailureDomain ?c ?m = Some wit_fd"
    by (simp add: GetCloudFailureDomain_def GetFailureDomain_def wit_fd_def)
  have "\<exists>m'. reconcileFailureDomain ?c ?m = (True, m')"
    using g by (simp add: reconcileFailureDomain_def GetFailureDomain_def Let_def)
  then obtain m' where r: "reconcileFailureDomain ?c ?m = (True, m')" ..
  from failure_domain_network [OF r] g have "length (ns_Devices (fd_Network wit_fd)) \<le> length (ns_Devices (Network (Spec m')))"
    by simp
  then have "1 \<le> length (ns_Devices (Network (Spec m')))" by (simp add: wit_fd_def)
  with r show ?thesis by blast
qed

end
