(* ===== verification/Elf_Machine.thy ===== *)
theory Elf_Machine
  imports Elf_Node
begin

text \<open>
  \<^verbatim>\<open>controllers/elfmachine_controller.go\<close>, the reconciler itself: creating and
  maintaining the virtual machine, deleting it, and the entry point with its deferred patch. The
  clock is read once per reconcile (\<open>mc_Now\<close>).
\<close>

section \<open>Creating the virtual machine\<close>

text \<open>
  The parts of \<^verbatim>\<open>reconcileVM\<close> return \<^term>\<open>None\<close> to continue and
  \<^term>\<open>Some err\<close> for \<^verbatim>\<open>return nil, false, err\<close>.
\<close>

definition cloneVM ::
  "('w, 'c) env \<Rightarrow> machineContext \<Rightarrow> cloneVMInfo \<Rightarrow> ('w, 'c) st \<Rightarrow> (go_error option option \<times> ('w, 'c) st) panics" where
  "cloneVM X c vmInfo s =
     (case request (CallClone (om_Name (em_meta (elf s))) vmInfo)
             (Svc_Clone (e_svc X) (mc_ElfCluster c) (elf s) vmInfo) s of
        (Inl err, s) \<Rightarrow>
          (let s = releaseCreateTicket X s
           in if IsVMDuplicate (e_lib X) err then
                (case query (Svc_GetByName (e_svc X) (om_Name (em_meta (elf s)))) s of
                   (Inl err, s) \<Rightarrow> Some (Some (Some err), s)
                 | (Inr v, s) \<Rightarrow> do { vmRef \<leftarrow> GetVMRef (Some v); Some (None, updElf (SetVM vmRef) s) })
              else
                Some (Some (Some err),
                  markFalse X c VMProvisionedCondition CloningFailedReason SevWarning (errText (e_lib X) err)
                    (unlockIfGPU c s)))
      | (Inr withTaskVM, s) \<Rightarrow> do {
          vmID \<leftarrow> wt_DataID withTaskVM;
          let s = updElf (SetVM vmID) s;
          taskID \<leftarrow> wt_TaskID withTaskVM;
          Some (None, updElf (SetTask taskID) s) })"

text \<open>The host of the new virtual machine and the devices selected for it.\<close>

definition selectHost ::
  "('w, 'c) env \<Rightarrow> machineContext \<Rightarrow> ('w, 'c) st \<Rightarrow>
     ((go_error + (string \<times> gpuDeviceInfo list) option) \<times> ('w, 'c) st) panics" where
  "selectHost X c s =
     (if IsControlPlaneMachine (m_meta (mc_Machine c)) then do {
        ((hostID, err), s) \<leftarrow> preCheckPlacementGroup X c s;
        Some (case err of Some e \<Rightarrow> Inl e | None \<Rightarrow> Inr (map_option (\<lambda>h. (h, [])) hostID), s) }
      else selectHostAndGPUsForVM X c [] s)"

definition createVM_ticket ::
  "('w, 'c) env \<Rightarrow> machineContext \<Rightarrow> string \<Rightarrow> string \<Rightarrow> ('w, 'c) st \<Rightarrow> (go_error option option \<times> ('w, 'c) st) panics" where
  "createVM_ticket X c hostName bootstrapData s = do {
     (r, s) \<leftarrow> selectHost X c s;
     case r of
       Inl err \<Rightarrow> Some (Some (Some err), releaseCreateTicket X s)
     | Inr None \<Rightarrow> Some (Some None, releaseCreateTicket X s)
     | Inr (Some (hostID, gpuDeviceInfos)) \<Rightarrow>
         cloneVM X c
           \<lparr>cvi_Cluster = GetElfClusterID c, cvi_StorageConfig = GetStorageConfig c, cvi_Host = hostID,
            cvi_CloudInit = bootstrapData, cvi_GPUDevices = gpuDeviceInfos, cvi_HostName = hostName\<rparr> s }"

definition createVM_schedule ::
  "('w, 'c) env \<Rightarrow> machineContext \<Rightarrow> string \<Rightarrow> string \<Rightarrow> ('w, 'c) st \<Rightarrow> (go_error option option \<times> ('w, 'c) st) panics" where
  "createVM_schedule X c hostName bootstrapData s = do {
     ((ok, message, err), s) \<leftarrow> isELFScheduleVMErrorRecorded X c s;
     if err \<noteq> None then Some (Some err, s)
     else do {
       ((canRetry, err), s) \<leftarrow> (if ok then canRetryVMOperation X c s else Some ((True, None), s));
       if err \<noteq> None then Some (Some err, s)
       else if \<not> canRetry then Some (Some None, s)
       else
         (let ((ok, msg), g) = acquireTicketForCreateVM (e_cache X) (e_cfg X) (mc_Now c) (om_Name (em_meta (elf s)))
                                 (IsControlPlaneMachine (em_meta (elf s))) (glob s);
              s = s\<lparr>glob := g\<rparr>
          in if \<not> ok then Some (Some None, s)
             else createVM_ticket X c hostName bootstrapData s) } }"

definition createVM ::
  "('w, 'c) env \<Rightarrow> machineContext \<Rightarrow> ('w, 'c) st \<Rightarrow> (go_error option option \<times> ('w, 'c) st) panics" where
  "createVM X c s = do {
     let s = (if \<not> condHas (e_lib X) (Conditions (Status (elf s))) VMProvisionedCondition
              then markFalse X c VMProvisionedCondition CloningReason SevInfo [] s else s);
     let (hostName, s) = GenerateHostname X c s;
     (r, s) \<leftarrow> getBootstrapData X c hostName s;
     case r of
       Inl err \<Rightarrow>
         Some (Some (Some err), markFalse X c VMProvisionedCondition CloningFailedReason SevWarning (errText (e_lib X) err) s)
     | Inr bootstrapData \<Rightarrow>
         if bootstrapData = [] then Some (Some (Some (ErrMsg ''bootstrapData is empty'')), s)
         else createVM_schedule X c hostName bootstrapData s }"

section \<open>Maintaining the virtual machine\<close>

type_synonym vmResult = "vm option \<times> bool \<times> go_error option"

definition moveToRecycleBin :: "('w, 'c) st \<Rightarrow> ('w, 'c) st" where
  "moveToRecycleBin s =
     updElf (SetVM []) (updElf (SetFailure MovedToRecycleBinError
       (''The VM '' @ VMRef (Status (elf s)) @ '' was moved to the Tower recycle bin by users, so treat it as deleted.'')) s)"

text \<open>The tail of \<^verbatim>\<open>reconcileVM\<close>: placement group, devices, power state, resources.\<close>

definition reconcileVM_run ::
  "('w, 'c) env \<Rightarrow> machineContext \<Rightarrow> vm \<Rightarrow> ('w, 'c) st \<Rightarrow> ((bool \<times> go_error option) \<times> ('w, 'c) st) panics" where
  "reconcileVM_run X c v s = do {
     ((ok, err), s) \<leftarrow>
       andThenOk (joinPlacementGroup X c v s) (\<lambda>s.
       andThenOk (reconcileGPUDevices X c v s) (\<lambda>s.
       andThenOk (reconcileVMStatus X c v s) (\<lambda>s.
       reconcileVMResources X c v s)));
     Some ((ok \<and> err = None, err), s) }"

definition reconcileVM_found ::
  "('w, 'c) env \<Rightarrow> machineContext \<Rightarrow> vm \<Rightarrow> ('w, 'c) st \<Rightarrow> (vmResult \<times> ('w, 'c) st) panics" where
  "reconcileVM_found X c v s = do {
     let s = (if GetVMDisconnectionTimestamp (e_lib X) (elf s) \<noteq> None
              then updElf (SetVMDisconnectionTimestamp (e_lib X) None) s else s);
     ((ok, err), s) \<leftarrow> reconcileVMTask X c (Some v) s;
     if err \<noteq> None then Some ((None, False, err), s)
     else if \<not> ok then Some ((Some v, False, None), s)
     else do {
       vmRef \<leftarrow> GetVMRef (Some v);
       if \<not> IsUUID vmRef then Some ((Some v, False, None), s)
       else do {
         let s = (if \<not> IsUUID (VMRef (Status (elf s))) then updElf (SetVM vmRef) s else s);
         (err, s) \<leftarrow> reconcileHostAndZone X c v s;
         if err \<noteq> None then Some ((None, False, err), s)
         else if IsVMInRecycleBin v then Some ((Some v, False, None), moveToRecycleBin s)
         else do {
           ((ok, err), s) \<leftarrow> reconcileVM_run X c v s;
           Some ((Some v, ok, err), s) } } } }"

definition reconcileVM ::
  "('w, 'c) env \<Rightarrow> machineContext \<Rightarrow> ('w, 'c) st \<Rightarrow> (vmResult \<times> ('w, 'c) st) panics" where
  "reconcileVM X c s = do {
     (ret, s) \<leftarrow> (if \<not> HasVM (elf s) then createVM X c s else Some (None, s));
     case ret of
       Some err \<Rightarrow> Some ((None, False, err), s)
     | None \<Rightarrow> do {
         (r, s) \<leftarrow> getVM X c s;
         case r of
           Inl err \<Rightarrow> Some ((None, False, Some err), s)
         | Inr v \<Rightarrow> reconcileVM_found X c v s } }"

section \<open>Deletion\<close>

definition DeletingReason :: string where [const_defs]: "DeletingReason = ''Deleting''"
definition DeletionFailedReason :: string where [const_defs]: "DeletionFailedReason = ''DeletionFailed''"
definition ControlPlaneInitializedCondition :: string where
  [const_defs]: "ControlPlaneInitializedCondition = ''ControlPlaneInitialized''"
definition WaitingForControlPlaneAvailableReason :: string where
  [const_defs]: "WaitingForControlPlaneAvailableReason = ''WaitingForControlPlaneAvailable''"

definition stopForDeletion ::
  "('w, 'c) env \<Rightarrow> machineContext \<Rightarrow> ('w, 'c) st \<Rightarrow> (go_error option \<times> ('w, 'c) st) panics" where
  "stopForDeletion X c s =
     (let vmRef = VMRef (Status (elf s));
          (r, s) =
            (if IsShutDownTimeout (elfMessage X VMProvisionedCondition s) \<or>
                \<not> (RequiresVGPUDevices (elf s) \<or> ec_VMGracefulShutdown (mc_ElfCluster c))
             then request (CallPowerOff vmRef) (Svc_PowerOff (e_svc X) vmRef) s
             else request (CallShutDown vmRef) (Svc_ShutDown (e_svc X) vmRef) s)
      in case r of
           Inl err \<Rightarrow> Some (Some err, s)
         | Inr task \<Rightarrow> do { i \<leftarrow> task_ID task; Some (None, updElf (SetTask i) s) })"

definition reconcileDeleteVM ::
  "('w, 'c) env \<Rightarrow> machineContext \<Rightarrow> ('w, 'c) st \<Rightarrow> (go_error option \<times> ('w, 'c) st) panics" where
  "reconcileDeleteVM X c s =
     (case query (Svc_Get (e_svc X) (VMRef (Status (elf s)))) s of
        (Inl err, s) \<Rightarrow> Some (Some err, if IsVMNotFound (e_lib X) err then updElf (SetVM []) s else s)
      | (Inr v, s) \<Rightarrow> do {
          ((ok, err), s) \<leftarrow> reconcileVMTask X c (Some v) s;
          if err \<noteq> None then Some (err, s)
          else if \<not> ok then Some (None, s)
          else do {
            status \<leftarrow> vm_Status v;
            if status = VMStatusRUNNING then stopForDeletion X c s
            else
              (case deleteNode X c s of
                 (Some err, s) \<Rightarrow> Some (Some err, s)
               | (None, s) \<Rightarrow>
                   (let vmRef = VMRef (Status (elf s)) in
                    case request (CallDelete vmRef) (Svc_Delete (e_svc X) vmRef) s of
                      (Inl err, s) \<Rightarrow> Some (Some err, s)
                    | (Inr task, s) \<Rightarrow> do { i \<leftarrow> task_ID task; Some (None, updElf (SetTask i) s) })) } })"

definition removeFinalizer :: "('w, 'c) env \<Rightarrow> ('w, 'c) st \<Rightarrow> ('w, 'c) st" where
  "removeFinalizer X =
     updElf (\<lambda>m. m\<lparr>em_meta := (em_meta m)\<lparr>om_Finalizers := finRemove (e_lib X) (om_Finalizers (em_meta m)) MachineFinalizer\<rparr>\<rparr>)"

definition reconcileDelete_vm ::
  "('w, 'c) env \<Rightarrow> machineContext \<Rightarrow> ('w, 'c) st \<Rightarrow> ((reconcileResult \<times> go_error option) \<times> ('w, 'c) st) panics" where
  "reconcileDelete_vm X c s = do {
     ((result, err), s) \<leftarrow> deleteDuplicateVMs X c s;
     if err \<noteq> None \<or> result \<noteq> noRequeue then Some ((result, err), s)
     else do {
       (err, s) \<leftarrow> reconcileDeleteVM X c s;
       case err of
         Some e \<Rightarrow>
           if IsVMNotFound (e_lib X) e then Some ((noRequeue, None), removeFinalizer X s)
           else
             Some ((noRequeue, Some e),
               markFalse X c VMProvisionedCondition DeletionFailedReason SevWarning (errText (e_lib X) e) s)
       | None \<Rightarrow> Some ((requeue (cfg_DefaultRequeueTimeout (e_cfg X)), None), s) } }"

definition reconcileDelete_body ::
  "('w, 'c) env \<Rightarrow> machineContext \<Rightarrow> ('w, 'c) st \<Rightarrow> ((reconcileResult \<times> go_error option) \<times> ('w, 'c) st) panics" where
  "reconcileDelete_body X c s = do {
     ((ok, err), s) \<leftarrow> deletePlacementGroup X c s;
     if err \<noteq> None then Some ((noRequeue, err), s)
     else if \<not> ok then Some ((requeue (cfg_DefaultRequeueTimeout (e_cfg X)), None), s)
     else if HasForceDeleteCluster (mc_ElfCluster c) then Some ((noRequeue, None), removeFinalizer X s)
     else if \<not> HasVM (elf s) then
       (case query (Svc_GetByName (e_svc X) (om_Name (em_meta (elf s)))) s of
          (Inl err, s) \<Rightarrow>
            if \<not> IsVMNotFound (e_lib X) err then Some ((noRequeue, Some err), s)
            else Some ((noRequeue, None), removeFinalizer X s)
        | (Inr v, s) \<Rightarrow> do { vmRef \<leftarrow> GetVMRef (Some v); reconcileDelete_vm X c (updElf (SetVM vmRef) s) })
     else reconcileDelete_vm X c s }"

definition reconcileDelete ::
  "('w, 'c) env \<Rightarrow> machineContext \<Rightarrow> ('w, 'c) st \<Rightarrow> ((reconcileResult \<times> go_error option) \<times> ('w, 'c) st) panics" where
  "reconcileDelete X c s = do {
     (r, s) \<leftarrow> reconcileDelete_body X c (markFalse X c VMProvisionedCondition DeletingReason SevInfo [] s);
     Some (r, if \<not> finContains (e_lib X) (om_Finalizers (em_meta (elf s))) MachineFinalizer
              then unlockIfGPU c s else s) }"

section \<open>Reconciling a machine that is not deleted\<close>

text \<open>\<^verbatim>\<open>patchutil.AddFinalizerWithOptimisticLock\<close>: the patch is made from a modified copy.\<close>

definition AddFinalizerWithOptimisticLock ::
  "('w, 'c) env \<Rightarrow> elfMachine \<Rightarrow> string \<Rightarrow> ('w, 'c) st \<Rightarrow> go_error option \<times> ('w, 'c) st" where
  "AddFinalizerWithOptimisticLock X obj finalizer s =
     (let modifiedObj = obj\<lparr>em_meta := (em_meta obj)\<lparr>om_Finalizers := finAdd (e_lib X) (om_Finalizers (em_meta obj)) finalizer\<rparr>\<rparr>
      in case query (K_PatchElfMachineFrom (e_k8s X) obj modifiedObj) s of
           (Inl err, s) \<Rightarrow> (Some err, s)
         | (Inr _, s) \<Rightarrow> (None, s))"

definition String :: "('w, 'c) env \<Rightarrow> elfMachine \<Rightarrow> string" where
  "String X m = e_gvkText X @ '' '' @ om_Namespace (em_meta m) @ ''/'' @ om_Name (em_meta m)"

text \<open>What follows once the virtual machine runs and has no task.\<close>

definition reconcileNormal_running ::
  "('w, 'c) env \<Rightarrow> machineContext \<Rightarrow> vm \<Rightarrow> ('w, 'c) st \<Rightarrow> ((reconcileResult \<times> go_error option) \<times> ('w, 'c) st) panics" where
  "reconcileNormal_running X c v s = do {
     ((ok, err), s) \<leftarrow> reconcileLabels X c v s;
     if \<not> ok then Some ((noRequeue, map_option (ErrWrapf ''failed to reconcile labels'') err), s)
     else do {
       (err, s) \<leftarrow> reconcileProviderID X c v s;
       case err of
         Some e \<Rightarrow>
           Some ((noRequeue, Some (ErrWrapf (''unexpected error while reconciling providerID for '' @ String X (elf s)) e)), s)
       | None \<Rightarrow> do {
           ((ok, err), s) \<leftarrow> reconcileNetwork X c v s;
           if err \<noteq> None then Some ((noRequeue, err), s)
           else if \<not> ok then Some ((requeue (cfg_DefaultRequeueTimeout (e_cfg X)), None), s)
           else do {
             let s = markTrue X c VMProvisionedCondition (updElf (updStatus (\<lambda>st. st\<lparr>Ready := True\<rparr>)) s);
             (err, s) \<leftarrow> reconcileNode X c v s;
             if err \<noteq> None then Some ((noRequeue, err), s)
             else deleteDuplicateVMs X c s } } } }"

definition reconcileNormal_vm ::
  "('w, 'c) env \<Rightarrow> machineContext \<Rightarrow> ('w, 'c) st \<Rightarrow> ((reconcileResult \<times> go_error option) \<times> ('w, 'c) st) panics" where
  "reconcileNormal_vm X c s = do {
     ((vo, ok, err), s) \<leftarrow> reconcileVM X c s;
     if IsFailed (elf s) then Some ((noRequeue, None), s)
     else
       (case err of
          Some e \<Rightarrow>
            if IsVMNotFound (e_lib X) e then Some ((requeue (cfg_DefaultRequeueTimeout (e_cfg X)), None), s)
            else Some ((noRequeue, Some (ErrWrapf ''failed to reconcile VM'' e)), s)
        | None \<Rightarrow>
            if \<not> ok \<or> HasTask (elf s) then Some ((requeue (cfg_DefaultRequeueTimeout (e_cfg X)), None), s)
            else do { v \<leftarrow> vo; reconcileNormal_running X c v s }) }"

definition reconcileNormal_ready ::
  "('w, 'c) env \<Rightarrow> machineContext \<Rightarrow> ('w, 'c) st \<Rightarrow> ((reconcileResult \<times> go_error option) \<times> ('w, 'c) st) panics" where
  "reconcileNormal_ready X c s = do {
     ((result, err), s) \<leftarrow> reconcilePlacementGroup X c s;
     if err \<noteq> None \<or> result \<noteq> noRequeue then Some ((result, err), s)
     else if isWaitingForStaticIPAllocation (elf s) then
       Some ((noRequeue, None), markFalse X c VMProvisionedCondition WaitingForStaticIPAllocationReason SevInfo [] s)
     else reconcileNormal_vm X c s }"

definition reconcileNormal ::
  "('w, 'c) env \<Rightarrow> machineContext \<Rightarrow> ('w, 'c) st \<Rightarrow> ((reconcileResult \<times> go_error option) \<times> ('w, 'c) st) panics" where
  "reconcileNormal X c s =
     (let wait = requeue (cfg_DefaultRequeueTimeout (e_cfg X));
          fin = finContains (e_lib X) (om_Finalizers (em_meta (elf s)))
      in if IsFailed (elf s) then Some ((noRequeue, None), s)
         else if \<not> fin MachineFinalizer then
           (let (err, s) = AddFinalizerWithOptimisticLock X (elf s) MachineFinalizer s in Some ((wait, err), s))
         else
           (case reconcileFailureDomain c (elf s) of
              (False, m) \<Rightarrow> Some ((noRequeue, None), s\<lparr>elf := m\<rparr>)
            | (True, m) \<Rightarrow>
                (let s = s\<lparr>elf := m\<rparr>
                 in if RequiresStaticIPs (Network (Spec (elf s))) \<and> \<not> fin MachineStaticIPFinalizer
                    then Some ((wait, None), s)
                    else if \<not> cl_infrastructureReady (mc_Cluster c) then
                      Some ((noRequeue, None),
                        markFalse X c VMProvisionedCondition WaitingForClusterInfrastructureReason SevInfo [] s)
                    else if m_bootstrapDataSecretName (mc_Machine c) = None then
                      (if \<not> IsControlPlaneMachine (em_meta (elf s)) \<and>
                          \<not> condIsTrue (e_lib X) (cl_conditions (mc_Cluster c)) ControlPlaneInitializedCondition
                       then Some ((wait, None),
                              markFalse X c VMProvisionedCondition WaitingForControlPlaneAvailableReason SevInfo [] s)
                       else Some ((noRequeue, None),
                              markFalse X c VMProvisionedCondition WaitingForBootstrapDataReason SevInfo [] s))
                    else reconcileNormal_ready X c s)))"

section \<open>The entry point\<close>

definition GetClusterByName ::
  "('w, 'c) env \<Rightarrow> string \<Rightarrow> string \<Rightarrow> ('w, 'c) st \<Rightarrow> (go_error + cluster) \<times> ('w, 'c) st" where
  "GetClusterByName X namespace name s =
     (case query (K_GetCluster (e_k8s X) namespace name) s of
        (Inl err, s) \<Rightarrow> (Inl (ErrWrapf (''failed to get Cluster/'' @ name) err), s)
      | (Inr cl, s) \<Rightarrow> (Inr cl, s))"

definition GetClusterFromMetadata ::
  "('w, 'c) env \<Rightarrow> objectMeta \<Rightarrow> ('w, 'c) st \<Rightarrow> (go_error + cluster) \<times> ('w, 'c) st" where
  "GetClusterFromMetadata X obj s =
     (let name = GetLabelValue obj ClusterNameLabel
      in if name = [] then (Inl (ErrMsg (''no \"'' @ ClusterNameLabel @ ''\" label present'')), s)
         else GetClusterByName X (om_Namespace obj) name s)"

definition summaryConditions :: "string list" where
  "summaryConditions = [ResourcesHotUpdatedCondition, VMProvisionedCondition, TowerAvailableCondition]"

definition requeueUnknownNode :: "('w, 'c) env \<Rightarrow> machineContext \<Rightarrow> elfMachine \<Rightarrow> reconcileResult \<Rightarrow> reconcileResult" where
  "requeueUnknownNode X c m result =
     (if result = noRequeue \<and> \<not> IsMachineFailed (mc_Machine c) \<and>
         om_DeletionTimestamp (m_meta (mc_Machine c)) = None \<and> om_DeletionTimestamp (em_meta m) = None \<and>
         IsNodeHealthyConditionUnknown (e_lib X) (mc_Machine c)
      then
        (case condGet (e_lib X) (m_conditions (mc_Machine c)) MachineNodeHealthyCondition of
           None \<Rightarrow> result
         | Some cond \<Rightarrow>
             if mc_Now c < c_lastTransitionTime cond + cfg_VMPowerStatusCheckingDuration (e_cfg X)
             then requeue (cfg_DefaultRequeueTimeout (e_cfg X)) else result)
      else result)"

text \<open>\<^verbatim>\<open>MachineContext.Patch\<close>: the object and its status are sent to the API server.\<close>

definition Patch :: "('w, 'c) env \<Rightarrow> ('w, 'c) st \<Rightarrow> (go_error + unit) \<times> ('w, 'c) st" where
  [simp]: "Patch X s = query (K_PatchElfMachine (e_k8s X) (elf s)) s"

text \<open>
  The deferred function; the variable \<^verbatim>\<open>err\<close> that it tests is nil whenever the
  function is registered.
\<close>

definition reconcileDeferred ::
  "('w, 'c) env \<Rightarrow> machineContext \<Rightarrow> reconcileResult \<times> go_error option \<Rightarrow> ('w, 'c) st \<Rightarrow>
     (reconcileResult \<times> go_error option) \<times> ('w, 'c) st" where
  "reconcileDeferred X c r s =
     (let (result, reterr) = r;
          s = updElf (updStatus (\<lambda>st. st\<lparr>Conditions := e_setSummary X (mc_Now c) (Conditions st) summaryConditions\<rparr>)) s;
          (p, s) = Patch X s;
          reterr = (case p of Inl err \<Rightarrow> if reterr = None then Some err else reterr | Inr _ \<Rightarrow> reterr)
      in ((requeueUnknownNode X c (elf s) result, reterr), s))"

text \<open>The service of the request, unless the machine is force-deleted.\<close>

definition newVMService ::
  "('w, 'c) env \<Rightarrow> machineContext \<Rightarrow> ('w, 'c) st \<Rightarrow> (go_error + machineContext) \<times> ('w, 'c) st" where
  "newVMService X c s =
     (if om_DeletionTimestamp (em_meta (elf s)) = None \<or> \<not> HasForceDeleteCluster (mc_ElfCluster c) then
        (case query (K_NewVMService (e_k8s X) (mc_ElfCluster c)) s of
           (Inl err, s) \<Rightarrow>
             (Inl err, markFalse X c TowerAvailableCondition TowerUnreachableReason SevError (errText (e_lib X) err) s)
         | (Inr _, s) \<Rightarrow> (Inr (c\<lparr>mc_VMServiceNil := False\<rparr>), markTrue X c TowerAvailableCondition s))
      else (Inr c, s))"

definition reconcileInContext ::
  "('w, 'c) env \<Rightarrow> machineContext \<Rightarrow> ('w, 'c) st \<Rightarrow> ((reconcileResult \<times> go_error option) \<times> ('w, 'c) st) panics" where
  "reconcileInContext X c s =
     (case newVMService X c s of
        (Inl err, s) \<Rightarrow> Some ((noRequeue, Some err), s)
      | (Inr c, s) \<Rightarrow> do {
          (r, s) \<leftarrow> (if om_DeletionTimestamp (em_meta (elf s)) \<noteq> None then reconcileDelete X c s
                    else reconcileNormal X c s);
          Some (reconcileDeferred X c r s) })"

text \<open>The field \<open>elf\<close> of the initial state is the zero value that the request fills.\<close>

definition Reconcile ::
  "('w, 'c) env \<Rightarrow> int \<Rightarrow> string \<Rightarrow> string \<Rightarrow> ('w, 'c) st \<Rightarrow> ((reconcileResult \<times> go_error option) \<times> ('w, 'c) st) panics" where
  "Reconcile X now namespace name s =
     (case query (K_GetElfMachine (e_k8s X) namespace name) s of
        (Inl err, s) \<Rightarrow> Some ((noRequeue, if IsApiNotFound err then None else Some err), s)
      | (Inr m, s) \<Rightarrow>
          (let s = s\<lparr>elf := m\<rparr> in
           case GetOwnerMachine X (em_meta m) s of
             (Inl err, s) \<Rightarrow> Some ((noRequeue, Some err), s)
           | (Inr None, s) \<Rightarrow> Some ((noRequeue, None), s)
           | (Inr (Some machine), s) \<Rightarrow>
               (case GetClusterFromMetadata X (m_meta machine) s of
                  (Inl err, s) \<Rightarrow> Some ((noRequeue, Some err), s)
                | (Inr cl, s) \<Rightarrow>
                    if IsPaused cl (em_meta m) then Some ((noRequeue, None), s)
                    else do {
                      elfClusterName \<leftarrow> cl_infrastructureRefName cl;
                      (case query (K_GetElfCluster (e_k8s X) (om_Namespace (em_meta m)) elfClusterName) s of
                         (Inl err, s) \<Rightarrow> Some ((noRequeue, if IsApiNotFound err then None else Some err), s)
                       | (Inr elfCluster, s) \<Rightarrow>
                           (case query (K_NewPatchHelper (e_k8s X) m) s of
                              (Inl err, s) \<Rightarrow> Some ((noRequeue, Some (ErrWrapf ''failed to init patch helper'' err)), s)
                            | (Inr _, s) \<Rightarrow>
                                reconcileInContext X
                                  \<lparr>mc_Cluster = cl, mc_Machine = machine, mc_ElfCluster = elfCluster, mc_Now = now,
                                   mc_VMServiceNil = True\<rparr> s)) })))"

end
