(* ===== verification/Elf_Frames.thy ===== *)
theory Elf_Frames
  imports Elf_Machine
begin

text \<open>
  What the stages of the reconciler keep of the ElfMachine: the reference to the virtual machine,
  the ready flag, the specification, the finalizers and the deletion timestamp. The properties of the whole reconciler
  rest on these frames.
\<close>

section \<open>The kept part\<close>

type_synonym kept = "bool \<times> string list \<times> int option \<times> elfMachineSpec"

definition rest :: "elfMachine \<Rightarrow> kept" where
  "rest m = (Ready (Status m), om_Finalizers (em_meta m), om_DeletionTimestamp (em_meta m), Spec m)"

definition core :: "elfMachine \<Rightarrow> string \<times> kept" where
  "core m = (VMRef (Status m), rest m)"

text \<open>The creations asked of Tower.\<close>

definition isClone :: "towerCall \<Rightarrow> bool" where
  "isClone call = (case call of CallClone n i \<Rightarrow> True | _ \<Rightarrow> False)"

abbreviation clones :: "('w, 'c) st \<Rightarrow> towerCall list" where
  "clones s \<equiv> filter isClone (calls s)"

lemmas clone_simps [simp] = isClone_def

abbreviation keepsCore :: "('w, 'c) st \<Rightarrow> ('w, 'c) st \<Rightarrow> bool" where
  "keepsCore s s' \<equiv> core (elf s') = core (elf s) \<and> clones s' = clones s"

lemma core_updates [simp]:
  "core (emMarkFalse L now t rs sev msg m) = core m" "core (emMarkTrue L now t m) = core m"
  "core (SetTask i m) = core m" "core (SetFailure a b m) = core m"
  "core (setPlacementGroupRef i m) = core m" "core (setDiskStatus d m) = core m"
  "core (setComputeStatus x y m) = core m" "core (setNetworkStatus ns m) = core m"
  "core (SetVMDisconnectionTimestamp L tm m) = core m"
  "core (m\<lparr>Status := (Status m)\<lparr>GPUStatuses := g\<rparr>\<rparr>) = core m"
  by (simp_all add: core_def rest_def emMarkFalse_def emMarkTrue_def SetTask_def SetFailure_def setPlacementGroupRef_def
      setDiskStatus_def setComputeStatus_def setNetworkStatus_def SetVMDisconnectionTimestamp_def Let_def)

lemma core_hotMark [simp]: "core (elf (hotMarkFalse X c rs sev msg s)) = core (elf s)"
  by (simp add: hotMarkFalse_def)

lemma core_unlock [simp]:
  "core (elf (unlockOwnGPUs c s)) = core (elf s)" "core (elf (unlockIfGPU c s)) = core (elf s)"
  by (simp_all add: unlockOwnGPUs_def unlockIfGPU_def)

lemma core_updStatus:
  "(\<And>st. VMRef (f st) = VMRef st \<and> Ready (f st) = Ready st) \<Longrightarrow> core (updStatus f m) = core m"
  by (simp add: core_def rest_def)

lemma rest_SetVM [simp]: "rest (SetVM r m) = rest m"
  by (simp add: rest_def SetVM_def)

lemma core_rest: "core m' = core m \<Longrightarrow> rest m' = rest m \<and> VMRef (Status m') = VMRef (Status m)"
  by (simp add: core_def)

lemma rest_updates [simp]:
  "rest (emMarkFalse L now t rs sev msg m) = rest m" "rest (emMarkTrue L now t m) = rest m"
  "rest (SetTask i m) = rest m" "rest (SetFailure a b m) = rest m"
  "rest (SetVMDisconnectionTimestamp L tm m) = rest m"
  "VMRef (Status (SetVMDisconnectionTimestamp L tm m)) = VMRef (Status m)"
  using core_updates [THEN core_rest] by auto

section \<open>Tasks\<close>

lemma recordPG_core: "post (recordPlacementGroupPolicyNotSatisfied X c b s) (\<lambda>(e, s'). keepsCore s s')"
  by (auto simp: recordPlacementGroupPolicyNotSatisfied_def post_simps Let_def split: sum.splits)

lemma record_core [simp]:
  "core (elf (recordElfClusterStorageInsufficient X c b s)) = core (elf s)"
  "core (elf (recordElfClusterMemoryInsufficient X c b s)) = core (elf s)"
  "core (elf (releaseCreateTicket X s)) = core (elf s)" "core (elf (setVMDuplicateSt X c s)) = core (elf s)"
  by (simp_all add: recordElfClusterStorageInsufficient_def recordElfClusterMemoryInsufficient_def
      releaseCreateTicket_def setVMDuplicateSt_def Let_def)

lemma record_calls [simp]:
  "calls (recordElfClusterStorageInsufficient X c b s) = calls s"
  "calls (recordElfClusterMemoryInsufficient X c b s) = calls s"
  "calls (releaseCreateTicket X s) = calls s" "calls (setVMDuplicateSt X c s) = calls s"
  "calls (unlockOwnGPUs c s) = calls s" "calls (unlockIfGPU c s) = calls s" "calls (hotMarkFalse X c rs sev msg s) = calls s"
  by (simp_all add: recordElfClusterStorageInsufficient_def recordElfClusterMemoryInsufficient_def
      releaseCreateTicket_def setVMDuplicateSt_def unlockOwnGPUs_def unlockIfGPU_def hotMarkFalse_def Let_def)

lemma byKind_calls [simp]: "calls (failedTaskByKind X c task msg s) = calls s"
  by (simp add: failedTaskByKind_def Let_def)

lemma byKind_core [simp]: "core (elf (failedTaskByKind X c task msg s)) = core (elf s)"
  by (simp add: failedTaskByKind_def Let_def)

lemma failedTask_core: "post (reconcileVMFailedTask X c task s) (\<lambda>(e, s'). keepsCore s s')"
proof -
  have "post (failedTaskByError X c msg s1) (\<lambda>(e, s'). keepsCore s1 s')" for msg s1
    by (auto simp: failedTaskByError_def post_simps recordPG_core [THEN post_spec] intro!: postI)
  from this [THEN post_spec] show ?thesis
    by (auto simp: reconcileVMFailedTask_def Let_def intro!: postI)
qed

lemma firstBoot_core: "SetVMFirstBootTimestamp L t m = Some m' \<Longrightarrow> core m' = core m"
  by (auto simp: SetVMFirstBootTimestamp_def core_def rest_def split: option.splits)

lemma succeededTask_core: "post (succeededTask X c task s) (\<lambda>(e, s'). keepsCore s s')"
  unfolding succeededTask_def Let_def
  by (auto simp: post_simps recordPG_core [THEN post_spec] intro!: postI dest!: firstBoot_core)

lemma task_core: "post (reconcileVMTask X c vo s) (\<lambda>(r, s'). keepsCore s s')"
  unfolding reconcileVMTask_def Let_def
  by (auto simp: post_simps query_eq failedTask_core [THEN post_spec] succeededTask_core [THEN post_spec]
      taskDeferred_def split: sum.splits intro!: postI)

section \<open>Placement group, devices, power, resources\<close>

lemma migrate_core: "post (migrateVM X v h s) (\<lambda>(r, s'). keepsCore s s')"
  unfolding migrateVM_def by (auto simp: post_simps request_eq split: sum.splits intro!: postI)

lemma joinMigrate_core: "post (joinMigrate X c v pg hs s) (\<lambda>(r, s'). keepsCore s s')"
  unfolding joinMigrate_def
  by (auto simp: post_simps query_eq GetControlPlaneElfMachinesInCluster_def migrate_core [THEN post_spec] Let_def quiet_def
      split: sum.splits intro!: postI)

lemma joinControlPlane_core: "post (joinControlPlane X c v pg s) (\<lambda>(r, s'). keepsCore s s')"
  unfolding joinControlPlane_def
  by (auto simp: post_simps query_eq joinMigrate_core [THEN post_spec] Let_def quiet_def
      split: sum.splits intro!: postI)

lemma addVMs_core: "post (addVMsToPlacementGroup X pg ids s) (\<lambda>(r, s'). keepsCore s s')"
  unfolding addVMsToPlacementGroup_def
  by (auto simp: post_simps query_eq request_eq Let_def split: sum.splits intro!: postI)

lemma join_core: "post (joinPlacementGroup X c v s) (\<lambda>(r, s'). keepsCore s s')"
proof -
  have t: "post (joinPlacementGroup_ticket X c v n s) (\<lambda>(r, s'). keepsCore s s')" for n s
    unfolding joinPlacementGroup_ticket_def
    by (auto simp: post_simps joinControlPlane_core [THEN post_spec] addVMs_core [THEN post_spec] quiet_def
        split: sum.splits option.splits intro!: postI)
  have "post (joinPlacementGroup_body X c v s) (\<lambda>(r, s'). keepsCore s s')"
    unfolding joinPlacementGroup_body_def
    by (auto simp: post_simps t [THEN post_spec] split_def quiet_def Let_def split: sum.splits intro!: postI)
  from this [THEN post_spec] show ?thesis
    unfolding joinPlacementGroup_def by (auto simp: post_simps split: option.splits intro!: postI)
qed

lemma select_core: "post (selectHostAndGPUsForVM X c h s) (\<lambda>(r, s'). keepsCore s s')"
  unfolding selectHostAndGPUsForVM_def
  by (auto simp: post_simps body_locked [THEN post_spec] split: sum.splits option.splits)

lemma gpu_core: "post (reconcileGPUDevices X c v s) (\<lambda>(r, s'). keepsCore s s')"
proof -
  have add: "post (addGPUDevicesForVM X c v s) (\<lambda>(r, s'). keepsCore s s')" for s
    unfolding addGPUDevicesForVM_def
    by (auto simp: post_simps request_eq select_core [THEN post_spec] migrate_core [THEN post_spec] Let_def
        split: sum.splits option.splits intro!: postI)
  have rem: "post (removeVMGPUDevices X c v s) (\<lambda>(r, s'). keepsCore s s')" for s
    unfolding removeVMGPUDevices_def
    by (auto simp: post_simps request_eq query_eq Let_def split: sum.splits intro!: postI)
  show ?thesis
    unfolding reconcileGPUDevices_def
    by (auto simp: post_simps add [THEN post_spec] rem [THEN post_spec] checkGPUs_frame [THEN post_spec] Let_def
        split: sum.splits intro!: postI)
qed

lemma update_ticket_core [simp]: "elf (snd (acquireUpdateTicket X c s)) = elf s"
  by simp

lemma resize_core: "post (resizeVMVolume X c vol n t s) (\<lambda>(r, s'). keepsCore s s')"
  unfolding resizeVMVolume_def
  by (auto simp: post_simps request_eq Let_def split_def split: sum.splits intro!: postI)

lemma volume_core: "post (reconcieVMVolume X c v t s) (\<lambda>(r, s'). keepsCore s s')"
  unfolding reconcieVMVolume_def
  by (auto simp: post_simps query_eq resize_core [THEN post_spec] Let_def split: sum.splits intro!: postI)

lemma schedule_core:
  "post (isELFScheduleVMErrorRecorded X c s) (\<lambda>(r, s'). keepsCore s s')"
  "post (canRetryVMOperation X c s) (\<lambda>(r, s'). keepsCore s s')"
  by (auto simp: isELFScheduleVMErrorRecorded_def canRetryVMOperation_def post_simps Let_def split_def quiet_def
      split: sum.splits intro!: postI)

lemma power_core:
  "post (powerOnVM X c v s) (\<lambda>(r, s'). keepsCore s s')" "post (powerOffVM X c s) (\<lambda>(r, s'). keepsCore s s')"
  "post (shutDownVM X c s) (\<lambda>(r, s'). keepsCore s s')" "post (updateVM X c v s) (\<lambda>(r, s'). keepsCore s s')"
  by (auto simp: powerOnVM_def powerOffVM_def shutDownVM_def updateVM_def operation_defs post_simps request_eq
      schedule_core [THEN post_spec] Let_def split_def split: sum.splits intro!: postI)

lemma status_core: "post (reconcileVMStatus X c v s) (\<lambda>(r, s'). keepsCore s s')"
  unfolding reconcileVMStatus_def
  by (auto simp: post_simps power_core [THEN post_spec] volume_core [THEN post_spec] Let_def
      split: option.splits intro!: postI)

lemma hostJob_core:
  assumes "reconcileHostJob X c jobType macTypes s = (r, s')"
  shows "core (elf s') = core (elf s)"
  using assms
  by (auto simp: reconcileHostJob_def createHostJob_def GetHostJob_def GenerateJob_def query_eq Let_def
      split: option.splits sum.splits if_splits jobPhase.splits)

lemma job_stages_core:
  "core (elf (snd (restartKubelet X c s))) = core (elf s)"
  "core (elf (snd (expandVMRootPartition X c s))) = core (elf s)"
  "core (elf (snd (setVMNetworkDeviceConfig X c nics s))) = core (elf s)"
proof -
  have j: "core (elf (snd (reconcileHostJob X c t ms s1))) = core (elf s1)" for t ms s1
    using hostJob_core [of X c t ms s1] by (metis prod.collapse)
  show "core (elf (snd (restartKubelet X c s))) = core (elf s)"
    "core (elf (snd (expandVMRootPartition X c s))) = core (elf s)"
    "core (elf (snd (setVMNetworkDeviceConfig X c nics s))) = core (elf s)"
    by (auto simp: restartKubelet_def expandVMRootPartition_def setVMNetworkDeviceConfig_def j Let_def split: sum.splits)
qed

lemma job_stages_calls [simp]:
  "calls (snd (restartKubelet X c s)) = calls s" "calls (snd (expandVMRootPartition X c s)) = calls s"
proof -
  have j: "calls (snd (reconcileHostJob X c t ms s1)) = calls s1" for t ms s1
    using hostJob_frame [of X c t ms s1] by (metis prod.collapse)
  show "calls (snd (restartKubelet X c s)) = calls s"
    unfolding restartKubelet_def by (auto simp: j Let_def)
  show "calls (snd (expandVMRootPartition X c s)) = calls s"
    unfolding expandVMRootPartition_def by (auto simp: j Let_def)
qed

lemma compute_core: "post (reconcileVMCPUAndMemory X c v s) (\<lambda>(r, s'). keepsCore s s')"
  unfolding reconcileVMCPUAndMemory_def
  by (auto simp: post_simps request_eq Let_def split_def split: sum.splits intro!: postI)

lemma nics_core: "post (reconcileVMNics X c v nics s) (\<lambda>(r, s'). keepsCore s s')"
  unfolding reconcileVMNics_def
  by (auto simp: post_simps request_eq Let_def split: sum.splits prod.splits intro!: postI dest!: newNicParams_spec)

lemma network_devices_core: "post (reconcieVMNetworkDevices X c v s) (\<lambda>(r, s'). keepsCore s s')"
  unfolding reconcieVMNetworkDevices_def
  by (auto simp: post_simps query_eq nics_core [THEN post_spec] job_stages_core Let_def split_def
      split: sum.splits option.splits intro!: postI)

lemma resources_core: "post (reconcileVMResources X c v s) (\<lambda>(r, s'). keepsCore s s')"
  unfolding reconcileVMResources_def
  by (auto simp: post_simps compute_core [THEN post_spec] volume_core [THEN post_spec] network_devices_core [THEN post_spec]
      job_stages_core split_def intro!: postI)

lemma run_core: "post (reconcileVM_run X c v s) (\<lambda>(r, s'). keepsCore s s')"
  unfolding reconcileVM_run_def
  by (auto simp: post_simps join_core [THEN post_spec] gpu_core [THEN post_spec] status_core [THEN post_spec]
      resources_core [THEN post_spec] intro!: postI)

section \<open>Host, network, labels\<close>

lemma hostZone_core: "post (reconcileHostAndZone X c v s) (\<lambda>(e, s'). keepsCore s s')"
proof -
  have h: "core (reconcileComputeCluster v m) = core (elf s)" if "reconcileHost v (elf s) = Some m" for m
    using that by (auto simp: reconcileHost_def reconcileComputeCluster_def core_updStatus bind_eq_Some_conv
        split: option.splits if_splits)
  have st: "core (setStorage cfg m) = core m" for cfg m
    by (auto simp: setStorage_def core_updStatus Let_def split: option.splits)
  have storage: "post (reconcileStorage X c v s1) (\<lambda>(e, s'). keepsCore s1 s')" for s1
    by (auto simp: reconcileStorage_def post_simps query_eq st Let_def split: sum.splits option.splits intro!: postI)
  have zone: "post (reconcileZone X c s1) (\<lambda>(e, s'). keepsCore s1 s')" for s1
    by (auto simp: reconcileZone_def post_simps query_eq core_updStatus Let_def
        split: sum.splits option.splits intro!: postI)
  show ?thesis
    unfolding reconcileHostAndZone_def
    by (auto simp: post_simps storage [THEN post_spec] zone [THEN post_spec] intro!: postI dest!: h)
qed

lemma network_core: "post (reconcileNetwork X c v s) (\<lambda>(r, s'). keepsCore s s')"
proof -
  have q: "elf (snd (getK8sNodeIP X c s1)) = elf s1" "calls (snd (getK8sNodeIP X c s1)) = calls s1" for s1
    using getK8sNodeIP_quiet [of X c s1] by (simp_all add: quiet_def prod_eq_iff)
  have "post (reconcileNetwork_body X c v s) (\<lambda>(r, s'). keepsCore s s')"
    unfolding reconcileNetwork_body_def
    by (auto simp: post_simps query_eq core_updStatus Let_def split_def q split: sum.splits intro!: postI)
  from this [THEN post_spec] show ?thesis
    unfolding reconcileNetwork_def by (auto simp: post_simps split: option.splits intro!: postI)
qed

lemma upsertLabels_elf: "elf (snd (upsertLabels X cur ls ids s)) = elf s \<and> clones (snd (upsertLabels X cur ls ids s)) = clones s"
  by (induction X cur ls ids s rule: upsertLabels.induct) (auto simp: request_eq split: sum.splits)

lemma labels_elf: "post (reconcileLabels X c v s) (\<lambda>(r, s'). elf s' = elf s \<and> clones s' = clones s)"
proof -
  obtain r s1 where u: "upsertLabels X (currentLabels (vm_Labels v) []) (exceptedLabels X c (elf s)) [] s = (r, s1)"
    by (metis surj_pair)
  then have "elf s1 = elf s \<and> clones s1 = clones s" using upsertLabels_elf by (metis snd_conv)
  then show ?thesis
    unfolding reconcileLabels_def u
    by (auto simp: post_simps request_eq split: sum.splits intro!: postI)
qed

lemma placementGroup_elf: "post (reconcilePlacementGroup X c s) (\<lambda>(r, s'). elf s' = elf s \<and> clones s' = clones s)"
proof -
  have "post (createPlacementGroup X c n s) (\<lambda>(r, s'). elf s' = elf s \<and> clones s' = clones s)" for n s
    unfolding createPlacementGroup_def
    by (auto simp: post_simps query_eq request_eq Let_def split_def split: sum.splits intro!: postI)
  from this [THEN post_spec] show ?thesis
    unfolding reconcilePlacementGroup_def
    by (auto simp: post_simps Let_def split_def quiet_def split: sum.splits option.splits intro!: postI)
qed

section \<open>The virtual machine over one run\<close>

lemma getVM_ref:
  "post (getVM X c s) (\<lambda>(r, s'). rest (elf s') = rest (elf s) \<and> clones s' = clones s \<and>
     (VMRef (Status (elf s')) = VMRef (Status (elf s)) \<or>
      \<not> IsUUID (VMRef (Status (elf s))) \<and> VMRef (Status (elf s')) = []))"
  unfolding getVM_def
  by (auto simp: post_simps query_eq task_core [THEN post_spec] Let_def
      split: sum.splits option.splits intro!: postI dest!: core_rest)

lemma bin_ref:
  "calls (moveToRecycleBin s) = calls s \<and> rest (elf (moveToRecycleBin s)) = rest (elf s) \<and> VMRef (Status (elf (moveToRecycleBin s))) = [] \<and>
     IsFailed (elf (moveToRecycleBin s))"
  by (simp add: moveToRecycleBin_def rest_def SetFailure_def SetVM_def IsFailed_def)

lemma found_ref:
  "post (reconcileVM_found X c v s) (\<lambda>(r, s'). rest (elf s') = rest (elf s) \<and> clones s' = clones s \<and>
     (IsUUID (VMRef (Status (elf s))) \<longrightarrow>
        VMRef (Status (elf s')) = VMRef (Status (elf s)) \<or> VMRef (Status (elf s')) = [] \<and> IsFailed (elf s')))"
  unfolding reconcileVM_found_def
  by (auto simp: post_simps task_core [THEN post_spec] hostZone_core [THEN post_spec] run_core [THEN post_spec] bin_ref
      Let_def intro!: postI dest!: core_rest)

section \<open>Creation\<close>

lemma owner_quiet: "GetOwnerMachine X m s = (r, s') \<Longrightarrow> quiet s s'"
  by (auto simp: GetOwnerMachine_def query_eq split: sum.splits option.splits)

lemma machinesOf_quiet: "post (placementGroupMachinesOf X em vs ms vmMap s) (\<lambda>(r, s'). quiet s s')"
proof (induction vs arbitrary: ms vmMap s)
  case Nil
  then show ?case by (simp add: post_simps)
next
  case (Cons v vs)
  have step: "post (placementGroupMachinesOf X em vs ms vmMap s1) (\<lambda>(r, s'). quiet s s')"
    if "quiet s s1" for ms vmMap s1
    using quiet_trans [OF that] by (intro post_mono [OF Cons.IH]) auto
  show ?case
    by (auto simp: post_simps step split: option.splits prod.splits sum.splits intro!: postI step dest: owner_quiet)
qed

lemma rolling_quiet: "post (getVMHostForRollingUpdate X c pg hosts s) (\<lambda>(r, s'). quiet s s')"
  unfolding getVMHostForRollingUpdate_def
  by (auto simp: post_simps query_eq GetControlPlaneElfMachinesInCluster_def machinesOf_quiet [THEN post_spec] Let_def
      split: sum.splits option.splits intro!: postI)

lemma precheck_quiet: "post (preCheckPlacementGroup_body X c s) (\<lambda>(r, s'). quiet s s')"
proof -
  have m: "quiet s (snd (markMachineForDeletion X c s1)) = quiet s s1" for s s1
    by (auto simp: markMachineForDeletion_def query_eq Let_def split: sum.splits)
  have f: "post (preCheckFullPlacementGroup X c pg hosts used s1) (\<lambda>(r, s'). quiet s1 s')" for pg hosts used s1
    unfolding preCheckFullPlacementGroup_def
    by (auto simp: post_simps rolling_quiet [THEN post_spec] split_def m split: sum.splits intro!: postI)
      (auto simp: quiet_def)
  show ?thesis
    unfolding preCheckPlacementGroup_body_def
    by (auto simp: post_simps query_eq f [THEN post_spec] split: sum.splits option.splits intro!: postI)
      (auto simp: quiet_def)
qed

end
