(* ===== verification/Elf_Lifecycle.thy ===== *)
theory Elf_Lifecycle
  imports Elf_Frames
begin

text \<open>
  Properties of the whole ElfMachine reconciler: what one run may ask of Tower, how the identity
  of the virtual machine evolves over runs, when a machine becomes ready and when its finalizer
  may go.
\<close>

section \<open>Creation\<close>

definition cloneOf :: "elfMachine \<Rightarrow> towerCall \<Rightarrow> bool" where
  "cloneOf m call = (\<exists>info. call = CallClone (om_Name (em_meta m)) info \<and> cvi_CloudInit info \<noteq> [])"

definition createsOnce :: "('w, 'c) st \<Rightarrow> ('w, 'c) st \<Rightarrow> bool" where
  "createsOnce s s' \<longleftrightarrow> clones s' = clones s \<or> (\<exists>call. clones s' = clones s @ [call] \<and> cloneOf (elf s) call)"

lemma cloneOf_mark [simp]:
  "cloneOf (emMarkFalse L now t rs sev msg m) = cloneOf m" "cloneOf (emMarkTrue L now t m) = cloneOf m"
  by (simp_all add: cloneOf_def emMarkFalse_def emMarkTrue_def fun_eq_iff)

lemma release_elf [simp]:
  "elf (releaseCreateTicket X s) = elf s" "elf (unlockOwnGPUs c s) = elf s" "elf (unlockIfGPU c s) = elf s"
  by (simp_all add: releaseCreateTicket_def unlockOwnGPUs_def unlockIfGPU_def)

definition creation :: "('w, 'c) st \<Rightarrow> go_error option option \<Rightarrow> ('w, 'c) st \<Rightarrow> bool" where
  "creation s ret s' \<longleftrightarrow> rest (elf s') = rest (elf s) \<and> createsOnce s s' \<and>
     (ret \<noteq> None \<longrightarrow> VMRef (Status (elf s')) = VMRef (Status (elf s)))"

lemma cloneVM_frame:
  "cvi_CloudInit info \<noteq> [] \<Longrightarrow> post (cloneVM X c info s) (\<lambda>(ret, s'). creation s ret s')"
  unfolding cloneVM_def
  by (auto simp: post_simps query_eq request_eq creation_def createsOnce_def cloneOf_def Let_def
      split: sum.splits intro!: postI)

text \<open>The stages before the creation change at most conditions.\<close>

lemma emMarkFalse_name [simp]: "om_Name (em_meta (emMarkFalse L now t rs sev msg m)) = om_Name (em_meta m)"
  by (simp add: emMarkFalse_def)

definition sameVM :: "elfMachine \<Rightarrow> elfMachine \<Rightarrow> bool" where
  "sameVM m m' \<longleftrightarrow> core m' = core m \<and> om_Name (em_meta m') = om_Name (em_meta m)"

lemma sameVM_refl [simp]: "sameVM m m"
  by (simp add: sameVM_def)

lemma sameVM_mark [simp]:
  "sameVM m (emMarkFalse L now t rs sev msg m') = sameVM m m'" "sameVM (emMarkFalse L now t rs sev msg m) m' = sameVM m m'"
  by (simp_all add: sameVM_def)

lemma selectHost_frame: "post (selectHost X c s) (\<lambda>(r, s'). sameVM (elf s) (elf s') \<and> calls s' = calls s)"
proof -
  have q: "quiet s s' \<Longrightarrow> elf s' = elf s \<and> calls s' = calls s" for s' :: "('a, 'b) st" by (simp add: quiet_def)
  have pre: "post (preCheckPlacementGroup X c s) (\<lambda>(r, s'). sameVM (elf s) (elf s') \<and> calls s' = calls s)"
    unfolding preCheckPlacementGroup_def
    by (auto simp: post_simps precheck_quiet [THEN post_spec] dest!: q intro!: postI)
  have gpu: "post (selectHostAndGPUsForVM X c [] s) (\<lambda>(r, s'). sameVM (elf s) (elf s') \<and> calls s' = calls s)"
    unfolding selectHostAndGPUsForVM_def
    by (auto simp: post_simps body_locked [THEN post_spec] split: sum.splits option.splits)
  show ?thesis
    unfolding selectHost_def by (auto simp: post_simps pre [THEN post_spec] gpu split: option.splits intro!: postI)
qed

lemma schedule_frame:
  "post (isELFScheduleVMErrorRecorded X c s) (\<lambda>(r, s'). sameVM (elf s) (elf s') \<and> calls s' = calls s)"
  "post (canRetryVMOperation X c s) (\<lambda>(r, s'). sameVM (elf s) (elf s') \<and> calls s' = calls s)"
  by (auto simp: isELFScheduleVMErrorRecorded_def canRetryVMOperation_def post_simps Let_def split_def quiet_def
      split: sum.splits intro!: postI)

lemma creation_start:
  "sameVM (elf s) (elf s1) \<and> calls s1 = calls s \<Longrightarrow> creation s1 ret s' \<Longrightarrow> creation s ret s'"
  by (simp add: creation_def createsOnce_def cloneOf_def sameVM_def core_def)

lemma creation_glob [simp]: "creation (s\<lparr>glob := g\<rparr>) ret s' = creation s ret s'"
  by (simp add: creation_def createsOnce_def)

lemma sameVM_trans: "sameVM m m1 \<Longrightarrow> sameVM m1 m2 \<Longrightarrow> sameVM m m2"
  by (simp add: sameVM_def)

lemma creation_quit:
  "sameVM (elf s) (elf s') \<and> calls s' = calls s \<Longrightarrow> creation s (Some e) s'"
  by (simp add: creation_def createsOnce_def sameVM_def core_def)

lemma createTicket_frame:
  "b \<noteq> [] \<Longrightarrow> post (createVM_ticket X c h b s) (\<lambda>(ret, s'). creation s ret s')"
  unfolding createVM_ticket_def
  by (auto simp: post_simps selectHost_frame [THEN post_spec] cloneVM_frame [THEN post_spec] creation_quit
      split: sum.splits option.splits intro!: postI intro: creation_start)

lemma createSchedule_frame:
  "b \<noteq> [] \<Longrightarrow> post (createVM_schedule X c h b s) (\<lambda>(ret, s'). creation s ret s')"
  unfolding createVM_schedule_def
  by (auto simp: post_simps schedule_frame [THEN post_spec] createTicket_frame [THEN post_spec] creation_quit Let_def
      split: prod.splits intro!: postI intro: sameVM_trans creation_start)

lemma create_frame: "post (createVM X c s) (\<lambda>(ret, s'). creation s ret s')"
proof -
  have host: "elf (snd (GenerateHostname X c s1)) = elf s1 \<and> calls (snd (GenerateHostname X c s1)) = calls s1" for s1
    by (simp add: GenerateHostname_def Let_def split_def)
  have data: "post (getBootstrapData X c n s1) (\<lambda>(r, s2). elf s2 = elf s1 \<and> calls s2 = calls s1)" for n s1
    unfolding getBootstrapData_def
    by (auto simp: post_simps query_eq Let_def split: sum.splits option.splits intro!: postI)
  show ?thesis
    unfolding createVM_def Let_def split_def
    by (auto simp: post_simps data [THEN post_spec] host createSchedule_frame [THEN post_spec] creation_quit
        split: sum.splits intro!: postI elim!: creation_start [rotated])
qed

section \<open>One run on the virtual machine\<close>

text \<open>A virtual machine that Tower returned running, with no operation and outside the recycle bin.\<close>

definition runningVM :: "('w, 'c) env \<Rightarrow> elfMachineSpec \<Rightarrow> vm \<Rightarrow> bool" where
  "runningVM X spec v \<longleftrightarrow> (\<exists>w vmRef. fst (Svc_Get (e_svc X) vmRef w) = Inr v) \<and>
     vm_Status v = Some VMStatusRUNNING \<and> vm_EntityAsyncStatus v = None \<and> \<not> IsVMInRecycleBin v \<and>
     (\<exists>cpu mem. vm_Vcpu v = Some cpu \<and> vm_Memory v = Some mem \<and> NumCPUs spec \<le> cpu \<and> MemoryMiB spec \<le> ByteToMiB mem)"

lemma getVM_found: "post (getVM X c s) (\<lambda>(r, s'). \<forall>v. r = Inr v \<longrightarrow> fst (Svc_Get (e_svc X) (VMRef (Status (elf s))) (world s)) = Inr v)"
  unfolding getVM_def
  by (auto simp: post_simps query_eq Let_def split: sum.splits option.splits intro!: postI)

lemma run_running:
  "post (reconcileVM_run X c v s) (\<lambda>((ok, err), s'). ok \<longrightarrow> err = None \<and> vm_Status v = Some VMStatusRUNNING \<and>
     (\<exists>cpu mem. vm_Vcpu v = Some cpu \<and> vm_Memory v = Some mem \<and>
        NumCPUs (Spec (elf s)) \<le> cpu \<and> MemoryMiB (Spec (elf s)) \<le> ByteToMiB mem))"
proof -
  have "post (reconcileVMResources X c v s1) (\<lambda>((ok, err), s'). ok \<and> err = None \<longrightarrow>
      (\<exists>cpu mem. vm_Vcpu v = Some cpu \<and> vm_Memory v = Some mem \<and>
        NumCPUs (Spec (elf s1)) \<le> cpu \<and> MemoryMiB (Spec (elf s1)) \<le> ByteToMiB mem))" for s1
    unfolding reconcileVMResources_def andThenOk_def
    by (auto simp: post_simps compute_ok [THEN post_spec] intro!: postI)
  note res = this [THEN post_spec]
  have spec: "Spec m' = Spec m" if "core m' = core m" for m m' using that by (simp add: core_def rest_def)
  show ?thesis
    unfolding reconcileVM_run_def andThenOk_def
    by (auto simp: post_simps join_core [THEN post_spec] gpu_core [THEN post_spec] status_opStep [THEN post_spec] res
        intro!: postI dest!: spec)
qed

lemma SetVM_sels [simp]: "VMRef (Status (SetVM r m)) = r" "Spec (SetVM r m) = Spec m"
  by (simp_all add: SetVM_def)

lemma disconnection_spec [simp]: "Spec (SetVMDisconnectionTimestamp L t m) = Spec m"
  using core_updates(9) [of L t m] by (simp add: core_def rest_def)

lemma coreD: "core m' = core m \<Longrightarrow> VMRef (Status m') = VMRef (Status m) \<and> Spec m' = Spec m"
  by (simp add: core_def rest_def)

lemma found_running:
  "post (reconcileVM_found X c v s) (\<lambda>((vo, ok, err), s'). ok \<longrightarrow> err = None \<and> vo = Some v \<and>
     vm_Status v = Some VMStatusRUNNING \<and> vm_EntityAsyncStatus v = None \<and> \<not> IsVMInRecycleBin v \<and>
     IsUUID (VMRef (Status (elf s'))) \<and>
     (\<exists>cpu mem. vm_Vcpu v = Some cpu \<and> vm_Memory v = Some mem \<and>
        NumCPUs (Spec (elf s)) \<le> cpu \<and> MemoryMiB (Spec (elf s)) \<le> ByteToMiB mem))"
proof -
  have task: "post (reconcileVMTask X c (Some v) s1) (\<lambda>((ok, err), s'). Spec (elf s') = Spec (elf s1) \<and>
      (ok \<longrightarrow> vm_EntityAsyncStatus v = None))" for s1
    by (rule post_mono [OF task_refs]) auto
  have run: "post (reconcileVM_run X c v s1) (\<lambda>((ok, err), s'). VMRef (Status (elf s')) = VMRef (Status (elf s1)) \<and>
      (ok \<longrightarrow> err = None \<and> vm_Status v = Some VMStatusRUNNING \<and>
        (\<exists>cpu mem. vm_Vcpu v = Some cpu \<and> vm_Memory v = Some mem \<and>
          NumCPUs (Spec (elf s1)) \<le> cpu \<and> MemoryMiB (Spec (elf s1)) \<le> ByteToMiB mem)))" for s1
    by (rule post_mono [OF post_and [OF run_core run_running]]) (auto dest!: coreD)
  show ?thesis
    unfolding reconcileVM_found_def
    by (auto simp: post_simps task [THEN post_spec] hostZone_core [THEN post_spec] run [THEN post_spec] Let_def
        intro!: postI dest!: coreD)
qed

text \<open>
  What one run of \<^verbatim>\<open>reconcileVM\<close> does to the identity of the virtual machine, what it creates,
  and what its success means.
\<close>

definition identityKept :: "elfMachine \<Rightarrow> elfMachine \<Rightarrow> bool" where
  "identityKept m m' \<longleftrightarrow> (IsUUID (VMRef (Status m)) \<longrightarrow>
     VMRef (Status m') = VMRef (Status m) \<or> VMRef (Status m') = [] \<and> IsFailed m')"

lemma not_uuid_Nil [simp]: "\<not> IsUUID []"
  by (simp add: IsUUID_def)

lemma vm_frame:
  "post (reconcileVM X c s) (\<lambda>((vo, ok, err), s'). rest (elf s') = rest (elf s) \<and>
     (if HasVM (elf s) then clones s' = clones s else createsOnce s s') \<and> identityKept (elf s) (elf s'))"
  unfolding reconcileVM_def
  by (auto simp: post_simps create_frame [THEN post_spec] getVM_ref [THEN post_spec] found_ref [THEN post_spec]
      creation_def createsOnce_def HasVM_def identityKept_def split: sum.splits option.splits intro!: postI)

lemma vm_running:
  "post (reconcileVM X c s) (\<lambda>((vo, ok, err), s'). ok \<longrightarrow> err = None \<and> IsUUID (VMRef (Status (elf s'))) \<and>
     (\<exists>v. vo = Some v \<and> runningVM X (Spec (elf s)) v))"
proof -
  have rest: "Spec m' = Spec m" if "rest m' = rest m" for m m' using that by (simp add: rest_def)
  have create: "post (createVM X c s) (\<lambda>(ret, s'). Spec (elf s') = Spec (elf s))"
    by (rule post_mono [OF create_frame]) (auto simp: creation_def dest: rest)
  have get: "post (getVM X c s1) (\<lambda>(r, s'). Spec (elf s') = Spec (elf s1) \<and>
      (\<forall>v. r = Inr v \<longrightarrow> (\<exists>w vmRef. fst (Svc_Get (e_svc X) vmRef w) = Inr v)))" for s1
    by (rule post_mono [OF post_and [OF getVM_ref getVM_found]]) (auto dest!: rest)
  show ?thesis
    unfolding reconcileVM_def
    by (auto simp: post_simps create [THEN post_spec] get [THEN post_spec] found_running [THEN post_spec] runningVM_def
        split: sum.splits option.splits intro!: postI)
qed

section \<open>One run on a machine that is not deleted\<close>

definition readyAs :: "lib \<Rightarrow> elfMachine \<Rightarrow> vm \<Rightarrow> bool" where
  "readyAs L m v \<longleftrightarrow> Addresses (Status m) \<noteq> [] \<and> condIsTrue L (Conditions (Status m)) VMProvisionedCondition \<and>
     (\<exists>u. vm_LocalID v = Some u \<and> IsUUID u \<and> ProviderID (Spec m) = Some (ProviderIDPrefix @ u))"

text \<open>The part of the ElfMachine that no stage after \<^verbatim>\<open>reconcileVM\<close> changes.\<close>

definition anchor :: "elfMachine \<Rightarrow> string \<times> string list \<times> int option" where
  "anchor m = (VMRef (Status m), om_Finalizers (em_meta m), om_DeletionTimestamp (em_meta m))"

lemma core_anchor: "core m' = core m \<Longrightarrow> anchor m' = anchor m \<and> Ready (Status m') = Ready (Status m) \<and> Spec m' = Spec m"
  by (simp add: core_def rest_def anchor_def)

lemma rest_anchor: "rest m' = rest m \<Longrightarrow> om_Finalizers (em_meta m') = om_Finalizers (em_meta m) \<and>
    Ready (Status m') = Ready (Status m) \<and> Spec m' = Spec m"
  by (simp add: rest_def)

lemma providerID_frame:
  "post (reconcileProviderID X c v s) (\<lambda>(e, s'). calls s' = calls s \<and> anchor (elf s') = anchor (elf s) \<and>
     Ready (Status (elf s')) = Ready (Status (elf s)) \<and>
     (e = None \<longrightarrow> (\<exists>u. vm_LocalID v = Some u \<and> IsUUID u \<and> ProviderID (Spec (elf s')) = Some (ProviderIDPrefix @ u))))"
  unfolding reconcileProviderID_def
  by (auto simp: post_simps anchor_def ConvertUUIDToProviderID_def Let_def intro!: postI)

lemma network_frame:
  "post (reconcileNetwork X c v s) (\<lambda>((ok, err), s'). clones s' = clones s \<and> anchor (elf s') = anchor (elf s) \<and>
     Ready (Status (elf s')) = Ready (Status (elf s)) \<and> Spec (elf s') = Spec (elf s) \<and>
     (ok \<longrightarrow> Addresses (Status (elf s')) \<noteq> []))"
proof -
  have "post (reconcileNetwork X c v s) (\<lambda>((ok, err), s'). ok \<longrightarrow> Addresses (Status (elf s')) \<noteq> [])"
    unfolding reconcileNetwork_def
    by (auto simp: post_simps network_body [THEN post_spec] split: option.splits intro!: postI)
  from post_and [OF network_core this] show ?thesis
    by (rule post_mono) (auto dest!: core_anchor)
qed

lemma running_frame:
  assumes "capi_lib (e_lib X)"
  shows "post (reconcileNormal_running X c v s) (\<lambda>(r, s'). clones s' = clones s \<and> anchor (elf s') = anchor (elf s) \<and>
     (Ready (Status (elf s')) \<longrightarrow> Ready (Status (elf s)) \<or> readyAs (e_lib X) (elf s') v))"
proof -
  have mark: "anchor (emMarkTrue L now t (updStatus (Ready_update f) m)) = anchor m"
    "Addresses (Status (emMarkTrue L now t (updStatus (Ready_update f) m))) = Addresses (Status m)"
    "Spec (emMarkTrue L now t (updStatus (Ready_update f) m)) = Spec m" for L now t f m
    by (simp_all add: anchor_def emMarkTrue_def)
  have cond: "condIsTrue (e_lib X) (Conditions (Status (emMarkTrue (e_lib X) now t m))) t" for now t m
    using assms by (simp add: emMarkTrue_def capi_lib.markTrue_views)
  have node: "post (reconcileNode X c v s1) (\<lambda>(e, s'). elf s' = elf s1 \<and> calls s' = calls s1)" for s1
    by (rule post_mono [OF reconcileNode_quiet]) (auto simp: quiet_def)
  have dup: "post (deleteDuplicateVMs X c s1) (\<lambda>(e, s'). elf s' = elf s1 \<and> clones s' = clones s1)" for s1
    unfolding deleteDuplicateVMs_def
    by (auto simp: post_simps query_eq post_and [OF deleteVM_elf deleteVM_calls, THEN post_spec]
        split: sum.splits option.splits intro!: postI)
  show ?thesis
    unfolding reconcileNormal_running_def
    by (auto simp: post_simps labels_elf [THEN post_spec] providerID_frame [THEN post_spec]
        network_frame [THEN post_spec] node [THEN post_spec] dup [THEN post_spec] readyAs_def mark cond Let_def
        split: option.splits intro!: postI)
qed

text \<open>The effect of one run, from any state of a machine that is not being deleted.\<close>

definition normalRun :: "('w, 'c) env \<Rightarrow> ('w, 'c) st \<Rightarrow> ('w, 'c) st \<Rightarrow> bool" where
  "normalRun X s s' \<longleftrightarrow> om_Finalizers (em_meta (elf s')) = om_Finalizers (em_meta (elf s)) \<and>
     om_DeletionTimestamp (em_meta (elf s')) = om_DeletionTimestamp (em_meta (elf s)) \<and>
     (if HasVM (elf s) then clones s' = clones s else createsOnce s s') \<and> identityKept (elf s) (elf s') \<and>
     (Ready (Status (elf s')) \<longrightarrow> Ready (Status (elf s)) \<or>
        (\<exists>v. runningVM X (Spec (elf s)) v \<and> readyAs (e_lib X) (elf s') v))"

lemma normalRun_same: "core (elf s') = core (elf s) \<Longrightarrow> clones s' = clones s \<Longrightarrow> normalRun X s s'"
  by (simp add: normalRun_def createsOnce_def identityKept_def core_def rest_def)

lemma normalRun_start:
  assumes "normalRun X s1 s'" and "Status (elf s1) = Status (elf s)" and "em_meta (elf s1) = em_meta (elf s)"
    and "NumCPUs (Spec (elf s1)) = NumCPUs (Spec (elf s))" and "MemoryMiB (Spec (elf s1)) = MemoryMiB (Spec (elf s))"
    and "clones s1 = clones s"
  shows "normalRun X s s'"
proof -
  have "createsOnce s1 s' = createsOnce s s'" "runningVM X (Spec (elf s1)) = runningVM X (Spec (elf s))"
    using assms(3-6) by (simp_all add: createsOnce_def cloneOf_def runningVM_def fun_eq_iff)
  with assms show ?thesis by (cases "HasVM (elf s)") (simp_all add: normalRun_def identityKept_def HasVM_def)
qed

lemma failureDomain_frame:
  "reconcileFailureDomain c m = (ok, m') \<Longrightarrow> Status m' = Status m \<and> em_meta m' = em_meta m \<and>
     NumCPUs (Spec m') = NumCPUs (Spec m) \<and> MemoryMiB (Spec m') = MemoryMiB (Spec m)"
  by (auto simp: reconcileFailureDomain_def setNetwork_def Let_def split: if_splits option.splits)

lemma identity_anchor: "anchor m2 = anchor m1 \<Longrightarrow> identityKept m m1 \<Longrightarrow> \<not> IsFailed m1 \<Longrightarrow> identityKept m m2"
  by (auto simp: identityKept_def anchor_def)

lemma normal_vm_frame:
  assumes "capi_lib (e_lib X)"
  shows "post (reconcileNormal_vm X c s) (\<lambda>(r, s'). normalRun X s s')"
proof -
  have stop: "normalRun X s s1" if "rest (elf s1) = rest (elf s)"
    "if HasVM (elf s) then clones s1 = clones s else createsOnce s s1" "identityKept (elf s) (elf s1)" for s1
    using that by (simp add: normalRun_def rest_def)
  have go: "normalRun X s s2"
    if "rest (elf s1) = rest (elf s)" "if HasVM (elf s) then clones s1 = clones s else createsOnce s s1"
      "identityKept (elf s) (elf s1)" "\<not> IsFailed (elf s1)" "runningVM X (Spec (elf s)) v"
      "clones s2 = clones s1" "anchor (elf s2) = anchor (elf s1)"
      "Ready (Status (elf s2)) \<longrightarrow> Ready (Status (elf s1)) \<or> readyAs (e_lib X) (elf s2) v" for s1 s2 v
    using that identity_anchor [OF that(7,3,4)]
    by (auto simp: normalRun_def rest_def anchor_def createsOnce_def split: if_splits)
  show ?thesis
    unfolding reconcileNormal_vm_def
    by (auto simp: post_simps post_and [OF vm_frame vm_running, THEN post_spec] running_frame [OF assms, THEN post_spec]
        split: option.splits intro!: postI intro: stop go)
qed

lemma normal_frame:
  assumes "capi_lib (e_lib X)"
  shows "post (reconcileNormal X c s) (\<lambda>(r, s'). normalRun X s s')"
proof -
  have ready: "post (reconcileNormal_ready X c s1) (\<lambda>(r, s'). normalRun X s1 s')" for s1
    unfolding reconcileNormal_ready_def
    by (auto simp: post_simps placementGroup_elf [THEN post_spec] normal_vm_frame [OF assms, THEN post_spec]
        intro!: postI intro: normalRun_same normalRun_start)
  obtain ok m where fd: "reconcileFailureDomain c (elf s) = (ok, m)" by fastforce
  have start: "normalRun X s s'" if "normalRun X (s\<lparr>elf := m\<rparr>) s'" for s'
    using failureDomain_frame [OF fd] by (intro normalRun_start [OF that]) auto
  have stay: "normalRun X s s" "normalRun X s (snd (AddFinalizerWithOptimisticLock X m1 f s))" for m1 f
    by (auto simp: AddFinalizerWithOptimisticLock_def query_eq Let_def split: sum.splits intro!: normalRun_same)
  have wait: "normalRun X s (s\<lparr>elf := m\<rparr>)" "normalRun X s (markFalse X c t rs sev msg (s\<lparr>elf := m\<rparr>))" for t rs sev msg
    by (auto intro!: start normalRun_same)
  have go: "post (reconcileNormal_ready X c (s\<lparr>elf := m\<rparr>)) (\<lambda>(r, s'). normalRun X s s')"
    by (rule post_mono [OF ready]) (auto intro: start)
  show ?thesis
    unfolding reconcileNormal_def Let_def fd split_def by (cases ok) (simp_all add: post_simps stay wait go [unfolded split_def])
qed

text \<open>A virtual machine under creation is kept, gets its UUID, or is dropped.\<close>

lemma found_pending:
  "post (reconcileVM_found X c v s) (\<lambda>(r, s').
     VMRef (Status (elf s')) \<in> {VMRef (Status (elf s)), []} \<or> IsUUID (VMRef (Status (elf s'))))"
  unfolding reconcileVM_found_def
  by (auto simp: post_simps task_core [THEN post_spec] hostZone_core [THEN post_spec] run_core [THEN post_spec] bin_ref
      Let_def intro!: postI dest!: core_rest)

lemma normal_pending:
  assumes "capi_lib (e_lib X)"
  shows "post (reconcileNormal X c s) (\<lambda>(r, s'). HasVM (elf s) \<longrightarrow>
     VMRef (Status (elf s')) \<in> {VMRef (Status (elf s)), []} \<or> IsUUID (VMRef (Status (elf s'))))"
proof -
  obtain ok m where fd: "reconcileFailureDomain c (elf s) = (ok, m)" by fastforce
  have m: "Status m = Status (elf s)" using failureDomain_frame [OF fd] by simp
  have vm: "post (reconcileVM X c s1) (\<lambda>(r, s'). HasVM (elf s1) \<longrightarrow>
      VMRef (Status (elf s')) \<in> {VMRef (Status (elf s1)), []} \<or> IsUUID (VMRef (Status (elf s'))))" for s1
    unfolding reconcileVM_def
    by (auto simp: post_simps getVM_ref [THEN post_spec] found_pending [THEN post_spec]
        split: sum.splits option.splits intro!: postI)
  have "post (reconcileNormal_ready X c s1) (\<lambda>(r, s'). HasVM (elf s1) \<longrightarrow>
      VMRef (Status (elf s')) \<in> {VMRef (Status (elf s1)), []} \<or> IsUUID (VMRef (Status (elf s'))))" for s1
    unfolding reconcileNormal_ready_def reconcileNormal_vm_def
    by (auto simp: post_simps placementGroup_elf [THEN post_spec] vm [THEN post_spec] core_def
        running_frame [OF assms, THEN post_spec] anchor_def split: option.splits intro!: postI)
  note ready = this [THEN post_spec]
  have add: "elf (snd (AddFinalizerWithOptimisticLock X m1 f s)) = elf s" for m1 f
    by (simp add: AddFinalizerWithOptimisticLock_def query_eq Let_def split: sum.splits)
  show ?thesis
    unfolding reconcileNormal_def Let_def fd split_def
    by (cases ok) (auto simp: post_simps ready m HasVM_def add intro!: postI)
qed

section \<open>Properties of a machine that is not deleted\<close>

text \<open>
  A concrete Tower and API server for the examples: a worker whose placement group exists; the
  virtual machine, once created, runs with one address.
\<close>

definition wit_uuid :: string where
  "wit_uuid = ''12345678-1234-1234-1234-123456789abc''"

definition wit_run_env :: "(unit, cacheVal ttl) env" where
  "wit_run_env = wit_env\<lparr>
     e_k8s := wit_k8s\<lparr>K_GetSecretData := (\<lambda>_ _ w. (Inr [(''value'', ''data'')], w)),
       K_GetMD := (\<lambda>_ n w. (Inr \<lparr>md_meta = wit_meta n, md_specReplicas = Some 1\<rparr>, w)),
       K_NodesByProviderID := (\<lambda>_ w. (Inr [\<lparr>n_Name = ''n'', n_ProviderID = [], n_Labels = None, n_Addresses = []\<rparr>], w))\<rparr>,
     e_svc := wit_svc\<lparr>
       Svc_GetVMPlacementGroup := (\<lambda>_ w. (Inr (wit_pg\<lparr>pg_Vms := [\<lparr>ref_ID = Some ''v1'', ref_Name = Some ''vm1''\<rparr>]\<rparr>), w)),
       Svc_Get := (\<lambda>i w. if i = wit_uuid then (Inr (wit_vm\<lparr>vm_Status := Some VMStatusRUNNING\<rparr>), w) else (Inl (ErrMsg VMNotFound), w)),
       Svc_GetVMDisks := (\<lambda>_ w. (Inr [\<lparr>vd_ID = Some ''d1'', vd_Boot = Some 0, vd_VMVolume = Some \<lparr>ref_ID = Some ''vol1'', ref_Name = None\<rparr>\<rparr>], w)),
       Svc_GetVMVolume := (\<lambda>i w. (Inr \<lparr>vol_ID = Some i, vol_Name = None, vol_Size = Some (40 * 2 ^ 30), vol_EntityAsyncStatus = None,
          vol_StorageClusterConfig = None\<rparr>, w)),
       Svc_GetVMNics := (\<lambda>_ w. (Inr [\<lparr>nic_ID = None, nic_IPAddress = Some ''10.0.0.5'', nic_MacAddress = None,
          nic_Gateway = None, nic_SubnetMask = None\<rparr>], w)),
       Svc_UpsertLabel := (\<lambda>_ _ w. (Inr \<lparr>lb_ID = None, lb_Key = None, lb_Value = None\<rparr>, w)),
       Svc_Clone := (\<lambda>_ _ _ w. (Inr \<lparr>wt_DataID = Some ''tmp1'', wt_TaskID = Some ''t1''\<rparr>, w))\<rparr>\<rparr>"

definition wit_run_st :: "(unit, cacheVal ttl) st" where
  "wit_run_st = updElf (SetVM wit_uuid) wit_st"

lemma wit_clone:
  "case reconcileNormal wit_run_env wit_worker wit_st of Some (r, s') \<Rightarrow> clones s' \<noteq> [] | None \<Rightarrow> False"
  by code_simp

lemma wit_ready:
  "case reconcileNormal wit_run_env wit_worker wit_run_st of
     Some (r, s') \<Rightarrow> Ready (Status (elf s')) \<and> VMRef (Status (elf s')) = wit_uuid | None \<Rightarrow> False"
  by code_simp

lemma wit_run_lib: "capi_lib (e_lib wit_run_env)"
  by (simp add: wit_run_env_def reflib.capi_lib_axioms)

text \<open>
  Property C1. One run creates at most one virtual machine: it asks Tower for a clone at most
  once, only when the ElfMachine has no virtual machine, under the name of the ElfMachine and
  with bootstrap data.
\<close>

theorem creates_at_most_one_vm:
  assumes "capi_lib (e_lib X)" and "reconcileNormal X c s = Some (r, s')"
  shows "filter isClone (calls s') = filter isClone (calls s) \<or>
    \<not> HasVM (elf s) \<and> (\<exists>info. filter isClone (calls s') = filter isClone (calls s) @ [CallClone (om_Name (em_meta (elf s))) info] \<and>
      cvi_CloudInit info \<noteq> [])"
  using normal_frame [OF assms(1), THEN postD, OF assms(2)]
  by (auto simp: normalRun_def createsOnce_def cloneOf_def split: if_splits)

theorem creates_at_most_one_vm_witness:
  "\<exists>r s' info. reconcileNormal wit_run_env wit_worker wit_st = Some (r, s') \<and>
     filter isClone (calls s') = [CallClone ''vm1'' info] \<and> cvi_CloudInit info \<noteq> []"
proof -
  obtain r s' where r: "reconcileNormal wit_run_env wit_worker wit_st = Some (r, s')" "clones s' \<noteq> []"
    using wit_clone by (auto split: option.splits)
  from creates_at_most_one_vm [OF wit_run_lib r(1)] r show ?thesis
    by (auto simp: wit_st_def wit_elf_def wit_meta_def)
qed

text \<open>
  Property C6. A machine becomes ready only for a running virtual machine: in the run that sets
  the flag, Tower returned a virtual machine that is running, outside the recycle bin, without
  an operation and with at least the specified CPUs and memory; the provider ID of the ElfMachine
  is made of its UUID, the ElfMachine has an address and its condition
  \<^verbatim>\<open>VMProvisioned\<close> is true.
\<close>

theorem ready_only_when_running:
  assumes "capi_lib (e_lib X)" and "reconcileNormal X c s = Some (r, s')"
    and "\<not> Ready (Status (elf s))" and "Ready (Status (elf s'))"
  shows "\<exists>v u w vmRef cpu mem. fst (Svc_Get (e_svc X) vmRef w) = Inr v \<and> vm_Status v = Some VMStatusRUNNING \<and>
    vm_EntityAsyncStatus v = None \<and> \<not> IsVMInRecycleBin v \<and> vm_Vcpu v = Some cpu \<and> vm_Memory v = Some mem \<and>
    NumCPUs (Spec (elf s)) \<le> cpu \<and> MemoryMiB (Spec (elf s)) \<le> ByteToMiB mem \<and>
    vm_LocalID v = Some u \<and> IsUUID u \<and> ProviderID (Spec (elf s')) = Some (ProviderIDPrefix @ u) \<and>
    Addresses (Status (elf s')) \<noteq> [] \<and> condIsTrue (e_lib X) (Conditions (Status (elf s'))) VMProvisionedCondition"
proof -
  from normal_frame [OF assms(1), THEN postD, OF assms(2)] assms(3,4)
  obtain v where "runningVM X (Spec (elf s)) v" "readyAs (e_lib X) (elf s') v" by (auto simp: normalRun_def)
  then show ?thesis unfolding runningVM_def readyAs_def by blast
qed

theorem ready_only_when_running_witness:
  "\<exists>r s'. reconcileNormal wit_run_env wit_worker wit_run_st = Some (r, s') \<and> Addresses (Status (elf s')) \<noteq> []"
proof -
  obtain r s' where r: "reconcileNormal wit_run_env wit_worker wit_run_st = Some (r, s')" "Ready (Status (elf s'))"
    using wit_ready by (auto split: option.splits)
  have "\<not> Ready (Status (elf wit_run_st))" by (simp add: wit_run_st_def wit_st_def wit_elf_def SetVM_def)
  from ready_only_when_running [OF wit_run_lib r(1) this r(2)] r(1) show ?thesis by blast
qed

end
