(* ===== verification/Elf_Deletion.thy ===== *)
theory Elf_Deletion
  imports Elf_Lifecycle
begin

text \<open>
  Deleting an ElfMachine: what is asked of Tower, when the finalizer may go, and that deletion
  ends.
\<close>

section \<open>Deleting the virtual machine\<close>

text \<open>What one run of \<^verbatim>\<open>reconcileDeleteVM\<close> may ask of Tower, by the state of the virtual machine.\<close>

definition deleteCall :: "('w, 'c) env \<Rightarrow> machineContext \<Rightarrow> elfMachine \<Rightarrow> vm \<Rightarrow> towerCall \<Rightarrow> bool" where
  "deleteCall X c m v call \<longleftrightarrow> vm_EntityAsyncStatus v = None \<and>
     (if vm_Status v = Some VMStatusRUNNING
      then call = CallShutDown (VMRef (Status m)) \<and> (RequiresVGPUDevices m \<or> ec_VMGracefulShutdown (mc_ElfCluster c)) \<or>
           call = CallPowerOff (VMRef (Status m))
      else call = CallDelete (VMRef (Status m)))"

lemma requires_vgpu: "Spec m' = Spec m \<Longrightarrow> RequiresVGPUDevices m' = RequiresVGPUDevices m"
  by (simp add: RequiresVGPUDevices_def)

lemma deleteVM_frame:
  "post (reconcileDeleteVM X c s) (\<lambda>(err, s').
     om_Finalizers (em_meta (elf s')) = om_Finalizers (em_meta (elf s)) \<and> Spec (elf s') = Spec (elf s) \<and>
     (calls s' = calls s \<or> (\<exists>v call. fst (Svc_Get (e_svc X) (VMRef (Status (elf s))) (world s)) = Inr v \<and>
        calls s' = calls s @ [call] \<and> deleteCall X c (elf s) v call)))"
proof -
  have node: "elf s2 = elf s1 \<and> calls s2 = calls s1" if "deleteNode X c s1 = (r, s2)" for r s1 s2
    using deleteNode_quiet [OF that] by (simp add: quiet_def)
  have set: "Spec (SetTask i m) = Spec m" "em_meta (SetTask i m) = em_meta m" "em_meta (SetVM i m) = em_meta m" for i m
    by (simp_all add: SetTask_def SetVM_def)
  have task: "post (reconcileVMTask X c (Some v) s1) (\<lambda>((taskDone, err), s').
      calls s' = calls s1 \<and> VMRef (Status (elf s')) = VMRef (Status (elf s1)) \<and> Spec (elf s') = Spec (elf s1) \<and>
      om_Finalizers (em_meta (elf s')) = om_Finalizers (em_meta (elf s1)) \<and> (taskDone \<longrightarrow> vm_EntityAsyncStatus v = None))"
    for v s1 by (rule post_mono [OF task_refs]) auto
  show ?thesis
    unfolding reconcileDeleteVM_def
    by (auto simp: post_simps query_eq task [THEN post_spec] stopForDeletion_def request_eq deleteCall_def set Let_def
        split: sum.splits prod.splits option.splits intro!: postI dest!: node dest: requires_vgpu)
qed

section \<open>The finalizer\<close>

lemma fin_updates [simp]:
  "em_meta (emMarkFalse L now t rs sev msg m) = em_meta m" "em_meta (SetVM i m) = em_meta m"
  by (simp_all add: emMarkFalse_def SetVM_def)

lemma removeFinalizer_sels [simp]:
  "calls (removeFinalizer X s) = calls s" "world (removeFinalizer X s) = world s"
  "om_Finalizers (em_meta (elf (removeFinalizer X s))) = finRemove (e_lib X) (om_Finalizers (em_meta (elf s))) MachineFinalizer"
  by (simp_all add: removeFinalizer_def)

text \<open>Deleting a placement group leaves the ElfMachine alone and asks at most for that deletion.\<close>

lemma deletePG_frame:
  "post (deletePlacementGroup X c s) (\<lambda>(r, s'). elf s' = elf s \<and>
     (calls s' = calls s \<or> (\<exists>i. calls s' = calls s @ [CallDeletePG i])))"
  unfolding deletePlacementGroup_def GetMDByMachine_def
  by (auto simp: post_simps query_eq request_eq quiet_def Let_def split_def
      split: sum.splits option.splits intro!: postI)

lemma unlock_sels [simp]: "world (unlockIfGPU c s) = world s" "elf (unlockIfGPU c s) = elf s"
  by (simp_all add: unlockIfGPU_def unlockOwnGPUs_def)

text \<open>
  The controller recognises a missing virtual machine by a substring of the error text. This is
  unambiguous for the ElfMachine \<open>m\<close> when no error of the handling of its task and of the
  deletion of its node contains it.
\<close>

definition unambiguous :: "('w, 'c) env \<Rightarrow> machineContext \<Rightarrow> elfMachine \<Rightarrow> bool" where
  "unambiguous X c m \<longleftrightarrow>
     (\<forall>v s ok err s'. Spec (elf s) = Spec m \<and> TaskRef (Status (elf s)) = TaskRef (Status m) \<and>
        VMRef (Status (elf s)) = VMRef (Status m) \<and>
        reconcileVMTask X c (Some v) s = Some ((ok, Some err), s') \<longrightarrow> \<not> IsVMNotFound (e_lib X) err) \<and>
     (\<forall>s err s'. Spec (elf s) = Spec m \<and> deleteNode X c s = (Some err, s') \<longrightarrow> \<not> IsVMNotFound (e_lib X) err)"

text \<open>Tower's last answer, in the world \<open>w'\<close>, was that the virtual machine \<open>ref\<close> is missing.\<close>

definition answeredNotFound :: "('w, 'c) env \<Rightarrow> string \<Rightarrow> 'w \<Rightarrow> bool" where
  "answeredNotFound X ref w' \<longleftrightarrow> (\<exists>err w. IsVMNotFound (e_lib X) err \<and>
     (Svc_Get (e_svc X) ref w = (Inl err, w') \<or> Svc_Delete (e_svc X) ref w = (Inl err, w') \<or>
      Svc_PowerOff (e_svc X) ref w = (Inl err, w') \<or> Svc_ShutDown (e_svc X) ref w = (Inl err, w')))"

lemma deleteVM_not_found:
  assumes U: "unambiguous X c m" and S: "Spec (elf s) = Spec m" "TaskRef (Status (elf s)) = [] \<or>
      TaskRef (Status (elf s)) = TaskRef (Status m) \<and> VMRef (Status (elf s)) = VMRef (Status m)"
  shows "post (reconcileDeleteVM X c s) (\<lambda>(r, s'). \<forall>err. r = Some err \<and> IsVMNotFound (e_lib X) err \<longrightarrow>
    answeredNotFound X (VMRef (Status (elf s))) (world s'))"
proof -
  have answer:
    "fst (Svc_Get (e_svc X) i w) = Inl err \<Longrightarrow> IsVMNotFound (e_lib X) err \<Longrightarrow> answeredNotFound X i (snd (Svc_Get (e_svc X) i w))"
    "fst (Svc_Delete (e_svc X) i w) = Inl err \<Longrightarrow> IsVMNotFound (e_lib X) err \<Longrightarrow> answeredNotFound X i (snd (Svc_Delete (e_svc X) i w))"
    "fst (Svc_PowerOff (e_svc X) i w) = Inl err \<Longrightarrow> IsVMNotFound (e_lib X) err \<Longrightarrow> answeredNotFound X i (snd (Svc_PowerOff (e_svc X) i w))"
    "fst (Svc_ShutDown (e_svc X) i w) = Inl err \<Longrightarrow> IsVMNotFound (e_lib X) err \<Longrightarrow> answeredNotFound X i (snd (Svc_ShutDown (e_svc X) i w))"
    for i w err unfolding answeredNotFound_def by (metis prod.collapse)+
  have stop: "post (stopForDeletion X c s1) (\<lambda>(r, s'). \<forall>err. r = Some err \<and> IsVMNotFound (e_lib X) err \<longrightarrow>
      answeredNotFound X (VMRef (Status (elf s1))) (world s'))" for s1
    by (auto simp: stopForDeletion_def request_eq Let_def post_simps answer split: sum.splits intro!: postI)
  have clean: "\<not> IsVMNotFound (e_lib X) e"
    if t: "reconcileVMTask X c (Some v) s1 = Some ((ok, Some e), s2)" "elf s1 = elf s" for v s1 ok e s2
  proof (cases "TaskRef (Status (elf s)) = []")
    case True
    with t show ?thesis by (simp add: reconcileVMTask_def HasTask_def)
  next
    case False
    with t S show ?thesis using U unfolding unambiguous_def by metis
  qed
  have task: "post (reconcileVMTask X c (Some v) s1) (\<lambda>((ok, err), s2). VMRef (Status (elf s2)) = VMRef (Status (elf s1)) \<and>
      Spec (elf s2) = Spec (elf s1) \<and> (\<forall>e. err = Some e \<longrightarrow> \<not> IsVMNotFound (e_lib X) e))" if "elf s1 = elf s" for v s1
    by (rule post_mono [OF task_refs]) (use clean that in auto)
  have node: "VMRef (Status (elf s2)) = VMRef (Status (elf s1)) \<and>
      (Spec (elf s1) = Spec (elf s) \<longrightarrow> (\<forall>e. r = Some e \<longrightarrow> \<not> IsVMNotFound (e_lib X) e))"
    if "deleteNode X c s1 = (r, s2)" for s1 r s2
    using deleteNode_quiet [OF that] U S(1) that unfolding quiet_def unambiguous_def by metis
  show ?thesis
    unfolding reconcileDeleteVM_def query_eq request_eq Let_def
    by (auto simp: post_simps task [THEN post_spec] stop [THEN post_spec] answer
        split: sum.splits prod.splits option.splits intro!: postI dest!: node)
qed

lemma delete_vm_finalizer:
  assumes U: "unambiguous X c m" and S: "Spec (elf s) = Spec m" "TaskRef (Status (elf s)) = [] \<or>
      TaskRef (Status (elf s)) = TaskRef (Status m) \<and> VMRef (Status (elf s)) = VMRef (Status m)"
  shows "post (reconcileDelete_vm X c s) (\<lambda>(r, s'). om_Finalizers (em_meta (elf s')) = om_Finalizers (em_meta (elf s)) \<or>
     answeredNotFound X (VMRef (Status (elf s))) (world s'))"
proof -
  have del: "post (reconcileDeleteVM X c s1) (\<lambda>(err, s'). om_Finalizers (em_meta (elf s')) = om_Finalizers (em_meta (elf s)) \<and>
      (\<forall>e. err = Some e \<and> IsVMNotFound (e_lib X) e \<longrightarrow> answeredNotFound X (VMRef (Status (elf s))) (world s')))"
    if e: "elf s1 = elf s" for s1
    by (rule post_mono [OF post_and [OF deleteVM_frame deleteVM_not_found [OF U]]]) (use e S in auto)
  show ?thesis
    unfolding reconcileDelete_vm_def
    by (auto simp: post_simps duplicates_elf [THEN post_spec] del [THEN post_spec] split: option.splits intro!: postI)
qed

text \<open>
  The evidence on which a run of the deletion, from the ElfMachine \<open>m\<close> to the world \<open>w'\<close>,
  removes the finalizer; in the world \<open>w1\<close> the placement group has been dealt with.
\<close>

definition vmGone :: "('w, 'c) env \<Rightarrow> elfMachine \<Rightarrow> 'w \<Rightarrow> 'w \<Rightarrow> bool" where
  "vmGone X m w1 w' \<longleftrightarrow>
     (if HasVM m then answeredNotFound X (VMRef (Status m)) w'
      else case Svc_GetByName (e_svc X) (om_Name (em_meta m)) w1 of
             (Inl err, w2) \<Rightarrow> IsVMNotFound (e_lib X) err \<and> w' = w2
           | (Inr v, w2) \<Rightarrow> \<exists>ref. GetVMRef (Some v) = Some ref \<and> answeredNotFound X ref w')"

lemma delete_body_finalizer:
  assumes U: "unambiguous X c m" and M: "Spec (elf s) = Spec m" "em_meta (elf s) = em_meta m"
      "TaskRef (Status (elf s)) = TaskRef (Status m)" "VMRef (Status (elf s)) = VMRef (Status m)"
    and run: "reconcileDelete_body X c s = Some (r, s')"
  shows "om_Finalizers (em_meta (elf s')) = om_Finalizers (em_meta (elf s)) \<or> HasForceDeleteCluster (mc_ElfCluster c) \<or>
     (\<exists>s1. deletePlacementGroup X c s = Some ((True, None), s1) \<and> vmGone X m (world s1) (world s'))"
proof -
  have vm: "HasVM (elf s) = HasVM m" using M by (simp add: HasVM_def)
  obtain ok err s1 where pg: "deletePlacementGroup X c s = Some ((ok, err), s1)"
    using run by (auto simp: reconcileDelete_body_def bind_eq_Some_conv)
  have e: "elf s1 = elf s" using deletePG_frame [THEN postD, OF pg] by simp
  note own = delete_vm_finalizer [OF U, THEN postD, rotated 3]
  consider (stopped) "s' = s1" | (force) "HasForceDeleteCluster (mc_ElfCluster c)"
    | (recorded) "ok" "err = None" "HasVM m" "reconcileDelete_vm X c s1 = Some (r, s')"
    | (absent) err' where "ok" "err = None" "\<not> HasVM m" "fst (Svc_GetByName (e_svc X) (om_Name (em_meta m)) (world s1)) = Inl err'"
        "IsVMNotFound (e_lib X) err' \<and> world s' = snd (Svc_GetByName (e_svc X) (om_Name (em_meta m)) (world s1)) \<or> elf s' = elf s1"
    | (present) v ref where "ok" "err = None" "\<not> HasVM m"
        "fst (Svc_GetByName (e_svc X) (om_Name (em_meta m)) (world s1)) = Inr v" "GetVMRef (Some v) = Some ref"
        "reconcileDelete_vm X c (updElf (SetVM ref) (s1\<lparr>world := snd (Svc_GetByName (e_svc X) (om_Name (em_meta m)) (world s1))\<rparr>)) = Some (r, s')"
    using run M(2) vm e
    by (auto simp: reconcileDelete_body_def pg query_eq bind_eq_Some_conv split: if_splits sum.splits)
  then show ?thesis
  proof cases
    case recorded
    with own [OF _ _ recorded(4)] pg M vm e show ?thesis by (auto simp: vmGone_def)
  next
    case absent
    with pg e show ?thesis by (auto simp: vmGone_def split: prod.splits)
  next
    case present
    with own [OF _ _ present(6)] pg M vm e show ?thesis
      by (auto simp: vmGone_def SetVM_def updElf_def split: prod.splits)
  qed (use e in auto)
qed

lemma delete_finalizer:
  assumes U: "unambiguous X c (elf s)" and run: "reconcileDelete X c s = Some (r, s')"
  shows "om_Finalizers (em_meta (elf s')) = om_Finalizers (em_meta (elf s)) \<or> HasForceDeleteCluster (mc_ElfCluster c) \<or>
     (\<exists>s1. deletePlacementGroup X c (markFalse X c VMProvisionedCondition DeletingReason SevInfo [] s) = Some ((True, None), s1) \<and>
        vmGone X (elf s) (world s1) (world s'))"
proof -
  let ?s = "markFalse X c VMProvisionedCondition DeletingReason SevInfo [] s"
  obtain s2 where body: "reconcileDelete_body X c ?s = Some (r, s2)" and s': "s' = s2 \<or> s' = unlockIfGPU c s2"
    using run by (auto simp: reconcileDelete_def bind_eq_Some_conv split: if_splits)
  have "Spec (elf ?s) = Spec (elf s)" "em_meta (elf ?s) = em_meta (elf s)"
    "TaskRef (Status (elf ?s)) = TaskRef (Status (elf s))" "VMRef (Status (elf ?s)) = VMRef (Status (elf s))"
    by (simp_all add: markFalse_def emMarkFalse_def)
  from delete_body_finalizer [OF U this body] s' show ?thesis
    by (auto simp: markFalse_def)
qed

section \<open>Deletion ends\<close>











lemma default_prefix:
  "groupName \<noteq> [] \<Longrightarrow> strHasPrefix (placementGroupNameFor X m cl groupName) (GetVMPlacementGroupNamePrefix X cl)"
  by (simp add: placementGroupNameFor_def strHasPrefix_def Let_def split: option.splits)

section \<open>Properties\<close>

text \<open>
  Property C3. The finalizer of an ElfMachine, and with it the record of its virtual machine, goes
  only on evidence from Tower, unless the cluster is force-deleted. Before anything else the
  placement group was dealt with. If the ElfMachine has a virtual machine, the last answer of
  Tower in the run, to a lookup, a deletion, a power-off or a shutdown of exactly that one, was
  that it does not exist. If it has none, Tower was asked for one under the name of the
  ElfMachine: either it answered that there is none, and nothing was asked afterwards, or the
  last answer of the run was that the one found does not exist. On every other path, errors
  included, the finalizers stay as they are. The errors of the task handling and of the node
  deletion must not contain Tower's code for a missing virtual machine (\<^const>\<open>unambiguous\<close>),
  as the controller looks for that code in the error text.
\<close>

theorem finalizer_removed_only_when_gone:
  assumes "unambiguous X c (elf s)" and "reconcileDelete X c s = Some (r, s')"
    and "om_Finalizers (em_meta (elf s')) \<noteq> om_Finalizers (em_meta (elf s))"
  shows "HasForceDeleteCluster (mc_ElfCluster c) \<or>
    (\<exists>s1. deletePlacementGroup X c (markFalse X c VMProvisionedCondition DeletingReason SevInfo [] s) = Some ((True, None), s1) \<and>
      (if HasVM (elf s) then answeredNotFound X (VMRef (Status (elf s))) (world s')
       else case Svc_GetByName (e_svc X) (om_Name (em_meta (elf s))) (world s1) of
              (Inl err, w) \<Rightarrow> IsVMNotFound (e_lib X) err \<and> world s' = w
            | (Inr v, w) \<Rightarrow> \<exists>ref. GetVMRef (Some v) = Some ref \<and> answeredNotFound X ref (world s')))"
  using delete_finalizer [OF assms(1,2)] assms(3) by (simp add: vmGone_def)

definition wit_deleted_ctx :: machineContext where
  "wit_deleted_ctx = wit_ctx\<lparr>mc_Cluster := (mc_Cluster wit_ctx)\<lparr>cl_meta := (wit_meta ''cluster1'')\<lparr>om_DeletionTimestamp := Some 0\<rparr>\<rparr>\<rparr>"

text \<open>A world that records the last question; no virtual machine exists in it.\<close>

definition wit_gone_env :: "(string, cacheVal ttl) env" where
  "wit_gone_env = wit_env\<lparr>e_svc := wit_svc\<lparr>Svc_Get := (\<lambda>i w. (Inl (ErrMsg VMNotFound), ''get'' @ i))\<rparr>\<rparr>"

definition wit_gone_st :: "(string, cacheVal ttl) st" where
  "wit_gone_st = \<lparr>elf = SetVM ''v9'' wit_elf, world = [], glob = wit_gstate, calls = []\<rparr>"

lemma wit_delete:
  "case reconcileDelete wit_gone_env wit_deleted_ctx wit_gone_st of
     Some (r, s') \<Rightarrow> om_Finalizers (em_meta (elf s')) \<noteq> om_Finalizers (em_meta (elf wit_gone_st)) \<and> world s' = ''getv9''
   | None \<Rightarrow> False"
  by code_simp

theorem finalizer_removed_only_when_gone_witness:
  "\<exists>r s'. reconcileDelete wit_gone_env wit_deleted_ctx wit_gone_st = Some (r, s') \<and> world s' = ''getv9'' \<and>
     answeredNotFound wit_gone_env ''v9'' (world s')"
proof -
  obtain r s' where run: "reconcileDelete wit_gone_env wit_deleted_ctx wit_gone_st = Some (r, s')"
    "om_Finalizers (em_meta (elf s')) \<noteq> om_Finalizers (em_meta (elf wit_gone_st))" and w: "world s' = ''getv9''"
    using wit_delete by (auto split: option.splits)
  have "unambiguous wit_gone_env wit_deleted_ctx (elf wit_gone_st)"
    by (auto simp: unambiguous_def reconcileVMTask_def HasTask_def wit_gone_st_def wit_elf_def SetVM_def
        deleteNode_def wit_deleted_ctx_def)
  moreover have "\<not> HasForceDeleteCluster (mc_ElfCluster wit_deleted_ctx)" "HasVM (elf wit_gone_st)" "VMRef (Status (elf wit_gone_st)) = ''v9''"
    by (simp_all add: HasForceDeleteCluster_def wit_deleted_ctx_def wit_ctx_def wit_meta_def wit_gone_st_def HasVM_def)
  ultimately show ?thesis using finalizer_removed_only_when_gone [OF _ run] run(1) w by auto
qed

text \<open>
  Property C8. Deleting the virtual machine asks Tower for at most one change per run, on the
  recorded virtual machine and only while no operation runs on it: a running one is shut down
  when the machine has vGPUs or graceful shutdown is configured, or powered off; only one that
  does not run is deleted. The finalizers and the specification stay as they are.
\<close>

theorem vm_deleted_only_when_stopped:
  assumes "reconcileDeleteVM X c s = Some (err, s')"
  shows "om_Finalizers (em_meta (elf s')) = om_Finalizers (em_meta (elf s)) \<and> Spec (elf s') = Spec (elf s) \<and>
    (calls s' = calls s \<or> (\<exists>v call. fst (Svc_Get (e_svc X) (VMRef (Status (elf s))) (world s)) = Inr v \<and>
       calls s' = calls s @ [call] \<and> deleteCall X c (elf s) v call))"
  using deleteVM_frame [THEN postD, OF assms] by simp

definition wit_del_env :: "(unit, cacheVal ttl) env" where
  "wit_del_env = wit_run_env\<lparr>e_svc := (e_svc wit_run_env)\<lparr>Svc_PowerOff := (\<lambda>_ w. (Inr wit_task, w))\<rparr>\<rparr>"

lemma wit_delete_running:
  "case reconcileDeleteVM wit_del_env wit_worker wit_run_st of
     Some (err, s') \<Rightarrow> calls s' = [CallPowerOff wit_uuid] | None \<Rightarrow> False"
  by code_simp

theorem vm_deleted_only_when_stopped_witness:
  "\<exists>v. deleteCall wit_del_env wit_worker (elf wit_run_st) v (CallPowerOff wit_uuid)"
proof -
  obtain err s' where "reconcileDeleteVM wit_del_env wit_worker wit_run_st = Some (err, s')"
    and c: "calls s' = [CallPowerOff wit_uuid]"
    using wit_delete_running by (auto split: option.splits)
  from vm_deleted_only_when_stopped [OF this(1)] c show ?thesis
    by (auto simp: wit_run_st_def wit_st_def)
qed




text \<open>
  Force deletion needs no Tower: while the cluster is deleted, the deletion of a
  machine whose cluster carries the force-delete annotation returns, asks nothing of Tower and
  of the API server, and removes the finalizer, whatever the virtual machine.
\<close>

theorem force_delete_needs_no_tower:
  assumes "capi_lib (e_lib X)" and "HasForceDeleteCluster (mc_ElfCluster c)"
    and "om_DeletionTimestamp (cl_meta (mc_Cluster c)) \<noteq> None"
  shows "\<exists>s'. reconcileDelete X c s = Some ((noRequeue, None), s') \<and> calls s' = calls s \<and> world s' = world s \<and>
    \<not> finContains (e_lib X) (om_Finalizers (em_meta (elf s'))) MachineFinalizer"
  using assms
  by (simp add: reconcileDelete_def reconcileDelete_body_def deletePlacementGroup_def capi_lib.finContains_remove markFalse_def)

theorem force_delete_needs_no_tower_witness:
  "\<exists>s'. reconcileDelete (wit_env :: (unit, cacheVal ttl) env)
      (wit_deleted_ctx\<lparr>mc_ElfCluster := (mc_ElfCluster wit_ctx)\<lparr>ec_meta := (wit_meta ''cluster1'')
        \<lparr>om_Annotations := Some [(ElfClusterForceDeleteAnnotation, [])]\<rparr>\<rparr>\<rparr>) wit_st = Some ((noRequeue, None), s') \<and> calls s' = []"
  using force_delete_needs_no_tower [of "wit_env :: (unit, cacheVal ttl) env"
      "wit_deleted_ctx\<lparr>mc_ElfCluster := (mc_ElfCluster wit_ctx)\<lparr>ec_meta := (wit_meta ''cluster1'')
        \<lparr>om_Annotations := Some [(ElfClusterForceDeleteAnnotation, [])]\<rparr>\<rparr>\<rparr>" wit_st]
  by (auto simp: reflib.capi_lib_axioms wit_deleted_ctx_def HasForceDeleteCluster_def HasAnnotation_def wit_st_def)

text \<open>
  Property C34. Force deletion of a worker panics outside the deletion of the cluster: the service
  is then not set up, and when the MachineDeployment of the machine is returned but is itself
  being deleted or scaled to zero, and its placement group has the default name, the group is
  looked up through the missing service.
\<close>

theorem force_delete_worker_panics:
  assumes "mc_VMServiceNil c" and "om_DeletionTimestamp (cl_meta (mc_Cluster c)) = None"
    and "\<not> IsControlPlaneMachine (m_meta (mc_Machine c))" and "GetDeploymentNameLabel (m_meta (mc_Machine c)) \<noteq> []"
    and md: "\<And>w. K_GetMD (e_k8s X) (om_Namespace (m_meta (mc_Machine c))) (GetDeploymentNameLabel (m_meta (mc_Machine c))) w = (Inr md, w)"
    and "om_DeletionTimestamp (md_meta md) \<noteq> None \<or> md_specReplicas md = Some 0"
    and "GetPlacementGroupName (md_meta md) = []"
  shows "reconcileDelete X c s = None"
proof -
  have "deletePlacementGroup X c s1 = None" for s1
    using assms by (auto simp: deletePlacementGroup_def GetMDByMachine_def GetVMPlacementGroupName_def query_eq default_prefix)
  then show ?thesis by (simp add: reconcileDelete_def reconcileDelete_body_def)
qed

theorem force_delete_worker_panics_witness:
  "reconcileDelete (wit_env\<lparr>e_k8s := wit_k8s\<lparr>K_GetMD := (\<lambda>_ n w. (Inr \<lparr>md_meta = wit_meta n, md_specReplicas = Some 0\<rparr>, w))\<rparr>\<rparr>)
     (wit_worker\<lparr>mc_VMServiceNil := True\<rparr>) wit_st = None"
  by (rule force_delete_worker_panics [where md = "\<lparr>md_meta = wit_meta ''md1'', md_specReplicas = Some 0\<rparr>"])
    (simp_all add: wit_worker_def wit_ctx_def wit_meta_def IsControlPlaneMachine_def GetDeploymentNameLabel_def GetLabelValue_def
      GetPlacementGroupName_def const_defs)

end
