(* ===== verification/Life_Cycle.thy ===== *)
theory Life_Cycle
  imports Elf_Deletion
begin

text \<open>
  The life of the virtual machine of an ElfMachine over whole runs of the controller, deletion
  runs included, as an abstract transition system that the runs refine.
\<close>

section \<open>The abstract view\<close>

text \<open>
  The phase of the virtual machine, whether the machine has failed, whether it is being deleted,
  and whether its finalizer guards it. Tower identifies a virtual machine under creation by a
  temporary ID; once it exists it has a UUID.
\<close>

datatype phase = NoVM | Creating string | Created string

record life =
  lf_Phase :: phase
  lf_Failed :: bool
  lf_Deleting :: bool
  lf_Guarded :: bool

definition phaseOf :: "elfMachine \<Rightarrow> phase" where
  "phaseOf m = (let r = VMRef (Status m) in if r = [] then NoVM else if IsUUID r then Created r else Creating r)"

definition lifeOf :: "lib \<Rightarrow> elfMachine \<Rightarrow> life" where
  "lifeOf L m = \<lparr>lf_Phase = phaseOf m, lf_Failed = IsFailed m, lf_Deleting = om_DeletionTimestamp (em_meta m) \<noteq> None,
     lf_Guarded = finContains L (om_Finalizers (em_meta m)) MachineFinalizer\<rparr>"

text \<open>
  The contract of one run. A machine that is not deleted: a virtual machine that exists is
  replaced by no other, a failed machine stays as it is, and the guard is not touched. A machine
  that is deleted: its virtual machine is kept until the guard goes with it; only when none is
  recorded may one be found again; a failure is never forgotten and the guard never put back.
\<close>

inductive lifeSpec :: "life \<Rightarrow> life \<Rightarrow> bool" where
  create: "lifeSpec \<lparr>lf_Phase = NoVM, lf_Failed = False, lf_Deleting = False, lf_Guarded = g\<rparr>
             \<lparr>lf_Phase = p, lf_Failed = f, lf_Deleting = False, lf_Guarded = g\<rparr>"
| pending: "p = Creating r \<or> p = NoVM \<or> p = Created u \<Longrightarrow>
     lifeSpec \<lparr>lf_Phase = Creating r, lf_Failed = False, lf_Deleting = False, lf_Guarded = g\<rparr>
       \<lparr>lf_Phase = p, lf_Failed = f, lf_Deleting = False, lf_Guarded = g\<rparr>"
| keep: "lifeSpec \<lparr>lf_Phase = Created u, lf_Failed = False, lf_Deleting = False, lf_Guarded = g\<rparr>
           \<lparr>lf_Phase = Created u, lf_Failed = f, lf_Deleting = False, lf_Guarded = g\<rparr>"
| lost: "lifeSpec \<lparr>lf_Phase = Created u, lf_Failed = False, lf_Deleting = False, lf_Guarded = g\<rparr>
           \<lparr>lf_Phase = NoVM, lf_Failed = True, lf_Deleting = False, lf_Guarded = g\<rparr>"
| failed: "lifeSpec \<lparr>lf_Phase = p, lf_Failed = True, lf_Deleting = False, lf_Guarded = g\<rparr>
             \<lparr>lf_Phase = p, lf_Failed = True, lf_Deleting = False, lf_Guarded = g\<rparr>"
| delete: "(f \<longrightarrow> f') \<Longrightarrow> (g' \<longrightarrow> g) \<Longrightarrow> p' = p \<or> p = NoVM \<or> p' = NoVM \<and> \<not> g' \<Longrightarrow>
     lifeSpec \<lparr>lf_Phase = p, lf_Failed = f, lf_Deleting = True, lf_Guarded = g\<rparr>
       \<lparr>lf_Phase = p', lf_Failed = f', lf_Deleting = True, lf_Guarded = g'\<rparr>"

inductive_cases lifeSpec_cases: "lifeSpec a b"

lemma lifeSpec_refl: "lifeSpec l l"
proof (cases l)
  case (fields p f d g)
  then show ?thesis by (cases d; cases f; cases p) (auto intro: lifeSpec.intros)
qed

section \<open>A run of the deletion\<close>

text \<open>A failure is never forgotten.\<close>

abbreviation keepsFailure :: "('w, 'c) st \<Rightarrow> ('w, 'c) st \<Rightarrow> bool" where
  "keepsFailure s s' \<equiv> IsFailed (elf s) \<longrightarrow> IsFailed (elf s')"

lemma failed_updates [simp]:
  "IsFailed (emMarkFalse L now t rs sev msg m) = IsFailed m" "IsFailed (emMarkTrue L now t m) = IsFailed m"
  "IsFailed (SetTask i m) = IsFailed m" "IsFailed (SetVM i m) = IsFailed m" "IsFailed (SetFailure a b m)"
  "IsFailed (updStatus (\<lambda>st. st\<lparr>Conditions := cf st\<rparr>) m) = IsFailed m"
  by (simp_all add: IsFailed_def emMarkFalse_def emMarkTrue_def SetTask_def SetVM_def SetFailure_def)

lemma failed_ops [simp]:
  "IsFailed (elf (recordElfClusterStorageInsufficient X c b s)) = IsFailed (elf s)"
  "IsFailed (elf (recordElfClusterMemoryInsufficient X c b s)) = IsFailed (elf s)"
  "IsFailed (elf (setVMDuplicateSt X c s)) = IsFailed (elf s)"
  "IsFailed (elf (hotMarkFalse X c rs sev msg s)) = IsFailed (elf s)"
  by (simp_all add: recordElfClusterStorageInsufficient_def recordElfClusterMemoryInsufficient_def
      setVMDuplicateSt_def hotMarkFalse_def Let_def)

lemma byKind_failed [simp]: "IsFailed (elf (failedTaskByKind X c task msg s)) = IsFailed (elf s)"
  by (simp add: failedTaskByKind_def Let_def)

lemma task_failed: "post (reconcileVMTask X c vo s) (\<lambda>(r, s'). keepsFailure s s')"
proof -
  have pg: "post (recordPlacementGroupPolicyNotSatisfied X c b s1) (\<lambda>(e, s'). keepsFailure s1 s')" for b s1
    by (auto simp: recordPlacementGroupPolicyNotSatisfied_def post_simps Let_def split: sum.splits)
  have err: "post (failedTaskByError X c msg s1) (\<lambda>(e, s'). keepsFailure s1 s')" for msg s1
    by (auto simp: failedTaskByError_def post_simps pg [THEN post_spec] intro!: postI)
  have bad: "post (reconcileVMFailedTask X c task s1) (\<lambda>(e, s'). keepsFailure s1 s')" for task s1
    by (auto simp: reconcileVMFailedTask_def Let_def err [THEN post_spec] intro!: postI)
  have boot: "SetVMFirstBootTimestamp L t m = Some m' \<Longrightarrow> IsFailed m' = IsFailed m" for L t m m'
    by (drule firstBoot_refs) (simp add: IsFailed_def)
  have good: "post (succeededTask X c task s1) (\<lambda>(e, s'). keepsFailure s1 s')" for task s1
    unfolding succeededTask_def Let_def
    by (auto simp: post_simps pg [THEN post_spec] intro!: postI dest!: boot)
  show ?thesis
    unfolding reconcileVMTask_def Let_def
    by (auto simp: post_simps query_eq bad [THEN post_spec] good [THEN post_spec] taskDeferred_def
        split: sum.splits intro!: postI)
qed

text \<open>What one run of the deletion does to the reference, the failure, the flags.\<close>

definition deleteStep :: "elfMachine \<Rightarrow> elfMachine \<Rightarrow> bool" where
  "deleteStep m m' \<longleftrightarrow> om_DeletionTimestamp (em_meta m') = om_DeletionTimestamp (em_meta m) \<and>
     (IsFailed m \<longrightarrow> IsFailed m')"

lemma deleteVM_step:
  "post (reconcileDeleteVM X c s) (\<lambda>(err, s'). deleteStep (elf s) (elf s') \<and>
     om_Finalizers (em_meta (elf s')) = om_Finalizers (em_meta (elf s)) \<and>
     (VMRef (Status (elf s')) = VMRef (Status (elf s)) \<or>
      VMRef (Status (elf s')) = [] \<and> (\<exists>e. err = Some e \<and> IsVMNotFound (e_lib X) e)))"
proof -
  have node: "elf s2 = elf s1" if "deleteNode X c s1 = (r, s2)" for r s1 s2
    using deleteNode_quiet [OF that] by (simp add: quiet_def)
  have set: "em_meta (SetTask i m) = em_meta m" "em_meta (SetVM i m) = em_meta m" for i m
    by (simp_all add: SetTask_def SetVM_def)
  have task: "post (reconcileVMTask X c (Some v) s1) (\<lambda>(r, s'). deleteStep (elf s1) (elf s') \<and>
      om_Finalizers (em_meta (elf s')) = om_Finalizers (em_meta (elf s1)) \<and> VMRef (Status (elf s')) = VMRef (Status (elf s1)))"
    for v s1
    by (rule post_mono [OF post_and [OF task_core task_failed]]) (auto simp: deleteStep_def core_def rest_def)
  have stay: "deleteStep m m" "deleteStep m (SetTask i m') = deleteStep m m'" "deleteStep m (SetVM i m') = deleteStep m m'" for m m' i
    by (simp_all add: deleteStep_def set)
  have stop: "post (stopForDeletion X c s1) (\<lambda>(err, s'). deleteStep (elf s1) (elf s') \<and>
      em_meta (elf s') = em_meta (elf s1) \<and> VMRef (Status (elf s')) = VMRef (Status (elf s1)))" for s1
    unfolding stopForDeletion_def Let_def
    by (auto simp: post_simps request_eq stay set split: sum.splits intro!: postI)
  have trans: "deleteStep m1 m2 \<Longrightarrow> deleteStep m2 m3 \<Longrightarrow> deleteStep m1 m3" for m1 m2 m3
    by (simp add: deleteStep_def)
  show ?thesis
    unfolding reconcileDeleteVM_def
    by (auto simp: post_simps query_eq request_eq task [THEN post_spec] stop [THEN post_spec] stay set Let_def
        split: sum.splits prod.splits option.splits intro!: postI dest!: node intro: trans)
qed

text \<open>
  A deletion run keeps the finalizers and the reference, or drops the finalizer; without a
  virtual machine it may record the one it finds.
\<close>

definition deleteRun :: "lib \<Rightarrow> elfMachine \<Rightarrow> elfMachine \<Rightarrow> bool" where
  "deleteRun L m m' \<longleftrightarrow> deleteStep m m' \<and>
     (let fs = om_Finalizers (em_meta m); fs' = om_Finalizers (em_meta m'); r = VMRef (Status m); r' = VMRef (Status m') in
        fs' = fs \<and> r' = r \<or> fs' = finRemove L fs MachineFinalizer \<and> r' \<in> {[], r} \<or>
        r = [] \<and> fs' \<in> {fs, finRemove L fs MachineFinalizer})"

lemma removeFinalizer_step [simp]:
  "VMRef (Status (elf (removeFinalizer X s))) = VMRef (Status (elf s))"
  "IsFailed (elf (removeFinalizer X s)) = IsFailed (elf s)"
  "om_DeletionTimestamp (em_meta (elf (removeFinalizer X s))) = om_DeletionTimestamp (em_meta (elf s))"
  by (simp_all add: removeFinalizer_def IsFailed_def)

lemma delete_vm_run: "post (reconcileDelete_vm X c s) (\<lambda>(r, s'). deleteRun (e_lib X) (elf s) (elf s'))"
  unfolding reconcileDelete_vm_def
  by (auto simp: post_simps duplicates_elf [THEN post_spec] deleteVM_step [THEN post_spec] deleteRun_def deleteStep_def Let_def
      split: option.splits intro!: postI)

lemma deleteRun_found: "deleteRun L (SetVM ref m) m' \<Longrightarrow> VMRef (Status m) = [] \<Longrightarrow> deleteRun L m m'"
  by (auto simp: deleteRun_def deleteStep_def SetVM_def Let_def IsFailed_def)

lemma delete_body_run: "post (reconcileDelete_body X c s) (\<lambda>(r, s'). deleteRun (e_lib X) (elf s) (elf s'))"
proof -
  have stay: "deleteRun L m m" for L m by (simp add: deleteRun_def deleteStep_def Let_def)
  have drop: "deleteRun (e_lib X) (elf s1) (elf (removeFinalizer X s1))" for s1
    by (simp add: deleteRun_def deleteStep_def Let_def)
  have drop_world: "deleteRun (e_lib X) (elf s1) (elf (removeFinalizer X (s1\<lparr>world := w\<rparr>)))" for s1 w
    using drop [of "s1\<lparr>world := w\<rparr>"] by simp
  show ?thesis
    unfolding reconcileDelete_body_def
    by (auto simp: post_simps query_eq deletePG_frame [THEN post_spec] delete_vm_run [THEN post_spec] HasVM_def stay
        split: sum.splits intro!: postI intro: deleteRun_found)
      (metis drop drop_world)+
qed

lemma delete_run: "post (reconcileDelete X c s) (\<lambda>(r, s'). deleteRun (e_lib X) (elf s) (elf s'))"
proof -
  have mark: "deleteRun L (emMarkFalse L' now t rs sev msg m) m' = deleteRun L m m'" for L L' now t rs sev msg m m'
    by (simp add: deleteRun_def deleteStep_def)
  show ?thesis
    unfolding reconcileDelete_def
    by (auto simp: post_simps delete_body_run [THEN post_spec] mark intro!: postI)
qed

section \<open>A whole run\<close>

lemma lifeOf_conditions [simp]:
  "lifeOf L (emMarkFalse L' now t rs sev msg m) = lifeOf L m" "lifeOf L (emMarkTrue L' now t m) = lifeOf L m"
  "lifeOf L (updStatus (\<lambda>st. st\<lparr>Conditions := cf st\<rparr>) m) = lifeOf L m"
  by (simp_all add: lifeOf_def phaseOf_def)

lemma service_life: "newVMService X c s = (r, s') \<Longrightarrow> lifeOf L (elf s') = lifeOf L (elf s)"
  by (auto simp: newVMService_def query_eq split: if_splits sum.splits)

lemma deferred_life: "lifeOf L (elf (snd (reconcileDeferred X c r s))) = lifeOf L (elf s)"
  by (auto simp: reconcileDeferred_def query_eq Let_def split: prod.splits)

lemma normal_refines:
  assumes "capi_lib (e_lib X)" and "reconcileNormal X c s = Some (r, s')"
    and live: "om_DeletionTimestamp (em_meta (elf s)) = None"
  shows "lifeSpec (lifeOf (e_lib X) (elf s)) (lifeOf (e_lib X) (elf s'))"
proof (cases "IsFailed (elf s)")
  case True
  with assms(2) have "s' = s" by (simp add: reconcileNormal_def)
  with True live show ?thesis by (simp add: lifeOf_def lifeSpec.failed)
next
  case False
  have "identityKept (elf s) (elf s')" "om_Finalizers (em_meta (elf s')) = om_Finalizers (em_meta (elf s))"
    "om_DeletionTimestamp (em_meta (elf s')) = None"
    using normal_frame [OF assms(1), THEN postD, OF assms(2)] live by (simp_all add: normalRun_def)
  moreover have "HasVM (elf s) \<longrightarrow> VMRef (Status (elf s')) \<in> {VMRef (Status (elf s)), []} \<or> IsUUID (VMRef (Status (elf s')))"
    using normal_pending [OF assms(1), THEN postD, OF assms(2)] by simp
  ultimately show ?thesis using False live
    by (auto simp: lifeOf_def phaseOf_def identityKept_def HasVM_def Let_def intro: lifeSpec.intros)
qed

lemma delete_refines:
  assumes L: "capi_lib (e_lib X)" and "reconcileDelete X c s = Some (r, s')"
    and gone: "om_DeletionTimestamp (em_meta (elf s)) \<noteq> None"
  shows "lifeSpec (lifeOf (e_lib X) (elf s)) (lifeOf (e_lib X) (elf s'))"
proof -
  have "deleteRun (e_lib X) (elf s) (elf s')" using delete_run [THEN postD, OF assms(2)] by simp
  then show ?thesis using gone
    by (auto simp: lifeOf_def phaseOf_def deleteRun_def deleteStep_def Let_def capi_lib.finContains_remove [OF L]
        intro!: lifeSpec.delete)
qed

lemma run_refines:
  assumes "capi_lib (e_lib X)" and run: "reconcileInContext X c s = Some (r, s')"
  shows "lifeSpec (lifeOf (e_lib X) (elf s)) (lifeOf (e_lib X) (elf s'))"
proof -
  obtain v s1 where v: "newVMService X c s = (v, s1)" by (rule prod.exhaust)
  note s1 = service_life [OF v, of "e_lib X"]
  show ?thesis
  proof (cases v)
    case (Inl err)
    with run v s1 show ?thesis by (simp add: reconcileInContext_def lifeSpec_refl)
  next
    case (Inr c')
    with run v obtain r1 s2 where s2: "(if om_DeletionTimestamp (em_meta (elf s1)) \<noteq> None then reconcileDelete X c' s1
        else reconcileNormal X c' s1) = Some (r1, s2)" and s': "s' = snd (reconcileDeferred X c' r1 s2)"
      by (auto simp: reconcileInContext_def bind_eq_Some_conv)
    have "lifeSpec (lifeOf (e_lib X) (elf s1)) (lifeOf (e_lib X) (elf s2))"
      using s2 normal_refines [OF assms(1)] delete_refines [OF assms(1)] by (auto split: if_splits)
    then show ?thesis by (simp add: s1 s' deferred_life)
  qed
qed

section \<open>Runs and edits\<close>

text \<open>
  The runs of the controller on one ElfMachine, interleaved with edits by others, who do not write
  the reference and the failure, do not take a deletion back and, as the API server demands, put
  no finalizer on an object that is being deleted: the specification, the rest of the metadata,
  the conditions.
\<close>

inductive lifeStep :: "('w, 'c) env \<Rightarrow> elfMachine \<Rightarrow> elfMachine \<Rightarrow> bool" for X where
  run: "reconcileInContext X c s = Some (r, s') \<Longrightarrow> lifeStep X (elf s) (elf s')"
| edit: "VMRef (Status m') = VMRef (Status m) \<Longrightarrow> IsFailed m' = IsFailed m \<Longrightarrow>
     (om_DeletionTimestamp (em_meta m) \<noteq> None \<Longrightarrow> om_DeletionTimestamp (em_meta m') \<noteq> None \<and>
        (finContains (e_lib X) (om_Finalizers (em_meta m')) MachineFinalizer \<longrightarrow>
         finContains (e_lib X) (om_Finalizers (em_meta m)) MachineFinalizer)) \<Longrightarrow>
     lifeStep X m m'"

text \<open>The virtual machine \<open>u\<close> is kept, or given up for a reason that is recorded for good.\<close>

definition ownsOrGaveUp :: "string \<Rightarrow> life \<Rightarrow> bool" where
  "ownsOrGaveUp u l \<longleftrightarrow> lf_Phase l = Created u \<or> lf_Phase l = NoVM \<and> lf_Failed l \<or>
     lf_Deleting l \<and> (lf_Failed l \<or> \<not> lf_Guarded l)"

lemma spec_ownsOrGaveUp: "lifeSpec l l' \<Longrightarrow> ownsOrGaveUp u l \<Longrightarrow> ownsOrGaveUp u l'"
  by (erule lifeSpec_cases) (auto simp: ownsOrGaveUp_def)

lemma step_ownsOrGaveUp:
  assumes "capi_lib (e_lib X)" and "lifeStep X m m'" and "ownsOrGaveUp u (lifeOf (e_lib X) m)"
  shows "ownsOrGaveUp u (lifeOf (e_lib X) m')"
  using assms(2)
proof cases
  case (run c s r s')
  with run_refines [OF assms(1) run(3)] assms(3) show ?thesis by (auto intro: spec_ownsOrGaveUp)
next
  case edit
  with assms(3) show ?thesis
    by (auto simp: ownsOrGaveUp_def lifeOf_def phaseOf_def Let_def split: if_splits)
qed

lemma steps_ownOrGaveUp:
  assumes "capi_lib (e_lib X)" and "(lifeStep X)\<^sup>*\<^sup>* m m'" and "ownsOrGaveUp u (lifeOf (e_lib X) m)"
  shows "ownsOrGaveUp u (lifeOf (e_lib X) m')"
  using assms(2,3) by (induction rule: rtranclp_induct) (auto intro: step_ownsOrGaveUp [OF assms(1)])

section \<open>Properties\<close>

lemma wit_run_life: "lifeOf ref_lib (elf wit_run_st) = \<lparr>lf_Phase = Created wit_uuid, lf_Failed = False,
    lf_Deleting = False, lf_Guarded = True\<rparr>"
  by code_simp

lemma wit_in_context:
  "case reconcileInContext wit_run_env wit_worker wit_run_st of
     Some (r, s') \<Rightarrow> VMRef (Status (elf s')) = wit_uuid \<and> \<not> IsFailed (elf s') | None \<Rightarrow> False"
  by code_simp

text \<open>
  Property C7. Every run of the controller on an ElfMachine, of one that is being deleted too,
  refines the life cycle of its virtual machine: in the abstract view it is one step of the
  contract \<^const>\<open>lifeSpec\<close>.
\<close>

theorem reconcile_refines_life_cycle:
  assumes "capi_lib (e_lib X)" and "reconcileInContext X c s = Some (r, s')"
  shows "lifeSpec (lifeOf (e_lib X) (elf s)) (lifeOf (e_lib X) (elf s'))"
  by (rule run_refines [OF assms])

theorem reconcile_refines_life_cycle_witness:
  "\<exists>r s'. reconcileInContext wit_run_env wit_worker wit_run_st = Some (r, s') \<and>
     lifeSpec \<lparr>lf_Phase = Created wit_uuid, lf_Failed = False, lf_Deleting = False, lf_Guarded = True\<rparr>
       (lifeOf ref_lib (elf s'))"
proof -
  obtain r s' where r: "reconcileInContext wit_run_env wit_worker wit_run_st = Some (r, s')"
    using wit_in_context by (auto split: option.splits)
  have "e_lib wit_run_env = ref_lib" by (simp add: wit_run_env_def wit_env_def)
  with reconcile_refines_life_cycle [OF wit_run_lib r] r show ?thesis by (auto simp: wit_run_life)
qed

text \<open>
  Property C2. A machine never changes its virtual machine: over any sequence of runs of the
  controller, deletion runs included, interleaved with edits by others, a machine whose virtual
  machine has the UUID \<open>u\<close> keeps that reference; or it has none and is failed; or it is being
  deleted and has failed or has lost its finalizer, with which the object goes.
\<close>

theorem vm_identity_stable:
  assumes "capi_lib (e_lib X)" and "(lifeStep X)\<^sup>*\<^sup>* m m'" and "IsUUID (VMRef (Status m))"
  shows "VMRef (Status m') = VMRef (Status m) \<or> VMRef (Status m') = [] \<and> IsFailed m' \<or>
    om_DeletionTimestamp (em_meta m') \<noteq> None \<and>
      (IsFailed m' \<or> \<not> finContains (e_lib X) (om_Finalizers (em_meta m')) MachineFinalizer)"
proof -
  have "VMRef (Status m) \<noteq> []" using assms(3) by auto
  with assms(3) have "ownsOrGaveUp (VMRef (Status m)) (lifeOf (e_lib X) m)"
    by (simp add: ownsOrGaveUp_def lifeOf_def phaseOf_def)
  from steps_ownOrGaveUp [OF assms(1,2) this] show ?thesis
    by (auto simp: ownsOrGaveUp_def lifeOf_def phaseOf_def Let_def split: if_splits)
qed

theorem vm_identity_stable_witness:
  "\<exists>r s'. reconcileInContext wit_run_env wit_worker wit_run_st = Some (r, s') \<and> \<not> IsFailed (elf s') \<and>
     (VMRef (Status (elf s')) = wit_uuid \<or> \<not> finContains ref_lib (om_Finalizers (em_meta (elf s'))) MachineFinalizer)"
proof -
  obtain r s' where r: "reconcileInContext wit_run_env wit_worker wit_run_st = Some (r, s')" "\<not> IsFailed (elf s')"
    using wit_in_context by (auto split: option.splits)
  have "VMRef (Status (elf wit_run_st)) = wit_uuid" "IsUUID wit_uuid" "e_lib wit_run_env = ref_lib"
    by (simp_all add: wit_run_st_def wit_uuid_def IsUUID_wit wit_run_env_def wit_env_def)
  with vm_identity_stable [OF wit_run_lib r_into_rtranclp, of "elf wit_run_st" "elf s'"] lifeStep.run [OF r(1)] r
  show ?thesis by auto
qed

end
