(* ===== verification/Vm_Service.thy ===== *)
theory Vm_Service
  imports Machine_Ctx
begin

text \<open>
  The VM service (\<^verbatim>\<open>pkg/service/vm.go\<close>): every method of
  \<^verbatim>\<open>TowerVMService\<close> over the client of the Tower SDK. The client is not part of
  the repository; it is the record \<open>cloudtower\<close>, one field per endpoint, which takes the
  request body that the method builds and answers with a payload or an error. The poll loop of
  \<^verbatim>\<open>k8s.io/apimachinery\<close> is a field of the same record.
\<close>

section \<open>Filters of the requests\<close>

text \<open>
  The filters of the Tower API, with the fields the service sets. A field that is not set is
  \<^term>\<open>None\<close> or the empty list.
\<close>

datatype vmWhereInput =
  VMWhereInput (vw_ID: "string option") (vw_LocalID: "string option") (vw_Name: "string option")
    (vw_IDIn: "string list") (vw_LocalIDIn: "string list") (vw_OR: "vmWhereInput list")

text \<open>Filter of clusters and of VLANs.\<close>

datatype idWhereInput =
  IdWhereInput (iw_ID: "string option") (iw_LocalID: "string option") (iw_OR: "idWhereInput list")

record datastoreMountWhereInput =
  dw_DatastoreID :: string
  dw_State :: string
  dw_DeviceState :: string

datatype hostWhereInput =
  HostWhereInput (hw_ID: "string option") (hw_LocalID: "string option") (hw_IDIn: "string list")
    (hw_Cluster: "idWhereInput option") (hw_DatastoreMountsSome: "datastoreMountWhereInput option")
    (hw_OR: "hostWhereInput list")

datatype labelWhereInput =
  LabelWhereInput (lw_Key: "string option") (lw_Value: "string option") (lw_KeyIn: "string list")
    (lw_IDIn: "string list") (lw_CreatedAtLte: "string option") (lw_TotalNum: "int option")
    (lw_AND: "labelWhereInput list")

datatype templateWhereInput =
  TemplateWhereInput (tw_ID: "string option") (tw_Name: "string option") (tw_LabelsSome: "labelWhereInput option")
    (tw_OR: "templateWhereInput list")

record pgWhereInput =
  pw_ID :: "string option"
  pw_Name :: "string option"
  pw_NameStartsWith :: "string option"
  pw_EntityAsyncStatusNot :: "string option"

record gpuDeviceWhereInput =
  gw_IDIn :: "string list"
  gw_UserUsage :: "string option"
  gw_Host :: "hostWhereInput option"
  gw_AvailableVgpusNumGt :: "int option"

definition vmByRef :: "string \<Rightarrow> vmWhereInput" where
  "vmByRef i = VMWhereInput None None None [] []
     [VMWhereInput None (Some i) None [] [] [], VMWhereInput (Some i) None None [] [] []]"

definition vmByName :: "string \<Rightarrow> vmWhereInput" where
  "vmByName n = VMWhereInput None None (Some n) [] [] []"

definition vmByRefs :: "string list \<Rightarrow> vmWhereInput" where
  "vmByRefs is = VMWhereInput None None None [] []
     [VMWhereInput None None None [] is [], VMWhereInput None None None is [] []]"

definition idByRef :: "string \<Rightarrow> idWhereInput" where
  "idByRef i = IdWhereInput None None [IdWhereInput None (Some i) [], IdWhereInput (Some i) None []]"

definition hostByRef :: "string \<Rightarrow> hostWhereInput" where
  "hostByRef i = HostWhereInput None None [] None None
     [HostWhereInput None (Some i) [] None None [], HostWhereInput (Some i) None [] None None []]"

definition labelByKeyValue :: "string \<Rightarrow> string \<Rightarrow> labelWhereInput" where
  "labelByKeyValue k v = LabelWhereInput (Some k) (Some v) [] [] None None []"

definition anyPG :: pgWhereInput where
  "anyPG = \<lparr>pw_ID = None, pw_Name = None, pw_NameStartsWith = None, pw_EntityAsyncStatusNot = None\<rparr>"

section \<open>Bodies of the requests\<close>

record vmUpdateData =
  vu_Vcpu :: int
  vu_CPUCores :: int
  vu_CPUSockets :: int
  vu_Memory :: int

record templateDisk =
  td_Type :: "string option"
  td_Index :: "int option"
  td_Boot :: "int option"
  td_Bus :: "string option"
  td_Size :: "int option"

record vmTemplate =
  vt_ID :: "string option"
  vt_Name :: "string option"
  vt_VMDisks :: "templateDisk list"

record cloudInitRoute =
  cr_Gateway :: string
  cr_Netmask :: string
  cr_Network :: string

record cloudInitNetwork =
  cn_NicIndex :: int
  cn_Type :: string
  cn_IPAddress :: "string option"
  cn_Netmask :: "string option"
  cn_Routes :: "cloudInitRoute list"

record templateCloudInit =
  tci_Hostname :: string
  tci_UserData :: string
  tci_Networks :: "cloudInitNetwork list"
  tci_Nameservers :: "string list"

record mountNewDisk =
  nk_Boot :: "int option"
  nk_Bus :: "string option"
  nk_Index :: "int option"
  nk_Name :: string
  nk_Size :: "int option"
  nk_ElfStoragePolicy :: string
  nk_StorageConfig :: "storageConfig option"

record vmDiskOperate =
  dk_RemoveDisks :: "int list"
  dk_NewDisks :: "mountNewDisk list"

record vmOwnerParams =
  ow_SearchFor :: string
  ow_Value :: string

record vmCreateParams =
  vp_ClusterID :: "string option"
  vp_HostID :: string
  vp_Name :: string
  vp_Description :: string
  vp_Owner :: "vmOwnerParams option"
  vp_Vcpu :: int
  vp_CPUCores :: int
  vp_CPUSockets :: int
  vp_Memory :: int
  vp_GpuDevices :: "vmGpuOperation list"
  vp_Status :: string
  vp_Ha :: bool
  vp_HaPriority :: "string option"
  vp_IsFullCopy :: bool
  vp_TemplateID :: "string option"
  vp_GuestOsType :: string
  vp_VMNics :: "vmNicParams list"
  vp_DiskOperate :: "vmDiskOperate option"
  vp_StorageConfig :: "storageConfig option"
  vp_CloudInit :: templateCloudInit

record pgCreationParams =
  pc_Name :: string
  pc_ClusterID :: string
  pc_Policy :: pgPolicy

section \<open>The client of the Tower SDK\<close>

record 'w cloudtower =
  C_GetVms :: "vmWhereInput \<Rightarrow> ('w, vm list) call"
  C_UpdateVM :: "vmUpdateData \<Rightarrow> vmWhereInput \<Rightarrow> ('w, withTask list) call"
  C_CreateVMFromTemplate :: "vmCreateParams list \<Rightarrow> ('w, withTask list) call"
  C_MigrateVM :: "string \<Rightarrow> vmWhereInput \<Rightarrow> ('w, withTask list) call"
  C_DeleteVM :: "vmWhereInput \<Rightarrow> ('w, withTask list) call"
  C_PoweroffVM :: "vmWhereInput \<Rightarrow> ('w, withTask list) call"
  C_StartVM :: "string option \<Rightarrow> vmWhereInput \<Rightarrow> ('w, withTask list) call"
  C_ShutDownVM :: "vmWhereInput \<Rightarrow> ('w, withTask list) call"
  C_RemoveVMGpuDevice :: "vmGpuOperation list \<Rightarrow> vmWhereInput \<Rightarrow> ('w, withTask list) call"
  C_AddVMGpuDevice :: "vmGpuOperation list \<Rightarrow> vmWhereInput \<Rightarrow> ('w, withTask list) call"
  C_AddVMNic :: "vmNicParams list \<Rightarrow> vmWhereInput \<Rightarrow> ('w, withTask list) call"
  C_GetVMGpuDeviceInfo :: "vmWhereInput \<Rightarrow> ('w, vmGpuOperation list list) call"
  C_GetVMNics :: "vmWhereInput \<Rightarrow> string \<Rightarrow> ('w, vmNic list) call"
  C_GetVMDisks :: "string list \<Rightarrow> string \<Rightarrow> ('w, vmDisk list) call"
  C_GetVMVolumes :: "string \<Rightarrow> ('w, vmVolume list) call"
  C_UpdateVMVolume :: "int \<Rightarrow> string \<Rightarrow> ('w, withTask list) call"
  C_GetClusters :: "idWhereInput \<Rightarrow> ('w, nestedRef list) call"
  C_GetZones :: "idWhereInput \<Rightarrow> ('w, zone list) call"
  C_GetHosts :: "hostWhereInput \<Rightarrow> ('w, host list) call"
  C_GetVlans :: "idWhereInput \<Rightarrow> ('w, nestedRef list) call"
  C_GetVMTemplates :: "templateWhereInput \<Rightarrow> ('w, vmTemplate list) call"
  C_GetTasks :: "string \<Rightarrow> ('w, task list) call"
  C_GetLabels :: "labelWhereInput \<Rightarrow> ('w, vmLabel list) call"
  C_CreateLabel :: "(string \<times> string) list \<Rightarrow> ('w, vmLabel option list) call"
  C_DeleteLabel :: "labelWhereInput \<Rightarrow> ('w, withTask list) call"
  C_AddLabelsToResources :: "labelWhereInput \<Rightarrow> vmWhereInput \<Rightarrow> ('w, withTask list) call"
  C_CreateVMPlacementGroup :: "pgCreationParams list \<Rightarrow> ('w, withTask list) call"
  C_GetVMPlacementGroups :: "pgWhereInput \<Rightarrow> ('w, vmPlacementGroup list) call"
  C_UpdateVMPlacementGroup :: "pgPolicy \<Rightarrow> vmWhereInput \<Rightarrow> pgWhereInput \<Rightarrow> ('w, withTask list) call"
  C_DeleteVMPlacementGroup :: "pgWhereInput \<Rightarrow> ('w, withTask list) call"
  C_GetDetailVMInfoByGpuDevices :: "gpuDeviceWhereInput \<Rightarrow> ('w, gpuVMInfo list) call"
  C_PollUntilContextTimeout ::
    "int \<Rightarrow> int \<Rightarrow> bool \<Rightarrow> ('w \<times> task option \<Rightarrow> ((bool \<times> go_error option) \<times> 'w \<times> task option) panics) \<Rightarrow>
      'w \<times> task option \<Rightarrow> (go_error option \<times> 'w \<times> task option) panics"

record 'w towerVMService =
  Client :: "'w cloudtower"
  Svr_cfg :: config
  Svr_lib :: lib

type_synonym ('w, 'a) operation = "'w \<Rightarrow> ((go_error + 'a) \<times> 'w) panics"

text \<open>
  The three ways in which the methods read a payload: an empty one is an error with a code, the
  first element is taken unchecked, or the task of the first element is returned.
\<close>

definition payloadFirst :: "string \<Rightarrow> ('w, 'a list) call \<Rightarrow> ('w, 'a) call" where
  "payloadFirst code f w =
     (case f w of
        (Inl err, w) \<Rightarrow> (Inl err, w)
      | (Inr [], w) \<Rightarrow> (Inl (ErrMsg code), w)
      | (Inr (x # xs), w) \<Rightarrow> (Inr x, w))"

definition payloadHead :: "('w, 'a list) call \<Rightarrow> ('w, 'a) operation" where
  "payloadHead f w =
     (case f w of
        (Inl err, w) \<Rightarrow> Some (Inl err, w)
      | (Inr xs, w) \<Rightarrow> do { x \<leftarrow> nth_go xs 0; Some (Inr x, w) })"

definition taskOf :: "withTask \<Rightarrow> task" where
  "taskOf wt = \<lparr>task_ID = wt_TaskID wt, task_Status = None, task_ErrorMessage = None, task_ErrorCode = None,
     task_Description = None\<rparr>"

definition payloadTask :: "string \<Rightarrow> ('w, withTask list) call \<Rightarrow> ('w, task) call" where
  "payloadTask code f w = (case payloadFirst code f w of (r, w) \<Rightarrow> (map_sum id taskOf r, w))"

section \<open>Error codes\<close>

definition ClusterNotFound :: string where [const_defs]: "ClusterNotFound = ''CLUSTER_NOT_FOUND''"
definition HostNotFound :: string where [const_defs]: "HostNotFound = ''HOST_NOT_FOUND''"
definition VMTemplateNotFound :: string where [const_defs]: "VMTemplateNotFound = ''VM_TEMPLATE_NOT_FOUND''"
definition VMGPUInfoNotFound :: string where [const_defs]: "VMGPUInfoNotFound = ''VM_GPU_INFO_NOT_FOUND''"
definition VMNicFound :: string where [const_defs]: "VMNicFound = ''VM_NIC_NOT_FOUND''"
definition VlanNotFound :: string where [const_defs]: "VlanNotFound = ''VLAN_NOT_FOUND''"
definition LabelCreateFailed :: string where [const_defs]: "LabelCreateFailed = ''LABEL_CREATE_FAILED''"
definition LabelAddFailed :: string where [const_defs]: "LabelAddFailed = ''LABEL_ADD_FAILED''"
definition VMPlacementGroupDescription :: string where
  [const_defs]: "VMPlacementGroupDescription =
     ''This is VM placement group created by CAPE, don'' @ [CHR 0x27] @ ''t delete it!''"
definition SKSVMTemplateUIDLabel :: string where
  [const_defs]: "SKSVMTemplateUIDLabel = ''system.cloudtower/sks-template-uid''"
definition VMOwnerSearchForUsername :: string where [const_defs]: "VMOwnerSearchForUsername = ''username''"
definition VMDescription :: string where [const_defs]: "VMDescription = ''Automatically created Kubernetes node.''"
definition CreatedByAnnotation :: string where
  [const_defs]: "CreatedByAnnotation = ''cape.infrastructure.cluster.x-k8s.io/created-by''"

definition GetCreatedBy :: "objectMeta \<Rightarrow> string" where
  "GetCreatedBy o' =
     (case om_Annotations o' of
        None \<Rightarrow> []
      | Some as \<Rightarrow> (case gm_get as CreatedByAnnotation of None \<Rightarrow> [] | Some v \<Rightarrow> v))"

section \<open>Lookups\<close>

definition Get :: "'w towerVMService \<Rightarrow> string \<Rightarrow> ('w, vm) call" where
  "Get svr i = payloadFirst VMNotFound (C_GetVms (Client svr) (vmByRef i))"

definition GetByName :: "'w towerVMService \<Rightarrow> string \<Rightarrow> ('w, vm) call" where
  "GetByName svr name = payloadFirst VMNotFound (C_GetVms (Client svr) (vmByName name))"

definition FindByIDs :: "'w towerVMService \<Rightarrow> string list \<Rightarrow> ('w, vm list) call" where
  "FindByIDs svr ids w = (if ids = [] then (Inr [], w) else C_GetVms (Client svr) (vmByRefs ids) w)"

definition FindVMsByName :: "'w towerVMService \<Rightarrow> string \<Rightarrow> ('w, vm list) call" where
  "FindVMsByName svr name w = (if name = [] then (Inr [], w) else C_GetVms (Client svr) (vmByName name) w)"

definition GetVMNics :: "'w towerVMService \<Rightarrow> string \<Rightarrow> ('w, vmNic list) call" where
  "GetVMNics svr vmID = C_GetVMNics (Client svr) (vmByRef vmID) ''order_ASC''"

definition GetVMDisks :: "'w towerVMService \<Rightarrow> string list \<Rightarrow> ('w, vmDisk list) call" where
  "GetVMDisks svr vmDiskIDs = C_GetVMDisks (Client svr) vmDiskIDs ''boot_ASC''"

definition GetVMVolume :: "'w towerVMService \<Rightarrow> string \<Rightarrow> ('w, vmVolume) call" where
  "GetVMVolume svr volumeID = payloadFirst VMVolumeNotFound (C_GetVMVolumes (Client svr) volumeID)"

definition GetCluster :: "'w towerVMService \<Rightarrow> string \<Rightarrow> ('w, nestedRef) call" where
  "GetCluster svr i = payloadFirst ClusterNotFound (C_GetClusters (Client svr) (idByRef i))"

definition GetClusterZones :: "'w towerVMService \<Rightarrow> string \<Rightarrow> ('w, zone list) call" where
  "GetClusterZones svr clusterID = C_GetZones (Client svr) (idByRef clusterID)"

definition GetHost :: "'w towerVMService \<Rightarrow> string \<Rightarrow> ('w, host) call" where
  "GetHost svr i = payloadFirst HostNotFound (C_GetHosts (Client svr) (hostByRef i))"

definition GetHostsByCluster :: "'w towerVMService \<Rightarrow> string \<Rightarrow> string \<Rightarrow> ('w, hosts) call" where
  "GetHostsByCluster svr clusterID datastoreID w =
     (let mount = (if datastoreID \<noteq> []
                   then Some \<lparr>dw_DatastoreID = datastoreID, dw_State = ''MOUNTED'', dw_DeviceState = ''ACTIVE''\<rparr>
                   else None)
      in case C_GetHosts (Client svr) (HostWhereInput None None [] (Some (idByRef clusterID)) mount []) w of
           (Inl err, w) \<Rightarrow> (Inl err, w)
         | (Inr payload, w) \<Rightarrow>
             if length payload = 0 then (Inl (ErrMsg HostNotFound), w) else (Inr (NewHostsFromList payload), w))"

definition GetVlan :: "'w towerVMService \<Rightarrow> string \<Rightarrow> ('w, nestedRef) call" where
  "GetVlan svr i = payloadFirst VlanNotFound (C_GetVlans (Client svr) (idByRef i))"

text \<open>The loop of \<^verbatim>\<open>GetVMTemplate\<close>: the first template found by its label.\<close>

fun templateByLabel :: "string \<Rightarrow> vmTemplate list \<Rightarrow> vmTemplate option panics" where
  "templateByLabel template [] = Some None"
| "templateByLabel template (t # ts) = do {
     i \<leftarrow> vt_ID t;
     other \<leftarrow> (if template \<noteq> i then do { n \<leftarrow> vt_Name t; Some (template \<noteq> n) } else Some False);
     if other then Some (Some t) else templateByLabel template ts }"

definition templateWhere :: "string \<Rightarrow> templateWhereInput" where
  "templateWhere template = TemplateWhereInput None None None
     [TemplateWhereInput (Some template) None None [], TemplateWhereInput None (Some template) None [],
      TemplateWhereInput None None
        (Some (LabelWhereInput None None [] [] None None [labelByKeyValue SKSVMTemplateUIDLabel template])) []]"

definition GetVMTemplate :: "'w towerVMService \<Rightarrow> string \<Rightarrow> ('w, vmTemplate) operation" where
  "GetVMTemplate svr template w =
     (case C_GetVMTemplates (Client svr) (templateWhere template) w of
        (Inl err, w) \<Rightarrow> Some (Inl err, w)
      | (Inr [], w) \<Rightarrow> Some (Inl (ErrMsg VMTemplateNotFound), w)
      | (Inr (t # ts), w) \<Rightarrow> do {
          found \<leftarrow> templateByLabel template (t # ts);
          Some (Inr (case found of Some t' \<Rightarrow> t' | None \<Rightarrow> t), w) })"

definition GetTask :: "'w towerVMService \<Rightarrow> string \<Rightarrow> ('w, task) call" where
  "GetTask svr i = payloadFirst TaskNotFound (C_GetTasks (Client svr) i)"

text \<open>The condition that \<^verbatim>\<open>WaitTask\<close> polls; it assigns the captured task.\<close>

definition taskFinished ::
  "'w towerVMService \<Rightarrow> string \<Rightarrow> 'w \<times> task option \<Rightarrow> ((bool \<times> go_error option) \<times> 'w \<times> task option) panics" where
  "taskFinished svr i st =
     (case GetTask svr i (fst st) of
        (Inl err, w) \<Rightarrow> Some ((False, Some err), w, None)
      | (Inr task, w) \<Rightarrow> do {
          status \<leftarrow> task_Status task;
          Some ((status = TaskStatusFAILED \<or> status = TaskStatusSUCCESSED, None), w, Some task) })"

text \<open>The poll succeeds only after the condition did, so the captured task is then set.\<close>

definition WaitTask :: "'w towerVMService \<Rightarrow> string \<Rightarrow> int \<Rightarrow> int \<Rightarrow> ('w, task option) operation" where
  "WaitTask svr i timeout interval w = do {
     (err, w, task) \<leftarrow> C_PollUntilContextTimeout (Client svr) interval timeout True (taskFinished svr i) (w, None);
     Some (case err of Some e \<Rightarrow> Inl e | None \<Rightarrow> Inr task, w) }"

definition GetGPUDevicesAllocationInfoByIDs :: "'w towerVMService \<Rightarrow> string list \<Rightarrow> ('w, gpuVMInfos) call" where
  "GetGPUDevicesAllocationInfoByIDs svr gpuIDs w =
     (if gpuIDs = [] then (Inr (NewGPUVMInfos []), w)
      else
        (case C_GetDetailVMInfoByGpuDevices (Client svr)
                \<lparr>gw_IDIn = gpuIDs, gw_UserUsage = None, gw_Host = None, gw_AvailableVgpusNumGt = None\<rparr> w of
           (Inl err, w) \<Rightarrow> (Inl err, w)
         | (Inr payload, w) \<Rightarrow> (Inr (NewGPUVMInfos payload), w)))"

definition GetGPUDevicesAllocationInfoByHostIDs ::
  "'w towerVMService \<Rightarrow> string list \<Rightarrow> string \<Rightarrow> ('w, gpuVMInfos) call" where
  "GetGPUDevicesAllocationInfoByHostIDs svr hostIDs gpuDeviceUsage w =
     (if hostIDs = [] then (Inr (NewGPUVMInfos []), w)
      else
        (case C_GetDetailVMInfoByGpuDevices (Client svr)
                \<lparr>gw_IDIn = [], gw_UserUsage = Some gpuDeviceUsage,
                 gw_Host = Some (HostWhereInput None None hostIDs None None []),
                 gw_AvailableVgpusNumGt = (if gpuDeviceUsage = GpuDeviceUsageVGPU then Some 0 else None)\<rparr> w of
           (Inl err, w) \<Rightarrow> (Inl err, w)
         | (Inr payload, w) \<Rightarrow> (Inr (NewGPUVMInfos payload), w)))"

definition GetVMGPUAllocationInfo :: "'w towerVMService \<Rightarrow> string \<Rightarrow> ('w, vmGpuOperation list) call" where
  "GetVMGPUAllocationInfo svr i = payloadFirst VMGPUInfoNotFound (C_GetVMGpuDeviceInfo (Client svr) (vmByRef i))"

section \<open>Changes to virtual machines\<close>

definition UpdateVM :: "'w towerVMService \<Rightarrow> vm \<Rightarrow> elfMachine \<Rightarrow> ('w, withTask) operation" where
  "UpdateVM svr v elfMachine w = do {
     let vCPU = TowerVCPU (Svr_cfg svr) (NumCPUs (Spec elfMachine));
     let cpuSocketCores = TowerCPUSocketCores (NumCoresPerSocket (Spec elfMachine)) vCPU;
     cpuSockets \<leftarrow> TowerCPUSockets vCPU cpuSocketCores;
     let memory = TowerMemory (Svr_cfg svr) (MemoryMiB (Spec elfMachine));
     i \<leftarrow> vm_ID v;
     payloadHead (C_UpdateVM (Client svr)
       \<lparr>vu_Vcpu = vCPU, vu_CPUCores = cpuSocketCores, vu_CPUSockets = cpuSockets, vu_Memory = memory\<rparr>
       (VMWhereInput (Some i) None None [] [] [])) w }"

definition ResizeVMVolume :: "'w towerVMService \<Rightarrow> string \<Rightarrow> int \<Rightarrow> ('w, withTask) operation" where
  "ResizeVMVolume svr vmVolumeID newSize = payloadHead (C_UpdateVMVolume (Client svr) newSize vmVolumeID)"

definition Migrate :: "'w towerVMService \<Rightarrow> string \<Rightarrow> string \<Rightarrow> ('w, withTask) operation" where
  "Migrate svr vmID hostID = payloadHead (C_MigrateVM (Client svr) hostID (vmByRef vmID))"

definition Delete :: "'w towerVMService \<Rightarrow> string \<Rightarrow> ('w, task) call" where
  "Delete svr i = payloadTask VMNotFound (C_DeleteVM (Client svr) (vmByRef i))"

definition PowerOff :: "'w towerVMService \<Rightarrow> string \<Rightarrow> ('w, task) call" where
  "PowerOff svr i = payloadTask VMNotFound (C_PoweroffVM (Client svr) (vmByRef i))"

definition PowerOn :: "'w towerVMService \<Rightarrow> string \<Rightarrow> string \<Rightarrow> ('w, task) call" where
  "PowerOn svr i hostID =
     payloadTask VMNotFound (C_StartVM (Client svr) (if hostID \<noteq> [] then Some hostID else None) (vmByRef i))"

definition ShutDown :: "'w towerVMService \<Rightarrow> string \<Rightarrow> ('w, task) call" where
  "ShutDown svr i = payloadTask VMNotFound (C_ShutDownVM (Client svr) (vmByRef i))"

definition RemoveGPUDevices :: "'w towerVMService \<Rightarrow> string \<Rightarrow> vmGpuOperation list \<Rightarrow> ('w, task) call" where
  "RemoveGPUDevices svr i gpus = payloadTask VMNotFound (C_RemoveVMGpuDevice (Client svr) gpus (vmByRef i))"

definition gpuOperations :: "gpuDeviceInfo list \<Rightarrow> vmGpuOperation list" where
  "gpuOperations = map (\<lambda>d. \<lparr>go_GpuID = Some (gdi_ID d), go_Amount = Some (wrap32 (gdi_AllocatedCount d))\<rparr>)"

definition AddGPUDevices :: "'w towerVMService \<Rightarrow> string \<Rightarrow> gpuDeviceInfo list \<Rightarrow> ('w, task) call" where
  "AddGPUDevices svr i gpuDeviceInfos =
     payloadTask VMNotFound (C_AddVMGpuDevice (Client svr) (gpuOperations gpuDeviceInfos) (vmByRef i))"

definition AddVMNics :: "'w towerVMService \<Rightarrow> string \<Rightarrow> vmNicParams list \<Rightarrow> ('w, withTask) call" where
  "AddVMNics svr vmID nics = payloadFirst VMNicFound (C_AddVMNic (Client svr) nics (vmByRef vmID))"

section \<open>Creating a virtual machine\<close>

definition haPriorityMap :: "string gomap" where
  "haPriorityMap = [(''LOW'', ''LEVEL_1_LOW''), (''MEDIUM'', ''LEVEL_2_MEDIUM''), (''HIGH'', ''LEVEL_3_HIGH'')]"

definition haPriorityOf :: "elfCluster \<Rightarrow> elfMachine \<Rightarrow> string option" where
  "haPriorityOf elfCluster elfMachine =
     (if HAPriority (Spec elfMachine) \<noteq> []
      then Some (case gm_get haPriorityMap (HAPriority (Spec elfMachine)) of Some p \<Rightarrow> p | None \<Rightarrow> [])
      else if IsStretched elfCluster then Some ''LEVEL_3_HIGH'' else None)"

definition nicOfDevice :: "nestedRef \<Rightarrow> networkDeviceSpec \<Rightarrow> vmNicParams" where
  "nicOfDevice vlan device =
     \<lparr>np_Model = ''VIRTIO'', np_Enabled = True, np_Mirror = False, np_ConnectVlanID = ref_ID vlan,
      np_MacAddress = nd_MACAddr device, np_SubnetMask = None, np_IPAddress = None\<rparr>"

definition cloudInitRouteOf :: "networkDeviceRouteSpec \<Rightarrow> cloudInitRoute" where
  "cloudInitRouteOf route =
     \<lparr>cr_Gateway = nr_Gateway route,
      cr_Netmask = (if nr_Netmask route = [] then ''0.0.0.0'' else nr_Netmask route),
      cr_Network = (if nr_Network route = [] then ''0.0.0.0'' else nr_Network route)\<rparr>"

definition networkOfDevice :: "nat \<Rightarrow> nat \<Rightarrow> networkDeviceSpec \<Rightarrow> cloudInitNetwork" where
  "networkOfDevice defaultRouteDeviceIndex i device =
     (let ipAddress = (case nd_IPAddrs device of [] \<Rightarrow> [] | ip # _ \<Rightarrow> ip)
      in \<lparr>cn_NicIndex = wrap32 (int i),
          cn_Type = (if nd_NetworkType device = ''IPV4'' then ''IPV4'' else ''IPV4_DHCP''),
          cn_IPAddress = (if ipAddress \<noteq> [] then Some ipAddress else None),
          cn_Netmask = (if nd_Netmask device \<noteq> [] then Some (nd_Netmask device) else None),
          cn_Routes = (if defaultRouteDeviceIndex = i then map cloudInitRouteOf (nd_Routes device) else [])\<rparr>)"

fun nicsAndNetworks ::
  "'w towerVMService \<Rightarrow> nat \<Rightarrow> nat \<Rightarrow> networkDeviceSpec list \<Rightarrow> ('w, vmNicParams list \<times> cloudInitNetwork list) call" where
  "nicsAndNetworks svr di i [] w = (Inr ([], []), w)"
| "nicsAndNetworks svr di i (device # devices) w =
     (case GetVlan svr (nd_Vlan device) w of
        (Inl err, w) \<Rightarrow> (Inl err, w)
      | (Inr vlan, w) \<Rightarrow>
          (case nicsAndNetworks svr di (Suc i) devices w of
             (Inl err, w) \<Rightarrow> (Inl err, w)
           | (Inr (nics, networks), w) \<Rightarrow>
               (Inr (nicOfDevice vlan device # nics,
                  if HasNetworkType device then networkOfDevice di i device # networks else networks), w)))"

definition hostIDFor :: "'w towerVMService \<Rightarrow> elfMachine \<Rightarrow> cloneVMInfo \<Rightarrow> ('w, string) call" where
  "hostIDFor svr elfMachine vmInfo w =
     (if cvi_Host vmInfo \<noteq> [] then (Inr (cvi_Host vmInfo), w)
      else if Host (Spec elfMachine) \<noteq> [] then
        (case GetHost svr (Host (Spec elfMachine)) w of (Inl err, w) \<Rightarrow> (Inl err, w) | (Inr host, w) \<Rightarrow> (Inr (h_ID host), w))
      else (Inr ''AUTO_SCHEDULE'', w))"

definition ownerFor :: "elfCluster \<Rightarrow> vmOwnerParams option" where
  "ownerFor elfCluster =
     (let createdBy = GetCreatedBy (ec_meta elfCluster)
      in if createdBy \<noteq> []
         then Some \<lparr>ow_SearchFor = VMOwnerSearchForUsername, ow_Value = parseOwnerFromCreatedByAnnotation createdBy\<rparr>
         else None)"

text \<open>The loop over the disks of the template: indices to remove and disks to create.\<close>

fun replaceDisks :: "string \<Rightarrow> storageConfig option \<Rightarrow> templateDisk list \<Rightarrow> vmDiskOperate panics" where
  "replaceDisks name sc [] = Some \<lparr>dk_RemoveDisks = [], dk_NewDisks = []\<rparr>"
| "replaceDisks name sc (disk # disks) = do {
     type \<leftarrow> td_Type disk;
     if type \<noteq> ''DISK'' then replaceDisks name sc disks
     else do {
       index \<leftarrow> td_Index disk;
       rest \<leftarrow> replaceDisks name sc disks;
       Some \<lparr>dk_RemoveDisks = index # dk_RemoveDisks rest,
             dk_NewDisks =
               \<lparr>nk_Boot = td_Boot disk, nk_Bus = td_Bus disk, nk_Index = td_Index disk,
                nk_Name = name @ ''-'' @ fmt_d (wrap32 (index + 1)), nk_Size = td_Size disk,
                nk_ElfStoragePolicy = ''REPLICA_3_THIN_PROVISION'', nk_StorageConfig = sc\<rparr> # dk_NewDisks rest\<rparr> } }"

definition createVMFromTemplateParams ::
  "'w towerVMService \<Rightarrow> elfCluster \<Rightarrow> elfMachine \<Rightarrow> nestedRef \<Rightarrow> vmTemplate \<Rightarrow> cloneVMInfo \<Rightarrow> ('w, vmCreateParams) operation" where
  "createVMFromTemplateParams svr elfCluster elfMachine cluster template vmInfo w = do {
     let spec = Spec elfMachine;
     let vCPU = TowerVCPU (Svr_cfg svr) (NumCPUs spec);
     let cpuSocketCores = TowerCPUSocketCores (NumCoresPerSocket spec) vCPU;
     cpuSockets \<leftarrow> TowerCPUSockets vCPU cpuSocketCores;
     let gpuDevices = gpuOperations (cvi_GPUDevices vmInfo);
     let ha = (if length gpuDevices > 0 then False else HA spec);
     case nicsAndNetworks svr (GetDefaultRouteDeviceIndex (Network spec)) 0 (ns_Devices (Network spec)) w of
       (Inl err, w) \<Rightarrow> Some (Inl err, w)
     | (Inr (nics, networks), w) \<Rightarrow> do {
         nameservers \<leftarrow> GetLimitedNameservers (cfg_NameserverLimit (Svr_cfg svr)) elfMachine;
         (case hostIDFor svr elfMachine vmInfo w of
            (Inl err, w) \<Rightarrow> Some (Inl err, w)
          | (Inr hostID, w) \<Rightarrow> do {
              diskOperate \<leftarrow> (if IsStretched elfCluster
                 then map_option Some (replaceDisks (om_Name (em_meta elfMachine)) (cvi_StorageConfig vmInfo) (vt_VMDisks template))
                 else Some None);
              Some (Inr
                \<lparr>vp_ClusterID = ref_ID cluster, vp_HostID = hostID, vp_Name = om_Name (em_meta elfMachine),
                 vp_Description = VMDescription, vp_Owner = ownerFor elfCluster, vp_Vcpu = vCPU, vp_CPUCores = cpuSocketCores,
                 vp_CPUSockets = cpuSockets, vp_Memory = TowerMemory (Svr_cfg svr) (MemoryMiB spec), vp_GpuDevices = gpuDevices,
                 vp_Status = VMStatusSTOPPED, vp_Ha = ha, vp_HaPriority = haPriorityOf elfCluster elfMachine,
                 vp_IsFullCopy = (CloneMode spec = FullClone), vp_TemplateID = vt_ID template, vp_GuestOsType = OSType spec,
                 vp_VMNics = nics, vp_DiskOperate = diskOperate, vp_StorageConfig = cvi_StorageConfig vmInfo,
                 vp_CloudInit = \<lparr>tci_Hostname = cvi_HostName vmInfo, tci_UserData = cvi_CloudInit vmInfo,
                                tci_Networks = networks, tci_Nameservers = nameservers\<rparr>\<rparr>, w) }) } }"

definition Clone :: "'w towerVMService \<Rightarrow> elfCluster \<Rightarrow> elfMachine \<Rightarrow> cloneVMInfo \<Rightarrow> ('w, withTask) operation" where
  "Clone svr elfCluster elfMachine vmInfo w =
     (case GetCluster svr (cvi_Cluster vmInfo) w of
        (Inl err, w) \<Rightarrow> Some (Inl err, w)
      | (Inr cluster, w) \<Rightarrow> do {
          (r, w) \<leftarrow> GetVMTemplate svr (Template (Spec elfMachine)) w;
          (case r of
             Inl err \<Rightarrow> Some (Inl err, w)
           | Inr template \<Rightarrow> do {
               (r, w) \<leftarrow> createVMFromTemplateParams svr elfCluster elfMachine cluster template vmInfo w;
               (case r of
                  Inl err \<Rightarrow> Some (Inl err, w)
                | Inr params \<Rightarrow> payloadHead (C_CreateVMFromTemplate (Client svr) [params]) w) }) })"

section \<open>Labels\<close>

definition UpsertLabel :: "'w towerVMService \<Rightarrow> string \<Rightarrow> string \<Rightarrow> ('w, vmLabel option) call" where
  "UpsertLabel svr key value w =
     (case C_GetLabels (Client svr) (labelByKeyValue key value) w of
        (Inl err, w) \<Rightarrow> (Inl err, w)
      | (Inr (l # ls), w) \<Rightarrow> (Inr (Some l), w)
      | (Inr [], w) \<Rightarrow> payloadFirst LabelCreateFailed (C_CreateLabel (Client svr) [(key, value)]) w)"

definition DeleteLabel :: "'w towerVMService \<Rightarrow> string \<Rightarrow> string \<Rightarrow> bool \<Rightarrow> ('w, string) operation" where
  "DeleteLabel svr key value strict w =
     (let unused = LabelWhereInput None None [] [] None (Some 0) [];
          filters = labelByKeyValue key value # (if strict then [unused] else [])
      in case C_DeleteLabel (Client svr) (LabelWhereInput None None [] [] None None filters) w of
           (Inl err, w) \<Rightarrow> Some (Inl err, w)
         | (Inr [], w) \<Rightarrow> Some (Inr [], w)
         | (Inr (x # xs), w) \<Rightarrow> do { i \<leftarrow> wt_DataID x; Some (Inr i, w) })"

definition CleanUnusedLabels :: "'w towerVMService \<Rightarrow> int \<Rightarrow> string list \<Rightarrow> ('w, string list) operation" where
  "CleanUnusedLabels svr now keys w =
     (case C_DeleteLabel (Client svr)
             (LabelWhereInput None None keys [] (Some (timeFormat (Svr_lib svr) (now - 24 * time_Hour))) (Some 0) []) w of
        (Inl err, w) \<Rightarrow> Some (Inl err, w)
      | (Inr payload, w) \<Rightarrow> do { labelIDs \<leftarrow> mapP wt_DataID payload; Some (Inr labelIDs, w) })"

definition AddLabelsToVM :: "'w towerVMService \<Rightarrow> string \<Rightarrow> string list \<Rightarrow> ('w, task) call" where
  "AddLabelsToVM svr vmID labelIds =
     payloadTask LabelAddFailed (C_AddLabelsToResources (Client svr)
       (LabelWhereInput None None [] labelIds None None []) (VMWhereInput (Some vmID) None None [] [] []))"

section \<open>Placement groups\<close>

definition CreateVMPlacementGroup :: "'w towerVMService \<Rightarrow> string \<Rightarrow> string \<Rightarrow> string \<Rightarrow> ('w, withTask) operation" where
  "CreateVMPlacementGroup svr name clusterID vmPolicy =
     payloadHead (C_CreateVMPlacementGroup (Client svr)
       [\<lparr>pc_Name = name, pc_ClusterID = clusterID,
         pc_Policy = \<lparr>pp_Enabled = Some True, pp_Description = Some VMPlacementGroupDescription,
           pp_VMHostMustEnabled = Some False, pp_VMHostMustPolicy = None, pp_VMHostPreferEnabled = Some False,
           pp_VMHostPreferPolicy = None, pp_VMVMPolicyEnabled = Some True, pp_VMVMPolicy = Some vmPolicy\<rparr>\<rparr>])"

definition GetVMPlacementGroup :: "'w towerVMService \<Rightarrow> string \<Rightarrow> ('w, vmPlacementGroup) call" where
  "GetVMPlacementGroup svr name =
     payloadFirst VMPlacementGroupNotFound (C_GetVMPlacementGroups (Client svr) (anyPG\<lparr>pw_Name := Some name\<rparr>))"

definition AddVMsToPlacementGroup :: "'w towerVMService \<Rightarrow> vmPlacementGroup \<Rightarrow> string list \<Rightarrow> ('w, task) operation" where
  "AddVMsToPlacementGroup svr placementGroup vmIDs w = do {
     i \<leftarrow> pg_ID placementGroup;
     (r, w) \<leftarrow> payloadHead (C_UpdateVMPlacementGroup (Client svr) (pg_Policy placementGroup)
        (VMWhereInput None None None vmIDs [] []) (anyPG\<lparr>pw_ID := Some i\<rparr>)) w;
     Some (map_sum id taskOf r, w) }"

definition DeleteVMPlacementGroupByID :: "'w towerVMService \<Rightarrow> string \<Rightarrow> ('w, bool) call" where
  "DeleteVMPlacementGroupByID svr i w =
     (case C_GetVMPlacementGroups (Client svr) (anyPG\<lparr>pw_ID := Some i\<rparr>) w of
        (Inl err, w) \<Rightarrow> (Inl err, w)
      | (Inr [], w) \<Rightarrow> (Inr True, w)
      | (Inr (pg # pgs), w) \<Rightarrow>
          if pg_EntityAsyncStatus pg \<noteq> None then (Inr False, w)
          else
            (case C_DeleteVMPlacementGroup (Client svr) (anyPG\<lparr>pw_ID := Some i\<rparr>) w of
               (Inl err, w) \<Rightarrow> (Inl err, w)
             | (Inr _, w) \<Rightarrow> (Inr False, w)))"

text \<open>
  The deletion by prefix also returns the names along with an error; the caller drops them, and
  so does the result here.
\<close>

definition DeleteVMPlacementGroupsByNamePrefix :: "'w towerVMService \<Rightarrow> string \<Rightarrow> ('w, string list) operation" where
  "DeleteVMPlacementGroupsByNamePrefix svr namePrefix w =
     (let timeout = cfg_WaitTaskTimeoutForPlacementGroupOperation (Svr_cfg svr)
      in case C_GetVMPlacementGroups (Client svr) (anyPG\<lparr>pw_NameStartsWith := Some namePrefix\<rparr>) w of
           (Inl err, w) \<Rightarrow> Some (Inl err, w)
         | (Inr [], w) \<Rightarrow> Some (Inr [], w)
         | (Inr (pg # pgs), w) \<Rightarrow>
             (case C_DeleteVMPlacementGroup (Client svr) (anyPG\<lparr>pw_NameStartsWith := Some namePrefix\<rparr>) w of
                (Inl err, w) \<Rightarrow> Some (Inl err, w)
              | (Inr deleted, w) \<Rightarrow> do {
                  pgNames \<leftarrow> mapP pg_Name (pg # pgs);
                  (case deleted of
                     [] \<Rightarrow> Some (Inr pgNames, w)
                   | x # xs \<Rightarrow> do {
                       taskID \<leftarrow> wt_TaskID x;
                       (r, w) \<leftarrow> WaitTask svr taskID timeout (cfg_WaitTaskInterval (Svr_cfg svr)) w;
                       (case r of
                          Inl err \<Rightarrow> Some (Inl (ErrWrapf (''failed to wait for placement groups with name prefix '' @ namePrefix @
                            '' deleting task to complete in '' @ durationString timeout @ '': taskID '' @ taskID) err), w)
                        | Inr task \<Rightarrow> do {
                            task \<leftarrow> task;
                            status \<leftarrow> task_Status task;
                            if status = TaskStatusFAILED then do {
                              i \<leftarrow> task_ID task;
                              Some (Inl (ErrMsg (''failed to delete placement groups with name prefix '' @ namePrefix @
                                '' in task '' @ i)), w) }
                            else Some (Inr pgNames, w) }) }) }))"

section \<open>Lemmas\<close>

text \<open>The loop over the network devices as comprehensions over the numbered devices.\<close>

definition requestNetworks :: "nat \<Rightarrow> nat \<Rightarrow> networkDeviceSpec list \<Rightarrow> cloudInitNetwork list" where
  "requestNetworks di i devices =
     map (\<lambda>(j, d). networkOfDevice di j d) (filter (\<lambda>(j, d). HasNetworkType d) (List.enumerate i devices))"

lemma nicsAndNetworks_shape:
  "nicsAndNetworks svr di i devices w = (Inr (nics, networks), w') \<Longrightarrow>
     (\<exists>vlans. length vlans = length devices \<and> nics = map2 nicOfDevice vlans devices) \<and>
     networks = requestNetworks di i devices"
proof (induction svr di i devices w arbitrary: nics networks w' rule: nicsAndNetworks.induct)
  case (1 svr di i w)
  then show ?case by (simp add: requestNetworks_def)
next
  case (2 svr di i d ds w)
  from 2(2) obtain vlan w1 nics1 nets1 w2 where
    v: "GetVlan svr (nd_Vlan d) w = (Inr vlan, w1)"
    and r: "nicsAndNetworks svr di (Suc i) ds w1 = (Inr (nics1, nets1), w2)"
    and e: "nics = nicOfDevice vlan d # nics1"
      "networks = (if HasNetworkType d then networkOfDevice di i d # nets1 else nets1)"
    by (auto split: sum.splits prod.splits)
  from 2(1) [OF v [symmetric] refl r] obtain vlans where
    "length vlans = length ds" "nics1 = map2 nicOfDevice vlans ds" "nets1 = requestNetworks di (Suc i) ds"
    by blast
  with e show ?case
    by (intro conjI exI [of _ "vlan # vlans"]) (auto simp: requestNetworks_def)
qed

text \<open>
  The device with the default route: the first that asks for it, or the first of all. What
  cloud-init is told about the \<open>j\<close>-th device.
\<close>

definition defaultRouteDevice :: "networkDeviceSpec list \<Rightarrow> nat \<Rightarrow> bool" where
  "defaultRouteDevice ds j \<longleftrightarrow>
     nd_DefaultRoute (ds ! j) \<and> (\<forall>k < j. \<not> nd_DefaultRoute (ds ! k)) \<or> j = 0 \<and> (\<forall>d \<in> set ds. \<not> nd_DefaultRoute d)"

definition configuresDevice :: "networkDeviceSpec list \<Rightarrow> nat \<times> networkDeviceSpec \<Rightarrow> cloudInitNetwork \<Rightarrow> bool" where
  "configuresDevice ds jd n \<longleftrightarrow>
     cn_NicIndex n = wrap32 (int (fst jd)) \<and>
     cn_Type n = (if nd_NetworkType (snd jd) = ''IPV4'' then ''IPV4'' else ''IPV4_DHCP'') \<and>
     cn_IPAddress n = (case nd_IPAddrs (snd jd) of [] \<Rightarrow> None | ip # _ \<Rightarrow> if ip = [] then None else Some ip) \<and>
     cn_Netmask n = (if nd_Netmask (snd jd) = [] then None else Some (nd_Netmask (snd jd))) \<and>
     cn_Routes n =
       (if defaultRouteDevice ds (fst jd)
        then map (\<lambda>r. \<lparr>cr_Gateway = nr_Gateway r,
               cr_Netmask = if nr_Netmask r = [] then ''0.0.0.0'' else nr_Netmask r,
               cr_Network = if nr_Network r = [] then ''0.0.0.0'' else nr_Network r\<rparr>) (nd_Routes (snd jd))
        else [])"

lemma defaultRouteIndexFrom_first:
  "defaultRouteIndexFrom i ds = (if \<exists>d \<in> set ds. nd_DefaultRoute d
     then i + length (takeWhile (\<lambda>d. \<not> nd_DefaultRoute d) ds) else 0)"
  by (induction i ds rule: defaultRouteIndexFrom.induct) auto

lemma default_route_index:
  assumes "j < length (ns_Devices n)"
  shows "GetDefaultRouteDeviceIndex n = j \<longleftrightarrow> defaultRouteDevice (ns_Devices n) j"
proof (cases "\<exists>d \<in> set (ns_Devices n). nd_DefaultRoute d")
  case True
  let ?t = "length (takeWhile (\<lambda>d. \<not> nd_DefaultRoute d) (ns_Devices n))"
  from True have "takeWhile (\<lambda>d. \<not> nd_DefaultRoute d) (ns_Devices n) \<noteq> ns_Devices n"
    by (auto simp: takeWhile_eq_all_conv)
  then have t: "?t < length (ns_Devices n)"
    by (metis length_takeWhile_le le_neq_implies_less takeWhile_eq_take take_all_iff order_refl)
  then have "nd_DefaultRoute (ns_Devices n ! ?t)"
    using nth_length_takeWhile [of "\<lambda>d. \<not> nd_DefaultRoute d" "ns_Devices n"] by simp
  moreover have "\<forall>k < ?t. \<not> nd_DefaultRoute (ns_Devices n ! k)"
    by (metis nth_mem set_takeWhileD takeWhile_nth)
  ultimately have "defaultRouteDevice (ns_Devices n) j \<longleftrightarrow> j = ?t"
    using True assms unfolding defaultRouteDevice_def by (metis linorder_neqE_nat)
  with True show ?thesis by (auto simp: GetDefaultRouteDeviceIndex_def defaultRouteIndexFrom_first)
next
  case False
  with assms show ?thesis by (auto simp: GetDefaultRouteDeviceIndex_def defaultRouteIndexFrom_first defaultRouteDevice_def)
qed

lemma requestNetworks_configure:
  fixes n :: networkSpec
  shows "list_all2 (configuresDevice (ns_Devices n))
     (filter (\<lambda>(j, d). nd_NetworkType d \<notin> {[], ''NONE''}) (List.enumerate 0 (ns_Devices n)))
     (requestNetworks (GetDefaultRouteDeviceIndex n) 0 (ns_Devices n))"
proof -
  have "configuresDevice (ns_Devices n) (j, d) (networkOfDevice (GetDefaultRouteDeviceIndex n) j d)"
    if "j < length (ns_Devices n)" for j d
    using default_route_index [OF that]
    by (auto simp: configuresDevice_def networkOfDevice_def cloudInitRouteOf_def Let_def split: list.splits)
  then show ?thesis
    by (auto simp: requestNetworks_def list_all2_map2 HasNetworkType_def const_defs in_set_enumerate_eq
        intro!: list.rel_refl_strong cong: filter_cong)
qed

lemma replaceDisks_shape:
  "post (replaceDisks name sc disks) (\<lambda>d.
     map Some (dk_RemoveDisks d) = map td_Index (filter (\<lambda>t. td_Type t = Some ''DISK'') disks) \<and>
     map nk_Index (dk_NewDisks d) = map Some (dk_RemoveDisks d) \<and>
     (\<forall>n \<in> set (dk_NewDisks d). nk_StorageConfig n = sc))"
  by (induction name sc disks rule: replaceDisks.induct)
    (auto simp: post_simps post_def split: option.splits bind_splits)

lemma GetLimitedNameservers_limit:
  "GetLimitedNameservers limit m = Some ns \<Longrightarrow> distinct ns \<and> int (length ns) \<le> max 0 limit \<and> set ns \<subseteq> set (nameserversInOrder m)"
  by (auto simp: GetLimitedNameservers_def Let_def distinct_dedupNameservers distinct_take split: if_splits
      dest!: in_set_takeD simp: set_dedupNameservers)

text \<open>Sockets times cores covers the virtual CPUs up to a rest below one socket.\<close>

lemma sockets_cover:
  assumes "TowerCPUSockets vCPU cores = Some sockets" "0 < cores" "0 \<le> vCPU" "vCPU < 2 ^ 31"
  shows "sockets * cores \<le> vCPU \<and> vCPU < (sockets + 1) * cores"
proof -
  have "vCPU div cores \<le> vCPU"
    using zdiv_mono2 [of vCPU 1 cores] assms(2,3) by simp
  moreover have "0 \<le> vCPU div cores" using assms(2,3) by (simp add: pos_imp_zdiv_nonneg_iff)
  ultimately have "is_int32 (vCPU div cores)" using assms(4) by (simp add: is_int32_def)
  then have "sockets = vCPU div cores" using assms
    by (simp add: TowerCPUSockets_def go_div_nonneg)
  moreover have "vCPU mod cores < cores" "0 \<le> vCPU mod cores" using assms(2) by simp_all
  ultimately show ?thesis
    using div_mult_mod_eq [of vCPU cores] unfolding distrib_right mult_1 by (metis add_strict_left_mono le_add_same_cancel1)
qed

lemma positive_cores: "0 < TowerCPUSocketCores cores vCPU" if "0 < vCPU"
  using that by (simp add: TowerCPUSocketCores_def)

section \<open>Properties\<close>

text \<open>
  Property C26. The request that clones a virtual machine follows the specification: it has one
  NIC per network device, in order and with its MAC address; cloud-init configures exactly the
  devices with a network type, in order, each under its position, with its type, first address
  and netmask, and with the routes of the default device only (the first that asks for the
  default route, or the first of all); HA is never asked for with GPUs; the nameservers are
  distinct and limited; a stretched cluster replaces exactly the disks of the template by new
  ones in the storage of the request; sockets times cores is the largest multiple of the cores
  that is not above the virtual CPUs (6 CPUs with 4 cores give one socket); and the virtual
  machine is created stopped, under the name of the ElfMachine.
\<close>

theorem clone_request_follows_spec:
  assumes "createVMFromTemplateParams svr elfCluster m cluster template vmInfo w = Some (Inr p, w')"
    and "0 < vp_Vcpu p" and "vp_Vcpu p < 2 ^ 31"
  shows "map np_MacAddress (vp_VMNics p) = map nd_MACAddr (ns_Devices (Network (Spec m))) \<and>
    list_all2 (configuresDevice (ns_Devices (Network (Spec m))))
      (filter (\<lambda>(j, d). nd_NetworkType d \<notin> {[], ''NONE''}) (List.enumerate 0 (ns_Devices (Network (Spec m)))))
      (tci_Networks (vp_CloudInit p)) \<and>
    (vp_Ha p \<longrightarrow> vp_GpuDevices p = [] \<and> HA (Spec m)) \<and>
    map go_GpuID (vp_GpuDevices p) = map (Some \<circ> gdi_ID) (cvi_GPUDevices vmInfo) \<and>
    distinct (tci_Nameservers (vp_CloudInit p)) \<and>
    int (length (tci_Nameservers (vp_CloudInit p))) \<le> max 0 (cfg_NameserverLimit (Svr_cfg svr)) \<and>
    (case vp_DiskOperate p of
       None \<Rightarrow> \<not> IsStretched elfCluster
     | Some d \<Rightarrow> IsStretched elfCluster \<and>
         map Some (dk_RemoveDisks d) = map td_Index (filter (\<lambda>t. td_Type t = Some ''DISK'') (vt_VMDisks template)) \<and>
         map nk_Index (dk_NewDisks d) = map Some (dk_RemoveDisks d) \<and>
         (\<forall>n \<in> set (dk_NewDisks d). nk_StorageConfig n = cvi_StorageConfig vmInfo)) \<and>
    vp_CPUSockets p * vp_CPUCores p \<le> vp_Vcpu p \<and> vp_Vcpu p < (vp_CPUSockets p + 1) * vp_CPUCores p \<and>
    vp_Status p = VMStatusSTOPPED \<and> vp_Name p = om_Name (em_meta m)"
proof -
  let ?ds = "ns_Devices (Network (Spec m))" and ?di = "GetDefaultRouteDeviceIndex (Network (Spec m))"
  from assms(1) obtain sockets nics nets w1 ns hostID dop where
    cpu: "TowerCPUSockets (vp_Vcpu p) (vp_CPUCores p) = Some sockets"
      "vp_CPUCores p = TowerCPUSocketCores (NumCoresPerSocket (Spec m)) (vp_Vcpu p)" "vp_CPUSockets p = sockets"
    and nets: "nicsAndNetworks svr ?di 0 ?ds w = (Inr (nics, nets), w1)"
      "vp_VMNics p = nics" "tci_Networks (vp_CloudInit p) = nets"
    and ns: "GetLimitedNameservers (cfg_NameserverLimit (Svr_cfg svr)) m = Some ns" "tci_Nameservers (vp_CloudInit p) = ns"
    and gpu: "vp_GpuDevices p = gpuOperations (cvi_GPUDevices vmInfo)"
      "vp_Ha p = (if length (vp_GpuDevices p) > 0 then False else HA (Spec m))"
    and dop: "(if IsStretched elfCluster
         then map_option Some (replaceDisks (om_Name (em_meta m)) (cvi_StorageConfig vmInfo) (vt_VMDisks template))
         else Some None) = Some dop" "vp_DiskOperate p = dop"
    and rest: "vp_Status p = VMStatusSTOPPED" "vp_Name p = om_Name (em_meta m)"
    unfolding createVMFromTemplateParams_def Let_def
    by (auto split: bind_splits sum.splits prod.splits)
  have macs: "map np_MacAddress (map2 nicOfDevice vlans ds) = map nd_MACAddr ds" if "length vlans = length ds" for vlans ds
    using that by (induction vlans ds rule: list_induct2) (simp_all add: nicOfDevice_def)
  have disks: "case dop of None \<Rightarrow> \<not> IsStretched elfCluster | Some d \<Rightarrow> IsStretched elfCluster \<and>
      map Some (dk_RemoveDisks d) = map td_Index (filter (\<lambda>t. td_Type t = Some ''DISK'') (vt_VMDisks template)) \<and>
      map nk_Index (dk_NewDisks d) = map Some (dk_RemoveDisks d) \<and>
      (\<forall>n \<in> set (dk_NewDisks d). nk_StorageConfig n = cvi_StorageConfig vmInfo)"
    using dop(1) postD [OF replaceDisks_shape] by (fastforce split: if_splits)
  show ?thesis
    using nicsAndNetworks_shape [OF nets(1)] requestNetworks_configure [of "Network (Spec m)"] macs nets(2,3) ns GetLimitedNameservers_limit [OF ns(1)] gpu disks dop(2) rest
      sockets_cover [OF cpu(1)] positive_cores [OF assms(2)] cpu(2,3) assms(2,3)
    by (auto simp: gpuOperations_def)
qed

text \<open>
  A client whose server has one VLAN and nothing else, and which polls a condition once.
\<close>

definition wit_poll ::
  "('s \<Rightarrow> ((bool \<times> go_error option) \<times> 's) panics) \<Rightarrow> 's \<Rightarrow> (go_error option \<times> 's) panics" where
  "wit_poll cond st = do {
     ((ok, err), st) \<leftarrow> cond st;
     Some (if err \<noteq> None then err else if ok then None else Some (ErrMsg ''context deadline exceeded''), st) }"

definition wit_client :: "'w cloudtower" where
  "wit_client = \<lparr>
     C_GetVms = (\<lambda>_ w. (Inr [], w)), C_UpdateVM = (\<lambda>_ _ w. (Inr [], w)), C_CreateVMFromTemplate = (\<lambda>_ w. (Inr [], w)),
     C_MigrateVM = (\<lambda>_ _ w. (Inr [], w)), C_DeleteVM = (\<lambda>_ w. (Inr [], w)), C_PoweroffVM = (\<lambda>_ w. (Inr [], w)),
     C_StartVM = (\<lambda>_ _ w. (Inr [], w)), C_ShutDownVM = (\<lambda>_ w. (Inr [], w)),
     C_RemoveVMGpuDevice = (\<lambda>_ _ w. (Inr [], w)), C_AddVMGpuDevice = (\<lambda>_ _ w. (Inr [], w)),
     C_AddVMNic = (\<lambda>_ _ w. (Inr [], w)), C_GetVMGpuDeviceInfo = (\<lambda>_ w. (Inr [], w)), C_GetVMNics = (\<lambda>_ _ w. (Inr [], w)),
     C_GetVMDisks = (\<lambda>_ _ w. (Inr [], w)), C_GetVMVolumes = (\<lambda>_ w. (Inr [], w)), C_UpdateVMVolume = (\<lambda>_ _ w. (Inr [], w)),
     C_GetClusters = (\<lambda>_ w. (Inr [], w)), C_GetZones = (\<lambda>_ w. (Inr [], w)), C_GetHosts = (\<lambda>_ w. (Inr [], w)),
     C_GetVlans = (\<lambda>_ w. (Inr [\<lparr>ref_ID = Some ''vlan1'', ref_Name = None\<rparr>], w)),
     C_GetVMTemplates = (\<lambda>_ w. (Inr [], w)), C_GetTasks = (\<lambda>_ w. (Inr [], w)), C_GetLabels = (\<lambda>_ w. (Inr [], w)),
     C_CreateLabel = (\<lambda>_ w. (Inr [], w)), C_DeleteLabel = (\<lambda>_ w. (Inr [], w)),
     C_AddLabelsToResources = (\<lambda>_ _ w. (Inr [], w)), C_CreateVMPlacementGroup = (\<lambda>_ w. (Inr [], w)),
     C_GetVMPlacementGroups = (\<lambda>_ w. (Inr [], w)), C_UpdateVMPlacementGroup = (\<lambda>_ _ _ w. (Inr [], w)),
     C_DeleteVMPlacementGroup = (\<lambda>_ w. (Inr [], w)), C_GetDetailVMInfoByGpuDevices = (\<lambda>_ w. (Inr [], w)),
     C_PollUntilContextTimeout = (\<lambda>_ _ _. wit_poll)\<rparr>"

definition wit_svr :: "'w towerVMService" where
  "wit_svr = \<lparr>Client = wit_client, Svr_cfg = wit_cfg, Svr_lib = ref_lib\<rparr>"

definition wit_device :: networkDeviceSpec where
  "wit_device = \<lparr>nd_NetworkType = NetworkTypeIPV4DHCP, nd_Vlan = ''v'', nd_IPAddrs = [], nd_Netmask = [],
     nd_MACAddr = ''52:54:00:00:00:01'', nd_Routes = [\<lparr>nr_Gateway = ''10.0.0.254'', nr_Netmask = [], nr_Network = []\<rparr>],
     nd_AddressesFromPools = [], nd_DefaultRoute = True, nd_Nameservers = [''10.0.0.53'']\<rparr>"

definition wit_net_elf :: elfMachine where
  "wit_net_elf = wit_elf\<lparr>Spec := (Spec wit_elf)\<lparr>Network :=
     \<lparr>ns_Devices = [wit_device\<lparr>nd_NetworkType := NetworkTypeNone, nd_DefaultRoute := False\<rparr>, wit_device],
      ns_Nameservers = [''10.0.0.53''], ns_PreferredAPIServerCIDR = []\<rparr>\<rparr>\<rparr>"

definition wit_cloneInfo :: cloneVMInfo where
  "wit_cloneInfo = \<lparr>cvi_Cluster = ''c1'', cvi_StorageConfig = None, cvi_Host = [], cvi_CloudInit = ''#cloud-config'',
     cvi_GPUDevices = [], cvi_HostName = ''vm1''\<rparr>"

definition wit_createParams :: "vmCreateParams" where
  "wit_createParams =
     (case createVMFromTemplateParams (wit_svr :: unit towerVMService) (mc_ElfCluster wit_ctx) wit_net_elf
            \<lparr>ref_ID = Some ''c1'', ref_Name = None\<rparr> \<lparr>vt_ID = Some ''t'', vt_Name = None, vt_VMDisks = []\<rparr> wit_cloneInfo () of
        Some (Inr p, _) \<Rightarrow> p)"

lemma wit_createParams:
  "createVMFromTemplateParams (wit_svr :: unit towerVMService) (mc_ElfCluster wit_ctx) wit_net_elf
     \<lparr>ref_ID = Some ''c1'', ref_Name = None\<rparr> \<lparr>vt_ID = Some ''t'', vt_Name = None, vt_VMDisks = []\<rparr> wit_cloneInfo () =
     Some (Inr wit_createParams, ())"
  "vp_Vcpu wit_createParams = 4"
  by code_simp+

theorem clone_request_follows_spec_witness:
  "map np_MacAddress (vp_VMNics wit_createParams) = map nd_MACAddr (ns_Devices (Network (Spec wit_net_elf))) \<and>
   length (tci_Networks (vp_CloudInit wit_createParams)) = 1"
  using clone_request_follows_spec [OF wit_createParams(1)]
  by (auto simp: wit_createParams(2) wit_net_elf_def wit_device_def const_defs dest: list_all2_lengthD)

text \<open>
  Property C27. Waiting for a task ends well only with a finished one: given a poll loop that
  reports success only right after its condition held, the task that \<^verbatim>\<open>WaitTask\<close>
  returns exists, has failed or succeeded, and is the last answer of Tower for that ID.
\<close>

theorem wait_task_final:
  assumes poll: "\<And>interval timeout cond st st'.
      C_PollUntilContextTimeout (Client svr) interval timeout True cond st = Some (None, st') \<Longrightarrow>
      \<exists>st1. cond st1 = Some ((True, None), st')"
    and "WaitTask svr i timeout interval w = Some (Inr r, w')"
  shows "\<exists>t w1. r = Some t \<and> GetTask svr i w1 = (Inr t, w') \<and>
    (task_Status t = Some TaskStatusFAILED \<or> task_Status t = Some TaskStatusSUCCESSED)"
proof -
  from assms(2) have "C_PollUntilContextTimeout (Client svr) interval timeout True (taskFinished svr i) (w, None) = Some (None, w', r)"
    by (auto simp: WaitTask_def split: bind_splits option.splits)
  from poll [OF this] obtain w1 t0 where "taskFinished svr i (w1, t0) = Some ((True, None), w', r)"
    by auto
  then show ?thesis
    by (auto simp: taskFinished_def split: bind_splits sum.splits prod.splits)
qed

definition wit_task_svr :: "unit towerVMService" where
  "wit_task_svr = wit_svr\<lparr>Client := wit_client\<lparr>C_GetTasks := (\<lambda>i w. (Inr [\<lparr>task_ID = Some i, task_Status = Some TaskStatusSUCCESSED,
     task_ErrorMessage = None, task_ErrorCode = None, task_Description = None\<rparr>], w))\<rparr>\<rparr>"

theorem wait_task_final_witness:
  "\<exists>t. WaitTask wit_task_svr ''t1'' 10 1 () = Some (Inr (Some t), ()) \<and> task_Status t = Some TaskStatusSUCCESSED"
proof -
  have poll: "\<exists>st1. cond st1 = Some ((True, None), st')"
    if "C_PollUntilContextTimeout (Client wit_task_svr) interval timeout True cond st = Some (None, st')"
    for interval timeout cond st st'
    by (rule exI [of _ st]) (use that in \<open>auto simp: wit_task_svr_def wit_svr_def wit_client_def wit_poll_def split: bind_splits if_splits\<close>)
  have "case WaitTask wit_task_svr ''t1'' 10 1 () of Some (Inr _, _) \<Rightarrow> True | _ \<Rightarrow> False" by code_simp
  then obtain r where r: "WaitTask wit_task_svr ''t1'' 10 1 () = Some (Inr r, ())"
    by (auto split: option.splits sum.splits prod.splits)
  from wait_task_final [OF _ r] poll obtain t where t: "r = Some t" "\<exists>w1. GetTask wit_task_svr ''t1'' w1 = (Inr t, ())" by blast
  then have "task_Status t = Some TaskStatusSUCCESSED"
    by (auto simp: GetTask_def payloadFirst_def wit_task_svr_def wit_svr_def wit_client_def)
  with r t(1) show ?thesis by blast
qed

text \<open>
  Property C28. Upserting a label is idempotent: over a Tower that answers label queries from its
  labels and adds the label it is asked to create, a second upsert returns the same label and
  changes nothing, and both together create at most one label.
\<close>

theorem upsert_label_idempotent:
  assumes get: "\<And>k v w. C_GetLabels (Client svr) (labelByKeyValue k v) w =
      (Inr (filter (\<lambda>l. lb_Key l = Some k \<and> lb_Value l = Some v) (labels w)), w)"
    and create: "\<And>k v w p w'. C_CreateLabel (Client svr) [(k, v)] w = (Inr p, w') \<Longrightarrow>
      \<exists>l. p = [Some l] \<and> lb_Key l = Some k \<and> lb_Value l = Some v \<and> labels w' = labels w @ [l]"
    and "UpsertLabel svr key value w = (Inr r, w')"
  shows "UpsertLabel svr key value w' = (Inr r, w') \<and> (\<exists>l. r = Some l \<and> lb_Key l = Some key \<and> lb_Value l = Some value) \<and>
    length (labels w') \<le> length (labels w) + 1"
proof (cases "filter (\<lambda>l. lb_Key l = Some key \<and> lb_Value l = Some value) (labels w)")
  case Nil
  with assms(3) get obtain p where p: "C_CreateLabel (Client svr) [(key, value)] w = (Inr p, w')" and r: "p \<noteq> [] \<and> hd p = r"
    by (auto simp: UpsertLabel_def payloadFirst_def split: sum.splits list.splits prod.splits)
  from create [OF p] r Nil get show ?thesis by (auto simp: UpsertLabel_def)
next
  case (Cons l ls)
  then have "lb_Key l = Some key \<and> lb_Value l = Some value"
    by (metis (mono_tags, lifting) filter_eq_ConsD)
  with Cons assms(3) get show ?thesis by (auto simp: UpsertLabel_def)
qed

definition wit_label_svr :: "vmLabel list towerVMService" where
  "wit_label_svr = wit_svr\<lparr>Client := wit_client\<lparr>
     C_GetLabels := (\<lambda>q w. (Inr (filter (\<lambda>l. lb_Key l = lw_Key q \<and> lb_Value l = lw_Value q) w), w)),
     C_CreateLabel := (\<lambda>kvs w.
       (case kvs of
          [(k, v)] \<Rightarrow> let l = \<lparr>lb_ID = Some ''l'', lb_Key = Some k, lb_Value = Some v\<rparr> in (Inr [Some l], w @ [l])
        | _ \<Rightarrow> (Inr [], w)))\<rparr>\<rparr>"

theorem upsert_label_idempotent_witness:
  "\<exists>r w'. UpsertLabel wit_label_svr ''k'' ''v'' [] = (Inr r, w') \<and> UpsertLabel wit_label_svr ''k'' ''v'' w' = (Inr r, w') \<and>
     length w' = 1"
proof -
  have get: "C_GetLabels (Client wit_label_svr) (labelByKeyValue k v) w =
      (Inr (filter (\<lambda>l. lb_Key l = Some k \<and> lb_Value l = Some v) w), w)" for k v w
    by (simp add: wit_label_svr_def wit_svr_def labelByKeyValue_def)
  have create: "\<exists>l. p = [Some l] \<and> lb_Key l = Some k \<and> lb_Value l = Some v \<and> w' = w @ [l]"
    if "C_CreateLabel (Client wit_label_svr) [(k, v)] w = (Inr p, w')" for k v w p w'
    using that by (auto simp: wit_label_svr_def wit_svr_def Let_def)
  obtain x w' where u: "UpsertLabel wit_label_svr ''k'' ''v'' [] = (x, w')" by (rule prod.exhaust)
  have "case UpsertLabel wit_label_svr ''k'' ''v'' [] of (r, w') \<Rightarrow> \<not> isl r \<and> length w' = 1"
    by code_simp
  with u obtain r where r: "UpsertLabel wit_label_svr ''k'' ''v'' [] = (Inr r, w')" "length w' = 1"
    by (cases x) simp_all
  from upsert_label_idempotent [of wit_label_svr "\<lambda>w. w", OF get create r(1)] r show ?thesis by blast
qed

end
