(* ===== verification/Tower_Contract.thy ===== *)
theory Tower_Contract
  imports Vm_Service Elf_Deletion
begin

text \<open>
  The ElfMachine controller on top of the VM service on top of a Tower with a table of virtual
  machines: what the answers of the service mean for the table, and what the removal of the
  finalizer means for it. The filter semantics and the behaviour of the endpoints are the
  documented ones of the Tower API; they are hypotheses on the client.
\<close>

section \<open>The filters of the Tower API\<close>

text \<open>Every field that is set must match; of the alternatives, if any, one must match.\<close>

fun vmMatches :: "vmWhereInput \<Rightarrow> vm \<Rightarrow> bool" where
  "vmMatches (VMWhereInput i localID name ids localIDs ors) v \<longleftrightarrow>
     (i = None \<or> vm_ID v = i) \<and> (localID = None \<or> vm_LocalID v = localID) \<and> (name = None \<or> vm_Name v = name) \<and>
     (ids = [] \<or> vm_ID v \<in> Some ` set ids) \<and> (localIDs = [] \<or> vm_LocalID v \<in> Some ` set localIDs) \<and>
     (ors = [] \<or> list_ex (\<lambda>q. vmMatches q v) ors)"

lemma vmMatches_filters [simp]:
  "vmMatches (vmByRef i) v \<longleftrightarrow> vm_LocalID v = Some i \<or> vm_ID v = Some i"
  "vmMatches (vmByName n) v \<longleftrightarrow> vm_Name v = Some n"
  by (simp_all add: vmByRef_def vmByName_def)

section \<open>A Tower with a table of virtual machines\<close>

text \<open>
  \<open>found vms q w\<close>: the virtual machines a filter selects. A query answers with them and
  leaves the table as it is; an operation answers with one task for each of them and adds no
  virtual machine; no failure of a request carries the code of a missing virtual machine.
\<close>

abbreviation found :: "('w \<Rightarrow> vm list) \<Rightarrow> vmWhereInput \<Rightarrow> 'w \<Rightarrow> vm list" where
  "found vms q w \<equiv> filter (vmMatches q) (vms w)"

definition answersQuery :: "lib \<Rightarrow> ('w \<Rightarrow> vm list) \<Rightarrow> (vmWhereInput \<Rightarrow> ('w, vm list) call) \<Rightarrow> bool" where
  "answersQuery L vms f \<longleftrightarrow> (\<forall>q w r w'. f q w = (r, w') \<longrightarrow> vms w' = vms w \<and>
     (case r of Inl err \<Rightarrow> \<not> IsVMNotFound L err | Inr vs \<Rightarrow> vs = found vms q w))"

definition answersOperation :: "lib \<Rightarrow> ('w \<Rightarrow> vm list) \<Rightarrow> (vmWhereInput \<Rightarrow> ('w, withTask list) call) \<Rightarrow> bool" where
  "answersOperation L vms f \<longleftrightarrow> (\<forall>q w r w'. f q w = (r, w') \<longrightarrow>
     (case r of
        Inl err \<Rightarrow> \<not> IsVMNotFound L err
      | Inr ts \<Rightarrow> length ts = length (found vms q w) \<and> (\<forall>q. found vms q w = [] \<longrightarrow> found vms q w' = [])))"

definition tableTower :: "lib \<Rightarrow> ('w \<Rightarrow> vm list) \<Rightarrow> 'w cloudtower \<Rightarrow> bool" where
  "tableTower L vms C \<longleftrightarrow> answersQuery L vms (C_GetVms C) \<and> answersOperation L vms (C_DeleteVM C) \<and>
     answersOperation L vms (C_PoweroffVM C) \<and> answersOperation L vms (C_ShutDownVM C)"

text \<open>The service of the controller is the modelled one, on the calls the deletion makes.\<close>

definition servedBy :: "'w towerVMService \<Rightarrow> 'w vmservice \<Rightarrow> bool" where
  "servedBy svr svc \<longleftrightarrow> Svc_Get svc = Get svr \<and> Svc_GetByName svc = GetByName svr \<and> Svc_Delete svc = Delete svr \<and>
     Svc_PowerOff svc = PowerOff svr \<and> Svc_ShutDown svc = ShutDown svr"

section \<open>Lemmas\<close>

lemma query_answer:
  assumes "answersQuery L vms f" "payloadFirst VMNotFound (f q) w = (r, w')"
  shows "case r of Inl err \<Rightarrow> IsVMNotFound L err \<longrightarrow> found vms q w' = [] | Inr v \<Rightarrow> v \<in> set (found vms q w)"
proof -
  obtain a w1 where f: "f q w = (a, w1)" by (rule prod.exhaust)
  then have "vms w1 = vms w" "case a of Inl err \<Rightarrow> \<not> IsVMNotFound L err | Inr vs \<Rightarrow> vs = found vms q w"
    using assms(1) by (simp_all add: answersQuery_def)
  with assms(2) f show ?thesis
    by (auto simp: payloadFirst_def simp del: set_filter split: sum.splits list.splits)
qed

lemma operation_not_found:
  assumes "answersOperation L vms f" "payloadTask VMNotFound (f q) w = (Inl err, w')" "IsVMNotFound L err"
  shows "found vms q w' = []"
proof -
  obtain a w1 where f: "f q w = (a, w1)" by (rule prod.exhaust)
  then have "case a of Inl err \<Rightarrow> \<not> IsVMNotFound L err
     | Inr ts \<Rightarrow> length ts = length (found vms q w) \<and> (\<forall>q. found vms q w = [] \<longrightarrow> found vms q w1 = [])"
    using assms(1) by (simp add: answersOperation_def)
  moreover have "a = Inl err \<and> w' = w1 \<or> a = Inr [] \<and> w' = w1"
    using assms(2) f by (auto simp: payloadTask_def payloadFirst_def split: sum.splits list.splits)
  ultimately show ?thesis using assms(3) by (auto split: sum.splits)
qed

section \<open>The contract of the lookups and of the deletion\<close>

text \<open>
  What the controller relies on, of any VM service: an answer of not found means that the table
  has no such virtual machine, and a virtual machine that is returned is in the table.
\<close>

locale vm_contract =
  fixes L :: lib
    and vms :: "'w \<Rightarrow> vm list"
    and svc :: "'w vmservice"
  assumes get_absent: "Svc_Get svc ref w = (Inl err, w') \<Longrightarrow> IsVMNotFound L err \<Longrightarrow> found vms (vmByRef ref) w' = []"
    and name_absent: "Svc_GetByName svc name w = (Inl err, w') \<Longrightarrow> IsVMNotFound L err \<Longrightarrow> found vms (vmByName name) w' = []"
    and name_present: "Svc_GetByName svc name w = (Inr v, w') \<Longrightarrow> v \<in> set (found vms (vmByName name) w)"
    and delete_absent: "Svc_Delete svc ref w = (Inl err, w') \<Longrightarrow> IsVMNotFound L err \<Longrightarrow> found vms (vmByRef ref) w' = []"
    and powerOff_absent: "Svc_PowerOff svc ref w = (Inl err, w') \<Longrightarrow> IsVMNotFound L err \<Longrightarrow> found vms (vmByRef ref) w' = []"
    and shutDown_absent: "Svc_ShutDown svc ref w = (Inl err, w') \<Longrightarrow> IsVMNotFound L err \<Longrightarrow> found vms (vmByRef ref) w' = []"
begin

text \<open>When Tower's last answer is that a virtual machine is missing, the table has none under its reference.\<close>

lemma answered_absent:
  assumes E: "e_lib X = L" "e_svc X = svc" and A: "answeredNotFound X ref w'"
  shows "\<forall>v \<in> set (vms w'). vm_ID v \<noteq> Some ref \<and> vm_LocalID v \<noteq> Some ref"
proof -
  have "found vms (vmByRef ref) w' = []"
    using A unfolding answeredNotFound_def E
    by (auto intro: get_absent delete_absent powerOff_absent shutDown_absent simp del: vmMatches_filters)
  then show ?thesis by (auto simp: filter_empty_conv)
qed

text \<open>When the controller takes the virtual machine for gone, the table has none of it.\<close>

lemma gone_is_gone:
  assumes E: "e_lib X = L" "e_svc X = svc" and gone: "vmGone X m w1 w'"
  shows "\<not> HasVM m \<and> (\<forall>v \<in> set (vms w'). vm_Name v \<noteq> Some (om_Name (em_meta m))) \<or>
    (\<exists>ref. (\<forall>v \<in> set (vms w'). vm_ID v \<noteq> Some ref \<and> vm_LocalID v \<noteq> Some ref) \<and>
       (if HasVM m then ref = VMRef (Status m)
        else \<exists>v \<in> set (vms w1). vm_Name v = Some (om_Name (em_meta m)) \<and> GetVMRef (Some v) = Some ref))"
proof (cases "HasVM m")
  case True
  with gone answered_absent [OF E] show ?thesis by (auto simp: vmGone_def)
next
  case False
  let ?name = "om_Name (em_meta m)"
  obtain r w2 where r: "Svc_GetByName svc ?name w1 = (r, w2)" by (rule prod.exhaust)
  show ?thesis
  proof (cases r)
    case (Inl err)
    with name_absent [of ?name w1 err w2] r False gone E show ?thesis by (auto simp: vmGone_def filter_empty_conv)
  next
    case (Inr v)
    with r name_present [of ?name w1 v w2] have "v \<in> set (vms w1)" "vm_Name v = Some ?name" by auto
    moreover from Inr r False gone E obtain ref where "GetVMRef (Some v) = Some ref" "answeredNotFound X ref w'"
      by (auto simp: vmGone_def)
    ultimately show ?thesis using answered_absent [OF E, of ref w'] False by auto
  qed
qed

end

text \<open>The modelled service keeps the contract over every Tower that answers from its table.\<close>

locale table_tower =
  fixes L :: lib
    and vms :: "'w \<Rightarrow> vm list"
    and svr :: "'w towerVMService"
    and svc :: "'w vmservice"
  assumes table: "tableTower L vms (Client svr)"
    and served: "servedBy svr svc"

sublocale table_tower \<subseteq> vm_contract L vms svc
proof
  note facts = served [unfolded servedBy_def] table [unfolded tableTower_def]
  show "found vms (vmByRef ref) w' = []" if "Svc_Get svc ref w = (Inl err, w')" "IsVMNotFound L err" for ref w err w'
    using query_answer [of L vms "C_GetVms (Client svr)" "vmByRef ref" w "Inl err" w'] facts that by (simp add: Get_def)
  show "found vms (vmByName name) w' = []" if "Svc_GetByName svc name w = (Inl err, w')" "IsVMNotFound L err" for name w err w'
    using query_answer [of L vms "C_GetVms (Client svr)" "vmByName name" w "Inl err" w'] facts that by (simp add: GetByName_def)
  show "v \<in> set (found vms (vmByName name) w)" if "Svc_GetByName svc name w = (Inr v, w')" for name w v w'
    using query_answer [of L vms "C_GetVms (Client svr)" "vmByName name" w "Inr v" w'] facts that by (simp add: GetByName_def)
  show "found vms (vmByRef ref) w' = []" if "Svc_Delete svc ref w = (Inl err, w')" "IsVMNotFound L err" for ref w err w'
    using operation_not_found [of L vms "C_DeleteVM (Client svr)" "vmByRef ref" w err w'] facts that by (simp add: Delete_def)
  show "found vms (vmByRef ref) w' = []" if "Svc_PowerOff svc ref w = (Inl err, w')" "IsVMNotFound L err" for ref w err w'
    using operation_not_found [of L vms "C_PoweroffVM (Client svr)" "vmByRef ref" w err w'] facts that by (simp add: PowerOff_def)
  show "found vms (vmByRef ref) w' = []" if "Svc_ShutDown svc ref w = (Inl err, w')" "IsVMNotFound L err" for ref w err w'
    using operation_not_found [of L vms "C_ShutDownVM (Client svr)" "vmByRef ref" w err w'] facts that by (simp add: ShutDown_def)
qed

context table_tower
begin

lemma contract: "vm_contract L vms svc"
  by unfold_locales

end

section \<open>Properties\<close>

text \<open>
  Property C4. End to end, the finalizer of an ElfMachine outlives its virtual machine. On the VM
  service over a Tower that answers from its table of virtual machines, for a cluster that is
  not force-deleted, and when no error of the task handling and of the node deletion contains
  Tower's code for a missing virtual machine (\<^const>\<open>unambiguous\<close>): a deletion that removes the
  finalizer leaves no virtual machine in the table under the recorded reference. For an
  ElfMachine without one it leaves none under its name; or none under the reference of the
  virtual machine of that name that was in the table right after the placement group was dealt
  with.
\<close>

theorem finalizer_outlives_vm:
  assumes T: "tableTower (e_lib X) vms (Client svr)" and S: "servedBy svr (e_svc X)" and U: "unambiguous X c (elf s)"
    and F: "\<not> HasForceDeleteCluster (mc_ElfCluster c)"
    and run: "reconcileDelete X c s = Some (r, s')" "om_Finalizers (em_meta (elf s')) \<noteq> om_Finalizers (em_meta (elf s))"
  shows "\<exists>s1. deletePlacementGroup X c (markFalse X c VMProvisionedCondition DeletingReason SevInfo [] s) = Some ((True, None), s1) \<and>
    (\<not> HasVM (elf s) \<and> (\<forall>v \<in> set (vms (world s')). vm_Name v \<noteq> Some (om_Name (em_meta (elf s)))) \<or>
     (\<exists>ref. (\<forall>v \<in> set (vms (world s')). vm_ID v \<noteq> Some ref \<and> vm_LocalID v \<noteq> Some ref) \<and>
        (if HasVM (elf s) then ref = VMRef (Status (elf s))
         else \<exists>v \<in> set (vms (world s1)). vm_Name v = Some (om_Name (em_meta (elf s))) \<and> GetVMRef (Some v) = Some ref)))"
proof -
  from delete_finalizer [OF U run(1)] run(2) F obtain s1 where
    s1: "deletePlacementGroup X c (markFalse X c VMProvisionedCondition DeletingReason SevInfo [] s) = Some ((True, None), s1)"
      "vmGone X (elf s) (world s1) (world s')" by auto
  have "vm_contract (e_lib X) vms (e_svc X)"
    by (rule table_tower.contract [OF table_tower.intro [OF T S]])
  from vm_contract.gone_is_gone [OF this refl refl s1(2)] s1(1) show ?thesis by blast
qed

text \<open>A Tower whose world is its table; an operation on a virtual machine removes it.\<close>

definition wit_operation :: "vmWhereInput \<Rightarrow> (vm list, withTask list) call" where
  "wit_operation q w =
     (Inr (map (\<lambda>_. \<lparr>wt_DataID = None, wt_TaskID = Some ''t''\<rparr>) (filter (vmMatches q) w)), filter (\<lambda>v. \<not> vmMatches q v) w)"

definition wit_table_svr :: "vm list towerVMService" where
  "wit_table_svr = wit_svr\<lparr>Client := wit_client\<lparr>C_GetVms := (\<lambda>q w. (Inr (filter (vmMatches q) w), w)),
     C_DeleteVM := wit_operation, C_PoweroffVM := wit_operation, C_ShutDownVM := wit_operation\<rparr>\<rparr>"

definition wit_table_env :: "(vm list, cacheVal ttl) env" where
  "wit_table_env = wit_env\<lparr>e_svc := wit_svc\<lparr>Svc_Get := Get wit_table_svr, Svc_GetByName := GetByName wit_table_svr,
     Svc_Delete := Delete wit_table_svr, Svc_PowerOff := PowerOff wit_table_svr, Svc_ShutDown := ShutDown wit_table_svr,
     Svc_GetTask := (\<lambda>i w. (Inr \<lparr>task_ID = Some i, task_Status = None, task_ErrorMessage = None, task_ErrorCode = None,
       task_Description = None\<rparr>, w))\<rparr>\<rparr>"

definition wit_table_st :: "(vm list, cacheVal ttl) st" where
  "wit_table_st = \<lparr>elf = SetVM ''v9'' wit_elf, world = [wit_vm], glob = wit_gstate, calls = []\<rparr>"

lemma wit_table:
  "tableTower ref_lib (\<lambda>w. w) (Client wit_table_svr)" "servedBy wit_table_svr (e_svc wit_table_env)"
  "unambiguous wit_table_env wit_deleted_ctx m"
proof -
  show "tableTower ref_lib (\<lambda>w. w) (Client wit_table_svr)"
    by (auto simp: tableTower_def answersQuery_def answersOperation_def wit_table_svr_def wit_svr_def wit_operation_def
        filter_empty_conv)
  show "servedBy wit_table_svr (e_svc wit_table_env)" by (simp add: servedBy_def wit_table_env_def)
  show "unambiguous wit_table_env wit_deleted_ctx m"
    by (auto simp: unambiguous_def reconcileVMTask_def query_eq wit_table_env_def deleteNode_def wit_deleted_ctx_def Let_def)
qed

interpretation wit_tower: table_tower ref_lib "\<lambda>w. w" wit_table_svr "e_svc wit_table_env"
  by (rule table_tower.intro) (rule wit_table)+

lemma wit_table_run:
  "case reconcileDelete wit_table_env wit_deleted_ctx wit_table_st of
     Some (r, s') \<Rightarrow> om_Finalizers (em_meta (elf s')) \<noteq> om_Finalizers (em_meta (elf wit_table_st)) \<and> length (world s') = 1
   | None \<Rightarrow> False"
  by code_simp

theorem finalizer_outlives_vm_witness:
  "\<exists>r s'. reconcileDelete wit_table_env wit_deleted_ctx wit_table_st = Some (r, s') \<and> length (world s') = 1 \<and>
     (\<forall>v \<in> set (world s'). vm_LocalID v \<noteq> Some ''v9'')"
proof -
  obtain r s' where run: "reconcileDelete wit_table_env wit_deleted_ctx wit_table_st = Some (r, s')"
    "om_Finalizers (em_meta (elf s')) \<noteq> om_Finalizers (em_meta (elf wit_table_st))" and w: "length (world s') = 1"
    using wit_table_run by (auto split: option.splits)
  have f: "\<not> HasForceDeleteCluster (mc_ElfCluster wit_deleted_ctx)" "e_lib wit_table_env = ref_lib"
    by (simp_all add: wit_deleted_ctx_def HasForceDeleteCluster_def wit_ctx_def wit_meta_def wit_table_env_def)
  have "\<forall>v \<in> set (world s'). vm_LocalID v \<noteq> Some ''v9''"
    using finalizer_outlives_vm [OF _ wit_table(2,3) f(1) run, of "\<lambda>w. w"] wit_table(1) f(2)
    by (auto simp: wit_table_st_def split: if_splits)
  with run(1) w show ?thesis by blast
qed

end
