(* ===== verification/Tower_Client.thy ===== *)
theory Tower_Client
  imports Vm_Service
begin

text \<open>
  Sessions with Tower (\<^verbatim>\<open>pkg/cloudtower/tower.go\<close>): the cache of logged-in
  clients, its invalidation when the Secret with the connection data changes, its collection of
  idle clients, and \<^verbatim>\<open>NewVMService\<close>, which picks the source of the connection
  data. The HTTP transport, the login request, the hash, and the JSON and YAML coders belong to
  libraries; they are the record \<open>sessionLib\<close>.
\<close>

section \<open>Configuration, clients and their cache\<close>

record towerClientConfig =
  cc_Server :: string
  cc_Username :: string
  cc_Password :: string
  cc_AuthMode :: string
  cc_SkipTLSVerify :: bool

definition TowerClientConfig :: "tower \<Rightarrow> towerClientConfig" where
  "TowerClientConfig t = \<lparr>cc_Server = t_Server t, cc_Username = t_Username t, cc_Password = t_Password t,
     cc_AuthMode = t_AuthMode t, cc_SkipTLSVerify = t_SkipTLSVerify t\<rparr>"

definition SecretKey :: "tower \<Rightarrow> string \<times> string" where
  "SecretKey t = (case t_SecretRef t of None \<Rightarrow> ([], []) | Some (namespace, name) \<Rightarrow> (namespace, name))"

text \<open>\<^verbatim>\<open>NamespacedName.String\<close>.\<close>

definition namespacedName :: "string \<times> string \<Rightarrow> string" where
  "namespacedName k = fst k @ ''/'' @ snd k"

text \<open>A client: the transport it talks over, the headers it adds and the token of its login.\<close>

record transport =
  tr_Host :: string
  tr_BasePath :: string
  tr_Schemes :: "string list"
  tr_InsecureSkipVerify :: bool
  tr_Header :: "string gomap"

record loginInput =
  li_Username :: string
  li_Password :: string
  li_Source :: string

record session =
  ss_Transport :: transport
  ss_Token :: string

record 'w sessionLib =
  L_TLSTransport :: "bool \<Rightarrow> go_error option"
  L_Login :: "transport \<Rightarrow> loginInput \<Rightarrow> ('w, string option) call"
  L_Sha256Hex :: "string \<Rightarrow> string"
  L_JSONMarshal :: "towerClientConfig \<Rightarrow> go_error + string"
  L_SprintV :: "towerClientConfig \<Rightarrow> string"
  L_Decode :: "string \<Rightarrow> go_error + towerClientConfig"
  L_GetSecretData :: "string \<Rightarrow> string \<Rightarrow> ('w, string gomap) call"

record cacheItem =
  LastUsedTime :: int
  TowerClient :: "session option"
  TowerConfig :: "towerClientConfig option"

record clientCache =
  cacheMap :: "cacheItem gomap"
  lastGCTime :: int

definition gcMinInterval :: int where "gcMinInterval = 10 * time_Minute"
definition cacheIdleTime :: int where "cacheIdleTime = 15 * time_Minute"

section \<open>Operations\<close>

definition loadCacheItem :: "int \<Rightarrow> string \<Rightarrow> clientCache \<Rightarrow> cacheItem option \<times> clientCache" where
  "loadCacheItem now cacheKey C =
     (case gm_get (cacheMap C) cacheKey of
        None \<Rightarrow> (None, C)
      | Some item \<Rightarrow>
          (let item = item\<lparr>LastUsedTime := now\<rparr>
           in (Some item, C\<lparr>cacheMap := gm_put cacheKey item (cacheMap C)\<rparr>)))"

definition cleanupCache :: "int \<Rightarrow> clientCache \<Rightarrow> clientCache" where
  "cleanupCache now C =
     C\<lparr>cacheMap := filter (\<lambda>(key, item). \<not> (LastUsedTime item + cacheIdleTime < now)) (cacheMap C), lastGCTime := now\<rparr>"

definition ClearClientCache :: "int \<Rightarrow> clientCache" where
  "ClearClientCache now = \<lparr>cacheMap = [], lastGCTime = now\<rparr>"

definition newTransport :: "towerClientConfig \<Rightarrow> transport" where
  "newTransport cfg = \<lparr>tr_Host = cc_Server cfg, tr_BasePath = ''/v2/api'', tr_Schemes = [''https''],
     tr_InsecureSkipVerify = cc_SkipTLSVerify cfg, tr_Header = [(''X-Bypass-Whitelist'', ''true'')]\<rparr>"

definition loginOf :: "towerClientConfig \<Rightarrow> loginInput" where
  "loginOf cfg = \<lparr>li_Username = cc_Username cfg, li_Password = cc_Password cfg, li_Source = cc_AuthMode cfg\<rparr>"

definition createTowerClient :: "'w sessionLib \<Rightarrow> towerClientConfig \<Rightarrow> ('w, session) operation" where
  "createTowerClient SL cfg w =
     (case L_TLSTransport SL (cc_SkipTLSVerify cfg) of
        Some err \<Rightarrow> Some (Inl err, w)
      | None \<Rightarrow>
          (case L_Login SL (newTransport cfg) (loginOf cfg) w of
             (Inl err, w) \<Rightarrow> Some (Inl err, w)
           | (Inr token, w) \<Rightarrow> do { t \<leftarrow> token; Some (Inr \<lparr>ss_Transport = newTransport cfg, ss_Token = t\<rparr>, w) }))"

text \<open>\<^verbatim>\<open>RoundTrip\<close>: the headers of the client replace those of the request.\<close>

definition RoundTrip :: "string gomap \<Rightarrow> string gomap \<Rightarrow> string gomap" where
  "RoundTrip clientHeader reqHeader =
     (if length clientHeader = 0 then reqHeader else fold (\<lambda>(k, v). gm_put k v) clientHeader reqHeader)"

type_synonym 'w clientState = "clientCache \<times> 'w"

text \<open>The function without its deferred clean-up, and with it.\<close>

definition getOrCreateTowerClient_body ::
  "'w sessionLib \<Rightarrow> int \<Rightarrow> string \<Rightarrow> towerClientConfig \<Rightarrow> bool \<Rightarrow> 'w clientState \<Rightarrow>
     ((go_error + session) \<times> 'w clientState) panics" where
  "getOrCreateTowerClient_body SL now clientKey clientConfig fromSecret st =
     (let (C, w) = st;
          (item, C) = loadCacheItem now clientKey C;
          create = (\<lambda>C. do {
            (r, w) \<leftarrow> createTowerClient SL clientConfig w;
            Some (case r of
              Inl err \<Rightarrow> (Inl (ErrWrapf ''failed to create tower client'' err), C, w)
            | Inr client \<Rightarrow> (Inr client,
                C\<lparr>cacheMap := gm_put clientKey
                     \<lparr>LastUsedTime = now, TowerClient = Some client, TowerConfig = Some clientConfig\<rparr> (cacheMap C)\<rparr>, w)) })
      in case item of
           None \<Rightarrow> create C
         | Some item \<Rightarrow>
             (case TowerClient item of
                None \<Rightarrow> create C
              | Some client \<Rightarrow>
                  if \<not> fromSecret \<or> TowerConfig item = Some clientConfig then Some (Inr client, C, w)
                  else create (C\<lparr>cacheMap := gm_del clientKey (cacheMap C)\<rparr>)))"

definition getOrCreateTowerClient ::
  "'w sessionLib \<Rightarrow> int \<Rightarrow> string \<Rightarrow> towerClientConfig \<Rightarrow> bool \<Rightarrow> 'w clientState \<Rightarrow>
     ((go_error + session) \<times> 'w clientState) panics" where
  "getOrCreateTowerClient SL now clientKey clientConfig fromSecret st = do {
     (r, C, w) \<leftarrow> getOrCreateTowerClient_body SL now clientKey clientConfig fromSecret st;
     Some (r, if lastGCTime C + gcMinInterval < now then cleanupCache now C else C, w) }"

definition ParseTowerClientConfigFromSecret ::
  "'w sessionLib \<Rightarrow> string \<times> string \<Rightarrow> string gomap \<Rightarrow> go_error + towerClientConfig" where
  "ParseTowerClientConfigFromSecret SL key secretData =
     (case gm_get secretData ''cloudtower.yaml'' of
        None \<Rightarrow> Inl (ErrMsg (''tower secret '' @ namespacedName key @ '' missing cloudtower.yaml''))
      | Some bytes \<Rightarrow>
          (case L_Decode SL bytes of
             Inl err \<Rightarrow> Inl (ErrWrapf (''failed to decode cloudtower.yaml in tower secret '' @ namespacedName key) err)
           | Inr cfg \<Rightarrow> Inr cfg))"

text \<open>
  Concurrent calls for the same Secret share one lookup (\<^verbatim>\<open>singleflight\<close>); a
  single call makes it itself.
\<close>

definition GetTowerClientConfig :: "'w sessionLib \<Rightarrow> string \<times> string \<Rightarrow> ('w, towerClientConfig) call" where
  "GetTowerClientConfig SL secretKey w =
     (case L_GetSecretData SL (fst secretKey) (snd secretKey) w of
        (Inl err, w) \<Rightarrow> (Inl (ErrWrapf (''failed to get tower secret '' @ namespacedName secretKey) err), w)
      | (Inr secretData, w) \<Rightarrow> (ParseTowerClientConfigFromSecret SL secretKey secretData, w))"

definition getClientKey :: "'w sessionLib \<Rightarrow> towerClientConfig \<Rightarrow> string" where
  "getClientKey SL tower =
     (let encryptedTower = tower\<lparr>cc_Password := L_Sha256Hex SL (cc_Password tower)\<rparr>
      in case L_JSONMarshal SL encryptedTower of Inl _ \<Rightarrow> L_SprintV SL encryptedTower | Inr key \<Rightarrow> key)"

definition getTowerClientCacheKey :: "'w sessionLib \<Rightarrow> towerClientConfig \<Rightarrow> string" where
  "getTowerClientCacheKey SL tower = ''tower-client:'' @ getClientKey SL tower"

definition getTowerSecretCacheKey :: "string \<times> string \<Rightarrow> string" where
  "getTowerSecretCacheKey secretKey = ''tower-secret:'' @ namespacedName secretKey"

definition NewTowerClient ::
  "'w sessionLib \<Rightarrow> int \<Rightarrow> string \<times> string \<Rightarrow> 'w clientState \<Rightarrow> ((go_error + session) \<times> 'w clientState) panics" where
  "NewTowerClient SL now secretKey st =
     (case GetTowerClientConfig SL secretKey (snd st) of
        (Inl err, w) \<Rightarrow> Some (Inl err, fst st, w)
      | (Inr clientConfig, w) \<Rightarrow>
          getOrCreateTowerClient SL now (getTowerSecretCacheKey secretKey) clientConfig True (fst st, w))"

definition NewTowerClientWithConfig ::
  "'w sessionLib \<Rightarrow> int \<Rightarrow> towerClientConfig \<Rightarrow> 'w clientState \<Rightarrow> ((go_error + session) \<times> 'w clientState) panics" where
  "NewTowerClientWithConfig SL now clientConfig =
     getOrCreateTowerClient SL now (getTowerClientCacheKey SL clientConfig) clientConfig False"

text \<open>\<^verbatim>\<open>NewVMService\<close> wraps the client in a service; the client is what differs.\<close>

definition NewVMService ::
  "'w sessionLib \<Rightarrow> int \<Rightarrow> tower \<Rightarrow> 'w clientState \<Rightarrow> ((go_error + session) \<times> 'w clientState) panics" where
  "NewVMService SL now tower st =
     (if t_SecretRef tower \<noteq> None then NewTowerClient SL now (SecretKey tower) st
      else NewTowerClientWithConfig SL now (TowerClientConfig tower) st)"

section \<open>Lemmas\<close>

text \<open>A client of a configuration: its transport, and a token that a login with its user returned.\<close>

definition loggedIn :: "'w sessionLib \<Rightarrow> towerClientConfig \<Rightarrow> session \<Rightarrow> bool" where
  "loggedIn SL cfg client \<longleftrightarrow> ss_Transport client = newTransport cfg \<and>
     (\<exists>w. fst (L_Login SL (newTransport cfg) (loginOf cfg) w) = Inr (Some (ss_Token client)))"

text \<open>
  The cache holds only clients of the configuration stored with them, and under the key of an
  inline configuration only clients of it.
\<close>

definition cacheValid :: "'w sessionLib \<Rightarrow> clientCache \<Rightarrow> bool" where
  "cacheValid SL C \<longleftrightarrow> (\<forall>(key, item) \<in> set (cacheMap C). \<forall>client. TowerClient item = Some client \<longrightarrow>
     (\<exists>cfg. TowerConfig item = Some cfg \<and> loggedIn SL cfg client \<and>
        (\<forall>cfg'. key = getTowerClientCacheKey SL cfg' \<longrightarrow> cfg' = cfg)))"

lemma set_gm_put: "p \<in> set (gm_put k v m) \<Longrightarrow> p = (k, v) \<or> p \<in> set m"
  by (induction m) (auto split: if_splits)

lemma set_gm_del: "p \<in> set (gm_del k m) \<Longrightarrow> p \<in> set m"
  by (auto simp: AList.delete_eq)

lemma client_keys_differ: "getTowerSecretCacheKey k \<noteq> getTowerClientCacheKey SL cfg"
  by (simp add: getTowerSecretCacheKey_def getTowerClientCacheKey_def)

lemma client_key_inj:
  assumes "inj (L_Sha256Hex SL)" and "\<And>cfg. \<exists>k. L_JSONMarshal SL cfg = Inr k"
    and "\<And>a b. L_JSONMarshal SL a = L_JSONMarshal SL b \<Longrightarrow> a = b"
    and "getTowerClientCacheKey SL cfg = getTowerClientCacheKey SL cfg'"
  shows "cfg = cfg'"
proof -
  let ?e = "\<lambda>c. c\<lparr>cc_Password := L_Sha256Hex SL (cc_Password c)\<rparr>"
  from assms(2) [of "?e cfg"] assms(2) [of "?e cfg'"] assms(4) have "L_JSONMarshal SL (?e cfg) = L_JSONMarshal SL (?e cfg')"
    by (auto simp: getTowerClientCacheKey_def getClientKey_def Let_def)
  then have "?e cfg = ?e cfg'" by (rule assms(3))
  then show ?thesis using assms(1) by (cases cfg; cases cfg') (auto simp: inj_eq)
qed

lemma createTowerClient_loggedIn:
  "post (createTowerClient SL cfg w) (\<lambda>(r, w'). \<forall>client. r = Inr client \<longrightarrow> loggedIn SL cfg client)"
  by (auto simp: createTowerClient_def loggedIn_def post_simps split: option.splits sum.splits prod.splits intro!: postI)
    (metis fst_conv)

lemma cacheValid_load:
  "cacheValid SL C \<Longrightarrow> loadCacheItem now key C = (r, C') \<Longrightarrow> cacheValid SL C' \<and> lastGCTime C' = lastGCTime C \<and>
     (\<forall>item client. r = Some item \<and> TowerClient item = Some client \<longrightarrow>
        (\<exists>cfg. TowerConfig item = Some cfg \<and> loggedIn SL cfg client \<and> (\<forall>cfg'. key = getTowerClientCacheKey SL cfg' \<longrightarrow> cfg' = cfg)))"
  unfolding loadCacheItem_def cacheValid_def
  by (fastforce simp: Let_def split: option.splits dest!: set_gm_put map_of_SomeD)

lemma getOrCreate_body_valid:
  assumes "cacheValid SL C" "fromSecret \<or> key = getTowerClientCacheKey SL cfg"
    and "\<And>cfg'. key = getTowerClientCacheKey SL cfg' \<Longrightarrow> cfg' = cfg"
  shows "post (getOrCreateTowerClient_body SL now key cfg fromSecret (C, w)) (\<lambda>(r, C', w').
    cacheValid SL C' \<and> (\<forall>client. r = Inr client \<longrightarrow> loggedIn SL cfg client))"
proof -
  obtain item C1 where load: "loadCacheItem now key C = (item, C1)" by (rule prod.exhaust)
  note hit = cacheValid_load [OF assms(1) load]
  have stored: "cacheValid SL (C2\<lparr>cacheMap := gm_put key \<lparr>LastUsedTime = now, TowerClient = Some client, TowerConfig = Some cfg\<rparr> (cacheMap C2)\<rparr>)"
    if "cacheValid SL C2" "loggedIn SL cfg client" for C2 client
    using that assms(3) unfolding cacheValid_def by (fastforce dest!: set_gm_put)
  have dropped: "cacheValid SL (C1\<lparr>cacheMap := gm_del key (cacheMap C1)\<rparr>)"
    using hit unfolding cacheValid_def by (fastforce dest!: set_gm_del)
  have replaced: "cacheValid SL (C1\<lparr>cacheMap := gm_put key \<lparr>LastUsedTime = now, TowerClient = Some client, TowerConfig = Some cfg\<rparr>
      (gm_del key (cacheMap C1))\<rparr>)" if "loggedIn SL cfg client" for client
    using stored [OF dropped that] by simp
  show ?thesis
    using assms(2) hit
    by (auto simp: getOrCreateTowerClient_body_def load post_simps createTowerClient_loggedIn [THEN post_spec] stored dropped replaced Let_def
        split: option.splits sum.splits intro!: postI)
qed

lemma getOrCreate_valid:
  assumes "cacheValid SL C" "fromSecret \<or> key = getTowerClientCacheKey SL cfg"
    and "\<And>cfg'. key = getTowerClientCacheKey SL cfg' \<Longrightarrow> cfg' = cfg"
  shows "post (getOrCreateTowerClient SL now key cfg fromSecret (C, w)) (\<lambda>(r, C', w').
    cacheValid SL C' \<and> (\<forall>client. r = Inr client \<longrightarrow> loggedIn SL cfg client))"
proof -
  have "cacheValid SL (cleanupCache now C1)" if "cacheValid SL C1" for C1
    using that unfolding cacheValid_def cleanupCache_def by auto
  then show ?thesis
    unfolding getOrCreateTowerClient_def
    by (auto simp: post_simps getOrCreate_body_valid [OF assms, THEN post_spec] intro!: postI)
qed

text \<open>No cached client was idle for longer than the idle time when the cache was last cleaned up.\<close>

definition cacheFresh :: "clientCache \<Rightarrow> bool" where
  "cacheFresh C \<longleftrightarrow> (\<forall>(key, item) \<in> set (cacheMap C). lastGCTime C \<le> LastUsedTime item + cacheIdleTime)"

lemma client_times_pos: "0 \<le> cacheIdleTime" by (simp add: cacheIdleTime_def time_defs)

lemma getOrCreate_fresh:
  assumes "cacheFresh C" "lastGCTime C \<le> now"
  shows "post (getOrCreateTowerClient SL now key cfg fromSecret (C, w)) (\<lambda>(r, C', w').
    cacheFresh C' \<and> lastGCTime C' \<le> now \<and> (\<forall>(k, item) \<in> set (cacheMap C'). now \<le> LastUsedTime item + cacheIdleTime + gcMinInterval))"
proof -
  define P where "P C1 \<longleftrightarrow> cacheFresh C1 \<and> lastGCTime C1 \<le> now" for C1
  have load: "P C1" if "loadCacheItem now key C = (r, C1)" for r C1
    using assms client_times_pos that unfolding P_def loadCacheItem_def cacheFresh_def
    by (fastforce simp: Let_def split: option.splits dest!: set_gm_put)
  have put: "P (D\<lparr>cacheMap := gm_put key item m\<rparr>)" if "P (D\<lparr>cacheMap := m\<rparr>)" "LastUsedTime item = now" for D item m
    using that client_times_pos unfolding P_def cacheFresh_def by (fastforce dest!: set_gm_put)
  have del: "P (C1\<lparr>cacheMap := gm_del key (cacheMap C1)\<rparr>)" if "P C1" for C1
    using that unfolding P_def cacheFresh_def by (fastforce dest!: set_gm_del)
  have put1: "P (C1\<lparr>cacheMap := gm_put key item (cacheMap C1)\<rparr>)" if "P C1" "LastUsedTime item = now" for C1 item
    using put [where D = C1 and m = "cacheMap C1" and item = item] that by simp
  obtain item C1 where l: "loadCacheItem now key C = (item, C1)" by (rule prod.exhaust)
  have body: "post (getOrCreateTowerClient_body SL now key cfg fromSecret (C, w)) (\<lambda>(r, C', w'). P C')"
    using load [OF l]
    by (auto simp: getOrCreateTowerClient_body_def l post_simps Let_def put [OF del] put1 del
        split: option.splits sum.splits intro!: postI)
  have clean: "P (cleanupCache now C1) \<and> (\<forall>(k, item) \<in> set (cacheMap (cleanupCache now C1)). now \<le> LastUsedTime item + cacheIdleTime)"
    if "P C1" for C1
    using that unfolding P_def cacheFresh_def cleanupCache_def by auto
  have keep: "\<forall>(k, item) \<in> set (cacheMap C1). now \<le> LastUsedTime item + cacheIdleTime + gcMinInterval"
    if "P C1" "\<not> lastGCTime C1 + gcMinInterval < now" for C1
    using that unfolding P_def cacheFresh_def by fastforce
  have gc: "0 \<le> gcMinInterval" by (simp add: gcMinInterval_def time_defs)
  have final: "P C2 \<and> (\<forall>(k, item) \<in> set (cacheMap C2). now \<le> LastUsedTime item + cacheIdleTime + gcMinInterval)"
    if "P C1" "C2 = (if lastGCTime C1 + gcMinInterval < now then cleanupCache now C1 else C1)" for C1 C2
    using clean [OF that(1)] keep [OF that(1)] that gc by (fastforce split: if_splits)
  show ?thesis
    unfolding getOrCreateTowerClient_def post_bind
    by (rule post_mono [OF body]) (use final [OF _ refl] in \<open>simp add: post_simps P_def split_def del: if_split\<close>)
qed

section \<open>Properties\<close>

text \<open>
  Property C29. A client is never stale: starting from a cleared cache, whose invariant every call
  keeps, the client that \<^verbatim>\<open>NewVMService\<close> returns was logged in with the connection
  data of the ElfCluster; when they are in a Secret, with the data that this call read from it,
  however often the Secret changed before. The hash and the JSON coder are taken as injective.
\<close>

theorem tower_client_never_stale:
  assumes "inj (L_Sha256Hex SL)" and "\<And>cfg. \<exists>k. L_JSONMarshal SL cfg = Inr k"
    and "\<And>a b. L_JSONMarshal SL a = L_JSONMarshal SL b \<Longrightarrow> a = b"
    and "cacheValid SL C" and run: "NewVMService SL now tower (C, w) = Some (r, C', w')"
  shows "cacheValid SL (ClearClientCache t) \<and> cacheValid SL C' \<and>
    (\<forall>client. r = Inr client \<longrightarrow> (\<exists>cfg. loggedIn SL cfg client \<and>
       (if t_SecretRef tower = None then cfg = TowerClientConfig tower
        else fst (GetTowerClientConfig SL (SecretKey tower) w) = Inr cfg)))"
proof -
  note inj = client_key_inj [OF assms(1-3)]
  have secret: "post (getOrCreateTowerClient SL now (getTowerSecretCacheKey k) cfg True (C, w1)) (\<lambda>(r, C', w').
      cacheValid SL C' \<and> (\<forall>client. r = Inr client \<longrightarrow> loggedIn SL cfg client))" for k cfg w1
    by (rule getOrCreate_valid) (use assms(4) client_keys_differ in fastforce)+
  have inline: "post (getOrCreateTowerClient SL now (getTowerClientCacheKey SL cfg) cfg False (C, w1)) (\<lambda>(r, C', w').
      cacheValid SL C' \<and> (\<forall>client. r = Inr client \<longrightarrow> loggedIn SL cfg client))" for cfg w1
    by (rule getOrCreate_valid) (use assms(4) inj in auto)
  have "post (NewVMService SL now tower (C, w)) (\<lambda>(r, C', w'). cacheValid SL C' \<and>
    (\<forall>client. r = Inr client \<longrightarrow> (\<exists>cfg. loggedIn SL cfg client \<and>
       (if t_SecretRef tower = None then cfg = TowerClientConfig tower
        else fst (GetTowerClientConfig SL (SecretKey tower) w) = Inr cfg))))"
    unfolding NewVMService_def NewTowerClient_def NewTowerClientWithConfig_def
    by (auto simp: post_simps assms(4) secret [THEN post_spec] inline [THEN post_spec] split: sum.splits prod.splits intro!: postI)
  with run show ?thesis by (auto simp: post_def ClearClientCache_def cacheValid_def)
qed

text \<open>A server that knows one user, and a Secret whose content is the world.\<close>

definition wit_config :: towerClientConfig where
  "wit_config = \<lparr>cc_Server = ''tower'', cc_Username = ''root'', cc_Password = ''pw'', cc_AuthMode = ''LOCAL'', cc_SkipTLSVerify = True\<rparr>"

definition wit_json :: "towerClientConfig \<Rightarrow> string" where
  "wit_json cfg = concat (map (\<lambda>f. concat (map (\<lambda>ch. [CHR ''c'', ch]) f) @ ''e'')
     [cc_Server cfg, cc_Username cfg, cc_Password cfg, cc_AuthMode cfg, if cc_SkipTLSVerify cfg then ''1'' else ''0''])"

definition wit_sessions :: "string sessionLib" where
  "wit_sessions = \<lparr>L_TLSTransport = (\<lambda>_. None),
     L_Login = (\<lambda>_ i w. (if li_Username i = ''root'' then Inr (Some ''token'') else Inl (ErrMsg ''LOGIN_FAILED''), w)),
     L_Sha256Hex = (\<lambda>p. p), L_JSONMarshal = (\<lambda>cfg. Inr (wit_json cfg)), L_SprintV = (\<lambda>_. []),
     L_Decode = (\<lambda>user. Inr (wit_config\<lparr>cc_Username := user\<rparr>)),
     L_GetSecretData = (\<lambda>_ _ w. (Inr [(''cloudtower.yaml'', w)], w))\<rparr>"

lemma wit_escape_inj:
  "concat (map (\<lambda>ch. [CHR ''c'', ch]) a) @ ''e'' @ x = concat (map (\<lambda>ch. [CHR ''c'', ch]) b) @ ''e'' @ y \<Longrightarrow> a = b \<and> x = y"
proof (induction a arbitrary: b)
  case Nil
  then show ?case by (cases b) auto
next
  case (Cons c a)
  then show ?case by (cases b) auto
qed

lemma wit_escape_inj_end: "concat (map (\<lambda>ch. [CHR ''c'', ch]) a) = concat (map (\<lambda>ch. [CHR ''c'', ch]) b) \<Longrightarrow> a = b"
  using wit_escape_inj [of a "[]" b "[]"] by simp

lemma wit_json_inj: "wit_json a = wit_json b \<Longrightarrow> a = b"
  by (cases a; cases b) (auto simp: wit_json_def split: if_splits dest!: wit_escape_inj [simplified] wit_escape_inj_end)

definition wit_secret_tower :: tower where
  "wit_secret_tower = (ec_Tower (mc_ElfCluster wit_ctx))\<lparr>t_SecretRef := Some (''default'', ''tower'')\<rparr>"

lemma wit_new_service:
  "case NewVMService wit_sessions 5 wit_secret_tower (ClearClientCache 0, ''root'') of
     Some (r, C, w) \<Rightarrow> \<not> isl r | None \<Rightarrow> False"
  by code_simp

theorem tower_client_never_stale_witness:
  "\<exists>client. loggedIn wit_sessions (wit_config\<lparr>cc_Username := ''root''\<rparr>) client"
proof -
  obtain r C w where run: "NewVMService wit_sessions 5 wit_secret_tower (ClearClientCache 0, ''root'') = Some (r, C, w)" "\<not> isl r"
    using wit_new_service by (auto split: option.splits)
  have valid: "cacheValid wit_sessions (ClearClientCache 0)" by (simp add: cacheValid_def ClearClientCache_def)
  have lib: "inj (L_Sha256Hex wit_sessions)" "\<And>cfg. \<exists>k. L_JSONMarshal wit_sessions cfg = Inr k"
    "\<And>a b. L_JSONMarshal wit_sessions a = L_JSONMarshal wit_sessions b \<Longrightarrow> a = b"
    by (auto simp: wit_sessions_def dest: wit_json_inj)
  obtain client where "r = Inr client" using run(2) by (cases r) simp_all
  with tower_client_never_stale [OF lib valid run(1)] show ?thesis
    by (auto simp: wit_secret_tower_def SecretKey_def GetTowerClientConfig_def ParseTowerClientConfigFromSecret_def wit_sessions_def)
qed

text \<open>
  Idle clients are collected: at the end of every call that looks up or creates a
  client, each cached client was used within the last 25 minutes, the idle time plus the interval
  of the collection, provided that time does not run backwards.
\<close>

theorem idle_clients_collected:
  assumes "cacheFresh C" and "lastGCTime C \<le> now"
    and "getOrCreateTowerClient SL now key cfg fromSecret (C, w) = Some (r, C', w')"
  shows "cacheFresh C' \<and> lastGCTime C' \<le> now \<and>
    (\<forall>(k, item) \<in> set (cacheMap C'). now \<le> LastUsedTime item + 25 * time_Minute)"
  using postD [OF getOrCreate_fresh [OF assms(1,2)] assms(3)]
  by (auto simp: cacheIdleTime_def gcMinInterval_def time_defs)

definition wit_old_cache :: clientCache where
  "wit_old_cache = \<lparr>cacheMap = [(''old'', \<lparr>LastUsedTime = 0, TowerClient = None, TowerConfig = None\<rparr>)], lastGCTime = 0\<rparr>"

lemma wit_collect:
  "case getOrCreateTowerClient wit_sessions (26 * time_Minute) ''k'' wit_config False (wit_old_cache, []) of
     Some (r, C, w) \<Rightarrow> length (cacheMap C) = 1 | None \<Rightarrow> False"
  by code_simp

theorem idle_clients_collected_witness:
  "\<exists>r C w. getOrCreateTowerClient wit_sessions (26 * time_Minute) ''k'' wit_config False (wit_old_cache, []) = Some (r, C, w) \<and>
     length (cacheMap C) = 1 \<and> cacheFresh C"
proof -
  obtain r C w where run: "getOrCreateTowerClient wit_sessions (26 * time_Minute) ''k'' wit_config False (wit_old_cache, []) = Some (r, C, w)"
    and l: "length (cacheMap C) = 1"
    using wit_collect by (auto split: option.splits)
  have "cacheFresh wit_old_cache" "lastGCTime wit_old_cache \<le> 26 * time_Minute"
    by (simp_all add: cacheFresh_def wit_old_cache_def cacheIdleTime_def time_defs)
  from idle_clients_collected [OF this run] run l show ?thesis by blast
qed

end
