(* ===== verification/Kube_Support.thy ===== *)
theory Kube_Support
  imports Machine_Ctx
begin

text \<open>
  Support for the Kubernetes side: lists of machines and MachineDeployments; which reads of Secrets go to the cache of the manager and which
  to the API server (\<^verbatim>\<open>pkg/manager/secret_cache.go\<close>), and the arithmetic of
  rolling updates of MachineDeployments (\<^verbatim>\<open>pkg/util/md/md.go\<close>).
\<close>

section \<open>Lists of objects\<close>

text \<open>\<open>ls\<close> is the list call of the client: a namespace and the labels to match.\<close>

definition GetElfMachinesForMD ::
  "(string \<Rightarrow> string gomap \<Rightarrow> ('w, elfMachine list) call) \<Rightarrow> cluster \<Rightarrow> machineDeployment \<Rightarrow> ('w, elfMachine list) call" where
  "GetElfMachinesForMD ls cluster md =
     ls (om_Namespace (md_meta md))
       [(ClusterNameLabel, om_Name (cl_meta cluster)), (MachineDeploymentNameLabel, om_Name (md_meta md))]"

definition GetControlPlaneMachinesForCluster ::
  "(string \<Rightarrow> string gomap \<Rightarrow> ('w, machine list) call) \<Rightarrow> cluster \<Rightarrow> ('w, machine list) call" where
  "GetControlPlaneMachinesForCluster ls cluster =
     ls (om_Namespace (cl_meta cluster)) [(ClusterNameLabel, om_Name (cl_meta cluster)), (MachineControlPlaneLabel, [])]"

definition GetMDsForCluster ::
  "(string \<Rightarrow> string gomap \<Rightarrow> ('w, machineDeployment list) call) \<Rightarrow> string \<Rightarrow> string \<Rightarrow> ('w, machineDeployment list) call" where
  "GetMDsForCluster ls namespace clusterName = ls namespace [(ClusterNameLabel, clusterName)]"

definition GetMachineByName ::
  "(string \<times> string \<Rightarrow> ('w, machine) call) \<Rightarrow> string \<Rightarrow> string \<Rightarrow> ('w, machine) call" where
  "GetMachineByName get namespace name = get (namespace, name)"

section \<open>The client of a workload cluster\<close>

text \<open>
  The calls into Cluster API and client-go: reading the kubeconfig Secret, building the
  configuration of the client, its timeout, and the client.
\<close>

record ('w, 'rc, 'cl) kubeLib =
  KL_FromSecret :: "string \<times> string \<Rightarrow> ('w, string) call"
  KL_RESTConfigFromKubeConfig :: "string \<Rightarrow> go_error + 'rc"
  KL_SetTimeout :: "int \<Rightarrow> 'rc \<Rightarrow> 'rc"
  KL_NewForConfig :: "'rc \<Rightarrow> go_error + 'cl"

definition NewKubeClient :: "('w, 'rc, 'cl) kubeLib \<Rightarrow> cluster \<Rightarrow> ('w, 'cl) call" where
  "NewKubeClient K cluster w =
     (let namespace = om_Namespace (cl_meta cluster); name = om_Name (cl_meta cluster);
          inCluster = '' for Cluster \"'' @ name @ ''\" in namespace \"'' @ namespace @ ''\"''
      in case KL_FromSecret K (namespace, name) w of
           (Inl err, w) \<Rightarrow> (Inl (ErrWrapf (''failed to retrieve kubeconfig secret'' @ inCluster) err), w)
         | (Inr kubeconfig, w) \<Rightarrow>
             (case KL_RESTConfigFromKubeConfig K kubeconfig of
                Inl err \<Rightarrow> (Inl (ErrWrapf (''failed to create client configuration'' @ inCluster) err), w)
              | Inr restConfig \<Rightarrow> (KL_NewForConfig K (KL_SetTimeout K (10 * time_Second) restConfig), w)))"

section \<open>Addresses\<close>

text \<open>\<^verbatim>\<open>strings.Split\<close> at commas; the empty string gives one empty piece.\<close>

fun splitCommas :: "string \<Rightarrow> string list" where
  "splitCommas [] = [[]]"
| "splitCommas (c # s) =
     (if c = CHR '','' then [] # splitCommas s
      else (case splitCommas s of [] \<Rightarrow> [[c]] | p # ps \<Rightarrow> (c # p) # ps))"

definition GetNetworkStatus :: "string \<Rightarrow> networkStatus list" where
  "GetNetworkStatus ipsStr =
     (if ipsStr = [] then []
      else map (\<lambda>ip. \<lparr>nst_Connected = False, nst_IPAddrs = [ip], nst_MACAddr = [], nst_Gateway = [], nst_SubnetMask = [],
                nst_NetworkName = []\<rparr>)
        (filter (\<lambda>ip. \<not> (ip = ''127.0.0.1'' \<or> strHasPrefix ip ''169.254.'' \<or> strHasPrefix ip ''172.17.0''))
          (splitCommas ipsStr)))"

lemma splitCommas_nonempty: "splitCommas s \<noteq> []"
  by (induction s) (auto split: list.splits)

lemma splitCommas_join: "strJoin (splitCommas s) '','' = s"
proof (induction s)
  case (Cons c s)
  then show ?case
    by (cases "(splitCommas s, '','')" rule: strJoin.cases) (auto simp: splitCommas_nonempty split: list.splits)
qed simp

text \<open>The addresses of the status are those of the text, in order, without loopback and link-local ones.\<close>

lemma network_status_addresses:
  "ips \<noteq> [] \<Longrightarrow> \<forall>ip \<in> set ips. ip \<noteq> [] \<and> CHR '','' \<notin> set ip \<Longrightarrow>
     \<forall>ip \<in> set ips. ip \<noteq> ''127.0.0.1'' \<and> \<not> strHasPrefix ip ''169.254.'' \<and> \<not> strHasPrefix ip ''172.17.0'' \<Longrightarrow>
     map nst_IPAddrs (GetNetworkStatus (strJoin ips '','')) = map (\<lambda>ip. [ip]) ips"
proof -
  have one: "CHR '','' \<notin> set ip \<Longrightarrow> splitCommas ip = [ip]" for ip by (induction ip) auto
  have two: "CHR '','' \<notin> set ip \<Longrightarrow> splitCommas (ip @ '','' @ s) = ip # splitCommas s" for ip s by (induction ip) auto
  have split: "xs \<noteq> [] \<Longrightarrow> \<forall>ip \<in> set xs. CHR '','' \<notin> set ip \<Longrightarrow> splitCommas (strJoin xs '','') = xs" for xs
    by (induction xs "'',''" rule: strJoin.induct) (use one two in auto)
  assume ips: "ips \<noteq> []" "\<forall>ip \<in> set ips. ip \<noteq> [] \<and> CHR '','' \<notin> set ip"
    "\<forall>ip \<in> set ips. ip \<noteq> ''127.0.0.1'' \<and> \<not> strHasPrefix ip ''169.254.'' \<and> \<not> strHasPrefix ip ''172.17.0''"
  then have "strJoin ips '','' \<noteq> []" by (cases "(ips, '','')" rule: strJoin.cases) auto
  with ips split [of ips] show ?thesis by (auto simp: GetNetworkStatus_def comp_def filter_id_conv)
qed

section \<open>Reading Secrets\<close>

text \<open>Objects are told apart by their Go type; \<^verbatim>\<open>*corev1.Secret\<close> is \<open>secretType\<close>.\<close>

definition secretType :: string where "secretType = ''*v1.Secret''"
definition secretListType :: string where "secretListType = ''*v1.SecretList''"
definition NamespaceDefault :: string where [const_defs]: "NamespaceDefault = ''default''"
definition AllNamespaces :: string where [const_defs]: "AllNamespaces = []"

datatype selectionOperator =
    Equals | DoubleEquals | InSet | NotInSet | NotEquals | Exists | DoesNotExist | GreaterThan | LessThan

record requirement =
  rq_Key :: string
  rq_Operator :: selectionOperator
  rq_Values :: "string list"

text \<open>The namespaces of a cache entry with the label requirements of each; none selects everything.\<close>

type_synonym byObject = "requirement list gomap"

record managerOptions =
  mo_ByObject :: "byObject gomap option"
  mo_ClientCache :: "string list option"  \<comment> \<open>\<^verbatim>\<open>DisableFor\<close> of the cache options of the client\<close>

definition ConfigureSecretCaching :: "managerOptions \<Rightarrow> managerOptions" where
  "ConfigureSecretCaching opts =
     (let entries = (case mo_ByObject opts of None \<Rightarrow> [] | Some m \<Rightarrow> m);
          entries = filter (\<lambda>(obj, _). obj \<noteq> secretType) entries;
          secrets = [(NamespaceDefault, []),
                     (AllNamespaces, [\<lparr>rq_Key = ClusterNameLabel, rq_Operator = Exists, rq_Values = []\<rparr>])];
          disableFor = (case mo_ClientCache opts of None \<Rightarrow> [] | Some objs \<Rightarrow> objs)
      in opts\<lparr>mo_ByObject := Some (entries @ [(secretType, secrets)]),
              mo_ClientCache := Some (filter (\<lambda>obj. obj \<noteq> secretType) disableFor)\<rparr>)"

text \<open>
  The constructor of the client that the options get: a client with the cache and one without,
  whose reads the routing client combines. \<open>newClient\<close> is the constructor it replaces.
\<close>

definition routingNewClient :: "(bool \<Rightarrow> ('w, 'client) call) \<Rightarrow> ('w, 'client \<times> 'client) call" where
  "routingNewClient newClient w =
     (case newClient True w of
        (Inl err, w) \<Rightarrow> (Inl (ErrWrapf ''failed to create cache-backed client'' err), w)
      | (Inr cachedClient, w) \<Rightarrow>
          (case newClient False w of
             (Inl err, w) \<Rightarrow> (Inl (ErrWrapf ''failed to create API client'' err), w)
           | (Inr uncachedClient, w) \<Rightarrow> (Inr (cachedClient, uncachedClient), w)))"

definition secretRoutingClient_Get :: "('w, 'a) call \<Rightarrow> ('w, 'a) call \<Rightarrow> string \<Rightarrow> string \<Rightarrow> ('w, 'a) call" where
  "secretRoutingClient_Get client apiReader objType namespace w =
     (if objType \<noteq> secretType \<or> namespace = NamespaceDefault then client w
      else
        (case client w of
           (Inl err, w) \<Rightarrow> if IsApiNotFound err then apiReader w else (Inl err, w)
         | (Inr obj, w) \<Rightarrow> (Inr obj, w)))"

text \<open>A selector is nil, selects nothing, or is a list of requirements.\<close>

fun requiresClusterNameLabel :: "requirement list option option \<Rightarrow> bool" where
  "requiresClusterNameLabel None = False"
| "requiresClusterNameLabel (Some None) = False"
| "requiresClusterNameLabel (Some (Some rs)) =
     list_ex (\<lambda>r. rq_Key r = ClusterNameLabel \<and>
       rq_Operator r \<in> {Equals, DoubleEquals, InSet, Exists, GreaterThan, LessThan}) rs"

definition secretRoutingClient_List ::
  "('w, 'a) call \<Rightarrow> ('w, 'a) call \<Rightarrow> string \<Rightarrow> string \<Rightarrow> requirement list option option \<Rightarrow> ('w, 'a) call" where
  "secretRoutingClient_List client apiReader listType namespace selector =
     (if listType \<noteq> secretListType then client
      else if namespace = NamespaceDefault \<or> requiresClusterNameLabel selector then client
      else apiReader)"

text \<open>Which Secrets the configured cache holds.\<close>

fun requirementHolds :: "string gomap \<Rightarrow> requirement \<Rightarrow> bool" where
  "requirementHolds labels r =
     (case (rq_Operator r, gm_get labels (rq_Key r)) of
        (Exists, v) \<Rightarrow> v \<noteq> None
      | (DoesNotExist, v) \<Rightarrow> v = None
      | (NotInSet, v) \<Rightarrow> (case v of None \<Rightarrow> True | Some x \<Rightarrow> x \<notin> set (rq_Values r))
      | (NotEquals, v) \<Rightarrow> (case v of None \<Rightarrow> True | Some x \<Rightarrow> x \<notin> set (rq_Values r))
      | (GreaterThan, v) \<Rightarrow> v \<noteq> None
      | (LessThan, v) \<Rightarrow> v \<noteq> None
      | (_, v) \<Rightarrow> (case v of None \<Rightarrow> False | Some x \<Rightarrow> x \<in> set (rq_Values r)))"

definition cacheHolds :: "managerOptions \<Rightarrow> string \<Rightarrow> string gomap \<Rightarrow> bool" where
  "cacheHolds opts namespace labels =
     (case mo_ByObject opts of
        None \<Rightarrow> True
      | Some m \<Rightarrow>
          (case gm_get m secretType of
             None \<Rightarrow> True
           | Some byNamespace \<Rightarrow>
               (case gm_get byNamespace namespace of
                  Some rs \<Rightarrow> list_all (requirementHolds labels) rs
                | None \<Rightarrow>
                    (case gm_get byNamespace AllNamespaces of
                       Some rs \<Rightarrow> list_all (requirementHolds labels) rs
                     | None \<Rightarrow> False))))"

lemma cacheHolds_configured:
  assumes "namespace \<noteq> AllNamespaces"
  shows "cacheHolds (ConfigureSecretCaching opts) namespace labels \<longleftrightarrow>
    namespace = NamespaceDefault \<or> gm_get labels ClusterNameLabel \<noteq> None"
proof -
  have "gm_get (filter (\<lambda>(obj, _). obj \<noteq> secretType) m) secretType = None" for m :: "byObject gomap"
    by (induction m) auto
  with assms show ?thesis
    by (auto simp: cacheHolds_def ConfigureSecretCaching_def Let_def map_add_Some_iff map_add_def NamespaceDefault_def
        AllNamespaces_def split: option.splits)
qed

text \<open>A selector that requires the cluster label selects only Secrets that the cache holds.\<close>

lemma selected_is_cached:
  "requiresClusterNameLabel (Some (Some rs)) \<Longrightarrow> list_all (requirementHolds labels) rs \<Longrightarrow>
     gm_get labels ClusterNameLabel \<noteq> None"
  by (induction rs) (auto split: selectionOperator.splits option.splits)

text \<open>
  The routing client reads the truth: when the cache answers for the Secrets it holds as the API
  server does, and not found for the others, a routed read of a Secret is the answer of the API
  server.
\<close>

theorem routed_read_is_true:
  assumes "namespace \<noteq> AllNamespaces"
    and "client w = (if cacheHolds (ConfigureSecretCaching opts) namespace labels then (Inr obj, w) else (Inl (ErrApiNotFound name), w))"
    and "apiReader w = (Inr obj, w)"
  shows "secretRoutingClient_Get client apiReader secretType namespace w = (Inr obj, w)"
  using assms cacheHolds_configured [OF assms(1), of opts labels] by (auto simp: secretRoutingClient_Get_def)

section \<open>Rolling updates of MachineDeployments\<close>

record ('v) mdRollout = machineDeployment +
  md_StatusReplicas :: int
  md_UpdatedReplicas :: int
  md_Strategy :: "(string \<times> ('v \<times> 'v) option) option"  \<comment> \<open>type; maximal surge and unavailability of a rolling update\<close>

definition IsMDInRollingUpdate :: "'v mdRollout \<Rightarrow> bool panics" where
  "IsMDInRollingUpdate md = do {
     replicas \<leftarrow> md_specReplicas md;
     Some (md_UpdatedReplicas md < replicas \<and> replicas \<le> md_StatusReplicas md \<or>
           replicas = md_UpdatedReplicas md \<and> replicas < md_StatusReplicas md) }"

text \<open>
  \<open>scaled\<close> is \<^verbatim>\<open>GetScaledValueFromIntOrPercent\<close>: the value, the total and
  whether to round up.
\<close>

definition ResolveFenceposts ::
  "('v \<Rightarrow> int \<Rightarrow> bool \<Rightarrow> go_error + int) \<Rightarrow> 'v \<Rightarrow> 'v \<Rightarrow> int \<Rightarrow> int \<times> int \<times> go_error option" where
  "ResolveFenceposts scaled maxSurge maxUnavailable desired =
     (case scaled maxSurge desired True of
        Inl err \<Rightarrow> (0, 0, Some err)
      | Inr surge \<Rightarrow>
          (case scaled maxUnavailable desired False of
             Inl err \<Rightarrow> (0, 0, Some err)
           | Inr unavailable \<Rightarrow>
               (let unavailable = (if surge = 0 \<and> unavailable = 0 then 1 else unavailable)
                in (wrap32 surge, wrap32 unavailable, None))))"

definition RollingUpdateMachineDeploymentStrategyType :: string where
  [const_defs]: "RollingUpdateMachineDeploymentStrategyType = ''RollingUpdate''"

definition MaxUnavailable :: "('v \<Rightarrow> int \<Rightarrow> bool \<Rightarrow> go_error + int) \<Rightarrow> 'v mdRollout \<Rightarrow> int panics" where
  "MaxUnavailable scaled deployment = do {
     (type, rollingUpdate) \<leftarrow> md_Strategy deployment;
     if type \<noteq> RollingUpdateMachineDeploymentStrategyType then Some 0
     else do {
       replicas \<leftarrow> md_specReplicas deployment;
       if replicas = 0 then Some 0
       else do {
         (maxSurge, maxUnavailable) \<leftarrow> rollingUpdate;
         (case ResolveFenceposts scaled maxSurge maxUnavailable replicas of
            (_, maxUnavailable, _) \<Rightarrow> Some (if maxUnavailable > replicas then replicas else maxUnavailable)) } } }"

definition MaxSurge :: "('v \<Rightarrow> int \<Rightarrow> bool \<Rightarrow> go_error + int) \<Rightarrow> 'v mdRollout \<Rightarrow> int panics" where
  "MaxSurge scaled deployment = do {
     (type, rollingUpdate) \<leftarrow> md_Strategy deployment;
     if type \<noteq> RollingUpdateMachineDeploymentStrategyType then Some 0
     else do {
       (maxSurge, maxUnavailable) \<leftarrow> rollingUpdate;
       replicas \<leftarrow> md_specReplicas deployment;
       (case ResolveFenceposts scaled maxSurge maxUnavailable replicas of (maxSurge, _, _) \<Rightarrow> Some maxSurge) } }"

text \<open>A resolved rollout can always make progress, and never takes more machines than there are.\<close>

lemma fenceposts_progress:
  assumes "ResolveFenceposts scaled s u desired = (surge, unavailable, None)"
    and "\<And>v r x. scaled v desired r = Inr x \<Longrightarrow> is_int32 x"
  shows "\<not> (surge = 0 \<and> unavailable = 0)"
  using assms(1) assms(2) [of s True] assms(2) [of u False]
  by (auto simp: ResolveFenceposts_def Let_def is_int32_def split: sum.splits if_splits)

lemma MaxUnavailable_bounded:
  "MaxUnavailable scaled deployment = Some n \<Longrightarrow> n = 0 \<or> (\<exists>r. md_specReplicas deployment = Some r \<and> n \<le> r)"
  by (auto simp: MaxUnavailable_def split: bind_splits if_splits prod.splits)

end
