(* ===== verification/Kubeconfig.thy ===== *)
theory Kubeconfig
  imports Machine_Ctx
begin

text \<open>
  The kubeconfig Secrets of workload clusters
  (\<^verbatim>\<open>pkg/util/capi/kubeconfig/kubeconfig.go\<close>). Keys and certificates, the coding
  of kubeconfigs, the naming of Secrets and the API server are parameters (records \<open>certLib\<close>
  and \<open>secretClient\<close>).
\<close>

section \<open>Secrets and kubeconfigs\<close>

record ownerReference =
  or_APIVersion :: string
  or_Kind :: string
  or_Name :: string
  or_UID :: string

record kubeSecret =
  sec_Name :: string
  sec_Namespace :: string
  sec_Labels :: "string gomap option"
  sec_OwnerReferences :: "ownerReference list"
  sec_Data :: "string gomap"
  sec_Type :: string

record apiCluster =
  ac_Server :: string
  ac_CertificateAuthorityData :: string

record apiContext =
  ax_Cluster :: string
  ax_AuthInfo :: string

record apiAuthInfo =
  ai_ClientKeyData :: string
  ai_ClientCertificateData :: string

record apiConfig =
  cfg_Clusters :: "apiCluster gomap"
  cfg_Contexts :: "apiContext gomap"
  cfg_AuthInfos :: "apiAuthInfo gomap"
  cfg_CurrentContext :: string

record certConfig =
  ct_CommonName :: string
  ct_Organization :: "string list"
  ct_Usages :: "string list"

record ('w, 'cert, 'key) certLib =
  CL_NewPrivateKey :: "('w, 'key) call"
  CL_NewSignedCert :: "certConfig \<Rightarrow> 'key \<Rightarrow> 'cert \<Rightarrow> 'key \<Rightarrow> ('w, 'cert) call"
  CL_EncodeCertPEM :: "'cert \<Rightarrow> string"
  CL_EncodePrivateKeyPEM :: "'key \<Rightarrow> string"
  CL_DecodeCertPEM :: "string \<Rightarrow> go_error + 'cert option"
  CL_DecodePrivateKeyPEM :: "string \<Rightarrow> go_error + 'key option"
  CL_NotAfter :: "'cert \<Rightarrow> int"
  CL_Load :: "string \<Rightarrow> go_error + apiConfig"
  CL_Write :: "apiConfig \<Rightarrow> go_error + string"
  CL_JoinPath :: "string \<Rightarrow> string \<Rightarrow> go_error + string"
  CL_SecretName :: "string \<Rightarrow> string \<Rightarrow> string"
  CL_ParseSecretName :: "string \<Rightarrow> go_error + string \<times> string"

text \<open>The Secret of a cluster for a purpose, and the two writes.\<close>

record 'w secretClient =
  SC_Get :: "string \<times> string \<Rightarrow> string \<Rightarrow> ('w, kubeSecret) call"
  SC_Create :: "kubeSecret \<Rightarrow> ('w, unit) call"
  SC_Update :: "kubeSecret \<Rightarrow> ('w, unit) call"

definition purposeKubeconfig :: string where [const_defs]: "purposeKubeconfig = ''kubeconfig''"
definition purposeClusterCA :: string where [const_defs]: "purposeClusterCA = ''ca''"
definition KubeconfigDataName :: string where [const_defs]: "KubeconfigDataName = ''value''"
definition TLSCrtDataName :: string where [const_defs]: "TLSCrtDataName = ''tls.crt''"
definition TLSKeyDataName :: string where [const_defs]: "TLSKeyDataName = ''tls.key''"
definition ClusterSecretType :: string where [const_defs]: "ClusterSecretType = ''cluster.x-k8s.io/secret''"
definition clusterv1_GroupVersion :: string where [const_defs]: "clusterv1_GroupVersion = ''cluster.x-k8s.io/v1beta1''"
definition ExtKeyUsageClientAuth :: string where [const_defs]: "ExtKeyUsageClientAuth = ''ClientAuth''"

definition ErrDependentCertificateNotFound :: go_error where
  "ErrDependentCertificateNotFound = ErrMsg ''could not find secret ca''"

text \<open>A cluster is named by its namespace and its name, as in \<^verbatim>\<open>client.ObjectKey\<close>.\<close>

definition objectKey :: "cluster \<Rightarrow> string \<times> string" where
  "objectKey cluster = (om_Namespace (cl_meta cluster), om_Name (cl_meta cluster))"

section \<open>Operations\<close>

definition toKubeconfigBytes :: "kubeSecret \<Rightarrow> go_error + string" where
  "toKubeconfigBytes out =
     (case gm_get (sec_Data out) KubeconfigDataName of
        None \<Rightarrow> Inl (ErrMsg (''missing key '' @ [CHR 0x22] @ KubeconfigDataName @ [CHR 0x22] @ '' in secret data''))
      | Some data \<Rightarrow> Inr data)"

definition FromSecret :: "'w secretClient \<Rightarrow> string \<times> string \<Rightarrow> ('w, string) call" where
  "FromSecret c cluster w =
     (case SC_Get c cluster purposeKubeconfig w of
        (Inl err, w) \<Rightarrow> (Inl err, w)
      | (Inr out, w) \<Rightarrow> (toKubeconfigBytes out, w))"

definition newConfig ::
  "('w, 'cert, 'key) certLib \<Rightarrow> string \<Rightarrow> string \<Rightarrow> 'cert \<Rightarrow> 'key \<Rightarrow> ('w, apiConfig) call" where
  "newConfig L clusterName endpoint caCert caKey w =
     (let cfg = \<lparr>ct_CommonName = ''kubernetes-admin'', ct_Organization = [''system:masters''],
                 ct_Usages = [ExtKeyUsageClientAuth]\<rparr>
      in case CL_NewPrivateKey L w of
        (Inl err, w) \<Rightarrow> (Inl (ErrWrapf ''unable to create private key'' err), w)
      | (Inr clientKey, w) \<Rightarrow>
          (case CL_NewSignedCert L cfg clientKey caCert caKey w of
             (Inl err, w) \<Rightarrow> (Inl (ErrWrapf ''unable to sign certificate'' err), w)
           | (Inr clientCert, w) \<Rightarrow>
               (let userName = clusterName @ ''-admin'';
                    contextName = userName @ ''@'' @ clusterName
                in (Inr \<lparr>cfg_Clusters = [(clusterName, \<lparr>ac_Server = endpoint,
                                           ac_CertificateAuthorityData = CL_EncodeCertPEM L caCert\<rparr>)],
                         cfg_Contexts = [(contextName, \<lparr>ax_Cluster = clusterName, ax_AuthInfo = userName\<rparr>)],
                         cfg_AuthInfos = [(userName, \<lparr>ai_ClientKeyData = CL_EncodePrivateKeyPEM L clientKey,
                                             ai_ClientCertificateData = CL_EncodeCertPEM L clientCert\<rparr>)],
                         cfg_CurrentContext = contextName\<rparr>, w))))"

definition GenerateSecretWithOwner ::
  "('w, 'cert, 'key) certLib \<Rightarrow> string \<times> string \<Rightarrow> string \<Rightarrow> ownerReference \<Rightarrow> kubeSecret" where
  "GenerateSecretWithOwner L clusterName data owner =
     \<lparr>sec_Name = CL_SecretName L (snd clusterName) purposeKubeconfig, sec_Namespace = fst clusterName,
      sec_Labels = Some [(ClusterNameLabel, snd clusterName)], sec_OwnerReferences = [owner],
      sec_Data = [(KubeconfigDataName, data)], sec_Type = ClusterSecretType\<rparr>"

definition GenerateSecret :: "('w, 'cert, 'key) certLib \<Rightarrow> cluster \<Rightarrow> string \<Rightarrow> kubeSecret" where
  "GenerateSecret L cluster data =
     GenerateSecretWithOwner L (objectKey cluster) data
       \<lparr>or_APIVersion = clusterv1_GroupVersion, or_Kind = ''Cluster'', or_Name = om_Name (cl_meta cluster),
        or_UID = om_UID (cl_meta cluster)\<rparr>"

text \<open>A missing entry of the data of the CA Secret is a nil slice, decoded like an empty one.\<close>

definition dataEntry :: "kubeSecret \<Rightarrow> string \<Rightarrow> string" where
  "dataEntry s k = (case gm_get (sec_Data s) k of None \<Rightarrow> [] | Some v \<Rightarrow> v)"

definition generateKubeconfig ::
  "('w, 'cert, 'key) certLib \<Rightarrow> 'w secretClient \<Rightarrow> string \<times> string \<Rightarrow> string \<Rightarrow> ('w, string) call" where
  "generateKubeconfig L c clusterName endpoint w =
     (case SC_Get c clusterName purposeClusterCA w of
        (Inl err, w) \<Rightarrow> (Inl (if IsApiNotFound err then ErrDependentCertificateNotFound else err), w)
      | (Inr clusterCA, w) \<Rightarrow>
          (case CL_DecodeCertPEM L (dataEntry clusterCA TLSCrtDataName) of
             Inl err \<Rightarrow> (Inl (ErrWrapf ''failed to decode CA Cert'' err), w)
           | Inr None \<Rightarrow> (Inl (ErrMsg ''certificate not found in config''), w)
           | Inr (Some cert) \<Rightarrow>
               (case CL_DecodePrivateKeyPEM L (dataEntry clusterCA TLSKeyDataName) of
                  Inl err \<Rightarrow> (Inl (ErrWrapf ''failed to decode private key'' err), w)
                | Inr None \<Rightarrow> (Inl (ErrMsg ''CA private key not found''), w)
                | Inr (Some key) \<Rightarrow>
                    (case newConfig L (snd clusterName) endpoint cert key w of
                       (Inl err, w) \<Rightarrow> (Inl (ErrWrapf ''failed to generate a kubeconfig'' err), w)
                     | (Inr cfg, w) \<Rightarrow>
                         (case CL_Write L cfg of
                            Inl err \<Rightarrow> (Inl (ErrWrapf ''failed to serialize config to yaml'' err), w)
                          | Inr out \<Rightarrow> (Inr out, w))))))"

definition CreateSecretWithOwner ::
  "('w, 'cert, 'key) certLib \<Rightarrow> 'w secretClient \<Rightarrow> string \<times> string \<Rightarrow> string \<Rightarrow> ownerReference \<Rightarrow> ('w, unit) call" where
  "CreateSecretWithOwner L c clusterName endpoint owner w =
     (case CL_JoinPath L ''https://'' endpoint of
        Inl err \<Rightarrow> (Inl err, w)
      | Inr server \<Rightarrow>
          (case generateKubeconfig L c clusterName server w of
             (Inl err, w) \<Rightarrow> (Inl err, w)
           | (Inr out, w) \<Rightarrow> SC_Create c (GenerateSecretWithOwner L clusterName out owner) w))"

text \<open>\<open>endpoint\<close> is the rendered control plane endpoint of the cluster.\<close>

definition CreateSecret ::
  "('w, 'cert, 'key) certLib \<Rightarrow> 'w secretClient \<Rightarrow> cluster \<Rightarrow> string \<Rightarrow> ('w, unit) call" where
  "CreateSecret L c cluster endpoint =
     CreateSecretWithOwner L c (objectKey cluster) endpoint
       \<lparr>or_APIVersion = clusterv1_GroupVersion, or_Kind = ''Cluster'', or_Name = om_Name (cl_meta cluster),
        or_UID = om_UID (cl_meta cluster)\<rparr>"

text \<open>\<^verbatim>\<open>Time.Sub\<close> saturates at the bounds of a duration.\<close>

definition timeSub :: "int \<Rightarrow> int \<Rightarrow> int" where
  "timeSub t u = max (- (2 ^ 63)) (min (2 ^ 63 - 1) (t - u))"

text \<open>
  The loop over the users of the kubeconfig. The decoder answers nil, without an error, for
  data that holds no PEM block; the loop then dereferences nil.
\<close>

fun anyExpiring ::
  "('w, 'cert, 'key) certLib \<Rightarrow> int \<Rightarrow> int \<Rightarrow> apiAuthInfo list \<Rightarrow> (go_error + bool) panics" where
  "anyExpiring L now threshold [] = Some (Inr False)"
| "anyExpiring L now threshold (authInfo # rest) =
     (case CL_DecodeCertPEM L (ai_ClientCertificateData authInfo) of
        Inl err \<Rightarrow> Some (Inl (ErrWrapf ''failed to decode kubeconfig client certificate'' err))
      | Inr None \<Rightarrow> go_panic
      | Inr (Some cert) \<Rightarrow>
          if timeSub (CL_NotAfter L cert) now < threshold then Some (Inr True)
          else anyExpiring L now threshold rest)"

definition NeedsClientCertRotation ::
  "('w, 'cert, 'key) certLib \<Rightarrow> int \<Rightarrow> kubeSecret \<Rightarrow> int \<Rightarrow> (go_error + bool) panics" where
  "NeedsClientCertRotation L now configSecret threshold =
     (case toKubeconfigBytes configSecret of
        Inl err \<Rightarrow> Some (Inl err)
      | Inr data \<Rightarrow>
          (case CL_Load L data of
             Inl err \<Rightarrow> Some (Inl (ErrWrapf ''failed to convert kubeconfig Secret into a clientcmdapi.Config'' err))
           | Inr config \<Rightarrow> anyExpiring L now threshold (map snd (cfg_AuthInfos config))))"

text \<open>The Secret is changed in place before it is sent; the result holds it.\<close>

definition RegenerateSecret ::
  "('w, 'cert, 'key) certLib \<Rightarrow> 'w secretClient \<Rightarrow> kubeSecret \<Rightarrow> 'w \<Rightarrow> (go_error option \<times> kubeSecret \<times> 'w) panics" where
  "RegenerateSecret L c configSecret w =
     (case CL_ParseSecretName L (sec_Name configSecret) of
        Inl err \<Rightarrow> Some (Some (ErrWrapf ''failed to parse secret name'' err), configSecret, w)
      | Inr (clusterName, _) \<Rightarrow>
          (case toKubeconfigBytes configSecret of
             Inl err \<Rightarrow> Some (Some err, configSecret, w)
           | Inr data \<Rightarrow>
               (case CL_Load L data of
                  Inl err \<Rightarrow> Some (Some (ErrWrapf ''failed to convert kubeconfig Secret into a clientcmdapi.Config'' err), configSecret, w)
                | Inr config \<Rightarrow>
                    (case gm_get (cfg_Clusters config) clusterName of
                       None \<Rightarrow> go_panic
                     | Some cl \<Rightarrow>
                         (case generateKubeconfig L c (sec_Namespace configSecret, clusterName) (ac_Server cl) w of
                            (Inl err, w) \<Rightarrow> Some (Some err, configSecret, w)
                          | (Inr out, w) \<Rightarrow>
                              (let configSecret = configSecret\<lparr>sec_Data := gm_put KubeconfigDataName out (sec_Data configSecret)\<rparr>
                               in case SC_Update c configSecret w of
                                    (Inl err, w) \<Rightarrow> Some (Some err, configSecret, w)
                                  | (Inr _, w) \<Rightarrow> Some (None, configSecret, w)))))))"

section \<open>What the libraries promise\<close>

locale kubeconfig_lib =
  fixes L :: "('w, 'cert, 'key) certLib"
  assumes load_write: "CL_Write L cfg = Inr out \<Longrightarrow> CL_Load L out = Inr cfg"
    and decode_cert: "CL_DecodeCertPEM L (CL_EncodeCertPEM L cert) = Inr (Some cert)"
    and parse_name: "CL_ParseSecretName L (CL_SecretName L name purposeKubeconfig) = Inr (name, purposeKubeconfig)"
begin

lemma generated_loads:
  assumes "generateKubeconfig L c cl endpoint w = (Inr out, w')"
  shows "\<exists>cfg ca key k cert w1 w2. CL_Load L out = Inr cfg \<and>
    cfg_Clusters cfg = [(snd cl, \<lparr>ac_Server = endpoint, ac_CertificateAuthorityData = CL_EncodeCertPEM L ca\<rparr>)] \<and>
    cfg_AuthInfos cfg = [(snd cl @ ''-admin'', \<lparr>ai_ClientKeyData = CL_EncodePrivateKeyPEM L k,
      ai_ClientCertificateData = CL_EncodeCertPEM L cert\<rparr>)] \<and>
    CL_NewSignedCert L \<lparr>ct_CommonName = ''kubernetes-admin'', ct_Organization = [''system:masters''],
      ct_Usages = [ExtKeyUsageClientAuth]\<rparr> k ca key w1 = (Inr cert, w2)"
proof -
  from assms obtain ca key cfg w1 where
    new: "newConfig L (snd cl) endpoint ca key w1 = (Inr cfg, w')" and out: "CL_Write L cfg = Inr out"
    by (auto simp: generateKubeconfig_def split: sum.splits prod.splits option.splits)
  from out have "CL_Load L out = Inr cfg" by (rule load_write)
  moreover from new obtain k cert w2 w3 where
    "CL_NewSignedCert L \<lparr>ct_CommonName = ''kubernetes-admin'', ct_Organization = [''system:masters''],
      ct_Usages = [ExtKeyUsageClientAuth]\<rparr> k ca key w2 = (Inr cert, w3)"
    "cfg_Clusters cfg = [(snd cl, \<lparr>ac_Server = endpoint, ac_CertificateAuthorityData = CL_EncodeCertPEM L ca\<rparr>)]"
    "cfg_AuthInfos cfg = [(snd cl @ ''-admin'', \<lparr>ai_ClientKeyData = CL_EncodePrivateKeyPEM L k,
      ai_ClientCertificateData = CL_EncodeCertPEM L cert\<rparr>)]"
    by (auto simp: newConfig_def Let_def split: sum.splits prod.splits)
  ultimately show ?thesis by blast
qed

text \<open>
  A regenerated Secret is the old one with a new kubeconfig for the same server; everything else
  of the Secret stays.
\<close>

lemma regenerate_keeps_server:
  assumes "RegenerateSecret L c s w = Some (None, s', w')"
  shows "\<exists>name purpose data old new server.
    CL_ParseSecretName L (sec_Name s) = Inr (name, purpose) \<and> toKubeconfigBytes s = Inr data \<and> CL_Load L data = Inr old \<and>
    map_option ac_Server (gm_get (cfg_Clusters old) name) = Some server \<and>
    s' = s\<lparr>sec_Data := gm_put KubeconfigDataName new (sec_Data s)\<rparr> \<and>
    (\<exists>w1 w2. generateKubeconfig L c (sec_Namespace s, name) server w1 = (Inr new, w2))"
  using assms
  by (auto simp: RegenerateSecret_def Let_def split: sum.splits prod.splits option.splits)

text \<open>
  It can be regenerated again without a panic, and needs no rotation as long as the new
  certificates live longer than the threshold.
\<close>

lemma regenerated_is_fresh:
  assumes run: "RegenerateSecret L c s w = Some (None, s', w')"
    and life: "\<And>cfg k ca key w cert w'. CL_NewSignedCert L cfg k ca key w = (Inr cert, w') \<Longrightarrow>
      threshold \<le> timeSub (CL_NotAfter L cert) now"
  shows "NeedsClientCertRotation L now s' threshold = Some (Inr False) \<and> RegenerateSecret L c s' w'' \<noteq> None"
proof -
  from regenerate_keeps_server [OF run] obtain name purpose server new w1 w2 where
    name: "CL_ParseSecretName L (sec_Name s) = Inr (name, purpose)"
    and s': "s' = s\<lparr>sec_Data := gm_put KubeconfigDataName new (sec_Data s)\<rparr>"
    and gen: "generateKubeconfig L c (sec_Namespace s, name) server w1 = (Inr new, w2)"
    by blast
  have bytes: "toKubeconfigBytes s' = Inr new" by (simp add: s' toKubeconfigBytes_def update_conv')
  from generated_loads [OF gen] obtain cfg ca key k cert v1 v2 where
    load: "CL_Load L new = Inr cfg"
    and cl: "cfg_Clusters cfg = [(name, \<lparr>ac_Server = server, ac_CertificateAuthorityData = CL_EncodeCertPEM L ca\<rparr>)]"
    and ai: "cfg_AuthInfos cfg = [(name @ ''-admin'', \<lparr>ai_ClientKeyData = CL_EncodePrivateKeyPEM L k,
      ai_ClientCertificateData = CL_EncodeCertPEM L cert\<rparr>)]"
    and sign: "CL_NewSignedCert L \<lparr>ct_CommonName = ''kubernetes-admin'', ct_Organization = [''system:masters''],
      ct_Usages = [ExtKeyUsageClientAuth]\<rparr> k ca key v1 = (Inr cert, v2)"
    by auto
  have "NeedsClientCertRotation L now s' threshold = Some (Inr False)"
    using life [OF sign] by (simp add: NeedsClientCertRotation_def bytes load ai decode_cert)
  moreover have "RegenerateSecret L c s' w'' \<noteq> None"
    using bytes by (simp add: RegenerateSecret_def name s' load cl Let_def split: sum.splits prod.splits)
  ultimately show ?thesis ..
qed

text \<open>The Secret that is generated for a cluster holds the kubeconfig and names the cluster.\<close>

lemma generated_secret:
  "toKubeconfigBytes (GenerateSecretWithOwner L key data owner) = Inr data"
  "CL_ParseSecretName L (sec_Name (GenerateSecretWithOwner L key data owner)) = Inr (snd key, purposeKubeconfig)"
  by (simp_all add: toKubeconfigBytes_def GenerateSecretWithOwner_def parse_name)

end

text \<open>A kubeconfig whose user has no client certificate makes the check panic.\<close>

theorem rotation_check_panics:
  assumes "toKubeconfigBytes s = Inr data" "CL_Load L data = Inr config"
    and "cfg_AuthInfos config = (user, ai) # rest"
    and "CL_DecodeCertPEM L (ai_ClientCertificateData ai) = Inr None"
  shows "NeedsClientCertRotation L now s threshold = None"
  using assms by (simp add: NeedsClientCertRotation_def)

section \<open>A concrete library\<close>

text \<open>Strings one after the other, each behind its length in unary.\<close>

definition frame :: "string \<Rightarrow> string" where
  "frame s = replicate (length s) (CHR ''1'') @ CHR ''0'' # s"

function frames :: "nat \<Rightarrow> string \<Rightarrow> string list" where
  "frames n [] = []"
| "frames n (c # s) = (if c = CHR ''1'' then frames (Suc n) s else take n s # frames 0 (drop n s))"
  by pat_completeness auto
termination by (relation "measure (\<lambda>(n, s). length s)") auto

lemma frames_frame: "frames n (replicate m (CHR ''1'') @ CHR ''0'' # s) = take (n + m) s # frames 0 (drop (n + m) s)"
  by (induction m arbitrary: n) auto

lemma frames_concat: "frames 0 (concat (map frame xs)) = xs"
  by (induction xs) (simp_all add: frame_def frames_frame)

definition ref_write :: "apiConfig \<Rightarrow> go_error + string" where
  "ref_write cfg =
     (case (cfg_Clusters cfg, cfg_Contexts cfg, cfg_AuthInfos cfg) of
        ([(cl, a)], [(cx, x)], [(user, ai)]) \<Rightarrow>
          Inr (concat (map frame [cl, ac_Server a, ac_CertificateAuthorityData a, cx, ax_Cluster x, ax_AuthInfo x, user,
            ai_ClientKeyData ai, ai_ClientCertificateData ai, cfg_CurrentContext cfg]))
      | _ \<Rightarrow> Inl (ErrMsg ''shape''))"

definition ref_load :: "string \<Rightarrow> go_error + apiConfig" where
  "ref_load out =
     (case frames 0 out of
        [cl, a1, a2, cx, x1, x2, user, i1, i2, cur] \<Rightarrow>
          Inr \<lparr>cfg_Clusters = [(cl, \<lparr>ac_Server = a1, ac_CertificateAuthorityData = a2\<rparr>)],
               cfg_Contexts = [(cx, \<lparr>ax_Cluster = x1, ax_AuthInfo = x2\<rparr>)],
               cfg_AuthInfos = [(user, \<lparr>ai_ClientKeyData = i1, ai_ClientCertificateData = i2\<rparr>)], cfg_CurrentContext = cur\<rparr>
      | _ \<Rightarrow> Inl (ErrMsg ''shape''))"

text \<open>A certificate is its text, a key too; time stands still and certificates live for a year.\<close>

definition ref_certs :: "('w, string, string) certLib" where
  "ref_certs =
     \<lparr>CL_NewPrivateKey = (\<lambda>w. (Inr ''key'', w)), CL_NewSignedCert = (\<lambda>cfg k ca key w. (Inr (ct_CommonName cfg), w)),
      CL_EncodeCertPEM = (\<lambda>c. CHR ''c'' # c), CL_EncodePrivateKeyPEM = (\<lambda>k. CHR ''k'' # k),
      CL_DecodeCertPEM = (\<lambda>s. Inr (case s of CHR ''c'' # c \<Rightarrow> Some c | _ \<Rightarrow> None)),
      CL_DecodePrivateKeyPEM = (\<lambda>s. Inr (case s of CHR ''k'' # k \<Rightarrow> Some k | _ \<Rightarrow> None)),
      CL_NotAfter = (\<lambda>_. 365 * 24 * 60 * 60 * 10 ^ 9), CL_Load = ref_load, CL_Write = ref_write,
      CL_JoinPath = (\<lambda>b p. Inr (b @ p)), CL_SecretName = (\<lambda>n p. n @ CHR ''-'' # p),
      CL_ParseSecretName = (\<lambda>s. case strLastIndex s ''-'' of None \<Rightarrow> Inl (ErrMsg ''name'')
        | Some i \<Rightarrow> Inr (take i s, drop (Suc i) s))\<rparr>"

lemma ref_load_write: "ref_write cfg = Inr out \<Longrightarrow> ref_load out = Inr cfg"
proof -
  assume "ref_write cfg = Inr out"
  then obtain cl a cx x user ai where
    cfg: "cfg_Clusters cfg = [(cl, a)]" "cfg_Contexts cfg = [(cx, x)]" "cfg_AuthInfos cfg = [(user, ai)]"
    and out: "out = concat (map frame [cl, ac_Server a, ac_CertificateAuthorityData a, cx, ax_Cluster x, ax_AuthInfo x,
        user, ai_ClientKeyData ai, ai_ClientCertificateData ai, cfg_CurrentContext cfg])"
    by (auto simp: ref_write_def split: list.splits prod.splits)
  show ?thesis unfolding ref_load_def out frames_concat by (cases cfg) (use cfg in auto)
qed

lemma last_dash: "CHR ''-'' \<notin> set p \<Longrightarrow> strLastIndex (n @ CHR ''-'' # p) ''-'' = Some (length n)"
proof -
  assume p: "CHR ''-'' \<notin> set p"
  then have "strLastIndex p ''-'' = None" by (induction p) auto
  then show ?thesis by (induction n) auto
qed

interpretation refcerts: kubeconfig_lib ref_certs
proof
  show "CL_ParseSecretName ref_certs (CL_SecretName ref_certs name purposeKubeconfig) = Inr (name, purposeKubeconfig)" for name
    using last_dash [of purposeKubeconfig name] by (simp add: ref_certs_def purposeKubeconfig_def)
qed (simp_all add: ref_certs_def ref_load_write)

text \<open>The kubeconfig of a new cluster can be read back, and its certificate is good for a month.\<close>

definition ref_secrets :: "kubeSecret list secretClient" where
  "ref_secrets =
     \<lparr>SC_Get = (\<lambda>(ns, n) p w.
        case find (\<lambda>s. sec_Namespace s = ns \<and> sec_Name s = n @ CHR ''-'' # p) w of
          None \<Rightarrow> (Inl (ErrApiNotFound n), w) | Some s \<Rightarrow> (Inr s, w)),
      SC_Create = (\<lambda>s w. (Inr (), s # w)), SC_Update = (\<lambda>s w. (Inr (), s # w))\<rparr>"

definition ca_secret :: kubeSecret where
  "ca_secret = \<lparr>sec_Name = ''c1-ca'', sec_Namespace = ''ns'', sec_Labels = None, sec_OwnerReferences = [],
     sec_Data = [(TLSCrtDataName, ''cCA''), (TLSKeyDataName, ''kCA'')], sec_Type = ClusterSecretType\<rparr>"

definition month :: int where "month = 30 * 24 * 60 * 60 * 10 ^ 9"

lemma create_then_read:
  "case CreateSecretWithOwner ref_certs ref_secrets (''ns'', ''c1'') ''1.2.3.4:6443''
       \<lparr>or_APIVersion = clusterv1_GroupVersion, or_Kind = ''Cluster'', or_Name = ''c1'', or_UID = ''u''\<rparr> [ca_secret] of
     (Inr _, w) \<Rightarrow> (case FromSecret ref_secrets (''ns'', ''c1'') w of
         (Inr data, _) \<Rightarrow> map_sum id cfg_CurrentContext (CL_Load ref_certs data) = Inr ''c1-admin@c1''
       | _ \<Rightarrow> False) \<and> NeedsClientCertRotation ref_certs 0 (hd w) month = Some (Inr False)
   | _ \<Rightarrow> False"
  by code_simp

lemma create_needs_ca:
  "CreateSecretWithOwner ref_certs ref_secrets (''ns'', ''c1'') ''1.2.3.4:6443'' owner [] =
     (Inl ErrDependentCertificateNotFound, [])"
  by (simp add: CreateSecretWithOwner_def generateKubeconfig_def ref_certs_def ref_secrets_def)

end
