(* ===== verification/Manager_Setup.thy ===== *)
theory Manager_Setup
  imports Kube_Support
begin

text \<open>
  The command (\<^verbatim>\<open>main.go\<close>) and the manager (\<^verbatim>\<open>pkg/manager\<close>,
  \<^verbatim>\<open>pkg/product\<close>): the flags and their defaults, the defaults of the options, and the
  order in which webhooks, caches and controllers are added. The calls into controller-runtime
  are parameters (record \<open>managerLib\<close>); an exit of the process is a value.
\<close>

section \<open>Constants and flags\<close>

definition defaultPrefix :: string where "defaultPrefix = ''cape-''"
definition DefaultSyncPeriod :: int where "DefaultSyncPeriod = time_Minute * 10"
definition DefaultPodName :: string where "DefaultPodName = defaultPrefix @ ''controller-manager''"
definition DefaultPodNamespace :: string where "DefaultPodNamespace = defaultPrefix @ ''system''"
definition DefaultLeaderElectionID :: string where "DefaultLeaderElectionID = DefaultPodName @ ''-runtime''"
definition DefaultWebhookServiceContainerPort :: int where "DefaultWebhookServiceContainerPort = 0"

datatype flagValue = FString string | FInt int | FBool bool | FDuration int | FFloat32 int

text \<open>
  The flags a run registers, in order, with their default values: \<open>profiler\<close> is the environment
  variable \<^verbatim>\<open>PROFILER_ADDR\<close>, the three groups come from libraries. The flag
  \<^verbatim>\<open>leader-election-namespace\<close> goes to the other flag set.
\<close>

definition InitFlags ::
  "string \<Rightarrow> nat \<Rightarrow> jobTimeoutConfig \<Rightarrow> (string \<times> flagValue) list \<Rightarrow> (string \<times> flagValue) list \<Rightarrow>
     (string \<times> flagValue) list \<Rightarrow> (string \<times> flagValue) list \<times> (string \<times> flagValue) list" where
  "InitFlags profiler maxCreations jobTimeouts logFlags managerFlags featureFlags =
     ([(''leader-election-id'', FString DefaultLeaderElectionID),
       (''max-elfcluster-concurrent-reconciles'', FInt 10),
       (''max-elfmachine-concurrent-reconciles'', FInt 10),
       (''max-elfmachinetemplate-concurrent-reconciles'', FInt 10),
       (''pod-name'', FString DefaultPodName),
       (''max-concurrent-vm-creations'', FInt (int maxCreations)),
       (''host-agent-job-default-timeout'', FDuration (jt_Default jobTimeouts)),
       (''host-agent-job-expand-root-partition-timeout'', FDuration (jt_ExpandRootPartition jobTimeouts)),
       (''host-agent-job-restart-kubelet-timeout'', FDuration (jt_RestartKubelet jobTimeouts)),
       (''host-agent-job-set-network-device-config-timeout'', FDuration (jt_SetNetworkDeviceConfig jobTimeouts))]
      @ logFlags @
      [(''leader-elect'', FBool True),
       (''leader-elect-lease-duration'', FDuration (15 * time_Second)),
       (''leader-elect-renew-deadline'', FDuration (10 * time_Second)),
       (''leader-elect-retry-period'', FDuration (2 * time_Second)),
       (''namespace'', FString []),
       (''watch-filter'', FString []),
       (''profiler-address'', FString profiler),
       (''contention-profiling'', FBool False),
       (''sync-period'', FDuration DefaultSyncPeriod),
       (''kube-api-qps'', FFloat32 20),
       (''kube-api-burst'', FInt 30),
       (''clustercache-client-qps'', FFloat32 20),
       (''clustercache-client-burst'', FInt 30),
       (''clustercache-concurrency'', FInt 100),
       (''webhook-port'', FInt 9443),
       (''webhook-cert-dir'', FString ''/tmp/k8s-webhook-server/serving-certs/''),
       (''webhook-cert-name'', FString ''tls.crt''),
       (''webhook-key-name'', FString ''tls.key''),
       (''health-addr'', FString '':9440'')]
      @ managerFlags @ featureFlags,
      [(''leader-election-namespace'', FString [])])"

section \<open>Configuration from the environment\<close>

text \<open>
  \<^verbatim>\<open>pkg/config\<close>: the variable and the default text of every field, in the order in which
  they are read. Looking a variable up and reading its text as a duration or a number is the
  library's (\<open>envInt\<close>, \<open>envString\<close>); a text that cannot be read ends the process. The limit of
  concurrent creations comes from a flag.
\<close>

definition config_init ::
  "(string \<Rightarrow> string \<Rightarrow> string option) \<Rightarrow> (string \<Rightarrow> string \<Rightarrow> int option) \<Rightarrow> nat \<Rightarrow> (string \<times> config) panics" where
  "config_init envString envInt maxConcurrentVMCreations = do {
     providerNameShort \<leftarrow> envString ''PROVIDER_NAME_SHORT'' ''cape'';
     requeueTimeout \<leftarrow> envInt ''DEFAULT_REQUEUE_TIMEOUT'' ''10s'';
     waitTaskInterval \<leftarrow> envInt ''WAIT_TASK_INTERVAL'' ''1s'';
     waitTaskTimeout \<leftarrow> envInt ''WAIT_TASK_TIMEOUT_FOR_PLACEMENT_GROUP_OPERATION'' ''10s'';
     powerStatusDuration \<leftarrow> envInt ''VM_POWER_STATUS_CHECKING_DURATION'' ''2m'';
     numCPUs \<leftarrow> envInt ''VM_NUM_CPUS'' ''2'';
     memoryMiB \<leftarrow> envInt ''VM_MEMORY_MIB'' ''2048'';
     nameserverLimit \<leftarrow> envInt ''VM_NAMESERVER_LIMIT'' ''3'';
     Some (providerNameShort,
       \<lparr>cfg_DefaultRequeueTimeout = requeueTimeout, cfg_WaitTaskInterval = waitTaskInterval,
        cfg_WaitTaskTimeoutForPlacementGroupOperation = waitTaskTimeout,
        cfg_VMPowerStatusCheckingDuration = powerStatusDuration, cfg_VMNumCPUs = numCPUs,
        cfg_VMMemoryMiB = memoryMiB, cfg_NameserverLimit = nameserverLimit,
        cfg_MaxConcurrentVMCreations = maxConcurrentVMCreations\<rparr>) }"

section \<open>Options\<close>

record restConfig =
  rest_QPS :: int
  rest_Burst :: int
  rest_UserAgent :: string

text \<open>The embedded options of controller-runtime appear with the fields that are set here.\<close>

record options =
  opt_PodNamespace :: string
  opt_PodName :: string
  opt_KubeConfig :: "restConfig option"
  opt_WatchFilterValue :: string
  opt_LeaderElection :: bool
  opt_LeaderElectionID :: string
  opt_LeaderElectionNamespace :: string
  opt_HasLogger :: bool
  opt_HasScheme :: bool
  opt_Caching :: managerOptions
  opt_DefaultNamespaces :: "string list option"
  opt_SyncPeriod :: "int option"
  opt_LeaseDuration :: "int option"
  opt_RenewDeadline :: "int option"
  opt_RetryPeriod :: "int option"
  opt_UsePriorityQueue :: "bool option"

text \<open>\<open>loadConfig\<close> is \<^verbatim>\<open>GetConfigOrDie\<close>, which exits when there is none.\<close>

definition options_defaults :: "(string \<Rightarrow> string option) \<Rightarrow> restConfig option \<Rightarrow> options \<Rightarrow> options panics" where
  "options_defaults getenv loadConfig opts =
     do { kube \<leftarrow> (case opt_KubeConfig opts of None \<Rightarrow> loadConfig | Some k \<Rightarrow> Some k);
          Some (opts\<lparr>opt_HasLogger := True,
                     opt_PodName := (if opt_PodName opts = [] then DefaultPodName else opt_PodName opts),
                     opt_KubeConfig := Some kube, opt_HasScheme := True,
                     opt_PodNamespace := (case getenv ''POD_NAMESPACE'' of Some ns \<Rightarrow> ns | None \<Rightarrow> DefaultPodNamespace)\<rparr>) }"

record controllerManagerContext =
  cm_Namespace :: string
  cm_Name :: string
  cm_LeaderElectionID :: string
  cm_LeaderElectionNamespace :: string
  cm_WatchNamespaces :: "string list option"
  cm_WatchFilterValue :: string

definition ControllerManagerContext_String :: "controllerManagerContext \<Rightarrow> string" where
  "ControllerManagerContext_String r = cm_Name r"

text \<open>The API group of the host agent: the group of the version and that of the scheme builder.\<close>

definition InitHostAgentAPIGroup :: "(string \<Rightarrow> string option) \<Rightarrow> string \<times> string \<Rightarrow> string \<times> string" where
  "InitHostAgentAPIGroup getenv groups =
     (let hostAgentAPIGroup = (case getenv ''HOST_CONFIG_AGENT_API_GROUP'' of None \<Rightarrow> [] | Some g \<Rightarrow> g)
      in if hostAgentAPIGroup \<noteq> [] then (hostAgentAPIGroup, hostAgentAPIGroup) else groups)"

section \<open>Webhooks, caches and controllers\<close>

datatype webhook =
    ElfMachineTemplateValidator | ElfMachineValidator | ElfMachineMutation | ElfMachineTemplateMutation

text \<open>
  What a controller watches: objects of a kind, mapped to the requests of the controlled kind, some
  only on a change of the failure domains.
\<close>

datatype controllerKind = ElfClusterController | ElfMachineController

datatype mapFunc = ToInfrastructure string | TemplateToCluster

datatype eventPredicate = Always | FailureDomainsChanged

record controllerSpec =
  cs_Reconciler :: controllerKind
  cs_For :: string
  cs_Watches :: "(string \<times> mapFunc \<times> eventPredicate) list"
  cs_WatchFilterValue :: string
  cs_MaxConcurrentReconciles :: int

record clusterCacheOptions =
  cco_QPS :: int
  cco_Burst :: int
  cco_WatchFilterValue :: string
  cco_Concurrency :: int

record 'w managerLib =
  M_SetVerbosity :: "('w, unit) call"
  M_ValidateLogs :: "('w, unit) call"
  M_LoadKubeConfig :: "restConfig option"
  M_UserAgent :: string
  M_PriorityQueue :: bool
  M_GetManagerOptions :: "('w, unit) call"
  M_AddToScheme :: "string \<Rightarrow> ('w, unit) call"
  M_HostAgentGroup :: "string \<times> string"
  M_NewManager :: "options \<Rightarrow> ('w, unit) call"
  M_SetupWebhook :: "webhook \<Rightarrow> ('w, unit) call"
  M_NewSecretClient :: "('w, unit) call"
  M_SetupClusterCache :: "clusterCacheOptions \<Rightarrow> ('w, unit) call"
  M_AddController :: "controllerSpec \<Rightarrow> ('w, unit) call"
  M_AddReadyzCheck :: "('w, unit) call"
  M_AddHealthzCheck :: "('w, unit) call"
  M_Start :: "('w, unit) call"

text \<open>The values of the flags after parsing.\<close>

record flags =
  fl_Options :: options
  fl_elfClusterConcurrency :: int
  fl_elfMachineConcurrency :: int
  fl_clusterCacheClientQPS :: int
  fl_clusterCacheClientBurst :: int
  fl_clusterCacheConcurrency :: int
  fl_restConfigQPS :: int
  fl_restConfigBurst :: int
  fl_watchNamespace :: string
  fl_syncPeriod :: int
  fl_leaseDuration :: int
  fl_renewDeadline :: int
  fl_retryPeriod :: int

text \<open>Calls one after the other until one fails.\<close>

fun inOrder :: "('w, unit) call list \<Rightarrow> ('w, unit) call" where
  "inOrder [] w = (Inr (), w)"
| "inOrder (f # fs) w = (case f w of (Inl err, w) \<Rightarrow> (Inl err, w) | (Inr _, w) \<Rightarrow> inOrder fs w)"

definition wrapping :: "string \<Rightarrow> ('w, 'a) call \<Rightarrow> ('w, 'a) call" where
  "wrapping msg f w = (case f w of (Inl err, w) \<Rightarrow> (Inl (ErrWrapf msg err), w) | (Inr x, w) \<Rightarrow> (Inr x, w))"

definition setupClusterCache :: "'w managerLib \<Rightarrow> flags \<Rightarrow> string \<Rightarrow> ('w, unit) call" where
  "setupClusterCache M fl watchFilter =
     inOrder [wrapping ''failed to create secret caching client'' (M_NewSecretClient M),
       wrapping ''failed to create ClusterCache''
         (M_SetupClusterCache M \<lparr>cco_QPS = fl_clusterCacheClientQPS fl, cco_Burst = fl_clusterCacheClientBurst fl,
            cco_WatchFilterValue = watchFilter, cco_Concurrency = fl_clusterCacheConcurrency fl\<rparr>)]"

definition AddClusterControllerToManager :: "'w managerLib \<Rightarrow> controllerManagerContext \<Rightarrow> int \<Rightarrow> ('w, unit) call" where
  "AddClusterControllerToManager M ctrlMgrCtx concurrency =
     M_AddController M \<lparr>cs_Reconciler = ElfClusterController, cs_For = ''ElfCluster'',
       cs_Watches = [(''Cluster'', ToInfrastructure ''ElfCluster'', Always),
                     (''ElfMachineTemplate'', TemplateToCluster, FailureDomainsChanged)],
       cs_WatchFilterValue = cm_WatchFilterValue ctrlMgrCtx, cs_MaxConcurrentReconciles = concurrency\<rparr>"

definition AddMachineControllerToManager :: "'w managerLib \<Rightarrow> controllerManagerContext \<Rightarrow> int \<Rightarrow> ('w, unit) call" where
  "AddMachineControllerToManager M ctrlMgrCtx concurrency =
     M_AddController M \<lparr>cs_Reconciler = ElfMachineController, cs_For = ''ElfMachine'',
       cs_Watches = [(''Machine'', ToInfrastructure ''ElfMachine'', Always)],
       cs_WatchFilterValue = cm_WatchFilterValue ctrlMgrCtx, cs_MaxConcurrentReconciles = concurrency\<rparr>"

text \<open>An unset variable reads as the empty string, which enables both.\<close>

definition addToManager ::
  "'w managerLib \<Rightarrow> (string \<Rightarrow> string option) \<Rightarrow> flags \<Rightarrow> string \<Rightarrow> controllerManagerContext \<Rightarrow> ('w, unit) call" where
  "addToManager M getenv fl watchFilter ctrlMgrCtx =
     inOrder
       ((if getenv ''ENABLE_WEBHOOKS'' \<noteq> Some ''false''
         then map (M_SetupWebhook M)
           [ElfMachineTemplateValidator, ElfMachineValidator, ElfMachineMutation, ElfMachineTemplateMutation]
         else []) @
        (if getenv ''ENABLE_CONTROLLERS'' \<noteq> Some ''false''
         then [setupClusterCache M fl watchFilter,
               AddClusterControllerToManager M ctrlMgrCtx (fl_elfClusterConcurrency fl),
               AddMachineControllerToManager M ctrlMgrCtx (fl_elfMachineConcurrency fl)]
         else []))"

section \<open>The manager and the command\<close>

text \<open>\<^verbatim>\<open>utilruntime.Must\<close> panics on an error.\<close>

definition mustAdd :: "'w managerLib \<Rightarrow> string list \<Rightarrow> 'w \<Rightarrow> 'w panics" where
  "mustAdd M groups w =
     (case inOrder (map (M_AddToScheme M) groups) w of (Inl _, _) \<Rightarrow> go_panic | (Inr _, w) \<Rightarrow> Some w)"

text \<open>The six schemes, then that of the host agent under its configured group.\<close>

definition manager_New ::
  "'w managerLib \<Rightarrow> (string \<Rightarrow> string option) \<Rightarrow> flags \<Rightarrow> options \<Rightarrow> 'w \<Rightarrow> ((go_error + controllerManagerContext) \<times> 'w) panics" where
  "manager_New M getenv fl opts w =
     do { opts \<leftarrow> options_defaults getenv (M_LoadKubeConfig M) opts;
          w \<leftarrow> mustAdd M [''client-go'', ''cluster.x-k8s.io/v1beta1'', ''cluster.x-k8s.io/v1beta2'',
                  ''infrastructure.cluster.x-k8s.io/v1beta1'', ''bootstrap.cluster.x-k8s.io/v1beta1'',
                  ''controlplane.cluster.x-k8s.io/v1beta1''] w;
          w \<leftarrow> mustAdd M [snd (InitHostAgentAPIGroup getenv (M_HostAgentGroup M))] w;
          Some (case M_NewManager M opts w of
             (Inl err, w) \<Rightarrow> (Inl (ErrWrapf ''unable to create manager'' err), w)
           | (Inr _, w) \<Rightarrow>
               (let ctrlMgrCtx = \<lparr>cm_Namespace = opt_PodNamespace opts, cm_Name = opt_PodName opts,
                      cm_LeaderElectionID = opt_LeaderElectionID opts,
                      cm_LeaderElectionNamespace = opt_LeaderElectionNamespace opts,
                      cm_WatchNamespaces = opt_DefaultNamespaces opts, cm_WatchFilterValue = opt_WatchFilterValue opts\<rparr>
                in case addToManager M getenv fl (opt_WatchFilterValue opts) ctrlMgrCtx w of
                     (Inl err, w) \<Rightarrow> (Inl (ErrWrapf ''failed to add resources to the manager'' err), w)
                   | (Inr _, w) \<Rightarrow> (Inr ctrlMgrCtx, w))) }"

definition setupChecks :: "'w managerLib \<Rightarrow> ('w, unit) call" where
  "setupChecks M = inOrder [M_AddReadyzCheck M, M_AddHealthzCheck M]"

definition mainOptions :: "'w managerLib \<Rightarrow> flags \<Rightarrow> restConfig \<Rightarrow> options" where
  "mainOptions M fl kube =
     (let opts = (fl_Options fl)\<lparr>opt_KubeConfig := Some (kube\<lparr>rest_QPS := fl_restConfigQPS fl,
                    rest_Burst := fl_restConfigBurst fl, rest_UserAgent := M_UserAgent M\<rparr>)\<rparr>;
          opts = opts\<lparr>opt_Caching := ConfigureSecretCaching (opt_Caching opts)\<rparr>;
          opts = (if fl_watchNamespace fl \<noteq> [] then opts\<lparr>opt_DefaultNamespaces := Some [fl_watchNamespace fl]\<rparr> else opts)
      in opts\<lparr>opt_SyncPeriod := Some (fl_syncPeriod fl), opt_LeaseDuration := Some (fl_leaseDuration fl),
              opt_RenewDeadline := Some (fl_renewDeadline fl), opt_RetryPeriod := Some (fl_retryPeriod fl),
              opt_UsePriorityQueue := Some (M_PriorityQueue M)\<rparr>)"

text \<open>
  The result of the command: the exit status, 0 when the manager stopped without an error;
  \<^term>\<open>None\<close> for a panic.
\<close>

definition main_go :: "'w managerLib \<Rightarrow> (string \<Rightarrow> string option) \<Rightarrow> flags \<Rightarrow> 'w \<Rightarrow> (int \<times> 'w) panics" where
  "main_go M getenv fl w =
     (case inOrder [M_SetVerbosity M, M_ValidateLogs M] w of
        (Inl _, w) \<Rightarrow> Some (1, w)
      | (Inr _, w) \<Rightarrow>
          (case M_LoadKubeConfig M of
             None \<Rightarrow> Some (1, w)
           | Some kube \<Rightarrow>
               (case M_GetManagerOptions M w of
                  (Inl _, w) \<Rightarrow> Some (1, w)
                | (Inr _, w) \<Rightarrow>
                    do { (r, w) \<leftarrow> manager_New M getenv fl (mainOptions M fl kube) w;
                         case r of
                           Inl _ \<Rightarrow> Some (1, w)
                         | Inr _ \<Rightarrow>
                             (case inOrder [setupChecks M, M_Start M] w of
                                (Inl _, w) \<Rightarrow> Some (1, w)
                              | (Inr _, w) \<Rightarrow> Some (0, w)) })))"

section \<open>Lemmas\<close>

text \<open>No flag is registered twice, which would panic, as long as the libraries keep off these names.\<close>

lemma flags_distinct:
  "distinct (map fst (fst (InitFlags profiler maxCreations jobTimeouts [] [] [])))"
  by (simp add: InitFlags_def)

lemma options_defaults_idempotent:
  "options_defaults getenv loadConfig opts = Some opts' \<Longrightarrow> options_defaults getenv loadConfig' opts' = Some opts'"
  by (auto simp: options_defaults_def DefaultPodName_def defaultPrefix_def bind_eq_Some_conv split: option.splits if_splits)

text \<open>Of calls that record themselves, a prefix is done; all of them when the sequence succeeds.\<close>

lemma inOrder_prefix:
  assumes "\<And>i w. snd (f i w) = w @ [i]"
  shows "\<exists>res made. inOrder (map f is) w = (res, w @ made) \<and> prefix made is \<and> (res = Inr () \<longrightarrow> made = is)"
proof (induction "is" arbitrary: w)
  case Nil
  then show ?case by simp
next
  case (Cons i "is")
  obtain r where f: "f i w = (r, w @ [i])" using assms [of i w] by (metis prod.collapse)
  show ?case
  proof (cases r)
    case (Inl err)
    with f show ?thesis by (intro exI [of _ "Inl err"] exI [of _ "[i]"]) simp
  next
    case (Inr u)
    obtain res made where "inOrder (map f is) (w @ [i]) = (res, (w @ [i]) @ made)" "prefix made is" "res = Inr () \<longrightarrow> made = is"
      using Cons.IH by blast
    with f Inr show ?thesis by (intro exI [of _ res] exI [of _ "i # made"]) simp
  qed
qed

lemma inOrder_nested: "inOrder (inOrder fs # gs) = inOrder (fs @ gs)"
  by (rule ext, induction fs; simp split: sum.splits prod.splits)

datatype setupStep = Hook webhook | SecretClient | ClusterCache | Controller controllerKind

definition setupSteps :: "(string \<Rightarrow> string option) \<Rightarrow> setupStep list" where
  "setupSteps getenv =
     (if getenv ''ENABLE_WEBHOOKS'' \<noteq> Some ''false''
      then [Hook ElfMachineTemplateValidator, Hook ElfMachineValidator, Hook ElfMachineMutation, Hook ElfMachineTemplateMutation]
      else []) @
     (if getenv ''ENABLE_CONTROLLERS'' \<noteq> Some ''false''
      then [SecretClient, ClusterCache, Controller ElfClusterController, Controller ElfMachineController] else [])"

text \<open>A manager that records what is set up; \<open>r\<close> tells which step fails.\<close>

definition recordingLib :: "(setupStep \<Rightarrow> go_error + unit) \<Rightarrow> setupStep list managerLib" where
  "recordingLib r =
     \<lparr>M_SetVerbosity = (\<lambda>w. (Inr (), w)), M_ValidateLogs = (\<lambda>w. (Inr (), w)),
      M_LoadKubeConfig = Some \<lparr>rest_QPS = 5, rest_Burst = 10, rest_UserAgent = []\<rparr>, M_UserAgent = ''cape'',
      M_PriorityQueue = False, M_GetManagerOptions = (\<lambda>w. (Inr (), w)), M_AddToScheme = (\<lambda>_ w. (Inr (), w)),
      M_HostAgentGroup = (''g'', ''g''), M_NewManager = (\<lambda>_ w. (Inr (), w)),
      M_SetupWebhook = (\<lambda>h w. (r (Hook h), w @ [Hook h])), M_NewSecretClient = (\<lambda>w. (r SecretClient, w @ [SecretClient])),
      M_SetupClusterCache = (\<lambda>_ w. (r ClusterCache, w @ [ClusterCache])),
      M_AddController = (\<lambda>c w. (r (Controller (cs_Reconciler c)), w @ [Controller (cs_Reconciler c)])),
      M_AddReadyzCheck = (\<lambda>w. (Inr (), w)), M_AddHealthzCheck = (\<lambda>w. (Inr (), w)), M_Start = (\<lambda>w. (Inr (), w))\<rparr>"

text \<open>
  Controllers are added last: after a failure nothing more is set up, so no controller runs
  before the webhooks and the cache of clusters are in place.
\<close>

lemma add_to_manager_order:
  "\<exists>res made. addToManager (recordingLib r) getenv fl watch ctx w = (res, w @ made) \<and> prefix made (setupSteps getenv) \<and>
     (res = Inr () \<longrightarrow> made = setupSteps getenv)"
proof -
  let ?M = "recordingLib r"
  let ?f = "\<lambda>i. case i of
      Hook h \<Rightarrow> M_SetupWebhook ?M h
    | SecretClient \<Rightarrow> wrapping ''failed to create secret caching client'' (M_NewSecretClient ?M)
    | ClusterCache \<Rightarrow> wrapping ''failed to create ClusterCache''
         (M_SetupClusterCache ?M \<lparr>cco_QPS = fl_clusterCacheClientQPS fl, cco_Burst = fl_clusterCacheClientBurst fl,
            cco_WatchFilterValue = watch, cco_Concurrency = fl_clusterCacheConcurrency fl\<rparr>)
    | Controller ElfClusterController \<Rightarrow> AddClusterControllerToManager ?M ctx (fl_elfClusterConcurrency fl)
    | Controller ElfMachineController \<Rightarrow> AddMachineControllerToManager ?M ctx (fl_elfMachineConcurrency fl)"
  have "addToManager ?M getenv fl watch ctx = inOrder (map ?f (setupSteps getenv))"
    unfolding addToManager_def setupSteps_def setupClusterCache_def
    by (auto simp: inOrder_nested inOrder_nested [of "[]", simplified] fun_eq_iff split: sum.splits prod.splits)
  moreover have "snd (?f i v) = v @ [i]" for i v
    by (auto simp: recordingLib_def wrapping_def AddClusterControllerToManager_def AddMachineControllerToManager_def
        split: sum.splits setupStep.splits controllerKind.splits)
  ultimately show ?thesis using inOrder_prefix [of ?f "setupSteps getenv" w] by simp
qed

text \<open>The command ends with status 0 only when every step was done.\<close>

lemma main_sets_up:
  assumes "main_go (recordingLib r) getenv fl [] = Some (0, w)"
  shows "w = setupSteps getenv"
proof -
  have add: "\<forall>err. fst (addToManager (recordingLib r) getenv fl watch ctx []) \<noteq> Inl err \<Longrightarrow>
      snd (addToManager (recordingLib r) getenv fl watch ctx []) = setupSteps getenv" for watch ctx
    using add_to_manager_order [of r getenv fl watch ctx "[]"] by (auto, metis (full_types) old.unit.exhaust sum.exhaust)
  have lib: "M_SetVerbosity (recordingLib r) w = (Inr (), w)" "M_ValidateLogs (recordingLib r) w = (Inr (), w)"
    "M_GetManagerOptions (recordingLib r) w = (Inr (), w)" "M_AddToScheme (recordingLib r) g w = (Inr (), w)"
    "M_NewManager (recordingLib r) opts w = (Inr (), w)" "M_AddReadyzCheck (recordingLib r) w = (Inr (), w)"
    "M_AddHealthzCheck (recordingLib r) w = (Inr (), w)" "M_Start (recordingLib r) w = (Inr (), w)" for g opts w
    by (simp_all add: recordingLib_def)
  have un: "x \<noteq> Inr () \<Longrightarrow> \<exists>err. x = Inl err" for x :: "go_error + unit" by (cases x) auto
  have new: "v = setupSteps getenv" if "manager_New (recordingLib r) getenv fl opts [] = Some (Inr ctx, v)" for opts ctx v
    using that add by (auto simp: manager_New_def mustAdd_def lib Let_def bind_eq_Some_conv case_prod_beta
        split: sum.split_asm dest!: un)
  show ?thesis using assms
    by (auto simp: main_go_def setupChecks_def lib bind_eq_Some_conv dest!: new
        split: sum.splits prod.split_asm option.split_asm if_splits intro: sum.exhaust)
qed

end
