(* ===== verification/Machine_Version.thy ===== *)
theory Machine_Version
  imports Machine_Coll
begin

text \<open>
  The order of machines by Kubernetes version (\<^verbatim>\<open>pkg/util/capi/collections\<close>). The
  parser and the comparison of semantic versions are parameters: \<open>parse\<close> answers a version and
  an error like \<^verbatim>\<open>semver.ParseTolerant\<close>, \<open>cmp\<close> is
  \<^verbatim>\<open>version.Compare\<close> with build tags.
\<close>

section \<open>Operations\<close>

definition machinesByVersion_Less ::
  "(string \<Rightarrow> 'v \<times> go_error option) \<Rightarrow> ('v \<Rightarrow> 'v \<Rightarrow> int) \<Rightarrow> machine \<Rightarrow> machine \<Rightarrow> bool panics" where
  "machinesByVersion_Less parse cmp a b =
     do { va \<leftarrow> m_Version a;
          vb \<leftarrow> m_Version b;
          let comp = cmp (fst (parse va)) (fst (parse vb));
          Some (if comp = 0 then m_Name a < m_Name b else comp = -1) }"

text \<open>A nil machine is never a member of a collection.\<close>

definition WithVersion :: "(string \<Rightarrow> 'v \<times> go_error option) \<Rightarrow> machine \<Rightarrow> bool" where
  "WithVersion parse machine =
     (case m_Version machine of None \<Rightarrow> False | Some v \<Rightarrow> snd (parse v) = None)"

text \<open>Sorting two or more machines compares each of them, and panics at one without a version.\<close>

definition sortedByVersion ::
  "(string \<Rightarrow> 'v \<times> go_error option) \<Rightarrow> ('v \<Rightarrow> 'v \<Rightarrow> int) \<Rightarrow> machines \<Rightarrow> machine list panics" where
  "sortedByVersion parse cmp s =
     (let res = map snd s
      in if 1 < length res \<and> list_ex (\<lambda>m. m_Version m = None) res then go_panic
         else Some (sortGo (\<lambda>a b. machinesByVersion_Less parse cmp a b = Some True) res))"

definition LowestVersion ::
  "(string \<Rightarrow> 'v \<times> go_error option) \<Rightarrow> ('v \<Rightarrow> 'v \<Rightarrow> int) \<Rightarrow> machines \<Rightarrow> string option panics" where
  "LowestVersion parse cmp s =
     (let machines = Machines_Filter s [WithVersion parse]
      in if length machines = 0 then Some None
         else do { sorted \<leftarrow> sortedByVersion parse cmp machines;
                   m \<leftarrow> nth_go sorted 0;
                   Some (m_Version m) })"

definition Machines_New :: machines where
  "Machines_New = []"

text \<open>Values are immutable here, so a deep copy inserts the machines themselves.\<close>

definition Machines_DeepCopy :: "machines \<Rightarrow> machines" where
  "Machines_DeepCopy s = fold (\<lambda>(_, m) result. Machines_Insert result [Some m]) s []"

definition ConditionGetters :: "machines \<Rightarrow> machine list" where
  "ConditionGetters s = map snd s"

section \<open>Lemmas\<close>

text \<open>Collections as their operations build them: every machine under its own name, once.\<close>

definition machines_wf :: "machines \<Rightarrow> bool" where
  "machines_wf s \<longleftrightarrow> gm_wf s \<and> (\<forall>(k, m) \<in> set s. k = m_Name m)"

lemma machines_wf_Nil [simp]: "machines_wf []"
  by (simp add: machines_wf_def)

lemma machines_wf_put: "machines_wf s \<Longrightarrow> machines_wf (gm_put (m_Name m) m s)"
proof -
  have "(k, x) \<in> set (gm_put (m_Name m) m s) \<Longrightarrow> (k, x) \<in> set s \<or> k = m_Name m \<and> x = m" for k x
    by (induction s) (auto split: if_splits)
  then show "machines_wf s \<Longrightarrow> machines_wf (gm_put (m_Name m) m s)"
    unfolding machines_wf_def by (fastforce simp: gm_wf_put)
qed

lemma machines_wf_Insert: "machines_wf s \<Longrightarrow> machines_wf (Machines_Insert s ms)"
  unfolding Machines_Insert_def
  by (induction ms arbitrary: s) (auto simp: machines_wf_put split: option.splits)

lemma insert_one: "Machines_Insert s [Some m] = gm_put (m_Name m) m s"
  by (simp add: Machines_Insert_def)

lemma filtered_fold:
  "fold (\<lambda>m ss. if f m then Machines_Insert ss [Some m] else ss) xs s = fold (\<lambda>m ss. gm_put (m_Name m) m ss) (filter f xs) s"
  by (induction xs arbitrary: s) (simp_all add: insert_one)

lemma Machines_Filter_filter:
  assumes "machines_wf s"
  shows "Machines_Filter s fs = filter (\<lambda>e. filterAnd fs (snd e)) s"
proof -
  from assms have k: "\<forall>(k, m) \<in> set s. k = m_Name m" and "distinct (map fst s)"
    by (simp_all add: machines_wf_def gm_wf_def)
  then have "distinct (map m_Name (map snd s))" by (intro distinct_keys_snd)
  then have "distinct (map m_Name (filter (filterAnd fs) (map snd s)))" by (rule distinct_map_filter)
  then have "Machines_Filter s fs = map (\<lambda>m. (m_Name m, m)) (filter (filterAnd fs) (map snd s))"
    unfolding Machines_Filter_def newFilteredMachineCollection_def Machines_UnsortedList_def filtered_fold
    by (subst fold_insert_distinct) auto
  also have "\<dots> = filter (\<lambda>e. filterAnd fs (snd e)) s" using k by (rule map_key_filter_snd)
  finally show ?thesis .
qed

text \<open>
  A collection and its difference with another are well formed; the difference has exactly the
  machines whose names are not in the other.
\<close>

lemma Machines_Difference_spec:
  assumes "machines_wf s"
  shows "machines_wf (Machines_Difference s other)"
    and "gm_get (Machines_Difference s other) k = (if gm_get other k = None then gm_get s k else None)"
proof -
  have eq: "Machines_Difference s other = filter (\<lambda>e. gm_get other (m_Name (snd e)) = None) s"
    by (simp add: Machines_Difference_def Machines_Filter_filter [OF assms] filterAnd_def)
  show "machines_wf (Machines_Difference s other)" using assms by (auto simp: eq machines_wf_def)
  have "gm_get s k = Some m \<Longrightarrow> m_Name m = k" for m
    using assms by (auto simp: machines_wf_def dest!: map_of_SomeD)
  with assms show "gm_get (Machines_Difference s other) k = (if gm_get other k = None then gm_get s k else None)"
    by (auto simp: eq gm_get_filter machines_wf_def split: option.splits)
qed

lemma DeepCopy_same:
  assumes "machines_wf s"
  shows "Machines_DeepCopy s = s"
proof -
  have "Machines_DeepCopy s = fold (\<lambda>m ss. gm_put (m_Name m) m ss) (map snd s) []"
    unfolding Machines_DeepCopy_def insert_one fold_map by (rule fold_cong) auto
  moreover from assms have "distinct (map m_Name (map snd s))"
    by (intro distinct_keys_snd) (simp_all add: machines_wf_def gm_wf_def)
  ultimately have "Machines_DeepCopy s = map (\<lambda>m. (m_Name m, m)) (map snd s)"
    by (simp add: fold_insert_distinct [where key = m_Name])
  then show ?thesis using assms by (simp add: wf_map_key_snd machines_wf_def del: map_map)
qed

section \<open>The order of versions\<close>

text \<open>
  The comparison agrees with a linear order of the versions (the documented order of semantic
  versions, as long as build tags are comparable).
\<close>

locale version_order =
  fixes parse :: "string \<Rightarrow> 'v \<times> go_error option"
    and cmp :: "'v \<Rightarrow> 'v \<Rightarrow> int"
    and rank :: "'v \<Rightarrow> 'k :: linorder"
  assumes less: "cmp a b = -1 \<longleftrightarrow> rank a < rank b"
    and same: "cmp a b = 0 \<longleftrightarrow> rank a = rank b"
begin

definition versionKey :: "machine \<Rightarrow> 'k \<times> string" where
  "versionKey m = (rank (fst (parse (the (m_Version m)))), m_Name m)"

lemma Less_key:
  "m_Version a \<noteq> None \<Longrightarrow> m_Version b \<noteq> None \<Longrightarrow>
     machinesByVersion_Less parse cmp a b = Some (versionKey a < versionKey b)"
  by (auto simp: machinesByVersion_Less_def versionKey_def less_prod_def' less same Let_def)

lemma insertGo_versions:
  assumes "\<forall>m \<in> set (x # ys). m_Version m \<noteq> None"
  shows "insertGo (\<lambda>a b. machinesByVersion_Less parse cmp a b = Some True) x ys = insort_key versionKey x ys"
  using assms by (induction ys) (auto simp: Less_key not_le)

lemma sortGo_versions:
  "\<forall>m \<in> set xs. m_Version m \<noteq> None \<Longrightarrow>
     sortGo (\<lambda>a b. machinesByVersion_Less parse cmp a b = Some True) xs = sort_key versionKey xs"
proof (induction xs)
  case Nil
  then show ?case by (simp add: sortGo_def)
next
  case (Cons x xs)
  then have "sortGo (\<lambda>a b. machinesByVersion_Less parse cmp a b = Some True) xs = sort_key versionKey xs" by simp
  with Cons.prems show ?case
    by (simp add: sortGo_def insertGo_versions)
qed

text \<open>
  The lowest version: none when no machine has a version that parses, otherwise the version of a
  machine with one, and no machine with one has a lower version. It never panics.
\<close>

lemma LowestVersion_spec:
  assumes wf: "machines_wf s"
  shows "\<exists>r. LowestVersion parse cmp s = Some r \<and>
    (case r of
       None \<Rightarrow> \<forall>m \<in> snd ` set s. \<not> WithVersion parse m
     | Some v \<Rightarrow> \<exists>m \<in> snd ` set s. m_Version m = Some v \<and> WithVersion parse m \<and>
         (\<forall>m' \<in> snd ` set s. \<forall>v'. WithVersion parse m' \<and> m_Version m' = Some v' \<longrightarrow>
            \<not> rank (fst (parse v')) < rank (fst (parse v))))"
proof -
  let ?ms = "filter (\<lambda>e. WithVersion parse (snd e)) s"
  have flt: "Machines_Filter s [WithVersion parse] = ?ms"
    by (simp add: Machines_Filter_filter [OF wf] filterAnd_def)
  have some: "\<forall>m \<in> set (map snd ?ms). m_Version m \<noteq> None"
    by (auto simp: WithVersion_def split: option.splits)
  show ?thesis
  proof (cases "?ms = []")
    case True
    then show ?thesis by (auto simp: LowestVersion_def flt filter_empty_conv)
  next
    case False
    let ?xs = "sort_key versionKey (map snd ?ms)"
    from False have ne: "?xs \<noteq> []" by (metis length_0_conv length_map length_sort)
    then obtain m ys where xs: "?xs = m # ys" by (cases ?xs) auto
    have st: "set ?xs = set (map snd ?ms)" by simp
    have srt: "sorted (map versionKey ?xs)" by simp
    from st xs have m: "m \<in> set (map snd ?ms)" by auto
    with some have "m_Version m \<noteq> None" by blast
    then obtain v where v: "m_Version m = Some v" by blast
    have min: "versionKey m \<le> versionKey m'" if "m' \<in> set (map snd ?ms)" for m'
      using that st srt unfolding xs by (metis (no_types, lifting) list.simps(9) set_ConsD sorted_simps(2) image_eqI image_set order_refl)
    have "sortedByVersion parse cmp ?ms = Some ?xs"
      using some by (auto simp: sortedByVersion_def Let_def list_ex_iff sortGo_versions [OF some])
    then have run: "LowestVersion parse cmp s = Some (Some v)"
      using False v by (simp add: LowestVersion_def flt xs nth_go_def)
    have low: "\<not> rank (fst (parse v')) < rank (fst (parse v))"
      if "m' \<in> snd ` set s" "WithVersion parse m'" "m_Version m' = Some v'" for m' v'
    proof -
      have "m' \<in> set (map snd ?ms)" using that by auto
      from min [OF this] show ?thesis using that(3) v by (auto simp: versionKey_def less_eq_prod_def)
    qed
    from m have "m \<in> snd ` set s" "WithVersion parse m" by auto
    with run v low show ?thesis by (intro exI [of _ "Some v"]) auto
  qed
qed

end

section \<open>Release versions\<close>

text \<open>
  The versions without pre-release and build tags, \<^verbatim>\<open>v1.28.3\<close> or \<^verbatim>\<open>1.28.3\<close>, ordered by their
  three numbers.
\<close>

datatype release = Release (major: nat) (minor: nat) (patch: nat)

instantiation release :: linorder
begin

definition less_eq_release :: "release \<Rightarrow> release \<Rightarrow> bool" where
  "less_eq_release a b \<longleftrightarrow> (major a, minor a, patch a) \<le> (major b, minor b, patch b)"

definition less_release :: "release \<Rightarrow> release \<Rightarrow> bool" where
  "less_release a b \<longleftrightarrow> (major a, minor a, patch a) < (major b, minor b, patch b)"

instance
proof
  fix a b c :: release
  show "a < b \<longleftrightarrow> a \<le> b \<and> \<not> b \<le> a" by (auto simp: less_release_def less_eq_release_def)
  show "a \<le> a" by (simp add: less_eq_release_def)
  show "a \<le> b \<Longrightarrow> b \<le> c \<Longrightarrow> a \<le> c" by (auto simp: less_eq_release_def)
  show "a \<le> b \<Longrightarrow> b \<le> a \<Longrightarrow> a = b" by (cases a; cases b) (auto simp: less_eq_release_def)
  show "a \<le> b \<or> b \<le> a" by (auto simp: less_eq_release_def)
qed

end

fun digitValue :: "char \<Rightarrow> nat option" where
  "digitValue c = (let n = of_char c in if 48 \<le> n \<and> n \<le> 57 then Some (n - 48) else None)"

fun numbers :: "nat option \<Rightarrow> string \<Rightarrow> nat list option" where
  "numbers acc [] = map_option (\<lambda>n. [n]) acc"
| "numbers acc (c # s) =
     (if c = CHR ''.'' then do { n \<leftarrow> acc; ns \<leftarrow> numbers None s; Some (n # ns) }
      else do { d \<leftarrow> digitValue c; numbers (Some (10 * (case acc of None \<Rightarrow> 0 | Some n \<Rightarrow> n) + d)) s })"

definition release_parse :: "string \<Rightarrow> release \<times> go_error option" where
  "release_parse s =
     (case numbers None (if prefix ''v'' s then drop 1 s else s) of
        Some [a, b, c] \<Rightarrow> (Release a b c, None)
      | _ \<Rightarrow> (Release 0 0 0, Some (ErrMsg ''No Major.Minor.Patch elements found'')))"

definition release_cmp :: "release \<Rightarrow> release \<Rightarrow> int" where
  "release_cmp a b = (if a < b then -1 else if a = b then 0 else 1)"

interpretation release: version_order release_parse release_cmp "\<lambda>v. v"
  by unfold_locales (auto simp: release_cmp_def)

definition wit_machine :: "string \<Rightarrow> string option \<Rightarrow> machine" where
  "wit_machine name version =
     (mc_Machine wit_ctx)\<lparr>m_meta := (m_meta (mc_Machine wit_ctx))\<lparr>om_Name := name\<rparr>, m_Version := version\<rparr>"

definition wit_machines :: machines where
  "wit_machines = FromMachines [Some (wit_machine ''a'' (Some ''v1.28.10'')), None, Some (wit_machine ''b'' (Some ''1.28.9'')),
     Some (wit_machine ''c'' None), Some (wit_machine ''d'' (Some ''latest''))]"

text \<open>
  The lowest version is found among the machines whose version parses; other machines do
  not count, and the search never panics.
\<close>

theorem lowest_version_release:
  assumes "machines_wf s"
  shows "\<exists>r. LowestVersion release_parse release_cmp s = Some r \<and>
    (case r of
       None \<Rightarrow> \<forall>m \<in> snd ` set s. \<not> WithVersion release_parse m
     | Some v \<Rightarrow> \<exists>m \<in> snd ` set s. m_Version m = Some v \<and> WithVersion release_parse m \<and>
         (\<forall>m' \<in> snd ` set s. \<forall>v'. WithVersion release_parse m' \<and> m_Version m' = Some v' \<longrightarrow>
            \<not> fst (release_parse v') < fst (release_parse v)))"
  using release.LowestVersion_spec [OF assms] .

theorem lowest_version_release_witness:
  "machines_wf wit_machines \<and> LowestVersion release_parse release_cmp wit_machines = Some (Some ''1.28.9'')"
proof -
  have wf: "machines_wf wit_machines"
    unfolding wit_machines_def FromMachines_def by (intro machines_wf_Insert machines_wf_Nil)
  have "LowestVersion release_parse release_cmp wit_machines = Some (Some ''1.28.9'')" by code_simp
  with wf lowest_version_release [OF wf] show ?thesis by simp
qed

end
