(* ===== verification/Yaml_Shape.thy ===== *)
theory Yaml_Shape
  imports Cloud_Init
begin

text \<open>
  Typing of the cloud-init mutators: what the YAML parser guarantees of a tree, that a mapping
  has as many keys as values all the way down, is kept by every rewriting of
  \<^verbatim>\<open>controllers/elfmachine_controller_cloudinit.go\<close>, and no node changes its kind.
\<close>

section \<open>Lemmas\<close>

named_theorems shape \<open>the operations on nodes keep well-formed trees\<close>

lemma wf_leaf [shape]:
  "yaml_wf (newStringYAMLNode s)" "yaml_wf (YNode k t v [] r)"
  by (simp_all add: newStringYAMLNode_def)

lemma wf_setTagValue [shape]: "yaml_wf n \<Longrightarrow> yaml_wf (setTagValue t v n)"
  by (simp add: yaml_wf_iff [of n] yaml_wf_iff [of "setTagValue t v n"])

lemma wf_append [shape]: "yaml_wf n \<Longrightarrow> yaml_wf v \<Longrightarrow> yaml_wf (appendYAMLMapValue n key v)"
  by (simp add: yaml_wf_iff [of n] appendYAMLMapValue_def
      yaml_wf_iff [of "setContent (Content n @ [newStringYAMLNode key, v]) n"] shape)

lemma pairStore_all: "list_all P cs \<Longrightarrow> P x \<Longrightarrow> list_all P (pairStore key x cs)"
  by (induction key x cs rule: pairStore.induct) auto

lemma wf_store [shape]: "yaml_wf n \<Longrightarrow> yaml_wf x \<Longrightarrow> yaml_wf (storeYAMLMapValue key x n)"
  by (simp add: yaml_wf_iff [of n] storeYAMLMapValue_def
      yaml_wf_iff [of "setContent (pairStore key x (Content n)) n"] pairStore_all)

lemma wf_setContent [shape]: "Kind n \<noteq> MappingNode \<Longrightarrow> list_all yaml_wf cs \<Longrightarrow> yaml_wf (setContent cs n)"
  by (simp add: yaml_wf_iff [of "setContent cs n"])

lemma wf_Content: "yaml_wf n \<Longrightarrow> list_all yaml_wf (Content n)"
  by (simp add: yaml_wf_iff [of n])

lemma wf_upsertString [shape]: "yaml_wf n \<Longrightarrow> yaml_wf (snd (upsertYAMLMapString n key value))"
  by (auto simp: upsertYAMLMapString_def intro!: shape dest: wf_find split: option.splits)

lemma kind_upsertString [simp]: "Kind (snd (upsertYAMLMapString n key value)) = Kind n"
  by (simp add: upsertYAMLMapString_def split: option.splits)

lemma wf_upsertNamedItem:
  "upsertNamedItem items name value = Some (changed, items') \<Longrightarrow> list_all yaml_wf items \<Longrightarrow> list_all yaml_wf items'"
  by (induction items arbitrary: changed items')
    (auto simp: split_def wf_upsertString Let_def split: if_splits option.splits)

lemma wf_upsertSequence [shape]:
  "yaml_wf n \<Longrightarrow> Kind n \<noteq> MappingNode \<Longrightarrow> yaml_wf (snd (upsertNamedValueSequenceItem n name value))"
  by (auto simp: upsertNamedValueSequenceItem_def newNamedValueMappingNode_def wf_Content
      intro!: shape dest: wf_upsertNamedItem split: option.splits)

lemma kind_upsertSequence [simp]: "Kind (snd (upsertNamedValueSequenceItem n name value)) = Kind n"
  by (simp add: upsertNamedValueSequenceItem_def split: option.splits)

definition shaped :: "yamlNode \<Rightarrow> yamlNode \<Rightarrow> bool" where
  "shaped n n' \<longleftrightarrow> yaml_wf n' \<and> Kind n' = Kind n"

lemma kubelet_shaped:
  assumes "ensureKubeletProviderID root (Some n) = Some (changed, n')" "yaml_wf n"
  shows "\<exists>m. n' = Some m \<and> shaped n m"
proof (cases "findYAMLMapValue (Some n) ''kubeletExtraArgs''")
  case None
  with assms show ?thesis
    by (auto simp: ensureKubeletProviderID_def shaped_def Let_def split_def intro!: shape split: if_splits)
next
  case (Some args)
  with assms wf_find [OF assms(2) Some] show ?thesis
    by (auto simp: ensureKubeletProviderID_def shaped_def Let_def split_def intro!: shape split: if_splits)
qed

lemma registration_shaped:
  assumes "ensureKubeadmNodeRegistration root = Some (changed, root')" "yaml_wf root"
  shows "shaped root root'"
proof -
  obtain nr root1 where ens: "ensureYAMLMappingValue root ''nodeRegistration'' = (nr, root1)" by (rule prod.exhaust)
  have root1: "shaped root root1" and nr: "nr = Some n \<Longrightarrow> yaml_wf n" for n
    using ens assms(2) by (auto simp: ensureYAMLMappingValue_def shaped_def Let_def intro!: shape dest: wf_find
        split: if_splits option.splits)
  from assms(1) ens obtain nr' where k: "ensureKubeletProviderID root1 nr = Some (changed, nr')"
    and root': "root' = (case nr' of None \<Rightarrow> root1 | Some n \<Rightarrow> storeYAMLMapValue ''nodeRegistration'' n root1)"
    by (auto simp: ensureKubeadmNodeRegistration_def bind_eq_Some_conv)
  show ?thesis
  proof (cases nr)
    case None
    with k have "nr' = None"
      by (auto simp: ensureKubeletProviderID_def findYAMLMapValue_def Let_def bind_eq_Some_conv split: if_splits)
    with root' root1 show ?thesis by simp
  next
    case (Some n)
    with kubelet_shaped [of root1 n changed nr'] k nr obtain m where "nr' = Some m" "shaped n m" by auto
    with root' root1 show ?thesis by (auto simp: shaped_def intro!: shape)
  qed
qed

lemma documents_shaped:
  "ensureKubeadmNodeRegistrationDocuments ds = Some (changed, ds') \<Longrightarrow> list_all yaml_wf ds \<Longrightarrow> list_all2 shaped ds ds'"
  by (induction ds arbitrary: changed ds')
    (auto simp: bind_eq_Some_conv split_def shaped_def registration_shaped [unfolded shaped_def] split: if_splits)

lemma content_shaped:
  "ensureKubeadmConfigContent Y n = Some (Inr (changed, n')) \<Longrightarrow> yaml_wf n \<Longrightarrow> shaped n n'"
  by (auto simp: ensureKubeadmConfigContent_def shaped_def Let_def split_def bind_eq_Some_conv intro!: shape
      split: if_splits option.splits sum.splits)

lemma case_Inr: "(case y of Inl e \<Rightarrow> Inl (f e) | Inr p \<Rightarrow> h p) = Inr r \<longleftrightarrow> (\<exists>p. y = Inr p \<and> h p = Inr r)"
  by (cases y) auto

lemma case_SomeInr:
  "(case y of Inl e \<Rightarrow> Some (Inl (f e)) | Inr p \<Rightarrow> h p) = Some (Inr r) \<longleftrightarrow> (\<exists>p. y = Inr p \<and> h p = Some (Inr r))"
  by (cases y) auto

lemma writeFile_shaped:
  "ensureWriteFile Y item = Some (Inr (changed, item')) \<Longrightarrow> yaml_wf item \<Longrightarrow> shaped item item'"
  by (auto simp: ensureWriteFile_def shaped_def bind_eq_Some_conv case_Inr content_shaped [unfolded shaped_def] intro!: shape
      dest: wf_find split: if_splits option.splits)

lemma writeFiles_shaped:
  "ensureWriteFiles Y items = Some (Inr (changed, items')) \<Longrightarrow> list_all yaml_wf items \<Longrightarrow> list_all yaml_wf items'"
proof (induction items arbitrary: changed items')
  case (Cons item items)
  then obtain c i c' is' where "ensureWriteFile Y item = Some (Inr (c, i))" "ensureWriteFiles Y items = Some (Inr (c', is'))"
    and "items' = i # is'"
    by (auto simp: bind_eq_Some_conv case_Inr [where f = "\<lambda>e. e"] case_SomeInr [where f = "\<lambda>e. e"])
  with Cons writeFile_shaped show ?case by (fastforce simp: shaped_def)
qed simp

lemma inWriteFiles_shaped:
  "ensureKubeadmConfigInWriteFiles Y root = Some (Inr (changed, root')) \<Longrightarrow> yaml_wf root \<Longrightarrow> shaped root root'"
  by (auto simp: ensureKubeadmConfigInWriteFiles_def shaped_def bind_eq_Some_conv case_Inr writeFiles_shaped wf_Content
      intro!: shape dest: wf_find split: if_splits option.splits)

lemma hostname_shaped:
  assumes "ensureHostnameCommandsInRunCmd root hostName = Some (changed, root')" "yaml_wf root"
    and "\<And>r. findYAMLMapValue (Some root) ''runcmd'' = Some r \<Longrightarrow> Kind r \<noteq> MappingNode"
  shows "shaped root root'"
proof -
  have "list_all yaml_wf (Content r)" if "findYAMLMapValue (Some root) ''runcmd'' = Some r" for r
    using wf_find [OF assms(2) that] by (rule wf_Content)
  with assms show ?thesis
    by (auto simp: ensureHostnameCommandsInRunCmd_def shaped_def bind_eq_Some_conv newScalarNodes_def wf_leaf
        intro!: wf_store wf_setContent simp: list_all_iff split: if_splits)
qed

section \<open>Properties\<close>

text \<open>
  Property C36. The mutation of the bootstrap data keeps the type of the tree: from a well-formed
  cloud-config whose \<^verbatim>\<open>runcmd\<close> is not a mapping, the host name commands and then the rewriting
  of the kubeadm files give a well-formed tree of the same kind; and every kubeadm document
  rewritten on the way stays well formed and of its kind, in its place.
\<close>

theorem mutation_keeps_yaml_shape:
  assumes "yaml_wf root"
    and "\<And>r. findYAMLMapValue (Some root) ''runcmd'' = Some r \<Longrightarrow> Kind r \<noteq> MappingNode"
    and "ensureHostnameCommandsInRunCmd root hostName = Some (changed1, root1)"
    and "ensureKubeadmConfigInWriteFiles Y root1 = Some (Inr (changed2, root2))"
    and "list_all yaml_wf docs" "ensureKubeadmNodeRegistrationDocuments docs = Some (changed3, docs')"
  shows "yaml_wf root2 \<and> Kind root2 = Kind root \<and> list_all yaml_wf docs' \<and> map Kind docs' = map Kind docs"
proof -
  have "shaped root root1" by (rule hostname_shaped [OF assms(3,1,2)])
  then have "shaped root root2" using inWriteFiles_shaped [OF assms(4)] by (simp add: shaped_def)
  moreover have "list_all2 shaped docs docs'" by (rule documents_shaped [OF assms(6,5)])
  then have "list_all yaml_wf docs' \<and> map Kind docs' = map Kind docs"
    by (induction rule: list_all2_induct) (simp_all add: shaped_def)
  ultimately show ?thesis by (simp add: shaped_def)
qed

definition wit_cloud_config :: yamlNode where
  "wit_cloud_config = YNode MappingNode [] []
     [newStringYAMLNode ''runcmd'', YNode SequenceNode [] [] [newStringYAMLNode ''kubeadm join''] [],
      newStringYAMLNode ''write_files'', YNode SequenceNode [] [] [] []] []"

theorem mutation_keeps_yaml_shape_witness:
  "\<exists>root1 root2 docs'. ensureHostnameCommandsInRunCmd wit_cloud_config ''node-1'' = Some (True, root1) \<and>
     ensureKubeadmConfigInWriteFiles \<lparr>yUnmarshal = (\<lambda>_. None), yDecode = (\<lambda>_. ([], False)), yMarshal = (\<lambda>n. Inr (Value n))\<rparr>
       root1 = Some (Inr (False, root2)) \<and> yaml_wf root2 \<and>
     ensureKubeadmNodeRegistrationDocuments [wit_join_doc] = Some (True, docs') \<and> list_all yaml_wf docs'"
proof -
  let ?Y = "\<lparr>yUnmarshal = (\<lambda>_. None), yDecode = (\<lambda>_. ([], False)), yMarshal = (\<lambda>n. Inr (Value n))\<rparr>"
  let ?root1 = "snd (the (ensureHostnameCommandsInRunCmd wit_cloud_config ''node-1''))"
  have "map_option fst (ensureHostnameCommandsInRunCmd wit_cloud_config ''node-1'') = Some True" by code_simp
  then have host: "ensureHostnameCommandsInRunCmd wit_cloud_config ''node-1'' = Some (True, ?root1)" by auto
  have "map_option (map_sum id fst) (ensureKubeadmConfigInWriteFiles ?Y ?root1) = Some (Inr False)" by code_simp
  then obtain root2 where files: "ensureKubeadmConfigInWriteFiles ?Y ?root1 = Some (Inr (False, root2))"
    by (cases "the (ensureKubeadmConfigInWriteFiles ?Y ?root1)") auto
  have doc: "map_option fst (ensureKubeadmNodeRegistrationDocuments [wit_join_doc]) = Some True" by code_simp
  have wf: "yaml_wf wit_cloud_config" "list_all yaml_wf [wit_join_doc]"
    by (simp_all add: wit_cloud_config_def wit_join_doc_def newStringYAMLNode_def)
  have seq: "findYAMLMapValue (Some wit_cloud_config) ''runcmd'' = Some r \<Longrightarrow> Kind r \<noteq> MappingNode" for r
    by (auto simp: wit_cloud_config_def findYAMLMapValue_def)
  from doc obtain docs' where docs: "ensureKubeadmNodeRegistrationDocuments [wit_join_doc] = Some (True, docs')" by auto
  from mutation_keeps_yaml_shape [OF wf(1) seq host files wf(2) docs] host files docs show ?thesis by blast
qed

text \<open>
  The condition is needed: the host name commands are put in front of whatever \<^verbatim>\<open>runcmd\<close> holds;
  three of them make a mapping lose the pairing of its keys and values.
\<close>

theorem runcmd_mapping_breaks_shape:
  assumes "yaml_wf root" "hostName \<noteq> []" "findYAMLMapValue (Some root) ''runcmd'' = Some r" "Kind r = MappingNode"
    and "ensureHostnameCommandsInRunCmd root hostName = Some (changed, root')"
  shows "\<not> yaml_wf root'"
proof
  assume wf: "yaml_wf root'"
  have "findYAMLMapValue (Some root') ''runcmd'' =
      Some (setContent (newScalarNodes (desiredCommands hostName) @ Content r) r)"
    using assms by (auto simp: ensureHostnameCommandsInRunCmd_def find_store)
  from wf_isMap [OF wf_find [OF wf this]] wf_isMap [OF wf_find [OF assms(1,3)]] assms(4)
  show False by (simp add: isMap_def newScalarNodes_def desiredCommands_def)
qed

end
