(* ===== verification/Elf_Cluster.thy ===== *)
theory Elf_Cluster
  imports Elf_Machine
begin

text \<open>
  \<^verbatim>\<open>controllers/elfcluster_controller.go\<close>: the ElfCluster reconciler with its deletion of
  placement groups and labels, the daily clean-up of orphan labels and the failure domains.
\<close>

section \<open>Context and state\<close>

text \<open>\<^verbatim>\<open>ClusterContext\<close>; the ElfCluster it points to is part of the state.\<close>

record clusterContext =
  cc_Cluster :: cluster
  cc_Now :: int
  cc_VMServiceNil :: bool

record ('w, 'c) cst =
  elfCluster :: elfCluster
  cworld :: 'w
  cglob :: "'c gstate"
  ccalls :: "towerCall list"

definition cquery :: "('w, 'a) call \<Rightarrow> ('w, 'c) cst \<Rightarrow> (go_error + 'a) \<times> ('w, 'c) cst" where
  "cquery f s = (let (r, w) = f (cworld s) in (r, s\<lparr>cworld := w\<rparr>))"

definition crequest :: "towerCall \<Rightarrow> ('w, 'a) call \<Rightarrow> ('w, 'c) cst \<Rightarrow> (go_error + 'a) \<times> ('w, 'c) cst" where
  "crequest call f s = (let (r, w) = f (cworld s) in (r, s\<lparr>cworld := w, ccalls := ccalls s @ [call]\<rparr>))"

definition updCluster :: "(elfCluster \<Rightarrow> elfCluster) \<Rightarrow> ('w, 'c) cst \<Rightarrow> ('w, 'c) cst" where
  "updCluster f s = s\<lparr>elfCluster := f (elfCluster s)\<rparr>"

definition ecMarkFalse ::
  "('w, 'c) env \<Rightarrow> clusterContext \<Rightarrow> string \<Rightarrow> string \<Rightarrow> cond_severity \<Rightarrow> string \<Rightarrow> ('w, 'c) cst \<Rightarrow> ('w, 'c) cst" where
  "ecMarkFalse X c t rs sev msg =
     updCluster (\<lambda>e. e\<lparr>ec_Conditions := condMarkFalse (e_lib X) (cc_Now c) (ec_Conditions e) t rs sev msg\<rparr>)"

definition ecMarkTrue :: "('w, 'c) env \<Rightarrow> clusterContext \<Rightarrow> string \<Rightarrow> ('w, 'c) cst \<Rightarrow> ('w, 'c) cst" where
  "ecMarkTrue X c t = updCluster (\<lambda>e. e\<lparr>ec_Conditions := condMarkTrue (e_lib X) (cc_Now c) (ec_Conditions e) t\<rparr>)"

lemma cquery_eq: "cquery f s = (fst (f (cworld s)), s\<lparr>cworld := snd (f (cworld s))\<rparr>)"
  by (simp add: cquery_def split_def Let_def)

lemma crequest_eq:
  "crequest call f s = (fst (f (cworld s)), s\<lparr>cworld := snd (f (cworld s)), ccalls := ccalls s @ [call]\<rparr>)"
  by (simp add: crequest_def split_def Let_def)

section \<open>Helpers\<close>

text \<open>\<^verbatim>\<open>GetOwnerCluster\<close>: the first owner of kind Cluster in the Cluster API group.\<close>

fun ownerClusterName :: "lib \<Rightarrow> (string \<times> string \<times> string) list \<Rightarrow> go_error + string option" where
  "ownerClusterName L [] = Inr None"
| "ownerClusterName L ((v, kind, name) # os) =
     (if kind \<noteq> ''Cluster'' then ownerClusterName L os
      else
        (case parseGroupVersion L v of
           Inl e \<Rightarrow> Inl e
         | Inr grp \<Rightarrow> if grp = clusterv1_Group then Inr (Some name) else ownerClusterName L os))"

definition GetOwnerCluster ::
  "('w, 'c) env \<Rightarrow> objectMeta \<Rightarrow> ('w, 'c) cst \<Rightarrow> (go_error + cluster option) \<times> ('w, 'c) cst" where
  "GetOwnerCluster X obj s =
     (case ownerClusterName (e_lib X) (om_OwnerReferences obj) of
        Inl e \<Rightarrow> (Inl e, s)
      | Inr None \<Rightarrow> (Inr None, s)
      | Inr (Some name) \<Rightarrow>
          (case cquery (K_GetCluster (e_k8s X) (om_Namespace obj) name) s of
             (Inl err, s) \<Rightarrow> (Inl (ErrWrapf (''failed to get Cluster/'' @ name) err), s)
           | (Inr cl, s) \<Rightarrow> (Inr (Some cl), s)))"

definition GetElfMachinesInCluster ::
  "('w, 'c) env \<Rightarrow> string \<Rightarrow> string \<Rightarrow> ('w, 'c) cst \<Rightarrow> (go_error + elfMachine list) \<times> ('w, 'c) cst" where
  "GetElfMachinesInCluster X namespace clusterName s =
     cquery (K_ListElfMachines (e_k8s X) namespace [(ClusterNameLabel, clusterName)]) s"

definition GetKCPForCluster ::
  "('w, 'c) env \<Rightarrow> string \<Rightarrow> string \<Rightarrow> ('w, 'c) cst \<Rightarrow> (go_error + kcp) \<times> ('w, 'c) cst" where
  "GetKCPForCluster X namespace name s =
     (case cquery (K_ListKCPs (e_k8s X) namespace [(ClusterNameLabel, name)]) s of
        (Inl err, s) \<Rightarrow> (Inl err, s)
      | (Inr [], s) \<Rightarrow> (Inl (ErrApiNotFound name), s)
      | (Inr (k # ks), s) \<Rightarrow> (Inr k, s))"

section \<open>Deletion\<close>

definition reconcileDeleteVMPlacementGroups ::
  "('w, 'c) env \<Rightarrow> clusterContext \<Rightarrow> ('w, 'c) cst \<Rightarrow> ((bool \<times> go_error option) \<times> ('w, 'c) cst) panics" where
  "reconcileDeleteVMPlacementGroups X c s =
     (let placementGroupPrefix = GetVMPlacementGroupNamePrefix X (cc_Cluster c)
      in if cc_VMServiceNil c then go_panic
         else
           (case crequest (CallDeletePGsByPrefix placementGroupPrefix)
                   (Svc_DeleteVMPlacementGroupsByNamePrefix (e_svc X) placementGroupPrefix) s of
              (Inl err, s) \<Rightarrow> Some ((False, Some err), s)
            | (Inr pgNames, s) \<Rightarrow>
                if length pgNames > 0
                then Some ((False, None), s\<lparr>cglob := delPGCaches (e_cache X) pgNames (cglob s)\<rparr>)
                else Some ((True, None), s)))"

definition reconcileDeleteLabel ::
  "('w, 'c) env \<Rightarrow> clusterContext \<Rightarrow> string \<Rightarrow> string \<Rightarrow> bool \<Rightarrow> ('w, 'c) cst \<Rightarrow> (go_error option \<times> ('w, 'c) cst) panics" where
  "reconcileDeleteLabel X c key value strict s =
     (if cc_VMServiceNil c then go_panic
      else
        (case crequest (CallDeleteLabel key value strict) (Svc_DeleteLabel (e_svc X) key value strict) s of
           (Inl err, s) \<Rightarrow> Some (Some err, s)
         | (Inr labelID, s) \<Rightarrow> Some (None, s)))"

text \<open>Errors of the four deletions are logged only.\<close>

definition reconcileDeleteLabels ::
  "('w, 'c) env \<Rightarrow> clusterContext \<Rightarrow> ('w, 'c) cst \<Rightarrow> ('w, 'c) cst panics" where
  "reconcileDeleteLabels X c s = do {
     (_, s) \<leftarrow> reconcileDeleteLabel X c (GetVMLabelClusterName X) (om_Name (ec_meta (elfCluster s))) True s;
     (_, s) \<leftarrow> reconcileDeleteLabel X c (GetVMLabelVIP X) (ec_EndpointHost (elfCluster s)) False s;
     (_, s) \<leftarrow> reconcileDeleteLabel X c (GetVMLabelNamespace X) (om_Namespace (ec_meta (elfCluster s))) True s;
     (_, s) \<leftarrow> reconcileDeleteLabel X c (GetVMLabelManaged X) ''true'' True s;
     Some s }"

definition removeClusterFinalizer :: "('w, 'c) env \<Rightarrow> ('w, 'c) cst \<Rightarrow> ('w, 'c) cst" where
  "removeClusterFinalizer X =
     updCluster (\<lambda>e. e\<lparr>ec_meta := (ec_meta e)\<lparr>om_Finalizers := finRemove (e_lib X) (om_Finalizers (ec_meta e)) ClusterFinalizer\<rparr>\<rparr>)"

definition cluster_reconcileDelete ::
  "('w, 'c) env \<Rightarrow> clusterContext \<Rightarrow> ('w, 'c) cst \<Rightarrow> ((reconcileResult \<times> go_error option) \<times> ('w, 'c) cst) panics" where
  "cluster_reconcileDelete X c s =
     (let e = ec_meta (elfCluster s) in
      case GetElfMachinesInCluster X (om_Namespace e) (om_Name e) s of
        (Inl err, s) \<Rightarrow>
          Some ((noRequeue, Some (ErrWrapf (''Unable to list ElfMachines part of ElfCluster '' @ klogKObj e) err)), s)
      | (Inr elfMachines, s) \<Rightarrow>
          if length elfMachines > 0 then Some ((requeue (cfg_DefaultRequeueTimeout (e_cfg X)), None), s)
          else if HasForceDeleteCluster (elfCluster s) then Some ((noRequeue, None), removeClusterFinalizer X s)
          else do {
            ((ok, err), s) \<leftarrow> reconcileDeleteVMPlacementGroups X c s;
            case err of
              Some e \<Rightarrow> Some ((noRequeue, Some (ErrWrapf ''failed to delete vm placement groups'' e)), s)
            | None \<Rightarrow>
                if \<not> ok then Some ((requeue (cfg_DefaultRequeueTimeout (e_cfg X)), None), s)
                else do {
                  s \<leftarrow> reconcileDeleteLabels X c s;
                  Some ((noRequeue, None), removeClusterFinalizer X s) } })"

section \<open>Reconciling a cluster that is not deleted\<close>

definition cleanOrphanLabels ::
  "('w, 'c) env \<Rightarrow> clusterContext \<Rightarrow> ('w, 'c) cst \<Rightarrow> ('w, 'c) cst panics" where
  "cleanOrphanLabels X c s =
     (let tower = Tower_String (ec_Tower (elfCluster s));
          (ok, g) = acquireLockForGCTowerLabels (e_cache X) (cc_Now c) tower (cglob s);
          s = s\<lparr>cglob := g\<rparr>
      in if \<not> ok then Some s
         else if cc_VMServiceNil c then go_panic
         else
           (let keys = [GetVMLabelClusterName X, GetVMLabelVIP X, GetVMLabelNamespace X];
                (r, s) = crequest (CallCleanLabels keys) (Svc_CleanUnusedLabels (e_svc X) keys) s;
                s = (case r of
                       Inl err \<Rightarrow> s
                     | Inr labelIDs \<Rightarrow> s\<lparr>cglob := recordGCTimeForTowerLabels (e_cache X) (cc_Now c) tower (cglob s)\<rparr>)
            in Some (s\<lparr>cglob := releaseLockForForGCTowerLabels (e_cache X) tower (cglob s)\<rparr>)))"

definition reconcileElfCluster :: "elfCluster \<Rightarrow> bool" where
  "reconcileElfCluster e = (ec_ClusterType e \<noteq> [])"

text \<open>\<^verbatim>\<open>APIEndpoint.IsZero\<close>.\<close>

definition endpointIsZero :: "elfCluster \<Rightarrow> bool" where
  "endpointIsZero e = (ec_EndpointHost e = [] \<and> ec_EndpointPort e = 0)"

definition reconcileControlPlaneEndpoint ::
  "('w, 'c) env \<Rightarrow> clusterContext \<Rightarrow> ('w, 'c) cst \<Rightarrow> bool \<times> ('w, 'c) cst" where
  "reconcileControlPlaneEndpoint X c s =
     (if \<not> endpointIsZero (elfCluster s) then (True, ecMarkTrue X c ControlPlaneEndpointReadyCondition s)
      else (False, ecMarkFalse X c ControlPlaneEndpointReadyCondition WaitingForVIPReason SevInfo [] s))"

text \<open>The failure domains of a template: its compute clusters, each open to control plane machines.\<close>

fun expectedFailureDomains :: "cloudFailureDomain list \<Rightarrow> bool gomap \<Rightarrow> bool gomap" where
  "expectedFailureDomains [] m = m"
| "expectedFailureDomains (d # ds) m =
     expectedFailureDomains ds (if fd_ComputeCluster d = [] then m else gm_put (fd_ComputeCluster d) True m)"

definition sameMap :: "'v gomap \<Rightarrow> 'v gomap \<Rightarrow> bool" where
  "sameMap a b = (list_all (\<lambda>(k, v). gm_get b k = gm_get a k) a \<and> list_all (\<lambda>(k, v). gm_get b k = gm_get a k) b)"

definition reconcileFailureDomains ::
  "('w, 'c) env \<Rightarrow> clusterContext \<Rightarrow> ('w, 'c) cst \<Rightarrow> (bool \<times> go_error option) \<times> ('w, 'c) cst" where
  "reconcileFailureDomains X c s =
     (case GetKCPForCluster X (om_Namespace (cl_meta (cc_Cluster c))) (om_Name (cl_meta (cc_Cluster c))) s of
        (Inl err, s) \<Rightarrow> if IsApiNotFound err then ((False, None), s) else ((False, Some err), s)
      | (Inr k, s) \<Rightarrow>
          (case cquery (K_GetElfMachineTemplate (e_k8s X) (om_Namespace (kcp_meta k)) (kcp_infrastructureRefName k)) s of
             (Inl err, s) \<Rightarrow> if IsApiNotFound err then ((False, None), s) else ((False, Some err), s)
           | (Inr elfMachineTemplate, s) \<Rightarrow>
               (let expected = expectedFailureDomains (FailureDomains (emt_Spec elfMachineTemplate)) [];
                    actual = ec_FailureDomains (elfCluster s)
                in ((True, None),
                    if \<not> sameMap expected actual then updCluster (\<lambda>e. e\<lparr>ec_FailureDomains := expected\<rparr>) s else s))))"

definition isAPIServerOnline ::
  "('w, 'c) env \<Rightarrow> clusterContext \<Rightarrow> ('w, 'c) cst \<Rightarrow> bool \<times> ('w, 'c) cst" where
  "isAPIServerOnline X c s =
     (case cquery (K_NewKubeClient (e_k8s X) (cc_Cluster c)) s of
        (Inl err, s) \<Rightarrow> (False, s)
      | (Inr _, s) \<Rightarrow>
          (case cquery (K_ListWorkloadNodes (e_k8s X) (cc_Cluster c)) s of
             (Inl err, s) \<Rightarrow> (False, s)
           | (Inr _, s) \<Rightarrow>
               (let (r, s) = cquery (K_GetCluster (e_k8s X) (om_Namespace (cl_meta (cc_Cluster c)))
                                       (om_Name (cl_meta (cc_Cluster c)))) s
                in (True, s))))"

definition cluster_reconcileNormal ::
  "('w, 'c) env \<Rightarrow> clusterContext \<Rightarrow> ('w, 'c) cst \<Rightarrow> ((reconcileResult \<times> go_error option) \<times> ('w, 'c) cst) panics" where
  "cluster_reconcileNormal X c s =
     (let s = updCluster (\<lambda>e. e\<lparr>ec_meta := (ec_meta e)\<lparr>om_Finalizers := finAdd (e_lib X) (om_Finalizers (ec_meta e)) ClusterFinalizer\<rparr>\<rparr>) s
      in if \<not> reconcileElfCluster (elfCluster s) then Some ((noRequeue, None), s)
         else
           (case reconcileControlPlaneEndpoint X c s of
              (False, s) \<Rightarrow> Some ((noRequeue, None), s)
            | (True, s) \<Rightarrow>
                (case reconcileFailureDomains X c s of
                   ((ok, Some err), s) \<Rightarrow> Some ((noRequeue, Some err), s)
                 | ((False, None), s) \<Rightarrow> Some ((requeue (cfg_DefaultRequeueTimeout (e_cfg X)), None), s)
                 | ((True, None), s) \<Rightarrow>
                     (let s = updCluster (\<lambda>e. e\<lparr>ec_Ready := True\<rparr>) s
                      in if om_DeletionTimestamp (cl_meta (cc_Cluster c)) \<noteq> None then Some ((noRequeue, None), s)
                         else do {
                           s \<leftarrow> cleanOrphanLabels X c s;
                           let (online, s) = isAPIServerOnline X c s;
                           Some ((noRequeue, None), s) }))))"

section \<open>The entry point\<close>

definition cluster_reconcileDeferred ::
  "('w, 'c) env \<Rightarrow> clusterContext \<Rightarrow> reconcileResult \<times> go_error option \<Rightarrow> ('w, 'c) cst \<Rightarrow>
     (reconcileResult \<times> go_error option) \<times> ('w, 'c) cst" where
  "cluster_reconcileDeferred X c r s =
     (let (result, reterr) = r;
          s = updCluster (\<lambda>e. e\<lparr>ec_Conditions := e_setSummary X (cc_Now c) (ec_Conditions e)
                 [ControlPlaneEndpointReadyCondition, TowerAvailableCondition]\<rparr>) s;
          (p, s) = cquery (K_PatchElfCluster (e_k8s X) (elfCluster s)) s
      in ((result, case p of Inl err \<Rightarrow> if reterr = None then Some err else reterr | Inr _ \<Rightarrow> reterr), s))"

definition cluster_newVMService ::
  "('w, 'c) env \<Rightarrow> clusterContext \<Rightarrow> ('w, 'c) cst \<Rightarrow> (go_error + clusterContext) \<times> ('w, 'c) cst" where
  "cluster_newVMService X c s =
     (if om_DeletionTimestamp (ec_meta (elfCluster s)) = None \<or> \<not> HasForceDeleteCluster (elfCluster s) then
        (case cquery (K_NewVMService (e_k8s X) (elfCluster s)) s of
           (Inl err, s) \<Rightarrow>
             (Inl err, ecMarkFalse X c TowerAvailableCondition TowerUnreachableReason SevError (errText (e_lib X) err) s)
         | (Inr _, s) \<Rightarrow> (Inr (c\<lparr>cc_VMServiceNil := False\<rparr>), ecMarkTrue X c TowerAvailableCondition s))
      else (Inr c, s))"

definition cluster_reconcileInContext ::
  "('w, 'c) env \<Rightarrow> clusterContext \<Rightarrow> ('w, 'c) cst \<Rightarrow> ((reconcileResult \<times> go_error option) \<times> ('w, 'c) cst) panics" where
  "cluster_reconcileInContext X c s =
     (case cluster_newVMService X c s of
        (Inl err, s) \<Rightarrow> Some ((noRequeue, Some err), s)
      | (Inr c, s) \<Rightarrow> do {
          (r, s) \<leftarrow> (if om_DeletionTimestamp (ec_meta (elfCluster s)) \<noteq> None then cluster_reconcileDelete X c s
                    else cluster_reconcileNormal X c s);
          Some (cluster_reconcileDeferred X c r s) })"

definition cluster_Reconcile ::
  "('w, 'c) env \<Rightarrow> int \<Rightarrow> string \<Rightarrow> string \<Rightarrow> ('w, 'c) cst \<Rightarrow> ((reconcileResult \<times> go_error option) \<times> ('w, 'c) cst) panics" where
  "cluster_Reconcile X now namespace name s =
     (case cquery (K_GetElfCluster (e_k8s X) namespace name) s of
        (Inl err, s) \<Rightarrow> Some ((noRequeue, if IsApiNotFound err then None else Some err), s)
      | (Inr e, s) \<Rightarrow>
          (let s = s\<lparr>elfCluster := e\<rparr> in
           case GetOwnerCluster X (ec_meta e) s of
             (Inl err, s) \<Rightarrow> Some ((noRequeue, Some err), s)
           | (Inr None, s) \<Rightarrow> Some ((noRequeue, None), s)
           | (Inr (Some cl), s) \<Rightarrow>
               if IsPaused cl (ec_meta e) then Some ((noRequeue, None), s)
               else
                 (case cquery (K_NewClusterPatchHelper (e_k8s X) e) s of
                    (Inl err, s) \<Rightarrow> Some ((noRequeue, Some (ErrWrapf ''failed to init patch helper'' err)), s)
                  | (Inr _, s) \<Rightarrow>
                      cluster_reconcileInContext X \<lparr>cc_Cluster = cl, cc_Now = now, cc_VMServiceNil = True\<rparr> s)))"

section \<open>Watches\<close>

text \<open>The request for the ElfCluster of a template, by the first owner of kind Cluster.\<close>

definition elfMachineTemplateToCluster :: "elfMachineTemplate \<Rightarrow> (string \<times> string) list" where
  "elfMachineTemplateToCluster t =
     (case find (\<lambda>(v, kind, name). kind = ''Cluster'') (om_OwnerReferences (emt_meta t)) of
        None \<Rightarrow> []
      | Some (v, kind, clusterName) \<Rightarrow> if clusterName = [] then [] else [(om_Namespace (emt_meta t), clusterName)])"

definition elfMachineTemplateFailureDomainsPredicate :: "elfMachineTemplate \<Rightarrow> elfMachineTemplate \<Rightarrow> bool" where
  "elfMachineTemplateFailureDomainsPredicate old new =
     (FailureDomains (emt_Spec old) \<noteq> FailureDomains (emt_Spec new))"

section \<open>Lemmas\<close>

lemma updCluster_sels [simp]:
  "elfCluster (updCluster f s) = f (elfCluster s)" "ccalls (updCluster f s) = ccalls s"
  "cworld (updCluster f s) = cworld s" "cglob (updCluster f s) = cglob s"
  by (simp_all add: updCluster_def)

lemma ecMark_sels [simp]:
  "ccalls (ecMarkTrue X c t s) = ccalls s" "ccalls (ecMarkFalse X c t rs sev msg s) = ccalls s"
  "ec_meta (elfCluster (ecMarkTrue X c t s)) = ec_meta (elfCluster s)"
  "ec_meta (elfCluster (ecMarkFalse X c t rs sev msg s)) = ec_meta (elfCluster s)"
  "ec_Ready (elfCluster (ecMarkTrue X c t s)) = ec_Ready (elfCluster s)"
  "ec_Ready (elfCluster (ecMarkFalse X c t rs sev msg s)) = ec_Ready (elfCluster s)"
  "ec_FailureDomains (elfCluster (ecMarkTrue X c t s)) = ec_FailureDomains (elfCluster s)"
  "ec_EndpointHost (elfCluster (ecMarkTrue X c t s)) = ec_EndpointHost (elfCluster s)"
  "ec_EndpointPort (elfCluster (ecMarkTrue X c t s)) = ec_EndpointPort (elfCluster s)"
  by (simp_all add: ecMarkTrue_def ecMarkFalse_def)

lemma sameMap_iff: "sameMap a b \<longleftrightarrow> (\<forall>k. gm_get a k = gm_get b k)"
proof
  assume s: "sameMap a b"
  show "\<forall>k. gm_get a k = gm_get b k"
  proof
    fix k
    show "gm_get a k = gm_get b k"
    proof (cases "k \<in> fst ` set a \<or> k \<in> fst ` set b")
      case True
      with s show ?thesis by (auto simp: sameMap_def list_all_iff)
    next
      case False
      then have "gm_get a k = None" "gm_get b k = None" by (simp_all add: map_of_eq_None_iff)
      then show ?thesis by simp
    qed
  qed
qed (auto simp: sameMap_def list_all_iff)

lemma expected_lookup:
  "gm_get (expectedFailureDomains ds m) k =
     (if k \<noteq> [] \<and> k \<in> fd_ComputeCluster ` set ds then Some True else gm_get m k)"
  by (induction ds m rule: expectedFailureDomains.induct) (auto simp: gm_get_put)

text \<open>Deleting labels asks for the four deletions and nothing else.\<close>

lemma deleteLabels_frame:
  "post (reconcileDeleteLabels X c s) (\<lambda>s'. elfCluster s' = elfCluster s \<and>
     ccalls s' = ccalls s @ [CallDeleteLabel (GetVMLabelClusterName X) (om_Name (ec_meta (elfCluster s))) True,
       CallDeleteLabel (GetVMLabelVIP X) (ec_EndpointHost (elfCluster s)) False,
       CallDeleteLabel (GetVMLabelNamespace X) (om_Namespace (ec_meta (elfCluster s))) True,
       CallDeleteLabel (GetVMLabelManaged X) ''true'' True])"
proof -
  have one: "post (reconcileDeleteLabel X c k v strict s1) (\<lambda>(e, s'). elfCluster s' = elfCluster s1 \<and>
      ccalls s' = ccalls s1 @ [CallDeleteLabel k v strict])" for k v strict s1
    unfolding reconcileDeleteLabel_def by (auto simp: post_simps crequest_eq split: sum.splits)
  show ?thesis
    unfolding reconcileDeleteLabels_def by (auto simp: post_simps one [THEN post_spec] intro!: postI)
qed

lemma deletePGs_frame:
  "post (reconcileDeleteVMPlacementGroups X c s) (\<lambda>((ok, err), s'). elfCluster s' = elfCluster s \<and>
     ccalls s' = ccalls s @ [CallDeletePGsByPrefix (GetVMPlacementGroupNamePrefix X (cc_Cluster c))] \<and>
     (ok \<longrightarrow> err = None \<and>
        fst (Svc_DeleteVMPlacementGroupsByNamePrefix (e_svc X) (GetVMPlacementGroupNamePrefix X (cc_Cluster c)) (cworld s)) = Inr []))"
  unfolding reconcileDeleteVMPlacementGroups_def by (auto simp: post_simps crequest_eq Let_def split: sum.splits)

text \<open>The calls of the deletion of a cluster: the placement groups by prefix, then the four labels.\<close>

definition clusterDeletionCalls :: "('w, 'c) env \<Rightarrow> clusterContext \<Rightarrow> elfCluster \<Rightarrow> towerCall list" where
  "clusterDeletionCalls X c e =
     [CallDeletePGsByPrefix (GetVMPlacementGroupNamePrefix X (cc_Cluster c)),
      CallDeleteLabel (GetVMLabelClusterName X) (om_Name (ec_meta e)) True,
      CallDeleteLabel (GetVMLabelVIP X) (ec_EndpointHost e) False,
      CallDeleteLabel (GetVMLabelNamespace X) (om_Namespace (ec_meta e)) True,
      CallDeleteLabel (GetVMLabelManaged X) ''true'' True]"

lemma deleteCluster_frame:
  "post (cluster_reconcileDelete X c s) (\<lambda>(r, s').
     if om_Finalizers (ec_meta (elfCluster s')) = om_Finalizers (ec_meta (elfCluster s)) then True
     else fst (K_ListElfMachines (e_k8s X) (om_Namespace (ec_meta (elfCluster s)))
            [(ClusterNameLabel, om_Name (ec_meta (elfCluster s)))] (cworld s)) = Inr [] \<and>
       (HasForceDeleteCluster (elfCluster s) \<and> ccalls s' = ccalls s \<or>
        fst (Svc_DeleteVMPlacementGroupsByNamePrefix (e_svc X) (GetVMPlacementGroupNamePrefix X (cc_Cluster c))
          (snd (K_ListElfMachines (e_k8s X) (om_Namespace (ec_meta (elfCluster s)))
            [(ClusterNameLabel, om_Name (ec_meta (elfCluster s)))] (cworld s)))) = Inr [] \<and>
        ccalls s' = ccalls s @ clusterDeletionCalls X c (elfCluster s)))"
  unfolding cluster_reconcileDelete_def GetElfMachinesInCluster_def
  by (auto simp: post_simps cquery_eq deletePGs_frame [THEN post_spec] deleteLabels_frame [THEN post_spec]
      removeClusterFinalizer_def clusterDeletionCalls_def Let_def split: sum.splits option.splits intro!: postI)

text \<open>The clean-up of labels, by the outcome of the lock and of Tower's answer.\<close>

lemma clean_cases:
  assumes "cleanOrphanLabels X c s = Some s'"
  shows "elfCluster s' = elfCluster s"
    and "\<not> fst (acquireLockForGCTowerLabels (e_cache X) (cc_Now c) (Tower_String (ec_Tower (elfCluster s))) (cglob s)) \<Longrightarrow>
      ccalls s' = ccalls s"
    and "fst (acquireLockForGCTowerLabels (e_cache X) (cc_Now c) (Tower_String (ec_Tower (elfCluster s))) (cglob s)) \<Longrightarrow>
      ccalls s' = ccalls s @ [CallCleanLabels [GetVMLabelClusterName X, GetVMLabelVIP X, GetVMLabelNamespace X]]"
  using assms by (auto simp: cleanOrphanLabels_def crequest_eq Let_def split_def split: if_splits sum.splits)

lemma gc_keys_differ: "getKeyForGCLabelTime t \<noteq> getKeyForGCLabel t"
proof -
  have "length (getKeyForGCLabelTime t) \<noteq> length (getKeyForGCLabel t)"
    by (simp add: getKeyForGCLabelTime_def getKeyForGCLabel_def)
  then show ?thesis by metis
qed

context limiter_cache
begin

lemma gc_record_get:
  "now \<le> t \<Longrightarrow> cGet C (inMemoryCache (releaseLockForForGCTowerLabels C tower (recordGCTimeForTowerLabels C now tower g))) t k =
     (if k = getKeyForGCLabel tower then None else if k = getKeyForGCLabelTime tower then Some (CVTime now)
      else cGet C (inMemoryCache g) t k)"
  by (simp add: releaseLockForForGCTowerLabels_def recordGCTimeForTowerLabels_def cGet_delete cGet_set not_expired_def)

lemma gc_daily:
  assumes "now \<le> now'"
  shows "fst (acquireLockForGCTowerLabels C now' tower
      (releaseLockForForGCTowerLabels C tower (recordGCTimeForTowerLabels C now tower g))) \<longleftrightarrow> now + 24 * time_Hour \<le> now'"
  using assms by (auto simp: acquireLockForGCTowerLabels_def gc_record_get gc_keys_differ)

lemma gc_released: "cGet C (inMemoryCache (releaseLockForForGCTowerLabels C tower g)) t (getKeyForGCLabel tower) = None"
  by (simp add: releaseLockForForGCTowerLabels_def cGet_delete)

end

text \<open>What the failure domains of a run are taken from.\<close>

definition domainsOfTemplate :: "('w, 'c) env \<Rightarrow> cluster \<Rightarrow> elfCluster \<Rightarrow> bool" where
  "domainsOfTemplate X cl e \<longleftrightarrow> (\<exists>w w' (k :: kcp) ks t.
     fst (K_ListKCPs (e_k8s X) (om_Namespace (cl_meta cl)) [(ClusterNameLabel, om_Name (cl_meta cl))] w) = Inr (k # ks) \<and>
     fst (K_GetElfMachineTemplate (e_k8s X) (om_Namespace (kcp_meta k)) (kcp_infrastructureRefName k) w') = Inr t \<and>
     (\<forall>d. gm_get (ec_FailureDomains e) d =
        (if d \<noteq> [] \<and> d \<in> fd_ComputeCluster ` set (FailureDomains (emt_Spec t)) then Some True else None)))"

lemma domainsI:
  assumes "fst (K_ListKCPs (e_k8s X) (om_Namespace (cl_meta cl)) [(ClusterNameLabel, om_Name (cl_meta cl))] w) = Inr (k # ks)"
    and "fst (K_GetElfMachineTemplate (e_k8s X) (om_Namespace (kcp_meta k)) (kcp_infrastructureRefName k) w') = Inr t"
    and "sameMap (expectedFailureDomains (FailureDomains (emt_Spec t)) []) (ec_FailureDomains e)"
  shows "domainsOfTemplate X cl e"
proof -
  have "\<forall>d. gm_get (ec_FailureDomains e) d =
      (if d \<noteq> [] \<and> d \<in> fd_ComputeCluster ` set (FailureDomains (emt_Spec t)) then Some True else None)"
    using assms(3) by (simp add: sameMap_iff expected_lookup eq_commute [of _ "gm_get (ec_FailureDomains e) _"])
  with assms(1,2) show ?thesis unfolding domainsOfTemplate_def by blast
qed

lemma sameMap_refl [simp]: "sameMap m m"
  by (simp add: sameMap_iff)

lemma domains_frame:
  assumes "reconcileFailureDomains X c s = ((ok, err), s')"
  shows "elfCluster s' = (elfCluster s)\<lparr>ec_FailureDomains := ec_FailureDomains (elfCluster s')\<rparr>"
    and "ok \<Longrightarrow> err = None \<and> domainsOfTemplate X (cc_Cluster c) (elfCluster s')"
  using assms
  by (auto simp: reconcileFailureDomains_def GetKCPForCluster_def cquery_eq Let_def
      split: sum.splits list.splits if_splits intro: domainsI)

lemma online_elfCluster: "elfCluster (snd (isAPIServerOnline X c s)) = elfCluster s"
  by (simp add: isAPIServerOnline_def cquery_eq Let_def split: sum.splits)

section \<open>Properties\<close>

text \<open>
  Property C35. The finalizer of a cluster goes last: a run of the deletion that removes it found
  no ElfMachine of the cluster, and either the cluster is force-deleted and nothing is asked of
  Tower, or Tower, asked right after that listing, had no placement group of the cluster left,
  and then the deletion of the labels of the cluster's name, its endpoint, its namespace and of
  the managed label was asked, in this order. (A label that Tower fails to delete is only logged
  and does not keep the finalizer.)
\<close>

theorem cluster_finalizer_last:
  assumes "cluster_reconcileDelete X c s = Some (r, s')"
    and "om_Finalizers (ec_meta (elfCluster s')) \<noteq> om_Finalizers (ec_meta (elfCluster s))"
  shows "\<exists>w. K_ListElfMachines (e_k8s X) (om_Namespace (ec_meta (elfCluster s)))
      [(ClusterNameLabel, om_Name (ec_meta (elfCluster s)))] (cworld s) = (Inr [], w) \<and>
    (HasForceDeleteCluster (elfCluster s) \<and> ccalls s' = ccalls s \<or>
     fst (Svc_DeleteVMPlacementGroupsByNamePrefix (e_svc X) (GetVMPlacementGroupNamePrefix X (cc_Cluster c)) w) = Inr [] \<and>
     ccalls s' = ccalls s @
       [CallDeletePGsByPrefix (GetVMPlacementGroupNamePrefix X (cc_Cluster c)),
        CallDeleteLabel (GetVMLabelClusterName X) (om_Name (ec_meta (elfCluster s))) True,
        CallDeleteLabel (GetVMLabelVIP X) (ec_EndpointHost (elfCluster s)) False,
        CallDeleteLabel (GetVMLabelNamespace X) (om_Namespace (ec_meta (elfCluster s))) True,
        CallDeleteLabel (GetVMLabelManaged X) ''true'' True])"
  using deleteCluster_frame [THEN postD, OF assms(1)] assms(2)
  by (cases "K_ListElfMachines (e_k8s X) (om_Namespace (ec_meta (elfCluster s)))
      [(ClusterNameLabel, om_Name (ec_meta (elfCluster s)))] (cworld s)") (simp add: clusterDeletionCalls_def)

definition wit_cctx :: clusterContext where
  "wit_cctx = \<lparr>cc_Cluster = mc_Cluster wit_ctx, cc_Now = 0, cc_VMServiceNil = False\<rparr>"

definition wit_cst :: "(unit, cacheVal ttl) cst" where
  "wit_cst = \<lparr>elfCluster = (mc_ElfCluster wit_ctx)\<lparr>ec_meta := (wit_meta ''cluster1'')\<lparr>om_Finalizers := [ClusterFinalizer]\<rparr>\<rparr>,
     cworld = (), cglob = wit_gstate, ccalls = []\<rparr>"

lemma wit_cluster_delete:
  "case cluster_reconcileDelete wit_env wit_cctx wit_cst of
     Some (r, s') \<Rightarrow> om_Finalizers (ec_meta (elfCluster s')) \<noteq> om_Finalizers (ec_meta (elfCluster wit_cst)) \<and> length (ccalls s') = 5
   | None \<Rightarrow> False"
  by code_simp

theorem cluster_finalizer_last_witness:
  "\<exists>r s'. cluster_reconcileDelete wit_env wit_cctx wit_cst = Some (r, s') \<and>
     CallDeleteLabel (GetVMLabelClusterName (wit_env :: (unit, cacheVal ttl) env)) ''cluster1'' True \<in> set (ccalls s')"
proof -
  obtain r s' where r: "cluster_reconcileDelete wit_env wit_cctx wit_cst = Some (r, s')"
    "om_Finalizers (ec_meta (elfCluster s')) \<noteq> om_Finalizers (ec_meta (elfCluster wit_cst))" "length (ccalls s') = 5"
    using wit_cluster_delete by (auto split: option.splits)
  from cluster_finalizer_last [OF r(1,2)] r show ?thesis by (auto simp: wit_cst_def wit_meta_def)
qed

text \<open>
  Orphan labels are cleaned at most once a day: after a clean-up that Tower answered,
  the next run asks for one exactly when 24 hours have passed, and the lock of the clean-up is
  free after the run.
\<close>

theorem labels_cleaned_daily:
  assumes "limiter_cache (e_cache X)" and run: "cleanOrphanLabels X c s = Some s1" and "ccalls s1 \<noteq> ccalls s"
    and ans: "fst (Svc_CleanUnusedLabels (e_svc X) [GetVMLabelClusterName X, GetVMLabelVIP X, GetVMLabelNamespace X] (cworld s)) = Inr ids"
    and "cc_Now c \<le> cc_Now c'" and next': "cleanOrphanLabels X c' s1 = Some s2"
  shows "(ccalls s2 \<noteq> ccalls s1 \<longleftrightarrow> cc_Now c + 24 * time_Hour \<le> cc_Now c') \<and>
    cGet (e_cache X) (inMemoryCache (cglob s1)) t (getKeyForGCLabel (Tower_String (ec_Tower (elfCluster s)))) = None"
proof -
  let ?tower = "Tower_String (ec_Tower (elfCluster s))"
  have ok: "fst (acquireLockForGCTowerLabels (e_cache X) (cc_Now c) ?tower (cglob s))"
    using clean_cases(2) [OF run] assms(3) by blast
  with run ans obtain g where s1: "cglob s1 =
      releaseLockForForGCTowerLabels (e_cache X) ?tower (recordGCTimeForTowerLabels (e_cache X) (cc_Now c) ?tower g)"
    by (auto simp: cleanOrphanLabels_def crequest_eq Let_def split_def split: if_splits)
  have "ccalls s2 \<noteq> ccalls s1 \<longleftrightarrow> fst (acquireLockForGCTowerLabels (e_cache X) (cc_Now c') ?tower (cglob s1))"
    using clean_cases(2,3) [OF next'] clean_cases(1) [OF run] by auto
  then show ?thesis
    using limiter_cache.gc_daily [OF assms(1,5)] limiter_cache.gc_released [OF assms(1)] by (simp add: s1)
qed

definition wit_later :: clusterContext where
  "wit_later = wit_cctx\<lparr>cc_Now := 10 ^ 9\<rparr>"

lemma wit_clean:
  "case cleanOrphanLabels wit_env wit_cctx wit_cst of
     Some s1 \<Rightarrow> ccalls s1 \<noteq> ccalls wit_cst \<and> cleanOrphanLabels wit_env wit_later s1 \<noteq> None | None \<Rightarrow> False"
  by code_simp

theorem labels_cleaned_daily_witness:
  "\<exists>s1 s2. cleanOrphanLabels wit_env wit_cctx wit_cst = Some s1 \<and> cleanOrphanLabels wit_env wit_later s1 = Some s2 \<and>
     ccalls s2 = ccalls s1"
proof -
  obtain s1 s2 where r: "cleanOrphanLabels wit_env wit_cctx wit_cst = Some s1" "ccalls s1 \<noteq> ccalls wit_cst"
    "cleanOrphanLabels wit_env wit_later s1 = Some s2"
    using wit_clean by (auto split: option.splits)
  have "fst (Svc_CleanUnusedLabels (e_svc wit_env) ks ()) = Inr []" for ks by (simp add: wit_svc_def)
  with labels_cleaned_daily [where X = wit_env and s = wit_cst, OF _ r(1,2) _ _ r(3)] r lim.limiter_cache_axioms show ?thesis
    by (auto simp: wit_later_def wit_cctx_def wit_cst_def time_defs)
qed

text \<open>
  Property C37. A cluster becomes ready only with an endpoint and with the failure domains of its
  control plane template: in a run that sets the flag, the control plane endpoint is set, its
  condition is true, and a compute cluster is a failure domain exactly when the template of the
  KubeadmControlPlane names it. The finalizer is present after every run.
\<close>

theorem cluster_ready_with_failure_domains:
  assumes "capi_lib (e_lib X)" and "cluster_reconcileNormal X c s = Some (r, s')"
  shows "finContains (e_lib X) (om_Finalizers (ec_meta (elfCluster s'))) ClusterFinalizer \<and>
    (ec_Ready (elfCluster s') \<longrightarrow> ec_Ready (elfCluster s) \<or>
      (ec_EndpointHost (elfCluster s') \<noteq> [] \<or> ec_EndpointPort (elfCluster s') \<noteq> 0) \<and>
      condIsTrue (e_lib X) (ec_Conditions (elfCluster s')) ControlPlaneEndpointReadyCondition \<and>
      domainsOfTemplate X (cc_Cluster c) (elfCluster s'))"
proof -
  define s0 where "s0 = updCluster (\<lambda>e. e\<lparr>ec_meta := (ec_meta e)
    \<lparr>om_Finalizers := finAdd (e_lib X) (om_Finalizers (ec_meta e)) ClusterFinalizer\<rparr>\<rparr>) s"
  have s0: "finContains (e_lib X) (om_Finalizers (ec_meta (elfCluster s0))) ClusterFinalizer"
    "ec_Ready (elfCluster s0) = ec_Ready (elfCluster s)"
    using capi_lib.finContains_add [OF assms(1)] by (simp_all add: s0_def)
  let ?s1 = "ecMarkTrue X c ControlPlaneEndpointReadyCondition s0"
  obtain ok err s2 where d: "reconcileFailureDomains X c ?s1 = ((ok, err), s2)" by (metis surj_pair)
  obtain fds where s2: "elfCluster s2 = (elfCluster ?s1)\<lparr>ec_FailureDomains := fds\<rparr>"
    using domains_frame(1) [OF d] by blast
  have s2': "ec_meta (elfCluster s2) = ec_meta (elfCluster s0)" "ec_Ready (elfCluster s2) = ec_Ready (elfCluster s0)"
    "ec_EndpointHost (elfCluster s2) = ec_EndpointHost (elfCluster s0)"
    "ec_EndpointPort (elfCluster s2) = ec_EndpointPort (elfCluster s0)"
    "condIsTrue (e_lib X) (ec_Conditions (elfCluster s2)) ControlPlaneEndpointReadyCondition"
    using capi_lib.markTrue_views(1) [OF assms(1)] by (simp_all add: s2) (simp_all add: ecMarkTrue_def)
  have dom: "domainsOfTemplate X (cc_Cluster c) (e\<lparr>ec_Ready := b\<rparr>) = domainsOfTemplate X (cc_Cluster c) e" for e b
    by (simp add: domainsOfTemplate_def)
  have fin: "domainsOfTemplate X (cc_Cluster c) (elfCluster s2)" if ok using domains_frame(2) [OF d that] by simp
  have clean: "elfCluster s4 = elfCluster s3" if "cleanOrphanLabels X c s3 = Some s4" for s3 s4
    by (rule clean_cases(1) [OF that])
  from assms(2) show ?thesis
    unfolding cluster_reconcileNormal_def Let_def s0_def [symmetric]
    using s0 s2' fin dom d
    by (auto simp: reconcileControlPlaneEndpoint_def endpointIsZero_def online_elfCluster split_def bind_eq_Some_conv
        split: if_splits option.splits bool.splits dest!: clean)
qed

definition wit_ready_env :: "(unit, cacheVal ttl) env" where
  "wit_ready_env = wit_env\<lparr>e_k8s := wit_k8s\<lparr>
     K_ListKCPs := (\<lambda>_ _ w. (Inr [\<lparr>kcp_meta = wit_meta ''kcp'', kcp_specReplicas = Some 1, kcp_replicas = 1, kcp_readyReplicas = 1,
       kcp_updatedReplicas = 1, kcp_unavailableReplicas = 0, kcp_conditions = [], kcp_infrastructureRefName = ''template''\<rparr>], w)),
     K_GetElfMachineTemplate := (\<lambda>_ n w. (Inr \<lparr>emt_meta = wit_meta n, emt_Spec = Spec wit_elf\<rparr>, w))\<rparr>\<rparr>"

lemma wit_cluster_ready:
  "case cluster_reconcileNormal wit_ready_env wit_cctx (updCluster (\<lambda>e. e\<lparr>ec_Ready := False\<rparr>) wit_cst) of
     Some (r, s') \<Rightarrow> ec_Ready (elfCluster s') | None \<Rightarrow> False"
  by code_simp

theorem cluster_ready_with_failure_domains_witness:
  "\<exists>r s'. cluster_reconcileNormal wit_ready_env wit_cctx (updCluster (\<lambda>e. e\<lparr>ec_Ready := False\<rparr>) wit_cst) = Some (r, s') \<and>
     domainsOfTemplate wit_ready_env (cc_Cluster wit_cctx) (elfCluster s')"
proof -
  obtain r s' where r: "cluster_reconcileNormal wit_ready_env wit_cctx (updCluster (\<lambda>e. e\<lparr>ec_Ready := False\<rparr>) wit_cst) = Some (r, s')"
    "ec_Ready (elfCluster s')"
    using wit_cluster_ready by (auto split: option.splits)
  have "capi_lib (e_lib wit_ready_env)" by (simp add: wit_ready_env_def reflib.capi_lib_axioms)
  from cluster_ready_with_failure_domains [OF this r(1)] r show ?thesis by auto
qed

end
