(* ===== verification/Glob_View.thy ===== *)
theory Glob_View
  imports Elf_Deletion Elf_Cluster
begin

text \<open>
  What the stages of the ElfMachine reconciler leave alone in the package state. A \<open>view\<close> is any
  function of that state which the basic operations on the caches and locks keep; the locale
  shows once, for every such view, that the stages keep it.
\<close>

section \<open>Keys\<close>

text \<open>
  Names of placement groups without a colon have tickets of their own: no other key of the cache
  is the key of their ticket.
\<close>

definition plainGroup :: "string \<Rightarrow> bool" where
  "plainGroup n \<longleftrightarrow> CHR '':'' \<notin> set n"

definition foreign :: "string \<Rightarrow> bool" where
  "foreign k \<longleftrightarrow> (\<forall>n. plainGroup n \<longrightarrow> k \<noteq> getKeyForPlacementGroup n)"

lemma foreign_keys [simp]:
  "foreign (getKeyForPlacementGroupDuplicate n)" "foreign (getKeyForDuplicatePlacementGroupError n)"
  "foreign (getKeyForVM n)" "foreign (getKeyForVMDuplicate n)" "foreign (getKeyForPGCache n)" "foreign (getKeyForGPUVMInfo n)"
  "foreign (getKeyForInsufficientStorageError n)" "foreign (getKeyForInsufficientMemoryError n)"
  "foreign (getKeyForGCLabel n)" "foreign (getKeyForGCLabelTime n)"
  by (auto simp: foreign_def plainGroup_def limiter_key_defs getKeyForDuplicatePlacementGroupError_def getKeyForPGCache_def
      getKeyForGPUVMInfo_def getKeyForInsufficientStorageError_def getKeyForInsufficientMemoryError_def)

lemma foreign_group: "foreign (getKeyForPlacementGroup n) \<longleftrightarrow> \<not> plainGroup n"
  by (auto simp: foreign_def getKeyForPlacementGroup_def)

section \<open>Views\<close>

locale glob_laws =
  fixes X :: "('w, 'c) env" and t :: int and view :: "'c gstate \<Rightarrow> 'o"
  assumes view_locks [simp]: "view (g\<lparr>lockedGPUMap := l\<rparr>) = view g"
    and view_heap [simp]: "view (g\<lparr>resHeap := h\<rparr>) = view g"
    and view_set [simp]: "foreign k \<Longrightarrow> (case d of None \<Rightarrow> True | Some n \<Rightarrow> 0 < n) \<Longrightarrow>
      view (g\<lparr>inMemoryCache := cSet (e_cache X) (inMemoryCache g) t k v d\<rparr>) = view g"
    and view_delete [simp]: "foreign k \<Longrightarrow> view (g\<lparr>inMemoryCache := cDelete (e_cache X) (inMemoryCache g) k\<rparr>) = view g"
    and view_bracket: "acquireTicketForPlacementGroupOperation (e_cache X) t n g = (True, g1) \<Longrightarrow> view g2 = view g1 \<Longrightarrow>
      view (releaseTicketForPlacementGroupOperation (e_cache X) n g2) = view g"

context glob_laws
begin

lemma deleteKey_view [simp]: "foreign k \<Longrightarrow> view (deleteKey (e_cache X) k g) = view g"
  by (simp add: deleteKey_def)

lemma delPG_view [simp]: "view (delPGCaches (e_cache X) ns g) = view g"
  unfolding delPGCaches_def by (induction ns arbitrary: g) simp_all

end

text \<open>The laws at the time of a run of the ElfMachine reconciler.\<close>

locale glob_view = glob_laws X "mc_Now c" view
  for X :: "('w, 'c) env" and c :: machineContext and view :: "'c gstate \<Rightarrow> 'o"
begin

abbreviation vw :: "('w, 'c) st \<Rightarrow> 'o" where
  "vw s \<equiv> view (glob s)"

abbreviation sameV :: "('w, 'c) st \<Rightarrow> ('w, 'c) st \<Rightarrow> bool" where
  "sameV s s' \<equiv> vw s' = vw s"

lemma acquire_refused:
  "acquireTicketForPlacementGroupOperation (e_cache X) (mc_Now c) n g = (False, g1) \<Longrightarrow> g1 = g"
  by (auto simp: acquireTicketForPlacementGroupOperation_def split: if_splits)

lemma ticket_ops [simp]:
  "view (snd (acquireTicketForUpdatingVM (e_cache X) (mc_Now c) n g)) = view g"
  "view (setVMDuplicate (e_cache X) (mc_Now c) n g) = view g"
  "view (setPlacementGroupDuplicate (e_cache X) (mc_Now c) n g) = view g"
  by (simp_all add: ticket_defs limiter_time_defs)

lemma heap_set:
  assumes "foreign k" and "0 < n"
  shows "view (g\<lparr>resHeap := h, inMemoryCache := cSet (e_cache X) (inMemoryCache g) (mc_Now c) k v (Some n)\<rparr>) = view g"
  using view_set [OF assms(1), of "Some n" "g\<lparr>resHeap := h\<rparr>" v] assms(2) by simp

lemma resource_ops [simp]:
  assumes "foreign k"
  shows "view (snd (getClusterResource (e_cache X) (mc_Now c) k g)) = view g"
    "view (setClusterResource (e_cache X) (mc_Now c) k a g) = view g"
    "view (snd (canRetry (e_cache X) (mc_Now c) k a g)) = view g"
proof -
  show get: "view (snd (getClusterResource (e_cache X) (mc_Now c) k g)) = view g"
    using assms by (simp add: getClusterResource_def split: option.splits cacheVal.splits)
  show "view (setClusterResource (e_cache X) (mc_Now c) k a g) = view g"
    using heap_set [OF assms] by (simp add: setClusterResource_def newClusterResource_def cache_time_defs)
  show "view (snd (canRetry (e_cache X) (mc_Now c) k a g)) = view g"
    using get by (auto simp: canRetry_def Let_def split_def split: option.splits)
qed

lemma cache_ops [simp]:
  "view (snd (getPGFromCache (e_cache X) (mc_Now c) n g)) = view g"
  "view (setGPUVMInfosCache (e_cache X) (mc_Now c) infos g) = view g"
  "view (snd (getGPUVMInfosFromCache (e_cache X) (mc_Now c) ids g)) = view g"
proof -
  show "view (snd (getPGFromCache (e_cache X) (mc_Now c) n g)) = view g"
    by (simp add: getPGFromCache_def Let_def split: option.splits cacheVal.splits)
  show "view (setGPUVMInfosCache (e_cache X) (mc_Now c) infos g) = view g"
    unfolding setGPUVMInfosCache_def by (induction infos arbitrary: g) (auto simp: cache_time_defs)
  have "view (snd (gpuVMInfosFromCache (e_cache X) (mc_Now c) ids infos g)) = view g" for infos
    by (induction ids arbitrary: infos g) (simp_all add: Let_def split: option.splits)
  then show "view (snd (getGPUVMInfosFromCache (e_cache X) (mc_Now c) ids g)) = view g"
    by (simp add: getGPUVMInfosFromCache_def)
qed

lemma bracket_delete:
  assumes "acquireTicketForPlacementGroupOperation (e_cache X) (mc_Now c) n g = (True, g1)"
  shows "view (releaseTicketForPlacementGroupOperation (e_cache X) n g1) = view g \<and>
    view (releaseTicketForPlacementGroupOperation (e_cache X) n (delPGCaches (e_cache X) ns g1)) = view g"
  using view_bracket [OF assms] by simp

lemma lock_ops [simp]:
  "view (snd (getLockedClusterGPUsWithoutLock t cid g)) = view g"
  "view (snd (lockGPUDevicesForVM t cid n h infos g)) = view g"
  "view (snd (getGPUDevicesLockedByVM t cid n g)) = view g"
  "view (unlockGPUDevicesLockedByVM t cid n g) = view g"
proof -
  show get: "view (snd (getLockedClusterGPUsWithoutLock t cid g)) = view g"
    by (simp add: getLockedClusterGPUsWithoutLock_def Let_def split: option.splits)
  show "view (snd (lockGPUDevicesForVM t cid n h infos g)) = view g"
    "view (snd (getGPUDevicesLockedByVM t cid n g)) = view g"
    "view (unlockGPUDevicesLockedByVM t cid n g) = view g"
    using get by (simp_all add: lockGPUDevicesForVM_def getGPUDevicesLockedByVM_def unlockGPUDevicesLockedByVM_def
        Let_def split_def)
qed

text \<open>The same for operations whose result is matched.\<close>

lemma matched_ops:
  "setPGCache (e_cache X) (mc_Now c) pg g = Some g' \<Longrightarrow> view g' = view g"
  "filterGPUVMInfosByLockGPUDevices t cid infos g = Some (r, g') \<Longrightarrow> view g' = view g"
  "getPGFromCache (e_cache X) (mc_Now c) n g = (pgo, g') \<Longrightarrow> view g' = view g"
  "getGPUVMInfosFromCache (e_cache X) (mc_Now c) ids g = (gis, g') \<Longrightarrow> view g' = view g"
  "getGPUDevicesLockedByVM t cid n g = (l, g') \<Longrightarrow> view g' = view g"
  "lockGPUDevicesForVM t cid n h ds g = (ok, g') \<Longrightarrow> view g' = view g"
  using lock_ops(1) [of t cid g] cache_ops(1) [of n g] cache_ops(3) [of ids g] lock_ops(3) [of t cid n g] lock_ops(2) [of t cid n h ds g]
  by (auto simp: setPGCache_def filterGPUVMInfosByLockGPUDevices_def Let_def split_def bind_eq_Some_conv cache_time_defs)

lemma view_simps [simp]:
  "vw (hotMarkFalse X c rs sev msg s) = vw s" "vw (unlockOwnGPUs c s) = vw s" "vw (unlockIfGPU c s) = vw s"
  "vw (recordElfClusterMemoryInsufficient X c b s) = vw s" "vw (recordElfClusterStorageInsufficient X c b s) = vw s"
  "vw (setVMDuplicateSt X c s) = vw s" "vw (snd (acquireUpdateTicket X c s)) = vw s"
  "vw (snd (isELFClusterMemoryInsufficient X c s)) = vw s" "vw (snd (isELFClusterStorageInsufficient X c s)) = vw s"
  "vw (snd (canRetryMemoryAllocation X c s)) = vw s" "vw (snd (canRetryStorageAllocation X c s)) = vw s"
  by (simp_all add: unlockOwnGPUs_def unlockIfGPU_def recordElfClusterMemoryInsufficient_def
      recordElfClusterStorageInsufficient_def setVMDuplicateSt_def acquireUpdateTicket_def
      isELFClusterMemoryInsufficient_def isELFClusterStorageInsufficient_def canRetryMemoryAllocation_def
      canRetryStorageAllocation_def resource_ops Let_def split_def)

declare quiet_posts [post_simps del]

lemma kcp_view: "post (GetKCPByMachine X m s) (\<lambda>(r, s'). sameV s s')"
  by (auto simp: GetKCPByMachine_def query_eq post_simps intro: postI)

lemma pgName_view: "post (GetVMPlacementGroupName X m cl s) (\<lambda>(r, s'). sameV s s')"
  unfolding GetVMPlacementGroupName_def
  by (auto simp: GetMDByMachine_def query_eq post_simps kcp_view [THEN post_spec] split: sum.splits option.splits intro!: postI)

lemma getPG_view: "post (getPlacementGroup X c n s) (\<lambda>(r, s'). sameV s s')"
  unfolding getPlacementGroup_def
  by (auto simp: query_eq post_simps split: sum.splits prod.splits option.splits intro!: postI dest!: matched_ops)

lemma pgHosts_view: "post (getHostsInPlacementGroup X pg s) (\<lambda>(r, s'). sameV s s')"
  by (auto simp: getHostsInPlacementGroup_def query_eq post_simps split: sum.splits intro!: postI)

lemma post_quietV:
  assumes "post m (\<lambda>(r, s'). quiet s s')" and "post m (\<lambda>(r, s'). sameV s s')"
  shows "post m Q = (\<forall>r s'. m = Some (r, s') \<longrightarrow> calls s' = calls s \<longrightarrow> elf s' = elf s \<longrightarrow> sameV s s' \<longrightarrow> Q (r, s'))"
  using assms by (auto simp: post_def quiet_def split: option.splits)

lemmas quietV_posts [post_simps] =
  post_quietV [OF GetKCPByMachine_quiet kcp_view] post_quietV [OF GetVMPlacementGroupName_quiet pgName_view]
  post_quietV [OF getPlacementGroup_quiet getPG_view] post_quietV [OF getHostsInPlacementGroup_quiet pgHosts_view]

section \<open>Stages that leave the tickets alone\<close>

lemma recordPG_view: "post (recordPlacementGroupPolicyNotSatisfied X c b s) (\<lambda>(e, s'). sameV s s')"
  by (auto simp: recordPlacementGroupPolicyNotSatisfied_def post_simps resource_ops Let_def split: sum.splits)

lemma migrate_view: "post (migrateVM X v h s) (\<lambda>(r, s'). sameV s s')"
  unfolding migrateVM_def by (auto simp: post_simps request_eq split: sum.splits intro!: postI)

lemma joinControlPlane_view: "post (joinControlPlane X c v pg s) (\<lambda>(r, s'). sameV s s')"
proof -
  have m: "post (joinMigrate X c v pg hs s) (\<lambda>(r, s'). sameV s s')" for hs s
    unfolding joinMigrate_def
    by (auto simp: post_simps query_eq GetControlPlaneElfMachinesInCluster_def migrate_view [THEN post_spec] Let_def
        split: sum.splits intro!: postI)
  show ?thesis
    unfolding joinControlPlane_def
    by (auto simp: post_simps query_eq m [THEN post_spec] Let_def split: sum.splits intro!: postI)
qed

lemma addVMs_view: "post (addVMsToPlacementGroup X pg ids s) (\<lambda>(r, s'). sameV s s')"
  unfolding addVMsToPlacementGroup_def
  by (auto simp: post_simps query_eq request_eq Let_def split: sum.splits intro!: postI)

lemma join_view: "post (joinPlacementGroup X c v s) (\<lambda>(r, s'). sameV s s')"
proof -
  have t: "post (joinPlacementGroup_ticket X c v n s) (\<lambda>(r, s'). sameV s s')" for n s
    unfolding joinPlacementGroup_ticket_def
    by (auto simp: post_simps joinControlPlane_view [THEN post_spec] addVMs_view [THEN post_spec]
        split: sum.splits option.splits intro!: postI)
  have "post (joinPlacementGroup_body X c v s) (\<lambda>(r, s'). sameV s s')"
    unfolding joinPlacementGroup_body_def
    by (auto simp: post_simps t [THEN post_spec] Let_def split: sum.splits prod.splits
        intro!: postI dest!: acquire_refused view_bracket)
  from this [THEN post_spec] show ?thesis
    unfolding joinPlacementGroup_def by (auto simp: post_simps split: option.splits intro!: postI)
qed

lemma chooseHost_view: "post (chooseHost c m hs s) (\<lambda>(r, s'). sameV s s')"
proof (induction hs arbitrary: s)
  case (Cons h hs)
  then show ?case
    by (auto simp: post_simps Let_def Cons.IH [THEN post_spec] split: option.splits prod.splits
        intro!: postI dest!: matched_ops)
qed (simp add: post_simps)

lemma checkGPUs_view: "post (checkGPUsCanBeUsedForVM X c ids s) (\<lambda>(r, s'). sameV s s')"
  unfolding checkGPUsCanBeUsedForVM_def
  by (auto simp: query_eq post_simps split: prod.splits sum.splits intro!: postI dest!: matched_ops)

lemma select_view: "post (selectHostAndGPUsForVM X c h s) (\<lambda>(r, s'). sameV s s')"
proof -
  have search: "post (selectHostAndGPUs_search X c p s) (\<lambda>(r, s'). sameV s s')" for p s
    unfolding selectHostAndGPUs_search_def
    by (auto simp: query_eq post_simps chooseHost_view [THEN post_spec] Let_def split: sum.splits option.splits
        intro!: postI dest!: matched_ops)
  have "post (selectHostAndGPUs_body X c p s) (\<lambda>(r, s'). sameV s s')" for p s
    unfolding selectHostAndGPUs_body_def
    by (auto simp: post_simps search [THEN post_spec] checkGPUs_view [THEN post_spec] Let_def
        split: sum.splits option.splits prod.splits intro!: postI dest!: matched_ops)
  note body = this [THEN post_spec]
  show ?thesis
    unfolding selectHostAndGPUsForVM_def
    by (auto simp: post_simps body split: sum.splits option.splits)
qed

lemma gpu_view: "post (reconcileGPUDevices X c v s) (\<lambda>(r, s'). sameV s s')"
proof -
  have add: "post (addGPUDevicesForVM X c v s) (\<lambda>(r, s'). sameV s s')" for s
    unfolding addGPUDevicesForVM_def
    by (auto simp: post_simps request_eq select_view [THEN post_spec] migrate_view [THEN post_spec] Let_def
        split: sum.splits option.splits intro!: postI)
  have rem: "post (removeVMGPUDevices X c v s) (\<lambda>(r, s'). sameV s s')" for s
    unfolding removeVMGPUDevices_def
    by (auto simp: post_simps request_eq query_eq Let_def split: sum.splits intro!: postI)
  show ?thesis
    unfolding reconcileGPUDevices_def
    by (auto simp: post_simps add [THEN post_spec] rem [THEN post_spec] checkGPUs_view [THEN post_spec] Let_def
        split: sum.splits intro!: postI)
qed

lemma volume_view: "post (reconcieVMVolume X c v t s) (\<lambda>(r, s'). sameV s s')"
proof -
  have r: "post (resizeVMVolume X c vol n t s) (\<lambda>(r, s'). sameV s s')" for vol n s
    unfolding resizeVMVolume_def
    by (auto simp: post_simps request_eq Let_def split_def split: sum.splits intro!: postI)
  show ?thesis
    unfolding reconcieVMVolume_def
    by (auto simp: post_simps query_eq r [THEN post_spec] Let_def split: sum.splits intro!: postI)
qed

lemma schedule_view:
  "post (isELFScheduleVMErrorRecorded X c s) (\<lambda>(r, s'). sameV s s')"
  "post (canRetryVMOperation X c s) (\<lambda>(r, s'). sameV s s')"
  by (auto simp: isELFScheduleVMErrorRecorded_def canRetryVMOperation_def post_simps resource_ops Let_def split_def
      split: sum.splits intro!: postI)

lemma power_view:
  "post (powerOnVM X c v s) (\<lambda>(r, s'). sameV s s')" "post (powerOffVM X c s) (\<lambda>(r, s'). sameV s s')"
  "post (shutDownVM X c s) (\<lambda>(r, s'). sameV s s')" "post (updateVM X c v s) (\<lambda>(r, s'). sameV s s')"
  by (auto simp: powerOnVM_def powerOffVM_def shutDownVM_def updateVM_def operation_defs post_simps request_eq
      schedule_view [THEN post_spec] Let_def split_def split: sum.splits intro!: postI)

lemma status_view: "post (reconcileVMStatus X c v s) (\<lambda>(r, s'). sameV s s')"
  unfolding reconcileVMStatus_def
  by (auto simp: post_simps power_view [THEN post_spec] volume_view [THEN post_spec] Let_def
      split: option.splits intro!: postI)

lemma hostJob_view: "reconcileHostJob X c jobType macTypes s = (r, s') \<Longrightarrow> sameV s s'"
  by (auto simp: reconcileHostJob_def createHostJob_def GetHostJob_def GenerateJob_def query_eq Let_def
      split: option.splits sum.splits if_splits jobPhase.splits)

lemma job_stages_view [simp]:
  "vw (snd (restartKubelet X c s)) = vw s" "vw (snd (expandVMRootPartition X c s)) = vw s"
  "vw (snd (setVMNetworkDeviceConfig X c nics s)) = vw s"
proof -
  have j: "vw (snd (reconcileHostJob X c t ms s1)) = vw s1" for t ms s1
    using hostJob_view [of t ms s1] by (metis prod.collapse)
  show "vw (snd (restartKubelet X c s)) = vw s" "vw (snd (expandVMRootPartition X c s)) = vw s"
    "vw (snd (setVMNetworkDeviceConfig X c nics s)) = vw s"
    by (auto simp: restartKubelet_def expandVMRootPartition_def setVMNetworkDeviceConfig_def j Let_def split: sum.splits)
qed

lemma newNics_view: "newNicParams X ds acc s = (r, s') \<Longrightarrow> sameV s s'"
  by (induction X ds acc s rule: newNicParams.induct) (auto simp: query_eq split: sum.splits)

lemma resources_view: "post (reconcileVMResources X c v s) (\<lambda>(r, s'). sameV s s')"
proof -
  have compute: "post (reconcileVMCPUAndMemory X c v s) (\<lambda>(r, s'). sameV s s')" for s
    unfolding reconcileVMCPUAndMemory_def
    by (auto simp: post_simps request_eq Let_def split_def split: sum.splits intro!: postI)
  have nics: "post (reconcileVMNics X c v nics s) (\<lambda>(r, s'). sameV s s')" for nics s
    unfolding reconcileVMNics_def
    by (auto simp: post_simps request_eq Let_def split: sum.splits prod.splits intro!: postI dest!: newNics_view)
  have devices: "post (reconcieVMNetworkDevices X c v s) (\<lambda>(r, s'). sameV s s')" for s
    unfolding reconcieVMNetworkDevices_def
    by (auto simp: post_simps query_eq nics [THEN post_spec] Let_def split_def
        split: sum.splits option.splits intro!: postI)
  show ?thesis
    unfolding reconcileVMResources_def
    by (auto simp: post_simps compute [THEN post_spec] volume_view [THEN post_spec] devices [THEN post_spec]
        split_def intro!: postI)
qed

lemma run_view: "post (reconcileVM_run X c v s) (\<lambda>(r, s'). sameV s s')"
  unfolding reconcileVM_run_def
  by (auto simp: post_simps join_view [THEN post_spec] gpu_view [THEN post_spec] status_view [THEN post_spec]
      resources_view [THEN post_spec] intro!: postI)

lemma hostZone_view: "post (reconcileHostAndZone X c v s) (\<lambda>(e, s'). sameV s s')"
proof -
  have storage: "post (reconcileStorage X c v s1) (\<lambda>(e, s'). sameV s1 s')" for s1
    by (auto simp: reconcileStorage_def post_simps query_eq Let_def split: sum.splits option.splits intro!: postI)
  have zone: "post (reconcileZone X c s1) (\<lambda>(e, s'). sameV s1 s')" for s1
    by (auto simp: reconcileZone_def post_simps query_eq Let_def split: sum.splits option.splits intro!: postI)
  show ?thesis
    unfolding reconcileHostAndZone_def
    by (auto simp: post_simps storage [THEN post_spec] zone [THEN post_spec] intro!: postI)
qed

lemma node_view:
  "vw (snd (getK8sNodeIP X c s)) = vw s" "vw (snd (deleteNode X c s)) = vw s"
  "post (reconcileNode X c v s) (\<lambda>(e, s'). sameV s s')"
proof -
  have remote: "remoteNode X c p s = (r, s') \<Longrightarrow> sameV s s'" for p s r s'
    by (auto simp: remoteNode_def getNode_def query_eq split: sum.splits list.splits option.splits)
  show "vw (snd (getK8sNodeIP X c s)) = vw s"
    by (auto simp: getK8sNodeIP_def Let_def split: sum.splits option.splits prod.splits dest!: remote)
  show "vw (snd (deleteNode X c s)) = vw s"
    by (auto simp: deleteNode_def query_eq Let_def split: sum.splits prod.splits dest!: remote)
  show "post (reconcileNode X c v s) (\<lambda>(e, s'). sameV s s')"
    unfolding reconcileNode_def
    by (auto simp: post_simps query_eq Let_def split: sum.splits prod.splits dest!: remote intro!: postI)
qed

lemma network_view: "post (reconcileNetwork X c v s) (\<lambda>(r, s'). sameV s s')"
proof -
  have "post (reconcileNetwork_body X c v s) (\<lambda>(r, s'). sameV s s')"
    unfolding reconcileNetwork_body_def
    by (auto simp: post_simps query_eq Let_def split_def node_view split: sum.splits intro!: postI)
  from this [THEN post_spec] show ?thesis
    unfolding reconcileNetwork_def by (auto simp: post_simps split: option.splits intro!: postI)
qed

lemma upsertLabels_view: "upsertLabels X cur ls ids s = (r, s') \<Longrightarrow> sameV s s'"
  by (induction X cur ls ids s rule: upsertLabels.induct) (auto simp: request_eq split: sum.splits if_splits option.splits)

lemma labels_view: "post (reconcileLabels X c v s) (\<lambda>(r, s'). sameV s s')"
  unfolding reconcileLabels_def
  by (auto simp: post_simps request_eq Let_def split: sum.splits prod.splits intro!: postI dest!: upsertLabels_view)

lemma placementGroup_view: "post (reconcilePlacementGroup X c s) (\<lambda>(r, s'). sameV s s')"
proof -
  have "post (createPlacementGroup X c n s) (\<lambda>(r, s'). sameV s s')" for n s
    unfolding createPlacementGroup_def
    by (auto simp: post_simps query_eq request_eq Let_def split_def split: sum.splits intro!: postI)
  from this [THEN post_spec] show ?thesis
    unfolding reconcilePlacementGroup_def
    by (auto simp: post_simps Let_def split: sum.splits option.splits prod.splits
        intro!: postI dest!: acquire_refused view_bracket)
qed

lemma duplicates_view: "post (deleteDuplicateVMs X c s) (\<lambda>(r, s'). sameV s s')"
proof -
  have "post (deleteVM X v s) (\<lambda>(r, s'). sameV s s')" for v s
    unfolding deleteVM_def
    by (auto simp: post_simps query_eq request_eq Let_def split: sum.splits option.splits intro!: postI)
  from this [THEN post_spec] show ?thesis
    unfolding deleteDuplicateVMs_def
    by (auto simp: post_simps query_eq split: sum.splits option.splits intro!: postI)
qed

lemma deletePG_view: "post (deletePlacementGroup X c s) (\<lambda>(r, s'). sameV s s')"
  unfolding deletePlacementGroup_def GetMDByMachine_def
  by (auto simp: post_simps query_eq request_eq Let_def split: sum.splits option.splits prod.splits
      intro!: postI dest!: acquire_refused bracket_delete)

lemma running_view: "post (reconcileNormal_running X c v s) (\<lambda>(r, s'). sameV s s')"
proof -
  have provider: "post (reconcileProviderID X c v s) (\<lambda>(e, s'). sameV s s')" for s
    unfolding reconcileProviderID_def by (auto simp: post_simps Let_def intro!: postI)
  show ?thesis
    unfolding reconcileNormal_running_def
    by (auto simp: post_simps labels_view [THEN post_spec] provider [THEN post_spec] network_view [THEN post_spec]
        node_view(3) [THEN post_spec] duplicates_view [THEN post_spec] Let_def split: option.splits intro!: postI)
qed

lemma host_view: "post (selectHost X c s) (\<lambda>(r, s'). sameV s s')"
proof -
  have machines: "post (placementGroupMachinesOf X em vs ms vmMap s) (\<lambda>(r, s'). sameV s s')" for em vs ms vmMap s
  proof (induction vs arbitrary: ms vmMap s)
    case (Cons v vs)
    have owner: "GetOwnerMachine X m s = (r, s') \<Longrightarrow> sameV s s'" for m r s'
      by (auto simp: GetOwnerMachine_def query_eq split: sum.splits option.splits)
    have step: "post (placementGroupMachinesOf X em vs ms vmMap s1) (\<lambda>(r, s'). sameV s s')" if "sameV s s1" for ms vmMap s1
      using that by (intro post_mono [OF Cons.IH]) auto
    show ?case
      by (auto simp: post_simps step split: option.splits prod.splits sum.splits intro!: postI step dest: owner)
  qed (simp add: post_simps)
  have rolling: "post (getVMHostForRollingUpdate X c pg hosts s) (\<lambda>(r, s'). sameV s s')" for pg hosts s
    unfolding getVMHostForRollingUpdate_def
    by (auto simp: post_simps query_eq GetControlPlaneElfMachinesInCluster_def machines [THEN post_spec] Let_def
        split: sum.splits option.splits intro!: postI)
  have mark: "vw (snd (markMachineForDeletion X c s1)) = vw s1" for s1
    by (auto simp: markMachineForDeletion_def query_eq Let_def split: sum.splits)
  have full: "post (preCheckFullPlacementGroup X c pg hosts used s1) (\<lambda>(r, s'). sameV s1 s')" for pg hosts used s1
    unfolding preCheckFullPlacementGroup_def
    by (auto simp: post_simps rolling [THEN post_spec] split_def mark split: sum.splits intro!: postI)
  have "post (preCheckPlacementGroup_body X c s1) (\<lambda>(r, s'). sameV s1 s')" for s1
    unfolding preCheckPlacementGroup_body_def
    by (auto simp: post_simps query_eq full [THEN post_spec] split: sum.splits option.splits intro!: postI)
  from this [THEN post_spec] have "post (preCheckPlacementGroup X c s) (\<lambda>(r, s'). sameV s s')"
    unfolding preCheckPlacementGroup_def by (auto simp: post_simps intro!: postI)
  note pre = this [THEN post_spec]
  show ?thesis
    unfolding selectHost_def by (auto simp: post_simps pre select_view [THEN post_spec] split: option.splits intro!: postI)
qed

end

section \<open>The ElfCluster reconciler\<close>

lemma mark_glob [simp]: "cglob (ecMarkTrue X c t s) = cglob s" "cglob (ecMarkFalse X c t rs sev msg s) = cglob s"
  by (simp_all add: ecMarkTrue_def ecMarkFalse_def)

locale cluster_view = glob_laws X "cc_Now c" view
  for X :: "('w, 'c) env" and c :: clusterContext and view :: "'c gstate \<Rightarrow> 'o"
begin

abbreviation sameC :: "('w, 'c) cst \<Rightarrow> ('w, 'c) cst \<Rightarrow> bool" where
  "sameC s s' \<equiv> view (cglob s') = view (cglob s)"

lemma gc_ops [simp]:
  "view (snd (acquireLockForGCTowerLabels (e_cache X) (cc_Now c) n g)) = view g"
  "view (releaseLockForForGCTowerLabels (e_cache X) n g) = view g"
  "view (recordGCTimeForTowerLabels (e_cache X) (cc_Now c) n g) = view g"
proof -
  have "view (g\<lparr>inMemoryCache := cSet (e_cache X) (cDelete (e_cache X) (inMemoryCache g) (getKeyForGCLabelTime n)) (cc_Now c) (getKeyForGCLabel n) v None\<rparr>)
      = view g" for v
    using view_set [of "getKeyForGCLabel n" None "g\<lparr>inMemoryCache := cDelete (e_cache X) (inMemoryCache g) (getKeyForGCLabelTime n)\<rparr>" v]
    by simp
  then show "view (snd (acquireLockForGCTowerLabels (e_cache X) (cc_Now c) n g)) = view g"
    by (auto simp: acquireLockForGCTowerLabels_def Let_def split: option.splits cacheVal.splits)
qed (simp_all add: releaseLockForForGCTowerLabels_def recordGCTimeForTowerLabels_def)

lemma cluster_delete_view: "post (cluster_reconcileDelete X c s) (\<lambda>(r, s'). sameC s s')"
proof -
  have pgs: "post (reconcileDeleteVMPlacementGroups X c s) (\<lambda>(r, s'). sameC s s')" for s
    unfolding reconcileDeleteVMPlacementGroups_def
    by (auto simp: post_simps crequest_eq Let_def split: sum.splits)
  have label: "post (reconcileDeleteLabel X c k v b s) (\<lambda>(r, s'). sameC s s')" for k v b s
    unfolding reconcileDeleteLabel_def by (auto simp: post_simps crequest_eq split: sum.splits)
  have labels: "post (reconcileDeleteLabels X c s) (\<lambda>s'. sameC s s')" for s
    unfolding reconcileDeleteLabels_def by (auto simp: post_simps label [THEN post_spec] intro!: postI)
  show ?thesis
    unfolding cluster_reconcileDelete_def GetElfMachinesInCluster_def removeClusterFinalizer_def
    by (auto simp: post_simps cquery_eq pgs [THEN post_spec] labels [THEN post_spec] Let_def
        split: sum.splits option.splits intro!: postI)
qed

lemma cluster_normal_view: "post (cluster_reconcileNormal X c s) (\<lambda>(r, s'). sameC s s')"
proof -
  have clean: "post (cleanOrphanLabels X c s) (\<lambda>s'. sameC s s')" for s
    unfolding cleanOrphanLabels_def
    by (auto simp: post_simps crequest_eq Let_def split_def split: sum.splits)
  have domains: "sameC s (snd (reconcileFailureDomains X c s))" for s
    by (auto simp: reconcileFailureDomains_def GetKCPForCluster_def cquery_eq Let_def split: sum.splits list.splits)
  have online: "sameC s (snd (isAPIServerOnline X c s))" for s
    by (auto simp: isAPIServerOnline_def cquery_eq Let_def split: sum.splits)
  have endpoint: "sameC s (snd (reconcileControlPlaneEndpoint X c s))" for s
    by (simp add: reconcileControlPlaneEndpoint_def)
  have pairs: "reconcileFailureDomains X c s = (r, s') \<Longrightarrow> sameC s s'" "reconcileControlPlaneEndpoint X c s = (b, s') \<Longrightarrow> sameC s s'"
    for s s' r b using domains [of s] endpoint [of s] by simp_all
  show ?thesis
    unfolding cluster_reconcileNormal_def
    by (auto simp: post_simps clean [THEN post_spec] online domains endpoint Let_def split_def split: prod.splits option.splits bool.splits
        intro!: postI dest!: pairs)
qed

end

lemma cluster_run_view:
  assumes "glob_laws X now view" and "cluster_Reconcile X now ns n s = Some (r, s')"
  shows "view (cglob s') = view (cglob s)"
proof -
  have deferred: "cglob (snd (cluster_reconcileDeferred X c r s)) = cglob s" for c r s
    by (simp add: cluster_reconcileDeferred_def cquery_eq Let_def split_def)
  have context': "post (cluster_reconcileInContext X c s) (\<lambda>(r, s'). view (cglob s') = view (cglob s))" if "cc_Now c = now" for c s
  proof -
    have laws: "cluster_view X c' view" if "cc_Now c' = now" for c'
      using assms(1) that by (simp add: cluster_view_def)
    note * = cluster_view.cluster_delete_view [OF laws, THEN post_spec] cluster_view.cluster_normal_view [OF laws, THEN post_spec]
    show ?thesis
      unfolding cluster_reconcileInContext_def cluster_newVMService_def
      by (auto simp: post_simps cquery_eq * deferred that case_prod_beta split: sum.splits intro!: postI)
  qed
  have "post (cluster_Reconcile X now ns n s) (\<lambda>(r, s'). view (cglob s') = view (cglob s))"
    unfolding cluster_Reconcile_def GetOwnerCluster_def
    by (auto simp: post_simps cquery_eq context' [THEN post_spec] Let_def split: sum.splits option.splits intro!: postI)
  from postD [OF this assms(2)] show ?thesis by simp
qed

end
