(* ===== verification/Fleet.thy ===== *)
theory Fleet
  imports Glob_View
begin

text \<open>
  Many machines in one process: the runs of the reconcilers of all ElfMachines interleave on the
  shared caches. This theory shows what a run does to the tickets that limit the creation of
  virtual machines, and that the limit holds for the fleet.
\<close>

section \<open>What leaves the tickets alone\<close>

abbreviation tc :: "('w, 'c) st \<Rightarrow> 'c" where
  "tc s \<equiv> vmConcurrentCache (glob s)"

abbreviation sameT :: "('w, 'c) st \<Rightarrow> ('w, 'c) st \<Rightarrow> bool" where
  "sameT s s' \<equiv> tc s' = tc s"

text \<open>The cache of the tickets is a view that only the creation and the tasks of a machine change.\<close>

interpretation tk: glob_laws X t vmConcurrentCache for X t
  by unfold_locales (auto simp: ticket_defs split: if_splits)

interpretation tk: glob_view X c vmConcurrentCache for X c
  by unfold_locales

interpretation tkc: cluster_view X c vmConcurrentCache for X c
  by unfold_locales

declare quiet_posts [post_simps del]

lemma duplicates_clones: "post (deleteDuplicateVMs X c s) (\<lambda>(r, s'). clones s' = clones s)"
  unfolding deleteDuplicateVMs_def
  by (auto simp: post_simps query_eq deleteVM_calls [THEN post_spec] split: sum.splits option.splits intro!: postI)

section \<open>What a run does to the tickets\<close>

text \<open>The two operations on the cache of the tickets; a ticket is taken only below the limit.\<close>

inductive ticketMove :: "('c, cacheVal) gocache \<Rightarrow> config \<Rightarrow> int \<Rightarrow> 'c \<Rightarrow> 'c \<Rightarrow> bool" for C cfg now where
  drop: "ticketMove C cfg now c (cDelete C c k)"
| take: "cItemCount C c < cfg_MaxConcurrentVMCreations cfg \<Longrightarrow>
     ticketMove C cfg now c (cSet C c now (getKeyForVM n) CVNil (Some vmCreationTimeout))"

abbreviation moves :: "('w, 'c) env \<Rightarrow> int \<Rightarrow> ('w, 'c) st \<Rightarrow> ('w, 'c) st \<Rightarrow> bool" where
  "moves X now s s' \<equiv> (ticketMove (e_cache X) (e_cfg X) now)\<^sup>*\<^sup>* (tc s) (tc s')"

lemma release_moves [simp]:
  "tc (releaseCreateTicket X s) = cDelete (e_cache X) (tc s) (getKeyForVM (om_Name (em_meta (elf s))))"
  by (simp add: releaseCreateTicket_def releaseTicketForCreateVM_def)

lemma drop_moves [simp]: "moves X now s s' \<Longrightarrow> (ticketMove (e_cache X) (e_cfg X) now)\<^sup>*\<^sup>* (tc s) (cDelete (e_cache X) (tc s') k)"
  using ticketMove.drop [of "e_cache X" "e_cfg X" now "tc s'" k] by (rule rtranclp.rtrancl_into_rtrancl [rotated])

lemma byKind_moves: "sameT s s1 \<Longrightarrow> moves X now s (failedTaskByKind X c task msg s1)"
  by (auto simp: failedTaskByKind_def Let_def)

lemma task_moves: "post (reconcileVMTask X c vo s) (\<lambda>(r, s'). moves X now s s')"
proof -
  have error: "post (failedTaskByError X c msg s1) (\<lambda>(e, s'). sameT s1 s')" for msg s1
    by (auto simp: failedTaskByError_def post_simps tk.recordPG_view [THEN post_spec] intro!: postI)
  have failed: "post (reconcileVMFailedTask X c task s1) (\<lambda>(e, s'). moves X now s1 s')" for task s1
    by (auto simp: reconcileVMFailedTask_def error [THEN post_spec] Let_def intro!: postI byKind_moves)
  have "post (succeededTask X c task s1) (\<lambda>(e, s'). moves X now s1 s')" for task s1
    unfolding succeededTask_def Let_def
    by (auto simp: post_simps tk.recordPG_view [THEN post_spec] intro!: postI)
  note succeeded = this [THEN post_spec]
  show ?thesis
    unfolding reconcileVMTask_def Let_def
    by (auto simp: post_simps query_eq failed [THEN post_spec] succeeded taskDeferred_def split: sum.splits intro!: postI)
qed

lemma getVM_moves: "post (getVM X c s) (\<lambda>(r, s'). moves X now s s')"
  unfolding getVM_def
  by (auto simp: post_simps query_eq task_moves [of X c _ _ now, THEN post_spec] Let_def
      split: sum.splits option.splits intro!: postI)

lemma found_moves: "post (reconcileVM_found X c v s) (\<lambda>(r, s'). moves X now s s')"
proof -
  have bin: "tc (moveToRecycleBin s) = tc s" for s :: "('a, 'b) st" by (simp add: moveToRecycleBin_def)
  show ?thesis
    unfolding reconcileVM_found_def
    by (auto simp: post_simps task_moves [of X c _ _ now, THEN post_spec] tk.hostZone_view [THEN post_spec] tk.run_view [THEN post_spec] bin
        Let_def intro!: postI)
qed

section \<open>A creation holds a ticket\<close>

text \<open>
  A run that asks Tower for a virtual machine of a worker took a ticket first, and the cache had
  room for it when the run started.
\<close>

definition limited :: "('w, 'c) env \<Rightarrow> int \<Rightarrow> ('w, 'c) st \<Rightarrow> ('w, 'c) st \<Rightarrow> bool" where
  "limited X now s s' \<longleftrightarrow> moves X now s s' \<and>
     (clones s' \<noteq> clones s \<longrightarrow> IsControlPlaneMachine (em_meta (elf s)) \<or>
        cItemCount (e_cache X) (tc s) < cfg_MaxConcurrentVMCreations (e_cfg X))"

lemma limited_refl [simp]: "limited X now s s"
  by (simp add: limited_def)

lemma limited_start:
  assumes "limited X now s1 s'" and "sameT s s1" "clones s1 = clones s" "em_meta (elf s1) = em_meta (elf s)"
  shows "limited X now s s'"
  using assms by (simp add: limited_def)

lemma limited_end: "limited X now s s1 \<Longrightarrow> moves X now s1 s' \<Longrightarrow> clones s' = clones s1 \<Longrightarrow> limited X now s s'"
  by (auto simp: limited_def intro: rtranclp_trans)

lemma moves_quiet: "moves X now s s' \<Longrightarrow> clones s' = clones s \<Longrightarrow> limited X now s s'"
  by (simp add: limited_def)

lemma clone_moves: "post (cloneVM X c info s) (\<lambda>(r, s'). moves X now s s')"
  unfolding cloneVM_def
  by (auto simp: post_simps query_eq request_eq Let_def split: sum.splits intro!: postI)

lemma createTicket_moves: "post (createVM_ticket X c h b s) (\<lambda>(r, s'). moves X now s s')"
  unfolding createVM_ticket_def
  by (auto simp: post_simps tk.host_view [THEN post_spec] clone_moves [of X c _ _ now, THEN post_spec]
      split: sum.splits option.splits intro!: postI)

lemma take_moves:
  "cItemCount C c < cfg_MaxConcurrentVMCreations cfg \<Longrightarrow>
     (ticketMove C cfg now)\<^sup>*\<^sup>* c (cSet C c now (getKeyForVM n) CVNil (Some vmCreationTimeout))"
  by (rule r_into_rtranclp) (rule ticketMove.take)

lemma acquire_cases:
  assumes "acquireTicketForCreateVM C cfg now n cp g = ((ok, msg), g')" and "ok"
  shows "(ticketMove C cfg now)\<^sup>*\<^sup>* (vmConcurrentCache g) (vmConcurrentCache g') \<and>
    (cp \<or> cItemCount C (vmConcurrentCache g) < cfg_MaxConcurrentVMCreations cfg)"
  using assms by (auto simp: acquireTicketForCreateVM_def not_le intro: take_moves split: if_splits)

lemma create_refused: "acquireTicketForCreateVM C cfg now n cp g = ((False, msg), g') \<Longrightarrow> g' = g"
  by (auto simp: acquireTicketForCreateVM_def split: if_splits)

lemma schedule_meta:
  "post (isELFScheduleVMErrorRecorded X c s) (\<lambda>(r, s'). sameT s s' \<and> calls s' = calls s \<and> em_meta (elf s') = em_meta (elf s))"
  "post (canRetryVMOperation X c s) (\<lambda>(r, s'). sameT s s' \<and> calls s' = calls s \<and> em_meta (elf s') = em_meta (elf s))"
  by (auto simp: isELFScheduleVMErrorRecorded_def canRetryVMOperation_def post_simps Let_def split_def emMarkFalse_def
      split: sum.splits intro!: postI)

lemma ticket_limited:
  assumes "acquireTicketForCreateVM (e_cache X) (e_cfg X) now n (IsControlPlaneMachine (em_meta (elf s))) (glob s) = ((True, msg), g)"
  shows "post (createVM_ticket X c h b (s\<lparr>glob := g\<rparr>)) (\<lambda>(r, s'). limited X now s s')"
proof (rule post_mono [OF createTicket_moves [of _ _ _ _ _ now]], clarify)
  fix r s' assume "moves X now (s\<lparr>glob := g\<rparr>) s'"
  with acquire_cases [OF assms] show "limited X now s s'" by (auto simp: limited_def)
qed

lemma createSchedule_limited: "post (createVM_schedule X c h b s) (\<lambda>(r, s'). limited X (mc_Now c) s s')"
proof -
  define T where "T s = (let ((ok, msg), g) = acquireTicketForCreateVM (e_cache X) (e_cfg X) (mc_Now c)
      (om_Name (em_meta (elf s))) (IsControlPlaneMachine (em_meta (elf s))) (glob s); s = s\<lparr>glob := g\<rparr>
    in if \<not> ok then Some (Some None, s) else createVM_ticket X c h b s)" for s
  have go: "post (T s) (\<lambda>(r, s'). limited X (mc_Now c) s s')" for s
    unfolding T_def
    by (auto simp: post_simps Let_def split: prod.splits dest: create_refused intro!: ticket_limited)
  have after: "post (T s1) (\<lambda>(r, s'). limited X (mc_Now c) s s')"
    if "sameT s s1" "calls s1 = calls s" "em_meta (elf s1) = em_meta (elf s)" for s s1
    by (rule post_mono [OF go]) (use that in \<open>auto intro: limited_start\<close>)
  have "post (createVM_schedule X c h b s) (\<lambda>(r, s'). limited X (mc_Now c) s s')" for s
    unfolding createVM_schedule_def T_def [symmetric]
    by (auto simp: post_simps schedule_meta [THEN post_spec] after split: prod.splits intro!: moves_quiet)
  then show ?thesis .
qed

lemma create_limited: "post (createVM X c s) (\<lambda>(r, s'). limited X (mc_Now c) s s')"
proof -
  have host: "tc (snd (GenerateHostname X c s1)) = tc s1 \<and> calls (snd (GenerateHostname X c s1)) = calls s1 \<and>
      elf (snd (GenerateHostname X c s1)) = elf s1" for s1
    by (simp add: GenerateHostname_def Let_def split_def)
  have data: "post (getBootstrapData X c n s1) (\<lambda>(r, s2). tc s2 = tc s1 \<and> calls s2 = calls s1 \<and> elf s2 = elf s1)" for n s1
    unfolding getBootstrapData_def
    by (auto simp: post_simps query_eq Let_def split: sum.splits option.splits intro!: postI)
  have meta: "em_meta (emMarkFalse L now t rs sev msg m) = em_meta m" for L now t rs sev msg m
    by (simp add: emMarkFalse_def)
  have after: "post (createVM_schedule X c h b s1) (\<lambda>(r, s'). limited X (mc_Now c) s s')"
    if "sameT s s1" "calls s1 = calls s" "em_meta (elf s1) = em_meta (elf s)" for s s1 h b
    by (rule post_mono [OF createSchedule_limited]) (use that in \<open>auto intro: limited_start\<close>)
  show ?thesis
    unfolding createVM_def Let_def split_def
    by (auto simp: post_simps data [THEN post_spec] host after [unfolded split_def] meta split: sum.splits intro!: moves_quiet)
qed

lemma vm_limited: "post (reconcileVM X c s) (\<lambda>(r, s'). limited X (mc_Now c) s s')"
proof -
  have get: "post (getVM X c s1) (\<lambda>(r, s'). limited X (mc_Now c) s s')" if "limited X (mc_Now c) s s1" for s1
    by (rule post_mono [OF post_and [OF getVM_moves [of X c s1 "mc_Now c"] getVM_ref]]) (auto intro: limited_end [OF that])
  have found: "post (reconcileVM_found X c v s1) (\<lambda>(r, s'). limited X (mc_Now c) s s')" if "limited X (mc_Now c) s s1" for s1 v
    by (rule post_mono [OF post_and [OF found_moves [of X c v s1 "mc_Now c"] found_ref]]) (auto intro: limited_end [OF that])
  show ?thesis
    unfolding reconcileVM_def
    by (auto simp: post_simps create_limited [THEN post_spec] get [THEN post_spec] found split: sum.splits option.splits)
qed

lemma running_limited: "post (reconcileNormal_running X c v s) (\<lambda>(r, s'). sameT s s' \<and> clones s' = clones s)"
proof -
  have network: "post (reconcileNetwork X c v s) (\<lambda>(r, s'). clones s' = clones s)" for s
    by (rule post_mono [OF network_core]) auto
  have provider: "post (reconcileProviderID X c v s) (\<lambda>(e, s'). calls s' = calls s)" for s
    unfolding reconcileProviderID_def by (auto simp: post_simps Let_def intro!: postI)
  have node: "post (reconcileNode X c v s1) (\<lambda>(e, s'). calls s' = calls s1)" for s1
    by (rule post_mono [OF reconcileNode_quiet]) (auto simp: quiet_def)
  have "post (reconcileNormal_running X c v s) (\<lambda>(r, s'). clones s' = clones s)"
    unfolding reconcileNormal_running_def
    by (auto simp: post_simps labels_elf [THEN post_spec] provider [THEN post_spec] network [THEN post_spec]
        node [THEN post_spec] duplicates_clones [THEN post_spec] Let_def split: option.splits intro!: postI)
  from post_and [OF tk.running_view this] show ?thesis by (rule post_mono) auto
qed

lemma normal_limited: "post (reconcileNormal X c s) (\<lambda>(r, s'). limited X (mc_Now c) s s')"
proof -
  have running: "post (reconcileNormal_running X c v s1) (\<lambda>(r, s'). limited X (mc_Now c) s s')"
    if "limited X (mc_Now c) s s1" for s1 v s
    by (rule post_mono [OF running_limited]) (use that in \<open>auto intro: limited_end\<close>)
  have vm: "post (reconcileNormal_vm X c s1) (\<lambda>(r, s'). limited X (mc_Now c) s1 s')" for s1
    unfolding reconcileNormal_vm_def
    by (auto simp: post_simps vm_limited [THEN post_spec] running split: option.splits intro!: postI)
  have vm_from: "post (reconcileNormal_vm X c s1) (\<lambda>(r, s'). limited X (mc_Now c) s s')"
    if "sameT s s1" "clones s1 = clones s" "elf s1 = elf s" for s s1
    by (rule post_mono [OF vm]) (use that in \<open>auto intro: limited_start\<close>)
  have ready: "post (reconcileNormal_ready X c s1) (\<lambda>(r, s'). limited X (mc_Now c) s1 s')" for s1
    unfolding reconcileNormal_ready_def
    by (auto simp: post_simps post_and [OF placementGroup_elf tk.placementGroup_view, THEN post_spec] vm_from
        intro!: postI moves_quiet)
  obtain ok m where fd: "reconcileFailureDomain c (elf s) = (ok, m)" by fastforce
  have go: "post (reconcileNormal_ready X c (s\<lparr>elf := m\<rparr>)) (\<lambda>(r, s'). limited X (mc_Now c) s s')"
    by (rule post_mono [OF ready]) (use failureDomain_frame [OF fd] in \<open>auto intro: limited_start\<close>)
  have add: "tc (snd (AddFinalizerWithOptimisticLock X m1 f s1)) = tc s1 \<and>
      calls (snd (AddFinalizerWithOptimisticLock X m1 f s1)) = calls s1" for m1 f s1
    by (simp add: AddFinalizerWithOptimisticLock_def query_eq Let_def split: sum.splits)
  show ?thesis
    unfolding reconcileNormal_def Let_def fd split_def
    by (cases ok) (simp_all add: post_simps go [unfolded split_def] add moves_quiet)
qed

text \<open>A deletion asks for no virtual machine.\<close>

lemma deleteVM_moves: "post (reconcileDeleteVM X c s) (\<lambda>(r, s'). moves X now s s')"
  unfolding reconcileDeleteVM_def
  by (auto simp: post_simps query_eq request_eq task_moves [of X c _ _ now, THEN post_spec] tk.node_view stopForDeletion_def
      Let_def case_prod_beta split: sum.splits option.splits intro!: postI)

lemma deleteVM_clones: "post (reconcileDeleteVM X c s) (\<lambda>(r, s'). clones s' = clones s)"
  by (rule post_mono [OF deleteVM_frame]) (auto simp: deleteCall_def split: if_splits)

lemma delete_limited: "post (reconcileDelete X c s) (\<lambda>(r, s'). limited X (mc_Now c) s s')"
proof -
  have rem: "tc (removeFinalizer X s) = tc s" for s :: "('a, 'b) st" by (simp add: removeFinalizer_def)
  have vm: "post (reconcileDelete_vm X c s) (\<lambda>(r, s'). moves X (mc_Now c) s s' \<and> clones s' = clones s)" for s
    unfolding reconcileDelete_vm_def
    by (auto simp: post_simps post_and [OF tk.duplicates_view duplicates_clones, THEN post_spec] rem
        post_and [OF deleteVM_moves [of X c _ "mc_Now c"] deleteVM_clones, THEN post_spec] split: option.splits intro!: postI)
  have pg: "post (deletePlacementGroup X c s) (\<lambda>(r, s'). clones s' = clones s)" for s
    by (rule post_mono [OF deletePG_frame]) auto
  have body: "post (reconcileDelete_body X c s) (\<lambda>(r, s'). moves X (mc_Now c) s s' \<and> clones s' = clones s)" for s
    unfolding reconcileDelete_body_def
    by (auto simp: post_simps query_eq post_and [OF tk.deletePG_view pg, THEN post_spec] rem vm [THEN post_spec]
        split: sum.splits intro!: postI)
  show ?thesis
    unfolding reconcileDelete_def
    by (auto simp: post_simps body [THEN post_spec] intro!: postI moves_quiet)
qed

lemma context_limited: "post (reconcileInContext X c s) (\<lambda>(r, s'). limited X (mc_Now c) s s')"
proof -
  have meta: "em_meta (emMarkFalse L now t rs sev msg m) = em_meta m" "em_meta (emMarkTrue L now t m) = em_meta m" for L now t rs sev msg m
    by (simp_all add: emMarkFalse_def emMarkTrue_def)
  have deferred: "tc (snd (reconcileDeferred X c r s1)) = tc s1 \<and> calls (snd (reconcileDeferred X c r s1)) = calls s1" for c r s1
    by (simp add: reconcileDeferred_def query_eq Let_def split_def)
  have after: "post (if b then reconcileDelete X c' s1 else reconcileNormal X c' s1)
      (\<lambda>(r, s'). limited X (mc_Now c) s (snd (reconcileDeferred X c' r s')))"
    if "sameT s s1" "clones s1 = clones s" "em_meta (elf s1) = em_meta (elf s)" "mc_Now c' = mc_Now c" for b c' s1
  proof -
    have "post (if b then reconcileDelete X c' s1 else reconcileNormal X c' s1) (\<lambda>(r, s'). limited X (mc_Now c') s1 s')"
      by (simp add: delete_limited normal_limited)
    then show ?thesis
      by (rule post_mono) (use that in \<open>auto simp: limited_def deferred\<close>)
  qed
  show ?thesis
    unfolding reconcileInContext_def newVMService_def
    by (auto simp: post_simps query_eq after [of _ _ True, simplified split_def if_True]
        after [of _ _ False, simplified split_def if_False] meta split_def Let_def split: sum.splits intro!: moves_quiet)
qed

text \<open>
  One run of the reconciler on the shared caches: the tickets move as the contract says, and when
  the run asks Tower for a virtual machine of a worker, the cache had room for its ticket.
\<close>

lemma run_limited:
  assumes "Reconcile X now ns n s = Some (r, s')" and "fst (K_GetElfMachine (e_k8s X) ns n (world s)) = Inr m"
  shows "limited X now (s\<lparr>elf := m\<rparr>) s'"
proof -
  have owner: "GetOwnerMachine X mt s0 = (r, s1) \<Longrightarrow> tc s1 = tc s0 \<and> calls s1 = calls s0 \<and> elf s1 = elf s0" for mt s0 r s1
    by (auto simp: GetOwnerMachine_def query_eq split: sum.splits option.splits)
  have cluster: "GetClusterFromMetadata X mt s0 = (r, s1) \<Longrightarrow> tc s1 = tc s0 \<and> calls s1 = calls s0 \<and> elf s1 = elf s0" for mt s0 r s1
    by (auto simp: GetClusterFromMetadata_def GetClusterByName_def query_eq Let_def split: sum.splits if_splits)
  have after: "post (reconcileInContext X c s1) (\<lambda>(r, s'). limited X now s0 s')"
    if "sameT s0 s1" "clones s1 = clones s0" "elf s1 = elf s0" "mc_Now c = now" for c s0 s1
    by (rule post_mono [OF context_limited]) (use that in \<open>auto intro: limited_start\<close>)
  have "post (Reconcile X now ns n s) (\<lambda>(r, s'). limited X now (s\<lparr>elf := m\<rparr>) s')"
    unfolding Reconcile_def
    by (auto simp: assms(2) post_simps query_eq after Let_def split: sum.splits prod.splits option.splits
        intro!: postI [of "cl_infrastructureRefName cl" for cl] moves_quiet dest!: owner cluster)
  from postD [OF this assms(1)] show ?thesis by simp
qed

section \<open>The fleet\<close>

text \<open>
  The states of one process: the clock, the outside world (Tower and the API servers) and the
  package state. At the start no ticket is live; then time passes, the world changes, the
  reconcilers of any ElfMachine and any ElfCluster run, in any order, each with clients and services
  of its own. The step \<open>interleave\<close> is a ticket operation of a run that is still going on:
  by \<open>run_limited\<close> a run is a sequence of them.
\<close>

inductive fleet :: "('c, cacheVal) gocache \<Rightarrow> config \<Rightarrow> int \<Rightarrow> 'w \<Rightarrow> 'c gstate \<Rightarrow> bool" for C cfg where
  start: "live_keys C (vmConcurrentCache g) t = {} \<Longrightarrow> fleet C cfg t w g"
| tick: "fleet C cfg t w g \<Longrightarrow> t \<le> t' \<Longrightarrow> fleet C cfg t' w g"
| others: "fleet C cfg t w g \<Longrightarrow> fleet C cfg t w' g"
| machine: "fleet C cfg t (world s) (glob s) \<Longrightarrow> e_cache X = C \<Longrightarrow> e_cfg X = cfg \<Longrightarrow>
     Reconcile X t ns n s = Some (r, s') \<Longrightarrow> fleet C cfg t (world s') (glob s')"
| cluster: "fleet C cfg t (cworld cs) (cglob cs) \<Longrightarrow> e_cache X = C \<Longrightarrow> e_cfg X = cfg \<Longrightarrow>
     cluster_Reconcile X t ns n cs = Some (r, cs') \<Longrightarrow> fleet C cfg t (cworld cs') (cglob cs')"
| interleave: "fleet C cfg t w g \<Longrightarrow> ticketMove C cfg t (vmConcurrentCache g) c \<Longrightarrow>
     fleet C cfg t w (g\<lparr>vmConcurrentCache := c\<rparr>)"

text \<open>The invariant: the number of live tickets is within the limit.\<close>

definition within :: "('c, cacheVal) gocache \<Rightarrow> config \<Rightarrow> int \<Rightarrow> 'c \<Rightarrow> bool" where
  "within C cfg t c \<longleftrightarrow> card (live_keys C c t) \<le> cfg_MaxConcurrentVMCreations cfg"

context limiter_cache
begin

lemma within_move:
  assumes "ticketMove C cfg t c c'" and "within C cfg t c"
  shows "within C cfg t c'"
  using assms(1)
proof cases
  case (drop k)
  have "card (live_keys C c t - {k}) \<le> card (live_keys C c t)" by (rule card_mono) (auto simp: live_finite)
  with drop assms(2) show ?thesis by (simp add: within_def live_keys_delete)
next
  case (take n)
  have "card (insert (getKeyForVM n) (live_keys C c t)) \<le> Suc (cItemCount C c)"
    using live_itemcount [of c t] card_insert_le_m1 [of "Suc (cItemCount C c)" "live_keys C c t" "getKeyForVM n"] by simp
  with take show ?thesis by (simp add: within_def live_keys_set limiter_time_defs)
qed

lemma within_moves: "(ticketMove C cfg t)\<^sup>*\<^sup>* c c' \<Longrightarrow> within C cfg t c \<Longrightarrow> within C cfg t c'"
  by (induction rule: rtranclp_induct) (auto intro: within_move)

lemma within_tick:
  assumes "within C cfg t c" and "t \<le> t'"
  shows "within C cfg t' c"
proof -
  have "card (live_keys C c t') \<le> card (live_keys C c t)"
    by (rule card_mono) (simp_all add: live_finite live_keys_antimono assms(2))
  with assms(1) show ?thesis by (simp add: within_def)
qed

end

lemma fleet_within:
  assumes "limiter_cache C" and "fleet C cfg t w g"
  shows "within C cfg t (vmConcurrentCache g)"
  using assms(2)
proof (induction rule: fleet.induct)
  case (start g t w)
  then show ?case by (simp add: within_def)
next
  case (tick t w g t')
  from limiter_cache.within_tick [OF assms(1) tick.IH tick.hyps(2)] show ?case .
next
  case (machine t s X ns n r s')
  show ?case
  proof (cases "fst (K_GetElfMachine (e_k8s X) ns n (world s))")
    case (Inl err)
    with machine show ?thesis by (auto simp: Reconcile_def query_eq)
  next
    case (Inr m)
    from run_limited [OF machine.hyps(4) Inr] machine.hyps(2,3)
    have "(ticketMove C cfg t)\<^sup>*\<^sup>* (tc s) (tc s')" by (simp add: limited_def)
    from limiter_cache.within_moves [OF assms(1) this machine.IH] show ?thesis .
  qed
next
  case (cluster t cs X ns n r cs')
  from cluster_run_view [OF tk.glob_laws_axioms cluster.hyps(4)] cluster.IH show ?case by simp
next
  case (interleave t w g c)
  from limiter_cache.within_move [OF assms(1) interleave.hyps(2) interleave.IH] show ?case by simp
qed

text \<open>
  Property C10. The creation of workers is limited over the whole process: in every state that the
  runs of the reconcilers reach, at most \<^verbatim>\<open>MaxConcurrentVMCreations\<close> tickets are
  live, before and after every run; and a run that asks Tower for the virtual machine of a worker
  started with fewer live tickets than the limit.
\<close>

theorem fleet_creation_limit:
  assumes "limiter_cache C" and "fleet C cfg t (world s) (glob s)"
    and "e_cache X = C" and "e_cfg X = cfg" and "fst (K_GetElfMachine (e_k8s X) ns n (world s)) = Inr m"
    and "Reconcile X t ns n s = Some (r, s')"
  shows "card (live_keys C (vmConcurrentCache (glob s)) t) \<le> cfg_MaxConcurrentVMCreations cfg \<and>
    card (live_keys C (vmConcurrentCache (glob s')) t) \<le> cfg_MaxConcurrentVMCreations cfg \<and>
    (\<not> IsControlPlaneMachine (em_meta m) \<and> filter isClone (calls s') \<noteq> filter isClone (calls s) \<longrightarrow>
       card (live_keys C (vmConcurrentCache (glob s)) t) < cfg_MaxConcurrentVMCreations cfg)"
proof -
  have "card (live_keys C (tc s) t) \<le> cItemCount C (tc s)"
    using go_cache.live_itemcount [OF limiter_cache.axioms [OF assms(1)]] .
  moreover have "limited X t (s\<lparr>elf := m\<rparr>) s'" by (rule run_limited [OF assms(6,5)])
  moreover have "fleet C cfg t (world s') (glob s')" by (rule fleet.machine [OF assms(2-4,6)])
  ultimately show ?thesis
    using fleet_within [OF assms(1,2)] fleet_within [OF assms(1)] assms(3,4)
    by (auto simp: within_def limited_def)
qed

definition wit_fleet_env :: "(unit, cacheVal ttl) env" where
  "wit_fleet_env = wit_run_env\<lparr>e_k8s := (e_k8s wit_run_env)\<lparr>
     K_GetElfMachine := (\<lambda>_ n w. (Inr (wit_elf\<lparr>em_meta := (em_meta wit_elf)\<lparr>om_OwnerReferences :=
        [(''cluster.x-k8s.io/v1beta1'', ''Machine'', ''machine1'')]\<rparr>\<rparr>), w)),
     K_GetMachine := (\<lambda>_ n w. (Inr ((mc_Machine wit_worker)\<lparr>m_meta := (m_meta (mc_Machine wit_worker))\<lparr>om_Labels :=
        Some [(MachineDeploymentNameLabel, ''md1''), (ClusterNameLabel, ''cluster1'')]\<rparr>\<rparr>), w)),
     K_GetCluster := (\<lambda>_ n w. (Inr (mc_Cluster wit_worker), w)),
     K_GetElfCluster := (\<lambda>_ n w. (Inr (mc_ElfCluster wit_worker), w))\<rparr>\<rparr>"

lemma wit_fleet:
  "case Reconcile wit_fleet_env 7 ''default'' ''vm1'' wit_st of
     Some (r, s') \<Rightarrow> clones s' \<noteq> [] | None \<Rightarrow> False"
  by code_simp

theorem fleet_creation_limit_witness:
  "\<exists>r s'. Reconcile wit_fleet_env 7 ''default'' ''vm1'' wit_st = Some (r, s') \<and> filter isClone (calls s') \<noteq> [] \<and>
     card (live_keys ttl_cache (vmConcurrentCache (glob s')) 7) \<le> cfg_MaxConcurrentVMCreations wit_cfg"
proof -
  obtain r s' where r: "Reconcile wit_fleet_env 7 ''default'' ''vm1'' wit_st = Some (r, s')" "clones s' \<noteq> []"
    using wit_fleet by (auto split: option.splits)
  have env: "e_cache wit_fleet_env = ttl_cache" "e_cfg wit_fleet_env = wit_cfg"
    "\<exists>m. fst (K_GetElfMachine (e_k8s wit_fleet_env) ''default'' ''vm1'' (world wit_st)) = Inr m"
    by (simp_all add: wit_fleet_env_def wit_run_env_def)
  have "live_keys ttl_cache (tc wit_st) 7 = {}"
    by (simp add: live_keys_def ttl_cache_def ttl_get_def wit_gstate_def wit_st_def)
  then have "fleet ttl_cache wit_cfg 7 (world wit_st) (glob wit_st)" by (rule fleet.start)
  with fleet_creation_limit [OF lim.limiter_cache_axioms _ env(1,2) _ r(1)] env(3) r show ?thesis by blast
qed

end
