(* ===== verification/Group_Lock.thy ===== *)
theory Group_Lock
  imports Fleet
begin

text \<open>
  The tickets of placement groups over whole runs. A ticket has no expiry, so one that a run left
  behind would lock its group for the life of the process: the theorem of this theory is that no
  run of a reconciler, on any branch, does. Runs that end in a panic are not followed further.
\<close>

section \<open>A whole run\<close>

declare tk.quietV_posts [post_simps del]

text \<open>A view that the tickets of the creation do not change either is kept by every stage.\<close>

locale glob_run = glob_view X c view
  for X :: "('w, 'c) env" and c :: machineContext and view :: "'c gstate \<Rightarrow> 'o" +
  assumes view_tickets [simp]: "view (g\<lparr>vmConcurrentCache := k\<rparr>) = view g"
begin

lemma create_ops [simp]:
  "view (snd (acquireTicketForCreateVM (e_cache X) (e_cfg X) t n cp g)) = view g"
  "view (glob (releaseCreateTicket X s)) = view (glob s)"
  by (simp_all add: acquireTicketForCreateVM_def releaseCreateTicket_def releaseTicketForCreateVM_def)

lemma acquire_matched: "acquireTicketForCreateVM (e_cache X) (e_cfg X) t n cp g = (r, g') \<Longrightarrow> view g' = view g"
  using create_ops(1) [of t n cp g] by simp

lemma task_view: "post (reconcileVMTask X c vo s) (\<lambda>(r, s'). sameV s s')"
proof -
  have error: "post (failedTaskByError X c msg s1) (\<lambda>(e, s'). sameV s1 s')" for msg s1
    by (auto simp: failedTaskByError_def post_simps recordPG_view [THEN post_spec] intro!: postI)
  have kind: "view (glob (failedTaskByKind X c task msg s1)) = view (glob s1)" for task msg s1
    by (auto simp: failedTaskByKind_def Let_def)
  have failed: "post (reconcileVMFailedTask X c task s1) (\<lambda>(e, s'). sameV s1 s')" for task s1
    by (auto simp: reconcileVMFailedTask_def error [THEN post_spec] kind Let_def intro!: postI)
  have "post (succeededTask X c task s1) (\<lambda>(e, s'). sameV s1 s')" for task s1
    unfolding succeededTask_def Let_def
    by (auto simp: post_simps recordPG_view [THEN post_spec] intro!: postI)
  note succeeded = this [THEN post_spec]
  show ?thesis
    unfolding reconcileVMTask_def Let_def
    by (auto simp: post_simps query_eq failed [THEN post_spec] succeeded taskDeferred_def split: sum.splits intro!: postI)
qed

lemma getVM_view: "post (getVM X c s) (\<lambda>(r, s'). sameV s s')"
  unfolding getVM_def
  by (auto simp: post_simps query_eq task_view [THEN post_spec] Let_def
      split: sum.splits option.splits intro!: postI)

lemma found_view: "post (reconcileVM_found X c v s) (\<lambda>(r, s'). sameV s s')"
proof -
  have bin: "view (glob (moveToRecycleBin s)) = view (glob s)" for s :: "('w, 'c) st" by (simp add: moveToRecycleBin_def)
  show ?thesis
    unfolding reconcileVM_found_def
    by (auto simp: post_simps task_view [THEN post_spec] hostZone_view [THEN post_spec] run_view [THEN post_spec] bin
        Let_def intro!: postI)
qed

lemma create_view: "post (createVM X c s) (\<lambda>(r, s'). sameV s s')"
proof -
  have host: "vw (snd (GenerateHostname X c s1)) = vw s1" for s1
    by (simp add: GenerateHostname_def Let_def split_def)
  have data: "post (getBootstrapData X c n s1) (\<lambda>(r, s2). sameV s1 s2)" for n s1
    unfolding getBootstrapData_def
    by (auto simp: post_simps query_eq Let_def split: sum.splits option.splits intro!: postI)
  have clone: "post (cloneVM X c info s) (\<lambda>(r, s'). sameV s s')" for info s
    unfolding cloneVM_def
    by (auto simp: post_simps query_eq request_eq Let_def split: sum.splits intro!: postI)
  have ticket: "post (createVM_ticket X c h b s) (\<lambda>(r, s'). sameV s s')" for h b s
    unfolding createVM_ticket_def
    by (auto simp: post_simps host_view [THEN post_spec] clone [THEN post_spec] split: sum.splits option.splits intro!: postI)
  have schedule: "post (createVM_schedule X c h b s) (\<lambda>(r, s'). sameV s s')" for h b s
    unfolding createVM_schedule_def
    by (auto simp: post_simps schedule_view [THEN post_spec] ticket [THEN post_spec] Let_def
        split: prod.splits intro!: postI dest!: acquire_matched)
  show ?thesis
    unfolding createVM_def Let_def split_def
    by (auto simp: post_simps data [THEN post_spec] host schedule [THEN post_spec, unfolded split_def] split: sum.splits intro!: postI)
qed

lemma vm_view: "post (reconcileVM X c s) (\<lambda>(r, s'). sameV s s')"
  unfolding reconcileVM_def
  by (auto simp: post_simps create_view [THEN post_spec] getVM_view [THEN post_spec] found_view [THEN post_spec]
      split: sum.splits option.splits)

lemma normal_view: "post (reconcileNormal X c s) (\<lambda>(r, s'). sameV s s')"
proof -
  have vm: "post (reconcileNormal_vm X c s1) (\<lambda>(r, s'). sameV s1 s')" for s1
    unfolding reconcileNormal_vm_def
    by (auto simp: post_simps vm_view [THEN post_spec] running_view [THEN post_spec] split: option.splits intro!: postI)
  have ready: "post (reconcileNormal_ready X c s1) (\<lambda>(r, s'). sameV s1 s')" for s1
    unfolding reconcileNormal_ready_def
    by (auto simp: post_simps placementGroup_view [THEN post_spec] vm [THEN post_spec] intro!: postI)
  obtain ok m where fd: "reconcileFailureDomain c (elf s) = (ok, m)" by fastforce
  have go: "post (reconcileNormal_ready X c (s\<lparr>elf := m\<rparr>)) (\<lambda>(r, s'). sameV s s')"
    by (rule post_mono [OF ready]) auto
  have add: "vw (snd (AddFinalizerWithOptimisticLock X m1 f s1)) = vw s1" for m1 f s1
    by (simp add: AddFinalizerWithOptimisticLock_def query_eq Let_def split: sum.splits)
  show ?thesis
    unfolding reconcileNormal_def Let_def fd split_def
    by (cases ok) (simp_all add: post_simps go [unfolded split_def] add)
qed

lemma delete_view: "post (reconcileDelete X c s) (\<lambda>(r, s'). sameV s s')"
proof -
  have rem: "view (glob (removeFinalizer X s)) = view (glob s)" for s :: "('w, 'c) st" by (simp add: removeFinalizer_def)
  have del: "post (reconcileDeleteVM X c s) (\<lambda>(r, s'). sameV s s')" for s
    unfolding reconcileDeleteVM_def
    by (auto simp: post_simps query_eq request_eq task_view [THEN post_spec] node_view stopForDeletion_def
        Let_def case_prod_beta split: sum.splits option.splits intro!: postI)
  have vm: "post (reconcileDelete_vm X c s) (\<lambda>(r, s'). sameV s s')" for s
    unfolding reconcileDelete_vm_def
    by (auto simp: post_simps duplicates_view [THEN post_spec] rem del [THEN post_spec] split: option.splits intro!: postI)
  have body: "post (reconcileDelete_body X c s) (\<lambda>(r, s'). sameV s s')" for s
    unfolding reconcileDelete_body_def
    by (auto simp: post_simps query_eq deletePG_view [THEN post_spec] rem vm [THEN post_spec] split: sum.splits intro!: postI)
  show ?thesis
    unfolding reconcileDelete_def by (auto simp: post_simps body [THEN post_spec] intro!: postI)
qed

end

lemma glob_run_at: "glob_laws X (mc_Now c) view \<Longrightarrow> glob_run_axioms view \<Longrightarrow> glob_run X c view"
  by (simp add: glob_run_def glob_view_def)

lemma machine_run_view:
  assumes "glob_laws X now view" "glob_run_axioms view" and "Reconcile X now ns n s = Some (r, s')"
  shows "view (glob s') = view (glob s)"
proof -
  have deferred: "glob (snd (reconcileDeferred X c r s)) = glob s" for c r s
    by (simp add: reconcileDeferred_def query_eq Let_def split_def)
  have context': "post (reconcileInContext X c s) (\<lambda>(r, s'). view (glob s') = view (glob s))" if "mc_Now c = now" for c s
  proof -
    have laws: "glob_run X c' view" if "mc_Now c' = now" for c'
      using assms(1,2) that by (simp add: glob_run_at)
    note * = glob_run.delete_view [OF laws, THEN post_spec] glob_run.normal_view [OF laws, THEN post_spec]
    show ?thesis
      unfolding reconcileInContext_def newVMService_def
      by (auto simp: post_simps query_eq * deferred that case_prod_beta split: sum.splits intro!: postI)
  qed
  have owner: "GetOwnerMachine X mt s0 = (r, s1) \<Longrightarrow> glob s1 = glob s0" for mt s0 r s1
    by (auto simp: GetOwnerMachine_def query_eq split: sum.splits option.splits)
  have cluster: "GetClusterFromMetadata X mt s0 = (r, s1) \<Longrightarrow> glob s1 = glob s0" for mt s0 r s1
    by (auto simp: GetClusterFromMetadata_def GetClusterByName_def query_eq Let_def split: sum.splits if_splits)
  have "post (Reconcile X now ns n s) (\<lambda>(r, s'). view (glob s') = view (glob s))"
    unfolding Reconcile_def
    by (auto simp: post_simps query_eq context' [THEN post_spec] Let_def split: sum.splits prod.splits option.splits
        intro!: postI dest!: owner cluster)
  from postD [OF this assms(3)] show ?thesis by simp
qed

section \<open>The groups that are locked\<close>

definition heldGroups :: "('c, cacheVal) gocache \<Rightarrow> int \<Rightarrow> 'c gstate \<Rightarrow> string set" where
  "heldGroups C t g = {n. plainGroup n \<and> cGet C (inMemoryCache g) t (getKeyForPlacementGroup n) \<noteq> None}"

lemma held_tickets: "glob_run_axioms (heldGroups C t)"
  by unfold_locales (simp add: heldGroups_def)

context limiter_cache
begin

lemma held_laws:
  assumes "e_cache X = C"
  shows "glob_laws X t (heldGroups C t)"
proof (unfold_locales, unfold assms)
  show "heldGroups C t (g\<lparr>inMemoryCache := cSet C (inMemoryCache g) t k v d\<rparr>) = heldGroups C t g"
    if "foreign k" and "case d of None \<Rightarrow> True | Some n \<Rightarrow> 0 < n" for g k v d
    using that by (auto simp: heldGroups_def foreign_def cGet_set_now split: if_splits)
  show "heldGroups C t (g\<lparr>inMemoryCache := cDelete C (inMemoryCache g) k\<rparr>) = heldGroups C t g" if "foreign k" for g k
    using that by (auto simp: heldGroups_def foreign_def cGet_delete split: if_splits)
  show "heldGroups C t (releaseTicketForPlacementGroupOperation C n g2) = heldGroups C t g"
    if "acquireTicketForPlacementGroupOperation C t n g = (True, g1)" and "heldGroups C t g2 = heldGroups C t g1" for n g g1 g2
  proof -
    have "heldGroups C t (releaseTicketForPlacementGroupOperation C n g2) = heldGroups C t g2 - {n}"
      by (auto simp: heldGroups_def pg_release_get getKeyForPlacementGroup_inj)
    also have "\<dots> = heldGroups C t g1 - {n}" by (simp add: that(2))
    also have "\<dots> = heldGroups C t g"
      using that(1) by (auto simp: heldGroups_def acquireTicketForPlacementGroupOperation_def cGet_set_now
          getKeyForPlacementGroup_inj split: if_splits)
    finally show ?thesis .
  qed
qed (simp_all add: heldGroups_def)

lemma held_later: "t \<le> t' \<Longrightarrow> heldGroups C t' g \<subseteq> heldGroups C t g"
  by (auto simp: heldGroups_def dest: cGet_antimono)

lemma free_again: "plainGroup n \<Longrightarrow> n \<notin> heldGroups C t g \<Longrightarrow> fst (acquireTicketForPlacementGroupOperation C t n g)"
  by (simp add: heldGroups_def acquireTicketForPlacementGroupOperation_def)

end

text \<open>The laws hold in every environment with the modelled cache.\<close>

interpretation held: glob_run "X\<lparr>e_cache := ttl_cache\<rparr>" c "heldGroups ttl_cache (mc_Now c)"
  for X :: "('w, cacheVal ttl) env" and c
  by (rule glob_run_at) (simp_all add: lim.held_laws held_tickets)

section \<open>Sequences of runs\<close>

text \<open>
  What happens to the package state of one process when runs follow each other: time passes, the
  world changes, the reconcilers of any ElfMachine and any ElfCluster run, each with clients and
  services of its own that may fail in any call.
\<close>

inductive serial :: "('c, cacheVal) gocache \<Rightarrow> int \<Rightarrow> 'c gstate \<Rightarrow> int \<Rightarrow> 'w \<Rightarrow> 'c gstate \<Rightarrow> bool" for C t0 g0 where
  start: "serial C t0 g0 t0 w g0"
| pass: "serial C t0 g0 t w g \<Longrightarrow> t \<le> t' \<Longrightarrow> serial C t0 g0 t' w' g"
| machine: "serial C t0 g0 t (world s) (glob s) \<Longrightarrow> e_cache X = C \<Longrightarrow>
     Reconcile X t ns n s = Some (r, s') \<Longrightarrow> serial C t0 g0 t (world s') (glob s')"
| cluster: "serial C t0 g0 t (cworld cs) (cglob cs) \<Longrightarrow> e_cache X = C \<Longrightarrow>
     cluster_Reconcile X t ns n cs = Some (r, cs') \<Longrightarrow> serial C t0 g0 t (cworld cs') (cglob cs')"

lemma serial_held:
  assumes "limiter_cache C" and "serial C t0 g0 t w g"
  shows "t0 \<le> t \<and> heldGroups C t g \<subseteq> heldGroups C t0 g0"
  using assms(2)
proof (induction rule: serial.induct)
  case (pass t w g t' w')
  then show ?case using limiter_cache.held_later [OF assms(1) pass.hyps(2), of g] by auto
next
  case (machine t s X ns n r s')
  note laws = limiter_cache.held_laws [OF assms(1) machine.hyps(2), of t]
  from machine_run_view [OF laws held_tickets machine.hyps(3)] machine.IH show ?case by simp
next
  case (cluster t cs X ns n r cs')
  note laws = limiter_cache.held_laws [OF assms(1) cluster.hyps(2), of t]
  from cluster_run_view [OF laws cluster.hyps(3)] cluster.IH show ?case by simp
qed simp

text \<open>
  Property C15. No run leaves a placement group locked: after any sequence of runs, whatever
  Tower and the API server answered, only groups that were locked at the start can be locked, and
  the operations on every other group find its ticket free. (The names of groups contain no
  colon.)
\<close>

theorem no_group_ticket_leaks:
  assumes "limiter_cache C" and "serial C t0 g0 t w g"
  shows "{n. plainGroup n \<and> \<not> fst (acquireTicketForPlacementGroupOperation C t n g)} \<subseteq>
    {n. plainGroup n \<and> \<not> fst (acquireTicketForPlacementGroupOperation C t0 n g0)}"
proof -
  have refused: "{n. plainGroup n \<and> \<not> fst (acquireTicketForPlacementGroupOperation C t n g)} = heldGroups C t g" for t g
    by (auto simp: heldGroups_def acquireTicketForPlacementGroupOperation_def)
  show ?thesis unfolding refused using serial_held [OF assms] by simp
qed

text \<open>The run of the witness finds no placement group, takes the ticket and fails to create one.\<close>

definition wit_lock_env :: "(unit, cacheVal ttl) env" where
  "wit_lock_env = wit_fleet_env\<lparr>e_svc := (e_svc wit_fleet_env)\<lparr>
     Svc_GetVMPlacementGroup := (\<lambda>_ w. (Inl (ErrMsg VMPlacementGroupNotFound), w)),
     Svc_GetCluster := (\<lambda>_ w. (Inr \<lparr>ref_ID = Some ''cluster'', ref_Name = None\<rparr>, w))\<rparr>\<rparr>"

lemma wit_lock:
  "case Reconcile wit_lock_env 7 ''default'' ''vm1'' wit_st of
     Some (r, s') \<Rightarrow> calls s' = [CallCreatePG ''cape-managed-u-default-md1''] | None \<Rightarrow> False"
  by code_simp

theorem no_group_ticket_leaks_witness:
  "\<exists>r s'. Reconcile wit_lock_env 7 ''default'' ''vm1'' wit_st = Some (r, s') \<and>
     calls s' = [CallCreatePG ''cape-managed-u-default-md1''] \<and>
     fst (acquireTicketForPlacementGroupOperation ttl_cache 7 ''cape-managed-u-default-md1'' (glob s'))"
proof -
  obtain r s' where r: "Reconcile wit_lock_env 7 ''default'' ''vm1'' wit_st = Some (r, s')"
    "calls s' = [CallCreatePG ''cape-managed-u-default-md1'']"
    using wit_lock by (auto split: option.splits)
  have "e_cache wit_lock_env = ttl_cache" by (simp add: wit_lock_env_def wit_fleet_env_def wit_run_env_def)
  from serial.machine [OF serial.start [of ttl_cache 7 "glob wit_st" "world wit_st"] this r(1)]
  have "serial ttl_cache 7 (glob wit_st) 7 (world s') (glob s')" .
  note leaks = no_group_ticket_leaks [OF lim.limiter_cache_axioms this]
  have "plainGroup ''cape-managed-u-default-md1''"
    "fst (acquireTicketForPlacementGroupOperation ttl_cache 7 ''cape-managed-u-default-md1'' (glob wit_st))"
    by (simp_all add: plainGroup_def acquireTicketForPlacementGroupOperation_def ttl_cache_def ttl_get_def wit_gstate_def wit_st_def)
  with leaks have "fst (acquireTicketForPlacementGroupOperation ttl_cache 7 ''cape-managed-u-default-md1'' (glob s'))"
    by blast
  with r show ?thesis by blast
qed

end
