(* ===== verification/Webhooks.thy ===== *)
theory Webhooks
  imports Elf_Machine
begin

text \<open>
  The admission webhooks (\<^verbatim>\<open>webhooks/\<close>) and the version they record
  (\<^verbatim>\<open>pkg/version\<close>): defaults and validation of ElfMachines and ElfMachineTemplates. The JSON
  decoder and encoder and the parser of semantic versions are parameters.
\<close>

section \<open>Versions\<close>

definition CAPEVersionLatest :: string where "CAPEVersionLatest = ''latest''"
definition CAPEVersionDefault :: string where "CAPEVersionDefault = ''v1.7.0''"
definition CAPEVersionAnnotation :: string where
  "CAPEVersionAnnotation = ''cape.infrastructure.cluster.x-k8s.io/cape-version''"
definition TemplateClonedFromNameAnnotation :: string where
  "TemplateClonedFromNameAnnotation = ''cluster.x-k8s.io/cloned-from-name''"

text \<open>The initialisation of the package; \<open>isSemver\<close> stands for the version parser's success.\<close>

definition IsSemanticVersion :: "(string \<Rightarrow> bool) \<Rightarrow> string \<Rightarrow> bool" where
  "IsSemanticVersion isSemver version = isSemver version"

definition CAPEVersion :: "(string \<Rightarrow> bool) \<Rightarrow> string \<Rightarrow> string" where
  "CAPEVersion isSemver build =
     (let buildVersion = (if build = [] then CAPEVersionLatest else build)
      in if IsSemanticVersion isSemver buildVersion then buildVersion else CAPEVersionDefault)"

record versionInfo =
  vi_BuildVersion :: string
  vi_Major :: string
  vi_Minor :: string
  vi_GitVersion :: string
  vi_GitCommit :: string
  vi_GitTreeState :: string
  vi_BuildDate :: string
  vi_GoVersion :: string
  vi_Compiler :: string
  vi_Platform :: string

text \<open>The variables set at build time, and what the Go runtime says of itself.\<close>

record buildVars =
  bv_buildVersion :: string
  bv_gitMajor :: string
  bv_gitMinor :: string
  bv_gitVersion :: string
  bv_gitCommit :: string
  bv_gitTreeState :: string
  bv_buildDate :: string

record goRuntime =
  go_Version :: string
  go_Compiler :: string
  go_GOOS :: string
  go_GOARCH :: string

definition version_Get :: "buildVars \<Rightarrow> goRuntime \<Rightarrow> versionInfo" where
  "version_Get b g =
     \<lparr>vi_BuildVersion = (if bv_buildVersion b = [] then CAPEVersionLatest else bv_buildVersion b),
      vi_Major = bv_gitMajor b, vi_Minor = bv_gitMinor b, vi_GitVersion = bv_gitVersion b, vi_GitCommit = bv_gitCommit b,
      vi_GitTreeState = bv_gitTreeState b, vi_BuildDate = bv_buildDate b, vi_GoVersion = go_Version g,
      vi_Compiler = go_Compiler g, vi_Platform = go_GOOS g @ ''/'' @ go_GOARCH g\<rparr>"

definition versionInfo_String :: "versionInfo \<Rightarrow> string" where
  "versionInfo_String info =
     ''Version: '' @ vi_BuildVersion info @ '', BuildDate: '' @ vi_BuildDate info @ '', GitVersion: '' @ vi_GitVersion info @
     '', GitCommit: '' @ vi_GitCommit info @ '', GoVersion: '' @ vi_GoVersion info"

definition annotation :: "objectMeta \<Rightarrow> string \<Rightarrow> string" where
  "annotation o' key =
     (case om_Annotations o' of
        None \<Rightarrow> []
      | Some as \<Rightarrow> (case gm_get as key of None \<Rightarrow> [] | Some v \<Rightarrow> v))"

definition GetCAPEVersion :: "objectMeta \<Rightarrow> string" where
  "GetCAPEVersion o' = annotation o' CAPEVersionAnnotation"

definition GetTemplateClonedFromName :: "objectMeta \<Rightarrow> string" where
  "GetTemplateClonedFromName o' = annotation o' TemplateClonedFromNameAnnotation"

definition SetCAPEVersion :: "objectMeta \<Rightarrow> string \<Rightarrow> objectMeta" where
  "SetCAPEVersion o' version =
     (if \<not> HasAnnotation o' CAPEVersionAnnotation
      then o'\<lparr>om_Annotations := Some (gm_put CAPEVersionAnnotation version
              (case om_Annotations o' of None \<Rightarrow> [] | Some as \<Rightarrow> as))\<rparr>
      else o')"

definition SetCurrentCAPEVersion :: "(string \<Rightarrow> bool) \<Rightarrow> string \<Rightarrow> objectMeta \<Rightarrow> objectMeta" where
  "SetCurrentCAPEVersion isSemver build o' = SetCAPEVersion o' (CAPEVersion isSemver build)"

section \<open>Errors of the admission\<close>

datatype badValue = BadInt int | BadDevices "networkDeviceSpec list" | BadDevice networkDeviceSpec

record fieldError =
  fe_Path :: string
  fe_BadValue :: badValue
  fe_Detail :: string

datatype admissionError =
    BadRequest string
  | InternalError go_error
  | Invalid string "fieldError list"

text \<open>The objects a validator may be handed; a type assertion succeeds on its own kind only.\<close>

datatype runtimeObject =
    ElfMachineObj elfMachine
  | ElfMachineTemplateObj elfMachineTemplate
  | OtherObj string

fun typeName :: "runtimeObject \<Rightarrow> string" where
  "typeName (ElfMachineObj m) = ''*v1beta1.ElfMachine''"
| "typeName (ElfMachineTemplateObj t) = ''*v1beta1.ElfMachineTemplate''"
| "typeName (OtherObj n) = n"

definition aggregateObjErrors :: "string \<Rightarrow> fieldError list \<Rightarrow> admissionError option" where
  "aggregateObjErrors name allErrs = (if length allErrs = 0 then None else Some (Invalid name allErrs))"

definition invalidIf :: "bool \<Rightarrow> string \<Rightarrow> badValue \<Rightarrow> string \<Rightarrow> fieldError list" where
  "invalidIf b path value detail = (if b then [\<lparr>fe_Path = path, fe_BadValue = value, fe_Detail = detail\<rparr>] else [])"

section \<open>ElfMachineTemplate\<close>

definition template_ValidateCreate :: "runtimeObject \<Rightarrow> admissionError option" where
  "template_ValidateCreate obj =
     (case obj of
        ElfMachineTemplateObj t \<Rightarrow>
          (let spec = emt_Spec t
           in aggregateObjErrors (om_Name (emt_meta t))
                (invalidIf (DiskGiB spec < 0) ''spec.template.spec.diskGiB'' (BadInt (DiskGiB spec))
                   ''the disk capacity can only greater than or equal to 0'' @
                 invalidIf (MemoryMiB spec \<le> 0) ''spec.template.spec.memoryMiB'' (BadInt (MemoryMiB spec))
                   ''the memory can only greater than 0'' @
                 invalidIf (NumCPUs spec \<le> 0) ''spec.template.spec.numCPUs'' (BadInt (NumCPUs spec))
                   ''the umCPUs can only greater than 0'' @
                 invalidIf (NumCoresPerSocket spec \<le> 0) ''spec.template.spec.numCoresPerSocket''
                   (BadInt (NumCoresPerSocket spec)) ''the numCoresPerSocket can only greater than 0''))
      | _ \<Rightarrow> Some (BadRequest (''expected an ElfMachineTemplate but got a '' @ typeName obj)))"

definition template_ValidateDelete :: "runtimeObject \<Rightarrow> admissionError option" where
  "template_ValidateDelete obj = None"

fun firstModified :: "nat \<Rightarrow> networkDeviceSpec list \<Rightarrow> networkDeviceSpec list \<Rightarrow> (nat \<times> networkDeviceSpec) option panics" where
  "firstModified i ds [] = Some None"
| "firstModified i [] (o' # os) = go_panic"
| "firstModified i (d # ds) (o' # os) = (if d \<noteq> o' then Some (Some (i, d)) else firstModified (Suc i) ds os)"

definition validateNetwork :: "networkSpec \<Rightarrow> networkSpec \<Rightarrow> fieldError option panics" where
  "validateNetwork network oldNetwork =
     (if ns_Devices network = ns_Devices oldNetwork then Some None
      else if length (ns_Devices network) < length (ns_Devices oldNetwork) then
        Some (Some \<lparr>fe_Path = ''spec.template.spec.network.devices'', fe_BadValue = BadDevices (ns_Devices network),
                    fe_Detail = ''the network devices cannot be reduced''\<rparr>)
      else do {
        r \<leftarrow> firstModified 0 (ns_Devices network) (ns_Devices oldNetwork);
        Some (case r of
                None \<Rightarrow> None
              | Some (i, d) \<Rightarrow> Some \<lparr>fe_Path = ''spec.template.spec.network.devices['' @ fmt_d (int i) @ '']'',
                                     fe_BadValue = BadDevice d, fe_Detail = ''the network device cannot be modified''\<rparr>) })"

definition template_ValidateUpdate :: "runtimeObject \<Rightarrow> runtimeObject \<Rightarrow> admissionError option panics" where
  "template_ValidateUpdate oldObj newObj =
     (case oldObj of
        ElfMachineTemplateObj old \<Rightarrow>
          (case newObj of
             ElfMachineTemplateObj new \<Rightarrow> do {
               err \<leftarrow> validateNetwork (Network (emt_Spec new)) (Network (emt_Spec old));
               Some (aggregateObjErrors (om_Name (emt_meta new)) (case err of Some e \<Rightarrow> [e] | None \<Rightarrow> [])) }
           | _ \<Rightarrow> Some (Some (BadRequest (''expected an ElfMachineTemplate but got a '' @ typeName newObj))))
      | _ \<Rightarrow> Some (Some (BadRequest (''expected an ElfMachineTemplate but got a '' @ typeName oldObj))))"

text \<open>The defaults; \<open>marshal\<close> is the JSON encoder and the request carries the decoder's result.\<close>

datatype admissionResponse = Errored nat go_error | PatchResponseFromRaw string string

definition defaultIPPoolAPIGroup :: string where "defaultIPPoolAPIGroup = ''ipam.metal3.io''"
definition defaultIPPoolKind :: string where "defaultIPPoolKind = ''IPPool''"

definition defaultPool :: "typedLocalObjectReference \<Rightarrow> typedLocalObjectReference" where
  "defaultPool p =
     (let p = (if tr_APIGroup p = None \<or> tr_APIGroup p = Some [] then p\<lparr>tr_APIGroup := Some defaultIPPoolAPIGroup\<rparr> else p)
      in if tr_Kind p = [] then p\<lparr>tr_Kind := defaultIPPoolKind\<rparr> else p)"

definition template_defaults :: "elfMachineTemplate \<Rightarrow> elfMachineTemplate" where
  "template_defaults t =
     (let spec = emt_Spec t;
          spec = (if NumCoresPerSocket spec \<le> 0 then spec\<lparr>NumCoresPerSocket := NumCPUs spec\<rparr> else spec);
          devices = map (\<lambda>d. d\<lparr>nd_AddressesFromPools := map defaultPool (nd_AddressesFromPools d)\<rparr>) (ns_Devices (Network spec))
      in t\<lparr>emt_Spec := spec\<lparr>Network := (Network spec)\<lparr>ns_Devices := devices\<rparr>\<rparr>\<rparr>)"

definition template_Handle ::
  "(elfMachineTemplate \<Rightarrow> go_error + string) \<Rightarrow> string \<Rightarrow> go_error + elfMachineTemplate \<Rightarrow> admissionResponse" where
  "template_Handle marshal raw decoded =
     (case decoded of
        Inl err \<Rightarrow> Errored 400 err
      | Inr t \<Rightarrow>
          (case marshal (template_defaults t) of
             Inl err \<Rightarrow> Errored 500 err
           | Inr marshaled \<Rightarrow> PatchResponseFromRaw raw marshaled))"

section \<open>ElfMachine\<close>

definition machine_ValidateUpdate ::
  "'w k8s \<Rightarrow> runtimeObject \<Rightarrow> runtimeObject \<Rightarrow> 'w \<Rightarrow> admissionError option \<times> 'w" where
  "machine_ValidateUpdate K oldObj newObj w =
     (case oldObj of
        ElfMachineObj old \<Rightarrow>
          (case newObj of
             ElfMachineObj m \<Rightarrow>
               (let name = GetTemplateClonedFromName (em_meta m); spec = Spec m; o' = Spec old;
                    sameMsg = ''virtual machine resources should be the same as ElfMachineTemplate '' @ name;
                    result = (\<lambda>fromTemplate.
                      aggregateObjErrors (om_Name (em_meta m))
                        (fromTemplate @
                         invalidIf (DiskGiB spec < DiskGiB o') ''spec.diskGiB'' (BadInt (DiskGiB spec))
                           ''the disk capacity can only be expanded'' @
                         invalidIf (NumCPUs spec < NumCPUs o') ''spec.numCPUs'' (BadInt (NumCPUs spec))
                           ''the vcpu capacity can only be expanded'' @
                         invalidIf (MemoryMiB spec < MemoryMiB o') ''spec.memoryMiB'' (BadInt (MemoryMiB spec))
                           ''the memory capacity can only be expanded'' @
                         invalidIf (NumCoresPerSocket o' \<noteq> 0 \<and> NumCoresPerSocket spec \<noteq> NumCoresPerSocket o')
                           ''spec.numCoresPerSocket'' (BadInt (NumCoresPerSocket spec))
                           ''the number of cores per socket cannot be changed''))
                in if name = [] then (result [], w)
                   else
                     (case K_GetElfMachineTemplate K (om_Namespace (em_meta m)) name w of
                        (Inl err, w) \<Rightarrow> (Some (InternalError err), w)
                      | (Inr elfMachineTemplate, w) \<Rightarrow>
                          (let t = emt_Spec elfMachineTemplate
                           in (result
                                (invalidIf (DiskGiB spec \<noteq> DiskGiB t) ''spec.diskGiB'' (BadInt (DiskGiB spec)) sameMsg @
                                 invalidIf (NumCPUs spec \<noteq> NumCPUs t) ''spec.numCPUs'' (BadInt (NumCPUs spec)) sameMsg @
                                 invalidIf (NumCoresPerSocket spec \<noteq> 0 \<and> NumCoresPerSocket t \<noteq> 0 \<and>
                                            NumCoresPerSocket spec \<noteq> NumCoresPerSocket t)
                                   ''spec.numCoresPerSocket'' (BadInt (NumCoresPerSocket spec)) sameMsg @
                                 invalidIf (MemoryMiB spec \<noteq> MemoryMiB t) ''spec.memoryMiB'' (BadInt (MemoryMiB spec)) sameMsg), w))))
           | _ \<Rightarrow> (Some (BadRequest (''expected an ElfMachine but got a '' @ typeName newObj)), w))
      | _ \<Rightarrow> (Some (BadRequest (''expected an ElfMachine but got a '' @ typeName oldObj)), w))"

text \<open>Creations and deletions of ElfMachines are always allowed.\<close>

definition machine_ValidateCreate :: "runtimeObject \<Rightarrow> admissionError option" where
  "machine_ValidateCreate obj = None"

definition machine_ValidateDelete :: "runtimeObject \<Rightarrow> admissionError option" where
  "machine_ValidateDelete obj = None"

definition setCores :: "int \<Rightarrow> elfMachine \<Rightarrow> elfMachine" where
  "setCores n m = m\<lparr>Spec := (Spec m)\<lparr>NumCoresPerSocket := n\<rparr>\<rparr>"

text \<open>The defaults of an ElfMachine, or the error of the lookup of its template.\<close>

definition machine_defaults ::
  "'w k8s \<Rightarrow> (string \<Rightarrow> bool) \<Rightarrow> string \<Rightarrow> bool \<Rightarrow> elfMachine \<Rightarrow> 'w \<Rightarrow> (go_error + elfMachine) \<times> 'w" where
  "machine_defaults K isSemver build isCreate m w =
     (let m = (if isCreate then m\<lparr>em_meta := SetCurrentCAPEVersion isSemver build (em_meta m)\<rparr> else m);
          name = GetTemplateClonedFromName (em_meta m);
          fallback = (\<lambda>m. if NumCoresPerSocket (Spec m) \<le> 0 then setCores (NumCPUs (Spec m)) m else m)
      in if NumCoresPerSocket (Spec m) > 0 then (Inr m, w)
         else if name = [] then (Inr (fallback m), w)
         else
           (case K_GetElfMachineTemplate K (om_Namespace (em_meta m)) name w of
              (Inl err, w) \<Rightarrow> (Inl err, w)
            | (Inr t, w) \<Rightarrow> (Inr (fallback (setCores (NumCoresPerSocket (emt_Spec t)) m)), w)))"

definition machine_Handle ::
  "'w k8s \<Rightarrow> (string \<Rightarrow> bool) \<Rightarrow> string \<Rightarrow> (elfMachine \<Rightarrow> go_error + string) \<Rightarrow> string \<Rightarrow> bool \<Rightarrow> go_error + elfMachine \<Rightarrow>
     'w \<Rightarrow> admissionResponse \<times> 'w" where
  "machine_Handle K isSemver build marshal raw isCreate decoded w =
     (case decoded of
        Inl err \<Rightarrow> (Errored 400 err, w)
      | Inr m \<Rightarrow>
          (case machine_defaults K isSemver build isCreate m w of
             (Inl err, w) \<Rightarrow> (Errored 400 err, w)
           | (Inr m, w) \<Rightarrow>
               (case marshal m of
                  Inl err \<Rightarrow> (Errored 500 err, w)
                | Inr marshaled \<Rightarrow> (PatchResponseFromRaw raw marshaled, w))))"

section \<open>Registration\<close>

datatype mutation = ElfMachineMutation | ElfMachineTemplateMutation
datatype validator = ElfMachineValidator | ElfMachineTemplateValidator
datatype apiKind = KindElfMachine | KindElfMachineTemplate

text \<open>
  The calls into controller-runtime: a decoder for the scheme of the manager, a handler at a path
  of the server, which panics when the path is taken, and the builder of the webhooks of a kind.
\<close>

record ('w, 'd) webhookLib =
  WL_NewDecoder :: 'd
  WL_Register :: "string \<Rightarrow> mutation \<Rightarrow> 'w \<Rightarrow> 'w panics"
  WL_Complete :: "apiKind \<Rightarrow> validator option \<Rightarrow> ('w, unit) call"

definition InjectDecoder :: "'d \<Rightarrow> 'd option \<Rightarrow> 'd option" where
  "InjectDecoder d decoder = Some d"

definition machine_mutation_Setup ::
  "('w, 'd) webhookLib \<Rightarrow> 'd option \<Rightarrow> 'w \<Rightarrow> ('d option \<times> (go_error + unit) \<times> 'w) panics" where
  "machine_mutation_Setup W decoder w = do {
     let decoder = (case decoder of None \<Rightarrow> Some (WL_NewDecoder W) | Some d \<Rightarrow> Some d);
     w \<leftarrow> WL_Register W ''/mutate-infrastructure-cluster-x-k8s-io-v1beta1-elfmachine'' ElfMachineMutation w;
     Some (decoder, WL_Complete W KindElfMachine None w) }"

definition template_mutation_Setup ::
  "('w, 'd) webhookLib \<Rightarrow> 'd option \<Rightarrow> 'w \<Rightarrow> ('d option \<times> (go_error + unit) \<times> 'w) panics" where
  "template_mutation_Setup W decoder w = do {
     let decoder = (case decoder of None \<Rightarrow> Some (WL_NewDecoder W) | Some d \<Rightarrow> Some d);
     w \<leftarrow> WL_Register W ''/mutate-infrastructure-cluster-x-k8s-io-v1beta1-elfmachinetemplate'' ElfMachineTemplateMutation w;
     Some (decoder, WL_Complete W KindElfMachine None w) }"

definition machine_validator_Setup :: "('w, 'd) webhookLib \<Rightarrow> ('w, unit) call" where
  "machine_validator_Setup W = WL_Complete W KindElfMachine (Some ElfMachineValidator)"

definition template_validator_Setup :: "('w, 'd) webhookLib \<Rightarrow> ('w, unit) call" where
  "template_validator_Setup W = WL_Complete W KindElfMachineTemplate (Some ElfMachineTemplateValidator)"

text \<open>A server as the handlers by path and the completed builders.\<close>

definition ref_webhooks :: "((string \<times> mutation) list \<times> (apiKind \<times> validator option) list, unit) webhookLib" where
  "ref_webhooks = \<lparr>WL_NewDecoder = (),
     WL_Register = (\<lambda>path m (hs, bs). if path \<in> fst ` set hs then go_panic else Some (hs @ [(path, m)], bs)),
     WL_Complete = (\<lambda>k v (hs, bs). (Inr (), (hs, bs @ [(k, v)])))\<rparr>"

text \<open>
  The two handlers have paths of their own, so that setting up both does not panic, and none of
  the builders of the mutations is for the templates.
\<close>

lemma mutations_set_up:
  "(do { (_, _, w) \<leftarrow> machine_mutation_Setup ref_webhooks None ([], []);
         (_, _, w) \<leftarrow> template_mutation_Setup ref_webhooks None w;
         Some w }) =
   Some ([(''/mutate-infrastructure-cluster-x-k8s-io-v1beta1-elfmachine'', ElfMachineMutation),
          (''/mutate-infrastructure-cluster-x-k8s-io-v1beta1-elfmachinetemplate'', ElfMachineTemplateMutation)],
         [(KindElfMachine, None), (KindElfMachine, None)])"
  by (simp add: machine_mutation_Setup_def template_mutation_Setup_def ref_webhooks_def Let_def)

section \<open>Lemmas\<close>

lemma invalidIf_Nil [simp]: "invalidIf b p v d = [] \<longleftrightarrow> \<not> b"
  by (simp add: invalidIf_def)

lemma aggregate_None [simp]: "aggregateObjErrors n es = None \<longleftrightarrow> es = []"
  by (simp add: aggregateObjErrors_def)

lemma firstModified_None:
  "firstModified i ds os = Some None \<longleftrightarrow> prefix os ds"
  by (induction i ds os rule: firstModified.induct) auto

lemma firstModified_runs: "length os \<le> length ds \<Longrightarrow> firstModified i ds os \<noteq> None"
  by (induction i ds os rule: firstModified.induct) auto

text \<open>A template update is accepted exactly when the old devices are a prefix of the new ones; validation never panics.\<close>

lemma validateNetwork_iff: "validateNetwork new old = Some None \<longleftrightarrow> prefix (ns_Devices old) (ns_Devices new)"
proof (cases "length (ns_Devices new) < length (ns_Devices old)")
  case True
  then show ?thesis by (auto simp: validateNetwork_def dest: prefix_length_le)
next
  case False
  then show ?thesis
    by (auto simp: validateNetwork_def firstModified_None bind_eq_Some_conv split: option.splits)
qed

lemma validateNetwork_runs: "validateNetwork new old \<noteq> None"
  using firstModified_runs [of "ns_Devices old" "ns_Devices new" 0]
  by (auto simp: validateNetwork_def bind_eq_None_conv)

lemma defaultPool_idem [simp]: "defaultPool (defaultPool p) = defaultPool p"
  by (simp add: defaultPool_def defaultIPPoolAPIGroup_def defaultIPPoolKind_def Let_def)

lemma defaultPool_set: "tr_APIGroup (defaultPool p) \<noteq> None" "tr_APIGroup (defaultPool p) \<noteq> Some []" "tr_Kind (defaultPool p) \<noteq> []"
  by (auto simp: defaultPool_def defaultIPPoolAPIGroup_def defaultIPPoolKind_def Let_def split: if_splits)

section \<open>Properties\<close>

text \<open>
  Property C38. Accepted updates of an ElfMachine only grow it: over any sequence of updates that
  the validator accepts, the disk, CPUs and memory never shrink, and the cores per socket never
  change once they are set.
\<close>

inductive acceptedUpdate :: "'w k8s \<Rightarrow> elfMachine \<Rightarrow> elfMachine \<Rightarrow> bool" for K where
  "fst (machine_ValidateUpdate K (ElfMachineObj old) (ElfMachineObj new) w) = None \<Longrightarrow> acceptedUpdate K old new"

inductive_cases acceptedE: "acceptedUpdate K old new"

lemma accepted_grows:
  assumes "acceptedUpdate K old new"
  shows "DiskGiB (Spec old) \<le> DiskGiB (Spec new)" "NumCPUs (Spec old) \<le> NumCPUs (Spec new)"
    "MemoryMiB (Spec old) \<le> MemoryMiB (Spec new)"
    "NumCoresPerSocket (Spec old) \<noteq> 0 \<Longrightarrow> NumCoresPerSocket (Spec new) = NumCoresPerSocket (Spec old)"
  using assms by (auto elim!: acceptedE simp: machine_ValidateUpdate_def Let_def split: sum.splits prod.splits if_splits)

theorem machine_resources_only_grow:
  assumes "(acceptedUpdate K)\<^sup>*\<^sup>* old new"
  shows "DiskGiB (Spec old) \<le> DiskGiB (Spec new) \<and> NumCPUs (Spec old) \<le> NumCPUs (Spec new) \<and>
    MemoryMiB (Spec old) \<le> MemoryMiB (Spec new) \<and>
    (NumCoresPerSocket (Spec old) \<noteq> 0 \<longrightarrow> NumCoresPerSocket (Spec new) = NumCoresPerSocket (Spec old))"
  using assms
proof (induction rule: rtranclp_induct)
  case base
  then show ?case by simp
next
  case (step m1 m2)
  with accepted_grows [OF step.hyps(2)] show ?case by auto
qed

theorem machine_resources_only_grow_witness:
  "DiskGiB (Spec wit_elf) \<le> DiskGiB (Spec (wit_elf\<lparr>Spec := (Spec wit_elf)\<lparr>DiskGiB := 80\<rparr>\<rparr>))"
proof -
  have "fst (machine_ValidateUpdate (wit_k8s :: unit k8s) (ElfMachineObj wit_elf)
      (ElfMachineObj (wit_elf\<lparr>Spec := (Spec wit_elf)\<lparr>DiskGiB := 80\<rparr>\<rparr>)) ()) = None"
    by code_simp
  then have "(acceptedUpdate (wit_k8s :: unit k8s))\<^sup>*\<^sup>* wit_elf (wit_elf\<lparr>Spec := (Spec wit_elf)\<lparr>DiskGiB := 80\<rparr>\<rparr>)"
    by (intro r_into_rtranclp acceptedUpdate.intros)
  from machine_resources_only_grow [OF this] show ?thesis by simp
qed

text \<open>
  Property C39. Accepted updates of a template only add network devices: validation returns for
  every pair of templates, and over any sequence of accepted updates the devices of the first
  template are a prefix of those of the last.
\<close>

inductive acceptedTemplate :: "elfMachineTemplate \<Rightarrow> elfMachineTemplate \<Rightarrow> bool" where
  "template_ValidateUpdate (ElfMachineTemplateObj old) (ElfMachineTemplateObj new) = Some None \<Longrightarrow> acceptedTemplate old new"

inductive_simps acceptedTemplate_iff: "acceptedTemplate old new"

lemma acceptedTemplate_prefix:
  "acceptedTemplate old new \<longleftrightarrow> prefix (ns_Devices (Network (emt_Spec old))) (ns_Devices (Network (emt_Spec new)))"
  unfolding acceptedTemplate_iff template_ValidateUpdate_def validateNetwork_iff [symmetric]
  by (auto simp: bind_eq_Some_conv split: option.splits)

theorem template_devices_only_extended:
  assumes "acceptedTemplate\<^sup>*\<^sup>* old new"
  shows "prefix (ns_Devices (Network (emt_Spec old))) (ns_Devices (Network (emt_Spec new))) \<and>
    template_ValidateUpdate (ElfMachineTemplateObj old) (ElfMachineTemplateObj new) = Some None"
proof -
  from assms have "prefix (ns_Devices (Network (emt_Spec old))) (ns_Devices (Network (emt_Spec new)))"
    by (induction rule: rtranclp_induct) (auto simp: acceptedTemplate_prefix intro: prefix_order.trans)
  then show ?thesis
    by (auto simp: acceptedTemplate_prefix [symmetric] acceptedTemplate_iff)
qed

definition wit_template :: elfMachineTemplate where
  "wit_template = \<lparr>emt_meta = wit_meta ''t'', emt_Spec = (Spec wit_elf)\<lparr>NumCoresPerSocket := 0\<rparr>\<rparr>"

definition wit_device :: networkDeviceSpec where
  "wit_device = \<lparr>nd_NetworkType = ''IPV4_DHCP'', nd_Vlan = ''vlan'', nd_IPAddrs = [], nd_Netmask = [], nd_MACAddr = [], nd_Routes = [],
     nd_AddressesFromPools = [\<lparr>tr_APIGroup = None, tr_Kind = [], tr_Name = ''pool''\<rparr>], nd_DefaultRoute = False, nd_Nameservers = []\<rparr>"

definition wit_template2 :: elfMachineTemplate where
  "wit_template2 = wit_template\<lparr>emt_Spec := (emt_Spec wit_template)
     \<lparr>Network := (Network (emt_Spec wit_template))\<lparr>ns_Devices := [wit_device]\<rparr>\<rparr>\<rparr>"

theorem template_devices_only_extended_witness:
  "template_ValidateUpdate (ElfMachineTemplateObj wit_template) (ElfMachineTemplateObj wit_template2) = Some None"
proof -
  have "acceptedTemplate wit_template wit_template2"
    by (simp add: acceptedTemplate_prefix wit_template_def wit_template2_def wit_elf_def)
  then show ?thesis using template_devices_only_extended [of wit_template wit_template2] by auto
qed

text \<open>
  Property C40. The defaults make a template valid: a template with CPUs, memory and a disk that is
  not negative is accepted after the mutation, whatever its cores per socket were; every address
  pool of it then has a group and a kind; and the mutation of a mutated template changes nothing.
\<close>

theorem defaulted_template_valid:
  assumes "0 < NumCPUs (emt_Spec t)" and "0 < MemoryMiB (emt_Spec t)" and "0 \<le> DiskGiB (emt_Spec t)"
  shows "template_ValidateCreate (ElfMachineTemplateObj (template_defaults t)) = None \<and>
    template_defaults (template_defaults t) = template_defaults t \<and>
    (\<forall>d \<in> set (ns_Devices (Network (emt_Spec (template_defaults t)))). \<forall>p \<in> set (nd_AddressesFromPools d).
       tr_APIGroup p \<notin> {None, Some []} \<and> tr_Kind p \<noteq> [])"
proof (intro conjI)
  show "template_ValidateCreate (ElfMachineTemplateObj (template_defaults t)) = None"
    using assms by (simp add: template_ValidateCreate_def template_defaults_def Let_def)
  show "template_defaults (template_defaults t) = template_defaults t"
    using assms(1) by (simp add: template_defaults_def Let_def comp_def)
  show "\<forall>d \<in> set (ns_Devices (Network (emt_Spec (template_defaults t)))). \<forall>p \<in> set (nd_AddressesFromPools d).
       tr_APIGroup p \<notin> {None, Some []} \<and> tr_Kind p \<noteq> []"
    using defaultPool_set by (auto simp: template_defaults_def Let_def)
qed

theorem defaulted_template_valid_witness:
  "template_ValidateCreate (ElfMachineTemplateObj (template_defaults wit_template2)) = None"
  using defaulted_template_valid [of wit_template2] by (simp add: wit_template2_def wit_template_def wit_elf_def)

end
