(* ===== verification/Spec2Isabelle.thy ===== *)
theory Spec2Isabelle
  imports Life_Cycle Tower_Contract Tower_Client Kube_Support Kubeconfig Manager_Setup Machine_Version Yaml_Shape Group_Lock Webhooks
begin

text \<open>
  A verification development of the Cluster API provider for SMTX ELF.

  \<^bold>\<open>The program.\<close> The provider is a Kubernetes controller manager. Its command
  (\<^verbatim>\<open>main.go\<close>) sets up webhooks and two reconcilers. The ElfMachine reconciler drives one
  virtual machine per ElfMachine through Tower, the management platform of ELF clusters: it clones
  a virtual machine, records its reference and its current task in the status of the ElfMachine,
  puts it into a placement group, gives it GPU devices, powers it on, grows its resources, joins
  its node, labels it, and on deletion stops and deletes it before it removes the finalizer. The
  ElfCluster reconciler keeps the endpoint and the failure domains of a cluster and, on deletion,
  removes placement groups and labels before its own finalizer. The machines of one process share
  two caches with expiring entries and one mutable map: the tickets that limit concurrent
  operations, the recorded shortages of resources, and the locks on GPU devices. Nothing of a run
  is kept but the API objects and these caches; each run reads again what it needs.

  \<^bold>\<open>The theories\<close>, in the order of their imports, and what they model:

  \<^item> \<open>Prelude\<close>: results, panics, strings, fixed-width integers and maps of Go, and a small
    calculus of postconditions (\<open>post\<close>) for operations that may panic.
  \<^item> \<open>Libs\<close>: the libraries the controllers call, as records of functions: conditions, clock and
    time formats, error texts, finalizers (\<open>lib\<close>, locale \<open>capi_lib\<close>) and the cache with expiring
    entries (\<open>gocache\<close>, locale \<open>go_cache\<close>), each with an interpretation.
  \<^item> \<open>Api_Types\<close>: the API objects of \<^verbatim>\<open>api/v1beta1\<close> and their methods; \<open>Tower_Util\<close>: the objects
    of Tower and the pure helpers of \<^verbatim>\<open>pkg/service\<close>.
  \<^item> \<open>Vm_Limiter\<close>: \<^verbatim>\<open>controllers/vm_limiter.go\<close>. The state is the cache of the package and the map of
    GPU locks; the locale \<open>limiter_cache\<close> proves the ticket operations once for every cache that
    keeps the contract, and the tickets of placement groups are an instance of the locale
    \<open>exclusive_ticket\<close>. \<open>Tower_Cache\<close>: \<^verbatim>\<open>controllers/tower_cache.go\<close>.
  \<^item> \<open>Cloud_Init\<close> and \<open>Yaml_Shape\<close>: \<^verbatim>\<open>controllers/elfmachine_controller_cloudinit.go\<close> over a type of
    YAML nodes: effect and idempotence, and what the rewritings keep of the shape of a tree.
  \<^item> \<open>Machine_Ctx\<close>: the world of a run. The record \<open>env\<close> holds what the code calls (the VM service,
    the API server, the clock, the configuration, the YAML library), \<open>machineContext\<close> is the
    context of \<^verbatim>\<open>pkg/context\<close>, and the state \<open>st\<close> has the ElfMachine as it is being changed in
    memory, the state of the outside world, the package-wide state \<open>glob\<close>, and \<open>calls\<close>, the list
    of changes asked of Tower in this run. Labels, annotations, owners and names follow.
  \<^item> \<open>Machine_Coll\<close> and \<open>Machine_Version\<close>: \<^verbatim>\<open>pkg/util/capi/collections\<close>.
  \<^item> \<open>Placement_Group\<close>, \<open>Gpu_Alloc\<close>, \<open>Host_Agent\<close>, \<open>Resources_Update\<close>: the four further files of the
    ElfMachine reconciler and the jobs of \<^verbatim>\<open>pkg/hostagent\<close>.
  \<^item> \<open>Elf_Tasks\<close>, \<open>Elf_Node\<close>, \<open>Elf_Machine\<close>: \<^verbatim>\<open>controllers/elfmachine_controller.go\<close>: tasks and power
    states; host, zone, network, node and labels; creation, deletion and the entry point
    \<open>Reconcile\<close>. \<open>Elf_Frames\<close>, \<open>Elf_Lifecycle\<close> and \<open>Elf_Deletion\<close> hold the theorems on whole runs,
    \<open>Life_Cycle\<close> the abstract life cycle (\<open>lifeSpec\<close>) that runs and deletion runs refine.
  \<^item> \<open>Elf_Cluster\<close>: \<^verbatim>\<open>controllers/elfcluster_controller.go\<close>; \<open>Webhooks\<close>: \<^verbatim>\<open>webhooks\<close> and
    \<^verbatim>\<open>pkg/version\<close>.
  \<^item> \<open>Fleet\<close>: all machines and clusters of one process. The relation \<open>fleet\<close> has the states that the
    runs of both reconcilers reach on the shared caches while time passes and the world changes.
    It rests on \<open>Glob_View\<close>: the locales \<open>glob_view\<close> and \<open>cluster_view\<close> show for every view of the
    package state that the basic operations keep, that the stages keep it; the cache of the
    creation tickets is one view, the set of locked placement groups in \<open>Group_Lock\<close> another.
  \<^item> \<open>Vm_Service\<close>: every method of \<^verbatim>\<open>pkg/service/vm.go\<close> over a parameterised client of the Tower SDK;
    \<open>Tower_Contract\<close> puts the reconciler on it (locales \<open>vm_contract\<close> and \<open>table_tower\<close>);
    \<open>Tower_Client\<close>: the cache of logged-in clients of \<^verbatim>\<open>pkg/cloudtower/tower.go\<close>.
  \<^item> \<open>Kube_Support\<close>, \<open>Kubeconfig\<close>, \<open>Manager_Setup\<close>: the routing of reads of Secrets, the kubeconfig
    Secrets (locale \<open>kubeconfig_lib\<close>), and the command with its manager.

  \<^bold>\<open>How code is translated.\<close> A Go function is a definition of the same name; where two have one
  name, the type or the package is put in front. A method on a pointer takes the object and
  returns it changed; a function of the reconciler takes \<open>env\<close>, the context and the state and returns
  its results with the new state. Every call to the outside takes the state of the world and may
  answer an error in any call, so that each theorem holds for every behaviour of Tower and of the
  API server, changes by others between two calls included, unless a hypothesis restricts it. An
  error is a value of \<open>go_error\<close>, which keeps how it was wrapped, because the code classifies errors
  by their text. A panic (nil dereference, write to a nil map, index out of range, division by
  zero) is \<^term>\<open>None\<close>; the first panic ends the run. Integers are unbounded with the wrap-around of
  \<^verbatim>\<open>int32\<close> and \<^verbatim>\<open>int64\<close> written out where the code computes with them. The order in which Go ranges
  over a map is the order of the association list, so statements cover every order.

  \<^bold>\<open>What is proved.\<close> For the life of a machine: at most one clone per run, under the name of the
  ElfMachine; over any interleaving of runs, deletion runs included, with edits by others the
  reference to a virtual machine with a UUID never changes to another one before the machine has
  failed or is deleted without its finalizer; every run is a step of an abstract life cycle; a
  machine becomes ready only with a running virtual machine. For its end: without force the
  finalizer goes only on Tower's answer that there is no such virtual machine, and on the modelled
  VM service over a Tower with a table the table then has none, provided that no other error
  carries Tower's not-found code; only a virtual machine that does not run is deleted; with
  an obliging Tower, while the cluster is deleted, three runs (\<open>deleteRuns 3\<close>: stop, delete, find
  nothing) remove the finalizer from any power state. For the shared state: tickets are exclusive or bounded at every reachable
  state, the creation tickets of the whole fleet stay within the configured limit and no worker is
  cloned beyond it, no run leaves a placement group locked, GPU devices that are named once are not
  oversubscribed by live locks, retries after a shortage are throttled. For the stages: which change of Tower
  each may ask for and in which state of the virtual machine, hot updates follow the specification and only when the virtual machine
  falls short of it, selections
  of GPUs equal a reference definition, hosts offered for a placement group are sound. For the data: cloud-init rewriting is effective, idempotent
  and keeps the shape of the tree; webhooks keep resources from shrinking over any sequence of
  accepted updates; clone requests follow the specification; a client of Tower is never stale. Error
  behaviour is stated where it is a panic or a lost mark. Lemmas named \<open>..._frame\<close>,
  \<open>..._refs\<close> or \<open>..._quiet\<close> say what a stage leaves alone; the collections \<open>post_simps\<close>, \<open>runs_simps\<close>,
  \<open>const_defs\<close> and \<open>shape\<close> drive the automation.

  \<^bold>\<open>Bounds and termination.\<close> All functions are total. Loops of the code run over lists of the objects
  they are given; the only loop without such a bound, the polling of a task, belongs to a library
  and is a parameter. No definition uses fuel; \<open>deleteRuns\<close> counts runs of the reconciler.

  \<^bold>\<open>Parameters.\<close> Code outside the repository is an argument: the client of the Tower SDK, the
  polling loop, the API server and its clients, conditions and finalizers of Cluster API, the cache,
  YAML, JSON and kubeconfig codings, certificates, hashes, the parsers of semantic versions,
  controller-runtime. Theorems name as hypotheses what they need of them, and each has an instance
  for which it is applied: a cache as a list of entries with times, a library record that
  computes, a Tower that is its table, a certificate library over strings.

  \<^bold>\<open>Idealisations.\<close> The clock is read once per run (\<open>mc_Now\<close>, \<open>cc_Now\<close>), where the code asks for the
  time at each use. A panic ends a run as \<^term>\<open>None\<close>; in Go the deferred functions (the summary and
  the patch, the release of a ticket) still run before the panic is recovered, so nothing is
  claimed of the state after one. Hosts and GPUs that Tower returns have their IDs. Two requests for one ElfMachine never run at the same time, as controller-runtime
  guarantees; different machines interleave at whole operations on the shared caches, which hold
  their locks for that long. The digest of a Tower configuration and its JSON text are
  taken to be injective where staleness is concerned. Messages to the log are left out. Their arguments
  are evaluated where that can panic: \<open>Hosts_String\<close> fails on a host without a status. \<open>formatKCP\<close>
  fails on a control plane without replicas, but runs only after the replicas were read, and a
  cached placement group has its name.

  \<^bold>\<open>Not modelled\<close>: generated code (deep copies, mocks), test helpers and end-to-end tests; the
  registration of API types with a scheme and their list types; the texts of log messages about
  network cards; events and metrics; markers that generate manifests. None
  of them holds logic of the provider beyond calls into libraries.
\<close>

end
